(* ===== verification/Teleop_Prelude.thy ===== *)
theory Teleop_Prelude
  imports Complex_Main "HOL-Library.Word"
begin

unbundle bit_operations_syntax

text \<open>
  Shared vocabulary of the development: the fixed-width integer types of the sources, the
  ways a C++ operation can fail as values, bounds-checked vector access, the little-endian
  byte image of an integer, and the splitting of a byte string into fields. The lemmas
  collected in \<open>bytes_simps\<close> carry the serialisation proofs of all packet types.
\<close>

declare of_nat_unat [simp del]

named_theorems bytes_simps "lengths and round trips of byte images"
named_theorems chunk_simps "splitting byte strings into fields"

type_synonym u8 = "8 word"
type_synonym u16 = "16 word"
type_synonym u32 = "32 word"
type_synonym u64 = "64 word"

lemma word_of_nat_unat [simp]: "word_of_nat (unat w) = (w :: 'a::len word)"
  by (simp add: of_nat_unat)

lemma unat_word_of_nat_less: "n < 2 ^ LENGTH('a) \<Longrightarrow> unat (word_of_nat n :: 'a::len word) = n"
  by (simp add: unsigned_of_nat take_bit_nat_eq_self)

section \<open>Failing operations\<close>

text \<open>
  \<open>Out_Of_Range\<close> is the exception of \<open>vector::at\<close>, \<open>Undefined_Behaviour\<close> an unchecked
  access outside a vector or an array; the other two are \<open>std::runtime_error\<close> and
  \<open>std::invalid_argument\<close> with their message.
\<close>

datatype cpp_error =
    Out_Of_Range
  | Undefined_Behaviour
  | Runtime_Error string
  | Invalid_Argument string

type_synonym 'a result = "cpp_error + 'a"

definition res_bind :: "'a result \<Rightarrow> ('a \<Rightarrow> 'b result) \<Rightarrow> 'b result" where
  "res_bind r f = (case r of Inl e \<Rightarrow> Inl e | Inr x \<Rightarrow> f x)"

definition res_is_ok :: "'a result \<Rightarrow> bool" where
  "res_is_ok r = (case r of Inl _ \<Rightarrow> False | Inr _ \<Rightarrow> True)"

text \<open>A loop that appends one element per iteration and stops at the first error.\<close>

primrec res_map :: "('a \<Rightarrow> 'b result) \<Rightarrow> 'a list \<Rightarrow> 'b list result" where
  "res_map f [] = Inr []"
| "res_map f (x # xs) = res_bind (f x) (\<lambda>y. res_bind (res_map f xs) (\<lambda>ys. Inr (y # ys)))"

definition vec_at :: "'a list \<Rightarrow> nat \<Rightarrow> 'a result" where
  "vec_at xs i = (if i < length xs then Inr (xs ! i) else Inl Out_Of_Range)"

definition vec_idx :: "'a list \<Rightarrow> nat \<Rightarrow> 'a result" where
  "vec_idx xs i = (if i < length xs then Inr (xs ! i) else Inl Undefined_Behaviour)"

lemma res_bind_Inr [simp]: "res_bind (Inr x) f = f x"
  by (simp add: res_bind_def)

lemma res_bind_Inl [simp]: "res_bind (Inl e) f = Inl e"
  by (simp add: res_bind_def)

lemma res_bind_eq_Inr:
  "res_bind r f = Inr y \<longleftrightarrow> (\<exists>x. r = Inr x \<and> f x = Inr y)"
  by (cases r) auto

lemma vec_at_ok [simp]: "i < length xs \<Longrightarrow> vec_at xs i = Inr (xs ! i)"
  by (simp add: vec_at_def)

lemma vec_idx_ok [simp]: "i < length xs \<Longrightarrow> vec_idx xs i = Inr (xs ! i)"
  by (simp add: vec_idx_def)

lemma vec_idx_Inr: "vec_idx xs i = Inr x \<longleftrightarrow> i < length xs \<and> x = xs ! i"
  by (auto simp: vec_idx_def)

lemma res_map_Inr_iff:
  "res_map f xs = Inr ys \<longleftrightarrow> list_all2 (\<lambda>x y. f x = Inr y) xs ys"
  by (induction xs arbitrary: ys) (auto simp: res_bind_eq_Inr list_all2_Cons1)

lemma res_map_ok: "(\<And>x. x \<in> set xs \<Longrightarrow> f x = Inr (g x)) \<Longrightarrow> res_map f xs = Inr (map g xs)"
  by (induction xs) auto

lemma res_map_length: "res_map f xs = Inr ys \<Longrightarrow> length ys = length xs"
  by (auto simp: res_map_Inr_iff dest: list_all2_lengthD)

lemma res_map_nth:
  "res_map f xs = Inr ys \<Longrightarrow> i < length xs \<Longrightarrow> f (xs ! i) = Inr (ys ! i)"
  by (auto simp: res_map_Inr_iff list_all2_conv_all_nth)

text \<open>\<open>for (i = 0; i < xs.size() && i < ys.size(); ++i) ys[i] = xs[i]\<close>\<close>

definition copy_prefix :: "'a list \<Rightarrow> 'a list \<Rightarrow> 'a list" where
  "copy_prefix xs ys = take (length ys) xs @ drop (length xs) ys"

lemma length_copy_prefix [simp]: "length (copy_prefix xs ys) = length ys"
  by (simp add: copy_prefix_def min_def)

lemma copy_prefix_nth:
  "i < length ys \<Longrightarrow> copy_prefix xs ys ! i = (if i < length xs then xs ! i else ys ! i)"
  by (auto simp: copy_prefix_def nth_append min_def)

section \<open>Byte images of integers\<close>

text \<open>The hosts are little endian: byte \<open>i\<close> of an integer holds its bits \<open>8i .. 8i+7\<close>.\<close>

definition le_bytes :: "nat \<Rightarrow> 'a::len word \<Rightarrow> u8 list" where
  "le_bytes n w = map (\<lambda>i. ucast (drop_bit (8 * i) w)) [0..<n]"

primrec le_word :: "u8 list \<Rightarrow> 'a::len word" where
  "le_word [] = 0"
| "le_word (b # bs) = ucast b OR push_bit 8 (le_word bs)"

lemma length_le_bytes [simp, bytes_simps]: "length (le_bytes n w) = n"
  by (simp add: le_bytes_def)

lemma bit_le_word:
  "bit (le_word bs :: 'a::len word) k \<longleftrightarrow>
     k < LENGTH('a) \<and> k div 8 < length bs \<and> bit (bs ! (k div 8)) (k mod 8)"
proof (induction bs arbitrary: k)
  case Nil
  then show ?case by simp
next
  case (Cons b bs)
  show ?case
  proof (cases "k < 8")
    case True
    then show ?thesis
      by (auto simp: bit_simps)
  next
    case False
    then have "k div 8 = Suc ((k - 8) div 8)" and "k mod 8 = (k - 8) mod 8"
      by (simp_all add: le_div_geq le_mod_geq)
    with False Cons.IH [of "k - 8"] show ?thesis
      by (auto simp: bit_simps dest: bit_imp_le_length)
  qed
qed

lemma bit_le_bytes:
  "i < n \<Longrightarrow> bit (le_bytes n (w :: 'a::len word) ! i) k \<longleftrightarrow> k < 8 \<and> bit w (8 * i + k)"
  by (auto simp: le_bytes_def bit_simps dest: bit_imp_le_length)

lemma le_word_le_bytes [bytes_simps]:
  "LENGTH('a) = 8 * n \<Longrightarrow> le_word (le_bytes n (w :: 'a::len word)) = w"
  by (rule bit_word_eqI) (auto simp: bit_le_word bit_le_bytes less_mult_imp_div_less mult.commute)

lemma le_bytes_le_word [bytes_simps]:
  assumes "length bs = n" and "LENGTH('a) = 8 * n"
  shows "le_bytes n (le_word bs :: 'a::len word) = bs"
proof (rule nth_equalityI)
  show "length (le_bytes n (le_word bs :: 'a word)) = length bs"
    using assms by simp
next
  fix i
  assume "i < length (le_bytes n (le_word bs :: 'a word))"
  then have i: "i < n" by simp
  show "le_bytes n (le_word bs :: 'a word) ! i = bs ! i"
  proof (rule bit_word_eqI)
    fix k
    assume k: "k < LENGTH(8)"
    have "(8 * i + k) div 8 = i" and "(8 * i + k) mod 8 = k" and "8 * i + k < 8 * n"
      using i k by auto
    with i k assms show "bit (le_bytes n (le_word bs :: 'a word) ! i) k = bit (bs ! i) k"
      by (simp add: bit_le_bytes bit_le_word)
  qed
qed

lemma le_bytes_inject:
  "LENGTH('a) = 8 * n \<Longrightarrow> le_bytes n (v :: 'a::len word) = le_bytes n w \<longleftrightarrow> v = w"
  by (metis le_word_le_bytes)

section \<open>Splitting a byte string into fields\<close>

text \<open>
  A packed struct is a sequence of fields of fixed widths: \<open>chunks ns bs\<close> cuts \<open>bs\<close> into
  the fields whose widths are \<open>ns\<close>, in order, without padding.
\<close>

primrec chunks :: "nat list \<Rightarrow> 'a list \<Rightarrow> 'a list list" where
  "chunks [] bs = []"
| "chunks (n # ns) bs = take n bs # chunks ns (drop n bs)"

lemma length_chunks [simp]: "length (chunks ns bs) = length ns"
  by (induction ns arbitrary: bs) auto

lemma concat_chunks [chunk_simps]: "sum_list ns = length bs \<Longrightarrow> concat (chunks ns bs) = bs"
  by (induction ns arbitrary: bs) auto

lemma chunks_concat [chunk_simps]: "map length css = ns \<Longrightarrow> chunks ns (concat css) = css"
  by (induction css arbitrary: ns) auto

lemma length_concat_chunks: "length (concat css) = sum_list (map length css)"
  by (simp add: length_concat)

text \<open>An array field: \<open>n\<close> consecutive integers of \<open>k\<close> bytes each.\<close>

definition le_array_bytes :: "nat \<Rightarrow> 'a::len word list \<Rightarrow> u8 list" where
  "le_array_bytes k ws = concat (map (le_bytes k) ws)"

definition le_array_words :: "nat \<Rightarrow> nat \<Rightarrow> u8 list \<Rightarrow> 'a::len word list" where
  "le_array_words k n bs = map le_word (chunks (replicate n k) bs)"

lemma length_le_array_bytes [simp, bytes_simps]: "length (le_array_bytes k ws) = k * length ws"
  by (induction ws) (auto simp: le_array_bytes_def)

lemma length_le_array_words [simp, bytes_simps]: "length (le_array_words k n bs) = n"
  by (simp add: le_array_words_def)

lemma le_array_words_bytes [bytes_simps]:
  assumes "LENGTH('a) = 8 * k" and "length ws = n"
  shows "le_array_words k n (le_array_bytes k (ws :: 'a::len word list)) = ws"
proof -
  have "chunks (replicate n k) (concat (map (le_bytes k) ws)) = map (le_bytes k) ws"
    by (rule chunks_concat) (simp add: assms(2) [symmetric] map_replicate_const comp_def)
  then show ?thesis
    by (simp add: le_array_words_def le_array_bytes_def comp_def le_word_le_bytes assms(1))
qed

lemma chunks_replicate_lengths:
  "length bs = n * k \<Longrightarrow> \<forall>c \<in> set (chunks (replicate n k) bs). length c = k"
proof (induction n arbitrary: bs)
  case 0
  then show ?case by simp
next
  case (Suc n)
  from Suc.prems have "length (drop k bs) = n * k" by simp
  from Suc.IH [OF this] Suc.prems show ?case by auto
qed

lemma le_array_bytes_words [bytes_simps]:
  assumes "LENGTH('a) = 8 * k" and "length bs = n * k"
  shows "le_array_bytes k (le_array_words k n bs :: 'a::len word list) = bs"
proof -
  have "map (le_bytes k \<circ> (le_word :: _ \<Rightarrow> 'a word)) (chunks (replicate n k) bs)
      = chunks (replicate n k) bs"
    using chunks_replicate_lengths [OF assms(2)] assms(1)
    by (intro map_idI) (auto simp: le_bytes_le_word)
  then show ?thesis
    using assms(2)
    by (simp add: le_array_bytes_def le_array_words_def concat_chunks sum_list_replicate)
qed

end
