(* ===== verification/Crc32.thy ===== *)
theory Crc32
  imports Teleop_Prelude
begin

text \<open>
  The checksum of the packets (\<open>src/net/packet_codec.cpp\<close> and, in a second formulation,
  \<open>src/telemetry/openarm_telemetry_publisher.cpp\<close>): the reflected CRC-32 with the polynomial
  0xEDB88320, computed bit by bit. The lemmas are what the packet theories need of it: the
  register update is linear and injective, the run over at most four bytes is a single linear
  map of those bytes, and a message followed by its own checksum always leaves the same
  residue. Together they give the detection of every corruption confined to four consecutive
  bytes, wherever it falls, across the border between payload and checksum included.
\<close>

section \<open>The code\<close>

definition crc_poly :: u32 where
  "crc_poly = 0xEDB88320"

definition crc_bit :: "u32 \<Rightarrow> u32" where
  "crc_bit crc = drop_bit 1 crc XOR (crc_poly AND (- (crc AND 1)))"

definition crc_byte :: "u8 \<Rightarrow> u32 \<Rightarrow> u32" where
  "crc_byte b crc = (crc_bit ^^ 8) (crc XOR ucast b)"

definition crc_run :: "u8 list \<Rightarrow> u32 \<Rightarrow> u32" where
  "crc_run bs crc = fold crc_byte bs crc"

definition calculate_crc32 :: "u8 list \<Rightarrow> nat \<Rightarrow> u32" where
  "calculate_crc32 data len = NOT (crc_run (take len data) 0xFFFFFFFF)"

text \<open>The publisher's own copy branches on the low bit.\<close>

definition tele_crc_bit :: "u32 \<Rightarrow> u32" where
  "tele_crc_bit crc =
     (if crc AND 1 \<noteq> 0 then drop_bit 1 crc XOR 0xEDB88320 else drop_bit 1 crc)"

definition tele_calculate_crc32 :: "u8 list \<Rightarrow> nat \<Rightarrow> u32" where
  "tele_calculate_crc32 data len =
     NOT (fold (\<lambda>b crc. (tele_crc_bit ^^ 8) (crc XOR ucast b)) (take len data) 0xFFFFFFFF)"

section \<open>One step of the register\<close>

lemma xor_eq_0_iff [simp]: "a XOR b = 0 \<longleftrightarrow> a = (b :: 'a::len word)"
  by (auto simp: bit_eq_iff bit_simps)

lemma xor_cancel [simp]:
  "a XOR c = b XOR c \<longleftrightarrow> a = (b :: 'a::len word)"
  "c XOR a = c XOR b \<longleftrightarrow> a = (b :: 'a::len word)"
  by (auto simp: bit_eq_iff bit_simps)

lemma xor_ones_iff: "s XOR w = - 1 \<longleftrightarrow> w = NOT (s :: 'a::len word)"
  by (auto simp: bit_eq_iff bit_simps)

lemma crc_bit_branch: "crc_bit c = (if odd c then drop_bit 1 c XOR crc_poly else drop_bit 1 c)"
proof (cases "odd c")
  case True
  then have "c AND 1 = 1" by (simp add: and_one_eq odd_iff_mod_2_eq_one)
  with True show ?thesis by (simp add: crc_bit_def)
next
  case False
  then have "c AND 1 = 0" by (simp add: and_one_eq even_iff_mod_2_eq_zero)
  with False show ?thesis by (simp add: crc_bit_def)
qed

lemma tele_crc_bit_eq: "tele_crc_bit c = crc_bit c"
  by (simp add: tele_crc_bit_def crc_bit_branch crc_poly_def and_one_eq odd_iff_mod_2_eq_one)

theorem tele_crc_eq: "tele_calculate_crc32 data len = calculate_crc32 data len"
proof -
  have "tele_crc_bit = crc_bit" by (rule ext) (rule tele_crc_bit_eq)
  then show ?thesis
    by (simp add: tele_calculate_crc32_def calculate_crc32_def crc_run_def crc_byte_def [abs_def])
qed

lemma crc_bit_zero [simp]: "crc_bit 0 = 0"
  by (simp add: crc_bit_def)

lemma crc_bit_xor: "crc_bit (a XOR b) = crc_bit a XOR crc_bit b"
proof -
  have "odd (a XOR b) \<longleftrightarrow> odd a \<noteq> odd b"
    by (metis bit_0 bit_xor_iff)
  moreover have "drop_bit 1 (a XOR b) = drop_bit 1 a XOR drop_bit 1 b"
    by (rule drop_bit_xor)
  ultimately show ?thesis
    by (auto simp: crc_bit_branch xor.assoc xor.left_commute xor.commute)
qed

text \<open>The polynomial has its top bit set, so the bit that was shifted out can be read back.\<close>

lemma crc_bit_top: "bit (crc_bit c) 31 \<longleftrightarrow> odd c"
proof -
  have "bit crc_poly 31" by (simp add: crc_poly_def)
  moreover have "\<not> bit (drop_bit 1 c) 31"
    using bit_imp_le_length [of c 32] by (auto simp: bit_simps)
  ultimately show ?thesis by (simp add: crc_bit_branch bit_xor_iff)
qed

lemma crc_bit_eq_0 [simp]: "crc_bit c = 0 \<longleftrightarrow> c = 0"
proof
  assume z: "crc_bit c = 0"
  then have "even c" using crc_bit_top [of c] by simp
  then have "drop_bit 1 c = 0" using z by (simp add: crc_bit_branch)
  show "c = 0"
  proof (rule bit_word_eqI)
    fix k
    have "bit c (Suc j) = bit (drop_bit 1 c) j" for j
      by (simp only: bit_drop_bit_eq comp_apply plus_1_eq_Suc)
    then have "\<not> bit c (Suc j)" for j
      by (simp only: \<open>drop_bit 1 c = 0\<close>) simp
    with \<open>even c\<close> show "bit c k = bit 0 k"
      by (cases k) (auto simp: bit_0)
  qed
qed simp

lemma crc_bits_xor: "(crc_bit ^^ n) (a XOR b) = (crc_bit ^^ n) a XOR (crc_bit ^^ n) b"
  by (induction n) (simp_all add: crc_bit_xor)

lemma crc_bits_eq_0 [simp]: "(crc_bit ^^ n) c = 0 \<longleftrightarrow> c = 0"
  by (induction n) simp_all

lemma crc_bits_inject [simp]: "(crc_bit ^^ n) a = (crc_bit ^^ n) b \<longleftrightarrow> a = b"
proof
  assume "(crc_bit ^^ n) a = (crc_bit ^^ n) b"
  then have "(crc_bit ^^ n) (a XOR b) = 0" by (simp add: crc_bits_xor)
  then have "a XOR b = 0" by simp
  then show "a = b" by simp
qed simp

section \<open>Runs over bytes\<close>

lemma crc_run_Nil [simp]: "crc_run [] c = c"
  by (simp add: crc_run_def)

lemma crc_run_Cons [simp]: "crc_run (b # bs) c = crc_run bs (crc_byte b c)"
  by (simp add: crc_run_def)

lemma crc_run_append [simp]: "crc_run (as @ bs) c = crc_run bs (crc_run as c)"
  by (simp add: crc_run_def)

lemma crc_byte_inject [simp]: "crc_byte b c = crc_byte b d \<longleftrightarrow> c = d"
  by (simp add: crc_byte_def)

lemma crc_run_inject [simp]: "crc_run bs c = crc_run bs d \<longleftrightarrow> c = d"
  by (induction bs arbitrary: c d) simp_all

text \<open>Bits above the lowest \<open>n\<close> only move down in \<open>n\<close> steps.\<close>

lemma crc_bits_push:
  "drop_bit n (push_bit n x) = x \<Longrightarrow> (crc_bit ^^ n) (push_bit n x) = x"
proof (induction n arbitrary: x)
  case (Suc n)
  have unit: "crc_bit (push_bit 1 y) = y" if "drop_bit 1 (push_bit 1 y) = y" for y
    using that by (simp add: crc_bit_branch)
  have eq: "push_bit (Suc n) x = push_bit n (push_bit 1 x)" by simp
  have "drop_bit n (push_bit n (push_bit 1 x)) = push_bit 1 x"
    and "drop_bit 1 (push_bit 1 x) = x"
  proof -
    have top: "bit x k \<Longrightarrow> k + Suc n < 32" for k
    proof -
      assume "bit x k"
      then have "bit (drop_bit (Suc n) (push_bit (Suc n) x)) k" using Suc.prems by simp
      then show "k + Suc n < 32" by (auto simp: bit_simps dest: bit_imp_le_length)
    qed
    show "drop_bit n (push_bit n (push_bit 1 x)) = push_bit 1 x"
    proof (rule bit_word_eqI)
      fix k
      show "bit (drop_bit n (push_bit n (push_bit 1 x))) k = bit (push_bit 1 x) k"
        by (simp only: bit_drop_bit_eq comp_apply bit_push_bit_iff)
          (use top [of "k - 1"] in \<open>auto simp: bit_simps dest: bit_imp_le_length\<close>)
    qed
    show "drop_bit 1 (push_bit 1 x) = x"
    proof (rule bit_word_eqI)
      fix k
      show "bit (drop_bit 1 (push_bit 1 x)) k = bit x k"
        using top [of k]
        by (auto simp only: bit_drop_bit_eq comp_apply bit_push_bit_iff possible_bit_word)
          simp_all
    qed
  qed
  with Suc.IH unit show ?case by (simp only: eq funpow.simps comp_apply)
qed simp

lemma le_word_Cons_xor: "le_word (b # bs) = ucast b XOR push_bit 8 (le_word bs :: u32)"
  by (rule bit_word_eqI) (auto simp: bit_simps dest: bit_imp_le_length)

lemma crc_run_short:
  "length bs \<le> 4 \<Longrightarrow> crc_run bs c = (crc_bit ^^ (8 * length bs)) (c XOR le_word bs)"
proof (induction bs arbitrary: c)
  case (Cons b bs)
  let ?w = "le_word bs :: u32"
  have "drop_bit 8 (push_bit 8 ?w) = ?w"
    by (rule bit_word_eqI) (use Cons.prems in \<open>auto simp: bit_simps bit_le_word\<close>)
  then have "crc_byte b c XOR ?w = (crc_bit ^^ 8) (c XOR le_word (b # bs))"
    unfolding crc_byte_def le_word_Cons_xor
    by (simp add: crc_bits_xor crc_bits_push xor.assoc)
  then show ?case
    using Cons by (simp add: funpow_add add.commute [of 8])
qed simp

lemma crc_run_short_inject:
  assumes "length bs \<le> 4" and "length bs' = length bs" and "crc_run bs c = crc_run bs' c"
  shows "bs = bs'"
proof -
  have eq: "(le_word bs :: u32) = le_word bs'"
    using assms by (simp add: crc_run_short)
  show ?thesis
  proof (rule nth_equalityI)
    fix i assume i: "i < length bs"
    show "bs ! i = bs' ! i"
    proof (rule bit_word_eqI)
      fix k assume "k < LENGTH(8)"
      then have "k < 8" by simp
      with i assms(1) have "8 * i + k < 32" "(8 * i + k) div 8 = i" "(8 * i + k) mod 8 = k"
        by auto
      with i assms(2) show "bit (bs ! i) k = bit (bs' ! i) k"
        using bit_le_word [of bs "8 * i + k", where 'a = 32]
          bit_le_word [of bs' "8 * i + k", where 'a = 32] eq by simp
    qed
  qed (simp add: assms(2))
qed

text \<open>Two messages that agree outside a window of four bytes have different checksums.\<close>

lemma crc_run_burst:
  assumes "length mid' = length mid" and "length mid \<le> 4" and "mid \<noteq> mid'"
  shows "crc_run (pre @ mid @ post) c \<noteq> crc_run (pre @ mid' @ post) c"
  using assms crc_run_short_inject by fastforce

section \<open>The residue\<close>

definition crc_residue :: u32 where
  "crc_residue = (crc_bit ^^ 32) 0xFFFFFFFF"

lemma crc_run_trailer:
  "crc_run (le_bytes 4 w) s = crc_residue \<longleftrightarrow> w = NOT s"
proof -
  have "crc_run (le_bytes 4 w) s = (crc_bit ^^ 32) (s XOR w)"
    by (simp add: crc_run_short le_word_le_bytes)
  moreover have "(0xFFFFFFFF :: u32) = - 1" by simp
  ultimately show ?thesis
    by (simp only: crc_residue_def crc_bits_inject xor_ones_iff)
qed

section \<open>Evaluation\<close>

lemma crc_byte_unrolled:
  "crc_byte b c =
     crc_bit (crc_bit (crc_bit (crc_bit (crc_bit (crc_bit (crc_bit (crc_bit (c XOR ucast b))))))))"
  by (simp add: crc_byte_def numeral_eq_Suc)

lemmas crc_eval = calculate_crc32_def crc_byte_unrolled crc_bit_branch crc_poly_def

text \<open>The check value of the CRC-32 catalogue: the message ``123456789''.\<close>

lemma crc32_check_value:
  "calculate_crc32 [0x31, 0x32, 0x33, 0x34, 0x35, 0x36, 0x37, 0x38, 0x39] 9 = 0xCBF43926"
  by (simp add: crc_eval cong: if_weak_cong)

end
