(* ===== verification/Packets.thy ===== *)
theory Packets
  imports Crc32
begin

text \<open>
  The packed structs that cross the network, field by field in the order of the headers
  \<open>net/teleop_packet.hpp\<close>, \<open>net/feedback_packet.hpp\<close> and
  \<open>telemetry/openarm_telemetry_packet.hpp\<close>. A record is polymorphic in the type of its
  floating point fields: on the wire they are bit patterns, in the control code doubles.

  For each struct: the widths of its fields (\<open>_layout\<close>), its size, its byte image, the
  \<open>memcpy\<close> in the other direction, and the facts that make the two inverse of each other.
  The fixed-length C arrays are lists; \<open>_wf\<close> fixes their lengths.
\<close>

section \<open>Commands: leader to follower\<close>

definition TELEOP_MAGIC :: u32 where
  "TELEOP_MAGIC = 0x4F415754"

definition TELEOP_VERSION :: u16 where
  "TELEOP_VERSION = 1"

datatype ArmSide = RIGHT | LEFT

definition arm_side_code :: "ArmSide \<Rightarrow> u8" where
  "arm_side_code s = (case s of RIGHT \<Rightarrow> 0 | LEFT \<Rightarrow> 1)"

datatype ControlMode = UNILATERAL | BILATERAL

definition control_mode_code :: "ControlMode \<Rightarrow> u8" where
  "control_mode_code m = (case m of UNILATERAL \<Rightarrow> 0 | BILATERAL \<Rightarrow> 1)"

record 'd TeleopPacket =
  tp_magic :: u32
  tp_version :: u16
  tp_packet_size :: u16
  tp_seq :: u32
  tp_send_time_ns :: u64
  tp_arm_side :: u8
  tp_mode :: u8
  tp_enable :: u8
  tp_estop :: u8
  tp_arm_dof :: u8
  tp_hand_dof :: u8
  tp_reserved0 :: u8
  tp_reserved1 :: u8
  tp_arm_pos :: "'d list"
  tp_arm_vel :: "'d list"
  tp_hand_pos :: "'d list"
  tp_hand_vel :: "'d list"
  tp_crc32 :: u32

definition teleop_wf :: "'d TeleopPacket \<Rightarrow> bool" where
  "teleop_wf p \<longleftrightarrow>
     length (tp_arm_pos p) = 8
     \<and> length (tp_arm_vel p) = 8
     \<and> length (tp_hand_pos p) = 4
     \<and> length (tp_hand_vel p) = 4"

text \<open>The zeroed struct; \<open>z\<close> is the floating point zero.\<close>

definition teleop_zero :: "'d \<Rightarrow> 'd TeleopPacket" where
  "teleop_zero z = \<lparr>
     tp_magic = 0, tp_version = 0, tp_packet_size = 0, tp_seq = 0, tp_send_time_ns = 0,
     tp_arm_side = 0, tp_mode = 0, tp_enable = 0, tp_estop = 0, tp_arm_dof = 0,
     tp_hand_dof = 0, tp_reserved0 = 0, tp_reserved1 = 0, tp_arm_pos = replicate 8 z,
     tp_arm_vel = replicate 8 z, tp_hand_pos = replicate 4 z, tp_hand_vel = replicate 4 z,
     tp_crc32 = 0 \<rparr>"

lemma teleop_zero_wf [simp]: "teleop_wf (teleop_zero z)"
  by (simp add: teleop_zero_def teleop_wf_def)

definition teleop_layout :: "nat list" where
  "teleop_layout = [4, 2, 2, 4, 8, 1, 1, 1, 1, 1, 1, 1, 1, 64, 64, 32, 32, 4]"

definition teleop_size :: nat where
  "teleop_size = 224"

definition teleop_fields :: "u64 TeleopPacket \<Rightarrow> u8 list list" where
  "teleop_fields p =
     [le_bytes 4 (tp_magic p), le_bytes 2 (tp_version p), le_bytes 2 (tp_packet_size p),
      le_bytes 4 (tp_seq p), le_bytes 8 (tp_send_time_ns p), le_bytes 1 (tp_arm_side p),
      le_bytes 1 (tp_mode p), le_bytes 1 (tp_enable p), le_bytes 1 (tp_estop p),
      le_bytes 1 (tp_arm_dof p), le_bytes 1 (tp_hand_dof p), le_bytes 1 (tp_reserved0 p),
      le_bytes 1 (tp_reserved1 p), le_array_bytes 8 (tp_arm_pos p),
      le_array_bytes 8 (tp_arm_vel p), le_array_bytes 8 (tp_hand_pos p),
      le_array_bytes 8 (tp_hand_vel p), le_bytes 4 (tp_crc32 p)]"

definition teleop_bytes :: "u64 TeleopPacket \<Rightarrow> u8 list" where
  "teleop_bytes p = concat (teleop_fields p)"

definition teleop_of_bytes :: "u8 list \<Rightarrow> u64 TeleopPacket" where
  "teleop_of_bytes bs =
     (let c = chunks teleop_layout bs in \<lparr>
        tp_magic = le_word (c ! 0), tp_version = le_word (c ! 1),
        tp_packet_size = le_word (c ! 2), tp_seq = le_word (c ! 3),
        tp_send_time_ns = le_word (c ! 4), tp_arm_side = le_word (c ! 5),
        tp_mode = le_word (c ! 6), tp_enable = le_word (c ! 7), tp_estop = le_word (c ! 8),
        tp_arm_dof = le_word (c ! 9), tp_hand_dof = le_word (c ! 10),
        tp_reserved0 = le_word (c ! 11), tp_reserved1 = le_word (c ! 12),
        tp_arm_pos = le_array_words 8 8 (c ! 13), tp_arm_vel = le_array_words 8 8 (c ! 14),
        tp_hand_pos = le_array_words 8 4 (c ! 15), tp_hand_vel = le_array_words 8 4 (c ! 16),
        tp_crc32 = le_word (c ! 17) \<rparr>)"

lemma teleop_layout_sum [simp]: "sum_list teleop_layout = teleop_size"
  by (simp add: teleop_layout_def teleop_size_def)

lemma teleop_fields_layout [chunk_simps]: "teleop_wf p \<Longrightarrow> map length (teleop_fields p) = teleop_layout"
  by (simp add: teleop_fields_def teleop_layout_def teleop_wf_def)

lemma teleop_bytes_length [simp]: "teleop_wf p \<Longrightarrow> length (teleop_bytes p) = teleop_size"
  by (simp add: teleop_bytes_def length_concat_chunks teleop_fields_layout)

lemma teleop_of_bytes_wf [simp]: "teleop_wf (teleop_of_bytes bs)"
  by (simp add: teleop_of_bytes_def teleop_wf_def Let_def)

lemma teleop_of_bytes_bytes [simp]:
  assumes "teleop_wf p"
  shows "teleop_of_bytes (teleop_bytes p) = p"
proof -
  have "chunks teleop_layout (teleop_bytes p) = teleop_fields p"
    unfolding teleop_bytes_def by (rule chunks_concat) (rule teleop_fields_layout [OF assms])
  then show ?thesis
    using assms
    by (simp add: teleop_of_bytes_def teleop_fields_def Let_def bytes_simps teleop_wf_def)
qed

lemma teleop_bytes_of_bytes [simp]:
  assumes "length bs = teleop_size"
  shows "teleop_bytes (teleop_of_bytes bs) = bs"
proof -
  let ?c = "chunks teleop_layout bs"
  have "teleop_fields (teleop_of_bytes bs) = map (\<lambda>i. ?c ! i) [0..<length teleop_layout]"
    using assms
    by (simp add: teleop_size_def teleop_fields_def teleop_of_bytes_def Let_def teleop_layout_def
        upt_rec bytes_simps)
  also have "\<dots> = ?c"
    by (metis length_chunks map_nth)
  finally show ?thesis
    using assms by (simp add: teleop_bytes_def concat_chunks)
qed

lemma teleop_bytes_trailer:
  assumes "teleop_wf p"
  shows "drop (teleop_size - 4) (teleop_bytes p) = le_bytes 4 (tp_crc32 p)"
  using assms
  by (simp add: teleop_bytes_def teleop_fields_def teleop_size_def teleop_wf_def drop_append)

lemma teleop_bytes_payload:
  "take (teleop_size - 4) (teleop_bytes (p\<lparr>tp_crc32 := c\<rparr>)) = take (teleop_size - 4) (teleop_bytes p)"
  if "teleop_wf p"
  using that
  by (simp add: teleop_bytes_def teleop_fields_def teleop_size_def teleop_wf_def take_append)

section \<open>Feedback: follower to leader\<close>

definition FEEDBACK_MAGIC :: u32 where
  "FEEDBACK_MAGIC = 0x4246414F"

definition FEEDBACK_VERSION :: u16 where
  "FEEDBACK_VERSION = 1"

record 'd FeedbackPacket =
  fp_magic :: u32
  fp_version :: u16
  fp_packet_size :: u16
  fp_seq :: u32
  fp_send_time_ns :: u64
  fp_arm_side :: u8
  fp_mode :: u8
  fp_enabled :: u8
  fp_estop :: u8
  fp_arm_dof :: u8
  fp_hand_dof :: u8
  fp_safety_state :: u8
  fp_link_ok :: u8
  fp_echo_cmd_seq :: u32
  fp_echo_cmd_send_time_ns :: u64
  fp_cmd_hold_ns :: u64
  fp_arm_pos :: "'d list"
  fp_arm_vel :: "'d list"
  fp_arm_tau :: "'d list"
  fp_hand_pos :: "'d list"
  fp_hand_vel :: "'d list"
  fp_hand_tau :: "'d list"
  fp_crc32 :: u32

definition feedback_wf :: "'d FeedbackPacket \<Rightarrow> bool" where
  "feedback_wf p \<longleftrightarrow>
     length (fp_arm_pos p) = 8
     \<and> length (fp_arm_vel p) = 8
     \<and> length (fp_arm_tau p) = 8
     \<and> length (fp_hand_pos p) = 4
     \<and> length (fp_hand_vel p) = 4
     \<and> length (fp_hand_tau p) = 4"

text \<open>The zeroed struct; \<open>z\<close> is the floating point zero.\<close>

definition feedback_zero :: "'d \<Rightarrow> 'd FeedbackPacket" where
  "feedback_zero z = \<lparr>
     fp_magic = 0, fp_version = 0, fp_packet_size = 0, fp_seq = 0, fp_send_time_ns = 0,
     fp_arm_side = 0, fp_mode = 0, fp_enabled = 0, fp_estop = 0, fp_arm_dof = 0,
     fp_hand_dof = 0, fp_safety_state = 0, fp_link_ok = 0, fp_echo_cmd_seq = 0,
     fp_echo_cmd_send_time_ns = 0, fp_cmd_hold_ns = 0, fp_arm_pos = replicate 8 z,
     fp_arm_vel = replicate 8 z, fp_arm_tau = replicate 8 z, fp_hand_pos = replicate 4 z,
     fp_hand_vel = replicate 4 z, fp_hand_tau = replicate 4 z, fp_crc32 = 0 \<rparr>"

lemma feedback_zero_wf [simp]: "feedback_wf (feedback_zero z)"
  by (simp add: feedback_zero_def feedback_wf_def)

definition feedback_layout :: "nat list" where
  "feedback_layout = [4, 2, 2, 4, 8, 1, 1, 1, 1, 1, 1, 1, 1, 4, 8, 8, 64, 64, 64, 32, 32, 32, 4]"

definition feedback_size :: nat where
  "feedback_size = 340"

definition feedback_fields :: "u64 FeedbackPacket \<Rightarrow> u8 list list" where
  "feedback_fields p =
     [le_bytes 4 (fp_magic p), le_bytes 2 (fp_version p), le_bytes 2 (fp_packet_size p),
      le_bytes 4 (fp_seq p), le_bytes 8 (fp_send_time_ns p), le_bytes 1 (fp_arm_side p),
      le_bytes 1 (fp_mode p), le_bytes 1 (fp_enabled p), le_bytes 1 (fp_estop p),
      le_bytes 1 (fp_arm_dof p), le_bytes 1 (fp_hand_dof p),
      le_bytes 1 (fp_safety_state p), le_bytes 1 (fp_link_ok p),
      le_bytes 4 (fp_echo_cmd_seq p), le_bytes 8 (fp_echo_cmd_send_time_ns p),
      le_bytes 8 (fp_cmd_hold_ns p), le_array_bytes 8 (fp_arm_pos p),
      le_array_bytes 8 (fp_arm_vel p), le_array_bytes 8 (fp_arm_tau p),
      le_array_bytes 8 (fp_hand_pos p), le_array_bytes 8 (fp_hand_vel p),
      le_array_bytes 8 (fp_hand_tau p), le_bytes 4 (fp_crc32 p)]"

definition feedback_bytes :: "u64 FeedbackPacket \<Rightarrow> u8 list" where
  "feedback_bytes p = concat (feedback_fields p)"

definition feedback_of_bytes :: "u8 list \<Rightarrow> u64 FeedbackPacket" where
  "feedback_of_bytes bs =
     (let c = chunks feedback_layout bs in \<lparr>
        fp_magic = le_word (c ! 0), fp_version = le_word (c ! 1),
        fp_packet_size = le_word (c ! 2), fp_seq = le_word (c ! 3),
        fp_send_time_ns = le_word (c ! 4), fp_arm_side = le_word (c ! 5),
        fp_mode = le_word (c ! 6), fp_enabled = le_word (c ! 7), fp_estop = le_word (c ! 8),
        fp_arm_dof = le_word (c ! 9), fp_hand_dof = le_word (c ! 10),
        fp_safety_state = le_word (c ! 11), fp_link_ok = le_word (c ! 12),
        fp_echo_cmd_seq = le_word (c ! 13), fp_echo_cmd_send_time_ns = le_word (c ! 14),
        fp_cmd_hold_ns = le_word (c ! 15), fp_arm_pos = le_array_words 8 8 (c ! 16),
        fp_arm_vel = le_array_words 8 8 (c ! 17), fp_arm_tau = le_array_words 8 8 (c ! 18),
        fp_hand_pos = le_array_words 8 4 (c ! 19), fp_hand_vel = le_array_words 8 4 (c ! 20),
        fp_hand_tau = le_array_words 8 4 (c ! 21), fp_crc32 = le_word (c ! 22) \<rparr>)"

lemma feedback_layout_sum [simp]: "sum_list feedback_layout = feedback_size"
  by (simp add: feedback_layout_def feedback_size_def)

lemma feedback_fields_layout [chunk_simps]: "feedback_wf p \<Longrightarrow> map length (feedback_fields p) = feedback_layout"
  by (simp add: feedback_fields_def feedback_layout_def feedback_wf_def)

lemma feedback_bytes_length [simp]: "feedback_wf p \<Longrightarrow> length (feedback_bytes p) = feedback_size"
  by (simp add: feedback_bytes_def length_concat_chunks feedback_fields_layout)

lemma feedback_of_bytes_wf [simp]: "feedback_wf (feedback_of_bytes bs)"
  by (simp add: feedback_of_bytes_def feedback_wf_def Let_def)

lemma feedback_of_bytes_bytes [simp]:
  assumes "feedback_wf p"
  shows "feedback_of_bytes (feedback_bytes p) = p"
proof -
  have "chunks feedback_layout (feedback_bytes p) = feedback_fields p"
    unfolding feedback_bytes_def by (rule chunks_concat) (rule feedback_fields_layout [OF assms])
  then show ?thesis
    using assms
    by (simp add: feedback_of_bytes_def feedback_fields_def Let_def bytes_simps feedback_wf_def)
qed

lemma feedback_bytes_of_bytes [simp]:
  assumes "length bs = feedback_size"
  shows "feedback_bytes (feedback_of_bytes bs) = bs"
proof -
  let ?c = "chunks feedback_layout bs"
  have "feedback_fields (feedback_of_bytes bs) = map (\<lambda>i. ?c ! i) [0..<length feedback_layout]"
    using assms
    by (simp add: feedback_size_def feedback_fields_def feedback_of_bytes_def Let_def feedback_layout_def
        upt_rec bytes_simps)
  also have "\<dots> = ?c"
    by (metis length_chunks map_nth)
  finally show ?thesis
    using assms by (simp add: feedback_bytes_def concat_chunks)
qed

lemma feedback_bytes_trailer:
  assumes "feedback_wf p"
  shows "drop (feedback_size - 4) (feedback_bytes p) = le_bytes 4 (fp_crc32 p)"
  using assms
  by (simp add: feedback_bytes_def feedback_fields_def feedback_size_def feedback_wf_def drop_append)

lemma feedback_bytes_payload:
  "take (feedback_size - 4) (feedback_bytes (p\<lparr>fp_crc32 := c\<rparr>)) = take (feedback_size - 4) (feedback_bytes p)"
  if "feedback_wf p"
  using that
  by (simp add: feedback_bytes_def feedback_fields_def feedback_size_def feedback_wf_def take_append)

section \<open>Telemetry\<close>

definition TELEMETRY_MAGIC :: u32 where
  "TELEMETRY_MAGIC = 0x5054414F"

record 'f TelemetryPacket =
  te_magic :: u32
  te_version :: u16
  te_packet_size :: u16
  te_seq :: u32
  te_monotonic_time_ns :: u64
  te_robot_type :: u8
  te_control_mode :: u8
  te_enabled :: u8
  te_estop :: u8
  te_state_dim :: u8
  te_action_dim :: u8
  te_velocity_dim :: u8
  te_reserved0 :: u8
  te_watchdog_state :: u8
  te_safety_state :: u8
  te_reserved1 :: u8
  te_reserved2 :: u8
  te_observation_state :: "'f list"
  te_action :: "'f list"
  te_observation_velocity :: "'f list"
  te_crc32 :: u32

definition telemetry_wf :: "'f TelemetryPacket \<Rightarrow> bool" where
  "telemetry_wf p \<longleftrightarrow>
     length (te_observation_state p) = 16
     \<and> length (te_action p) = 16
     \<and> length (te_observation_velocity p) = 16"

text \<open>The zeroed struct; \<open>z\<close> is the floating point zero.\<close>

definition telemetry_zero :: "'f \<Rightarrow> 'f TelemetryPacket" where
  "telemetry_zero z = \<lparr>
     te_magic = 0, te_version = 0, te_packet_size = 0, te_seq = 0,
     te_monotonic_time_ns = 0, te_robot_type = 0, te_control_mode = 0, te_enabled = 0,
     te_estop = 0, te_state_dim = 0, te_action_dim = 0, te_velocity_dim = 0,
     te_reserved0 = 0, te_watchdog_state = 0, te_safety_state = 0, te_reserved1 = 0,
     te_reserved2 = 0, te_observation_state = replicate 16 z, te_action = replicate 16 z,
     te_observation_velocity = replicate 16 z, te_crc32 = 0 \<rparr>"

lemma telemetry_zero_wf [simp]: "telemetry_wf (telemetry_zero z)"
  by (simp add: telemetry_zero_def telemetry_wf_def)

definition telemetry_layout :: "nat list" where
  "telemetry_layout = [4, 2, 2, 4, 8, 1, 1, 1, 1, 1, 1, 1, 1, 1, 1, 1, 1, 64, 64, 64, 4]"

definition telemetry_size :: nat where
  "telemetry_size = 228"

definition telemetry_fields :: "u32 TelemetryPacket \<Rightarrow> u8 list list" where
  "telemetry_fields p =
     [le_bytes 4 (te_magic p), le_bytes 2 (te_version p), le_bytes 2 (te_packet_size p),
      le_bytes 4 (te_seq p), le_bytes 8 (te_monotonic_time_ns p),
      le_bytes 1 (te_robot_type p), le_bytes 1 (te_control_mode p),
      le_bytes 1 (te_enabled p), le_bytes 1 (te_estop p), le_bytes 1 (te_state_dim p),
      le_bytes 1 (te_action_dim p), le_bytes 1 (te_velocity_dim p),
      le_bytes 1 (te_reserved0 p), le_bytes 1 (te_watchdog_state p),
      le_bytes 1 (te_safety_state p), le_bytes 1 (te_reserved1 p),
      le_bytes 1 (te_reserved2 p), le_array_bytes 4 (te_observation_state p),
      le_array_bytes 4 (te_action p), le_array_bytes 4 (te_observation_velocity p),
      le_bytes 4 (te_crc32 p)]"

definition telemetry_bytes :: "u32 TelemetryPacket \<Rightarrow> u8 list" where
  "telemetry_bytes p = concat (telemetry_fields p)"

definition telemetry_of_bytes :: "u8 list \<Rightarrow> u32 TelemetryPacket" where
  "telemetry_of_bytes bs =
     (let c = chunks telemetry_layout bs in \<lparr>
        te_magic = le_word (c ! 0), te_version = le_word (c ! 1),
        te_packet_size = le_word (c ! 2), te_seq = le_word (c ! 3),
        te_monotonic_time_ns = le_word (c ! 4), te_robot_type = le_word (c ! 5),
        te_control_mode = le_word (c ! 6), te_enabled = le_word (c ! 7),
        te_estop = le_word (c ! 8), te_state_dim = le_word (c ! 9),
        te_action_dim = le_word (c ! 10), te_velocity_dim = le_word (c ! 11),
        te_reserved0 = le_word (c ! 12), te_watchdog_state = le_word (c ! 13),
        te_safety_state = le_word (c ! 14), te_reserved1 = le_word (c ! 15),
        te_reserved2 = le_word (c ! 16), te_observation_state = le_array_words 4 16 (c ! 17),
        te_action = le_array_words 4 16 (c ! 18),
        te_observation_velocity = le_array_words 4 16 (c ! 19),
        te_crc32 = le_word (c ! 20) \<rparr>)"

lemma telemetry_layout_sum [simp]: "sum_list telemetry_layout = telemetry_size"
  by (simp add: telemetry_layout_def telemetry_size_def)

lemma telemetry_fields_layout [chunk_simps]: "telemetry_wf p \<Longrightarrow> map length (telemetry_fields p) = telemetry_layout"
  by (simp add: telemetry_fields_def telemetry_layout_def telemetry_wf_def)

lemma telemetry_bytes_length [simp]: "telemetry_wf p \<Longrightarrow> length (telemetry_bytes p) = telemetry_size"
  by (simp add: telemetry_bytes_def length_concat_chunks telemetry_fields_layout)

lemma telemetry_of_bytes_wf [simp]: "telemetry_wf (telemetry_of_bytes bs)"
  by (simp add: telemetry_of_bytes_def telemetry_wf_def Let_def)

lemma telemetry_of_bytes_bytes [simp]:
  assumes "telemetry_wf p"
  shows "telemetry_of_bytes (telemetry_bytes p) = p"
proof -
  have "chunks telemetry_layout (telemetry_bytes p) = telemetry_fields p"
    unfolding telemetry_bytes_def by (rule chunks_concat) (rule telemetry_fields_layout [OF assms])
  then show ?thesis
    using assms
    by (simp add: telemetry_of_bytes_def telemetry_fields_def Let_def bytes_simps telemetry_wf_def)
qed

lemma telemetry_bytes_of_bytes [simp]:
  assumes "length bs = telemetry_size"
  shows "telemetry_bytes (telemetry_of_bytes bs) = bs"
proof -
  let ?c = "chunks telemetry_layout bs"
  have "telemetry_fields (telemetry_of_bytes bs) = map (\<lambda>i. ?c ! i) [0..<length telemetry_layout]"
    using assms
    by (simp add: telemetry_size_def telemetry_fields_def telemetry_of_bytes_def Let_def telemetry_layout_def
        upt_rec bytes_simps)
  also have "\<dots> = ?c"
    by (metis length_chunks map_nth)
  finally show ?thesis
    using assms by (simp add: telemetry_bytes_def concat_chunks)
qed

lemma telemetry_bytes_trailer:
  assumes "telemetry_wf p"
  shows "drop (telemetry_size - 4) (telemetry_bytes p) = le_bytes 4 (te_crc32 p)"
  using assms
  by (simp add: telemetry_bytes_def telemetry_fields_def telemetry_size_def telemetry_wf_def drop_append)

lemma telemetry_bytes_payload:
  "take (telemetry_size - 4) (telemetry_bytes (p\<lparr>te_crc32 := c\<rparr>)) = take (telemetry_size - 4) (telemetry_bytes p)"
  if "telemetry_wf p"
  using that
  by (simp add: telemetry_bytes_def telemetry_fields_def telemetry_size_def telemetry_wf_def take_append)

end
