(* ===== verification/Packet_Codec.thy ===== *)
theory Packet_Codec
  imports Packets
begin

text \<open>
  \<open>src/net/packet_codec.cpp\<close>: filling in the header and the checksum of a packet before it is
  sent, and accepting or rejecting a packet that was received. The interface
  \<open>framed_packet\<close> states what a packet type has to provide for the error detection to
  work (a fixed-size image that ends in the checksum field); commands and feedback are its two
  instances.
\<close>

section \<open>The code\<close>

text \<open>\<open>sizeof(p) - sizeof(uint32_t)\<close> bytes are summed; the checksum field is set to 0 before.\<close>

definition teleop_encode :: "u64 \<Rightarrow> u64 TeleopPacket \<Rightarrow> u64 TeleopPacket" where
  "teleop_encode now p =
     (let p1 = p\<lparr>tp_magic := TELEOP_MAGIC, tp_version := TELEOP_VERSION,
                  tp_packet_size := word_of_nat teleop_size, tp_send_time_ns := now,
                  tp_crc32 := 0\<rparr>
      in p1\<lparr>tp_crc32 := calculate_crc32 (teleop_bytes p1) (teleop_size - 4)\<rparr>)"

text \<open>The second component is the packet as the call leaves it.\<close>

definition teleop_decode_and_validate :: "u64 TeleopPacket \<Rightarrow> bool \<times> u64 TeleopPacket" where
  "teleop_decode_and_validate p =
     (if tp_magic p \<noteq> TELEOP_MAGIC then (False, p)
      else if tp_version p \<noteq> TELEOP_VERSION then (False, p)
      else if tp_packet_size p \<noteq> word_of_nat teleop_size then (False, p)
      else let received_crc = tp_crc32 p;
               p0 = p\<lparr>tp_crc32 := 0\<rparr>;
               calculated_crc = calculate_crc32 (teleop_bytes p0) (teleop_size - 4)
           in (calculated_crc = received_crc, p0\<lparr>tp_crc32 := received_crc\<rparr>))"

definition feedback_encode :: "u64 \<Rightarrow> u64 FeedbackPacket \<Rightarrow> u64 FeedbackPacket" where
  "feedback_encode now p =
     (let p1 = p\<lparr>fp_magic := FEEDBACK_MAGIC, fp_version := FEEDBACK_VERSION,
                  fp_packet_size := word_of_nat feedback_size, fp_send_time_ns := now,
                  fp_crc32 := 0\<rparr>
      in p1\<lparr>fp_crc32 := calculate_crc32 (feedback_bytes p1) (feedback_size - 4)\<rparr>)"

definition feedback_decode_and_validate :: "u64 FeedbackPacket \<Rightarrow> bool \<times> u64 FeedbackPacket" where
  "feedback_decode_and_validate p =
     (if fp_magic p \<noteq> FEEDBACK_MAGIC then (False, p)
      else if fp_version p \<noteq> FEEDBACK_VERSION then (False, p)
      else if fp_packet_size p \<noteq> word_of_nat feedback_size then (False, p)
      else let received_crc = fp_crc32 p;
               p0 = p\<lparr>fp_crc32 := 0\<rparr>;
               calculated_crc = calculate_crc32 (feedback_bytes p0) (feedback_size - 4)
           in (calculated_crc = received_crc, p0\<lparr>fp_crc32 := received_crc\<rparr>))"

section \<open>The interface of a checksummed packet\<close>

locale framed_packet =
  fixes to_bytes :: "'p \<Rightarrow> u8 list"
    and of_bytes :: "u8 list \<Rightarrow> 'p"
    and wf :: "'p \<Rightarrow> bool"
    and header_ok :: "'p \<Rightarrow> bool"
    and crc_field :: "'p \<Rightarrow> u32"
    and accepted :: "'p \<Rightarrow> bool"
    and size :: nat
  assumes size_ge: "4 \<le> size"
    and bytes_length: "wf p \<Longrightarrow> length (to_bytes p) = size"
    and of_bytes_wf: "wf (of_bytes bs)"
    and of_bytes_bytes: "wf p \<Longrightarrow> of_bytes (to_bytes p) = p"
    and bytes_of_bytes: "length bs = size \<Longrightarrow> to_bytes (of_bytes bs) = bs"
    and trailer: "wf p \<Longrightarrow> drop (size - 4) (to_bytes p) = le_bytes 4 (crc_field p)"
    and accepted_iff: "wf p \<Longrightarrow>
      accepted p \<longleftrightarrow> header_ok p \<and> calculate_crc32 (to_bytes p) (size - 4) = crc_field p"
begin

lemma accepted_residue:
  assumes "wf p"
  shows "accepted p \<longleftrightarrow> header_ok p \<and> crc_run (to_bytes p) 0xFFFFFFFF = crc_residue"
proof -
  let ?s = "crc_run (take (size - 4) (to_bytes p)) 0xFFFFFFFF"
  have "crc_run (to_bytes p) 0xFFFFFFFF = crc_run (le_bytes 4 (crc_field p)) ?s"
    by (metis append_take_drop_id crc_run_append trailer [OF assms])
  then have "crc_run (to_bytes p) 0xFFFFFFFF = crc_residue \<longleftrightarrow> NOT ?s = crc_field p"
    by (auto simp: crc_run_trailer)
  then show ?thesis
    by (simp add: accepted_iff [OF assms] calculate_crc32_def)
qed

lemma datagram_residue:
  "length bs = size \<Longrightarrow> accepted (of_bytes bs) \<Longrightarrow> crc_run bs 0xFFFFFFFF = crc_residue"
  by (simp add: accepted_residue of_bytes_wf bytes_of_bytes)

text \<open>Damage inside a window of four bytes, anywhere in the datagram, is noticed.\<close>

lemma burst_detected:
  assumes "length (pre @ mid @ post) = size" and "accepted (of_bytes (pre @ mid @ post))"
    and "length mid' = length mid" and "length mid \<le> 4" and "mid' \<noteq> mid"
  shows "\<not> accepted (of_bytes (pre @ mid' @ post))"
proof
  assume "accepted (of_bytes (pre @ mid' @ post))"
  moreover have "length (pre @ mid' @ post) = size"
    using assms(1,3) by simp
  ultimately have "crc_run (pre @ mid' @ post) 0xFFFFFFFF = crc_residue"
    by (rule datagram_residue [rotated])
  moreover have "crc_run (pre @ mid @ post) 0xFFFFFFFF = crc_residue"
    using assms(1,2) by (rule datagram_residue)
  ultimately show False
    using crc_run_burst [of mid' mid] assms(3-5) by metis
qed

end

section \<open>Commands\<close>

definition teleop_header_ok :: "u64 TeleopPacket \<Rightarrow> bool" where
  "teleop_header_ok p \<longleftrightarrow>
     tp_magic p = TELEOP_MAGIC \<and> tp_version p = TELEOP_VERSION
     \<and> tp_packet_size p = word_of_nat teleop_size"

lemma teleop_decode_snd [simp]: "snd (teleop_decode_and_validate p) = p"
  by (simp add: teleop_decode_and_validate_def Let_def)

lemma teleop_decode_fst:
  assumes "teleop_wf p"
  shows "fst (teleop_decode_and_validate p) \<longleftrightarrow>
    teleop_header_ok p \<and> calculate_crc32 (teleop_bytes p) (teleop_size - 4) = tp_crc32 p"
  using teleop_bytes_payload [OF assms, of 0]
  by (auto simp: teleop_decode_and_validate_def teleop_header_ok_def Let_def calculate_crc32_def)

lemma teleop_encode_wf [simp]: "teleop_wf (teleop_encode now p) \<longleftrightarrow> teleop_wf p"
  by (simp add: teleop_encode_def teleop_wf_def Let_def)

interpretation tpk: framed_packet teleop_bytes teleop_of_bytes teleop_wf teleop_header_ok
    tp_crc32 "\<lambda>p. fst (teleop_decode_and_validate p)" teleop_size
  by unfold_locales
    (simp_all add: teleop_bytes_trailer teleop_decode_fst, simp add: teleop_size_def)

lemma teleop_encode_accepted:
  assumes "teleop_wf p"
  shows "fst (teleop_decode_and_validate (teleop_encode now p))"
proof -
  let ?q = "teleop_encode now p"
  have wf: "teleop_wf ?q" using assms by simp
  have "tp_crc32 ?q = calculate_crc32 (teleop_bytes (?q\<lparr>tp_crc32 := 0\<rparr>)) (teleop_size - 4)"
    by (simp add: teleop_encode_def Let_def)
  then have "calculate_crc32 (teleop_bytes ?q) (teleop_size - 4) = tp_crc32 ?q"
    using teleop_bytes_payload [OF wf, of 0] by (simp add: calculate_crc32_def)
  then show ?thesis
    by (simp add: teleop_decode_fst [OF wf]) (simp add: teleop_encode_def teleop_header_ok_def Let_def)
qed

section \<open>Feedback\<close>

definition feedback_header_ok :: "u64 FeedbackPacket \<Rightarrow> bool" where
  "feedback_header_ok p \<longleftrightarrow>
     fp_magic p = FEEDBACK_MAGIC \<and> fp_version p = FEEDBACK_VERSION
     \<and> fp_packet_size p = word_of_nat feedback_size"

lemma feedback_decode_snd [simp]: "snd (feedback_decode_and_validate p) = p"
  by (simp add: feedback_decode_and_validate_def Let_def)

lemma feedback_decode_fst:
  assumes "feedback_wf p"
  shows "fst (feedback_decode_and_validate p) \<longleftrightarrow>
    feedback_header_ok p \<and> calculate_crc32 (feedback_bytes p) (feedback_size - 4) = fp_crc32 p"
  using feedback_bytes_payload [OF assms, of 0]
  by (auto simp: feedback_decode_and_validate_def feedback_header_ok_def Let_def calculate_crc32_def)

lemma feedback_encode_wf [simp]: "feedback_wf (feedback_encode now p) \<longleftrightarrow> feedback_wf p"
  by (simp add: feedback_encode_def feedback_wf_def Let_def)

interpretation fpk: framed_packet feedback_bytes feedback_of_bytes feedback_wf feedback_header_ok
    fp_crc32 "\<lambda>p. fst (feedback_decode_and_validate p)" feedback_size
  by unfold_locales
    (simp_all add: feedback_bytes_trailer feedback_decode_fst, simp add: feedback_size_def)

lemma feedback_encode_accepted:
  assumes "feedback_wf p"
  shows "fst (feedback_decode_and_validate (feedback_encode now p))"
proof -
  let ?q = "feedback_encode now p"
  have wf: "feedback_wf ?q" using assms by simp
  have "fp_crc32 ?q = calculate_crc32 (feedback_bytes (?q\<lparr>fp_crc32 := 0\<rparr>)) (feedback_size - 4)"
    by (simp add: feedback_encode_def Let_def)
  then have "calculate_crc32 (feedback_bytes ?q) (feedback_size - 4) = fp_crc32 ?q"
    using feedback_bytes_payload [OF wf, of 0] by (simp add: calculate_crc32_def)
  then show ?thesis
    by (simp add: feedback_decode_fst [OF wf])
      (simp add: feedback_encode_def feedback_header_ok_def Let_def)
qed

end
