(* ===== verification/Udp_Channel.thy ===== *)
theory Udp_Channel
  imports Packet_Codec
begin

text \<open>
  The two ends of a UDP flow, \<open>src/net/udp_receiver.cpp\<close> and \<open>src/net/udp_sender.cpp\<close>. The
  socket calls are the environment: each iteration of the receive loop is given what
  \<open>poll\<close> and \<open>recvfrom\<close> answered, each send what \<open>sendto\<close> answered. What the threads do
  to their own state, what they deliver and what they hand to the kernel is the code's.
\<close>

section \<open>The receiver\<close>

datatype errno = EINTR | EAGAIN | EWOULDBLOCK | Other_Errno

text \<open>\<open>recvfrom\<close> of a datagram; more than 4096 bytes are cut off by the buffer.\<close>

datatype recv_result = Recv_Failed errno | Recv_Datagram "u8 list"

datatype poll_result = Poll_Failed errno | Poll_Timeout | Poll_Ready recv_result

record UdpReceiver =
  ur_socket_ok :: bool
  ur_running :: bool
  ur_callback :: bool
  ur_raw_callback :: bool
  ur_received_count :: u32
  ur_invalid_count :: u32

datatype recv_event =
    Deliver "u64 TeleopPacket"
  | Deliver_Raw "u8 list"
  | Sleep_10ms

definition udp_receiver_new :: "bool \<Rightarrow> UdpReceiver" where
  "udp_receiver_new socket_ok =
     \<lparr> ur_socket_ok = socket_ok, ur_running = False, ur_callback = False,
       ur_raw_callback = False, ur_received_count = 0, ur_invalid_count = 0 \<rparr>"

definition udp_start_internal :: "UdpReceiver \<Rightarrow> bool \<times> UdpReceiver" where
  "udp_start_internal r =
     (if \<not> ur_socket_ok r then (False, r)
      else if ur_running r then (True, r)
      else (True, r\<lparr>ur_running := True\<rparr>))"

definition udp_start :: "UdpReceiver \<Rightarrow> bool \<times> UdpReceiver" where
  "udp_start r = udp_start_internal (r\<lparr>ur_callback := True\<rparr>)"

definition udp_start_raw :: "UdpReceiver \<Rightarrow> bool \<times> UdpReceiver" where
  "udp_start_raw r = udp_start_internal (r\<lparr>ur_raw_callback := True\<rparr>)"

definition udp_stop :: "UdpReceiver \<Rightarrow> UdpReceiver" where
  "udp_stop r = (if ur_running r then r\<lparr>ur_running := False\<rparr> else r)"

text \<open>The body of the loop after \<open>recvfrom\<close> returned a number of bytes greater than 0.\<close>

definition receive_datagram :: "u8 list \<Rightarrow> UdpReceiver \<Rightarrow> UdpReceiver \<times> recv_event list" where
  "receive_datagram buffer r =
     (let r = r\<lparr>ur_received_count := ur_received_count r + 1\<rparr>;
          invalid = r\<lparr>ur_invalid_count := ur_invalid_count r + 1\<rparr>
      in if ur_raw_callback r then (r, [Deliver_Raw buffer])
         else if ur_callback r then
           (if length buffer = teleop_size then
              (let (ok, packet) = teleop_decode_and_validate (teleop_of_bytes buffer)
               in if ok then (r, [Deliver packet]) else (invalid, []))
            else (invalid, []))
         else (r, []))"

definition receive_iteration :: "poll_result \<Rightarrow> UdpReceiver \<Rightarrow> UdpReceiver \<times> recv_event list" where
  "receive_iteration p r =
     (case p of
        Poll_Failed e \<Rightarrow> (r, if e \<noteq> EINTR then [Sleep_10ms] else [])
      | Poll_Timeout \<Rightarrow> (r, [])
      | Poll_Ready (Recv_Datagram d) \<Rightarrow>
          (let buffer = take 4096 d
           in if buffer \<noteq> [] then receive_datagram buffer r else (r, []))
      | Poll_Ready (Recv_Failed e) \<Rightarrow>
          (r, if e \<noteq> EAGAIN \<and> e \<noteq> EWOULDBLOCK \<and> e \<noteq> EINTR then [Sleep_10ms] else []))"

text \<open>
  The thread: \<open>running_\<close> is tested before each iteration. \<open>Stop_Called\<close> is a call of
  \<open>stop()\<close> from another thread between two iterations.
\<close>

datatype recv_step = Iteration poll_result | Stop_Called

fun receive_loop :: "recv_step list \<Rightarrow> UdpReceiver \<Rightarrow> UdpReceiver \<times> recv_event list" where
  "receive_loop [] r = (r, [])"
| "receive_loop (Stop_Called # steps) r = receive_loop steps (udp_stop r)"
| "receive_loop (Iteration p # steps) r =
     (if ur_running r then
        (let (r', evs) = receive_iteration p r; (r'', evs') = receive_loop steps r'
         in (r'', evs @ evs'))
      else receive_loop steps r)"

section \<open>The sender\<close>

text \<open>\<open>us_target_ok\<close>: \<open>inet_pton\<close> accepts the target address.\<close>

record UdpSender =
  us_socket_ok :: bool
  us_target_ok :: bool
  us_sent_count :: u32

definition udp_sender_new :: "bool \<Rightarrow> bool \<Rightarrow> UdpSender" where
  "udp_sender_new socket_ok target_ok =
     \<lparr> us_socket_ok = socket_ok, us_target_ok = target_ok, us_sent_count = 0 \<rparr>"

text \<open>
  The constructor with a local address, \<open>local_ok\<close> and \<open>bind_ok\<close> being the answers of \<open>inet_pton\<close>
  and \<open>bind\<close>: the sender, and whether its socket is bound. A failure is only logged.
\<close>

definition udp_sender_bound :: "bool \<Rightarrow> bool \<Rightarrow> bool \<Rightarrow> bool \<Rightarrow> UdpSender \<times> bool" where
  "udp_sender_bound socket_ok local_ok bind_ok target_ok =
     (let s = udp_sender_new socket_ok target_ok
      in if \<not> socket_ok then (s, False)
         else if \<not> local_ok then (s, False)
         else (s, bind_ok))"

text \<open>The answer of \<open>sendto\<close> comes in; out go the result and the datagram handed over, if any.\<close>

definition udp_send_raw ::
    "int \<Rightarrow> u8 list \<Rightarrow> UdpSender \<Rightarrow> UdpSender \<times> bool \<times> u8 list option" where
  "udp_send_raw sent_bytes data s =
     (if \<not> us_socket_ok s then (s, False, None)
      else if \<not> us_target_ok s then (s, False, None)
      else if sent_bytes = int (length data)
        then (s\<lparr>us_sent_count := us_sent_count s + 1\<rparr>, True, Some data)
      else (s, False, Some data))"

definition udp_send ::
    "int \<Rightarrow> u64 TeleopPacket \<Rightarrow> UdpSender \<Rightarrow> UdpSender \<times> bool \<times> u8 list option" where
  "udp_send sent_bytes packet s = udp_send_raw sent_bytes (teleop_bytes packet) s"

section \<open>What a receiver with a packet callback delivers\<close>

definition teleop_acceptable :: "u8 list \<Rightarrow> bool" where
  "teleop_acceptable d \<longleftrightarrow>
     length d = teleop_size \<and> fst (teleop_decode_and_validate (teleop_of_bytes d))"

text \<open>The datagrams read before the stop, each as the buffer holds it.\<close>

fun datagrams_read :: "recv_step list \<Rightarrow> u8 list list" where
  "datagrams_read (Iteration (Poll_Ready (Recv_Datagram d)) # steps) =
     (if d = [] then datagrams_read steps else take 4096 d # datagrams_read steps)"
| "datagrams_read (Iteration _ # steps) = datagrams_read steps"
| "datagrams_read _ = []"

fun delivered :: "recv_event list \<Rightarrow> u64 TeleopPacket list" where
  "delivered [] = []"
| "delivered (Deliver p # evs) = p # delivered evs"
| "delivered (_ # evs) = delivered evs"

lemma delivered_append [simp]: "delivered (as @ bs) = delivered as @ delivered bs"
  by (induction as rule: delivered.induct) simp_all

lemma receive_loop_stopped [simp]: "\<not> ur_running r \<Longrightarrow> receive_loop steps r = (r, [])"
  by (induction steps r rule: receive_loop.induct) (simp_all add: udp_stop_def)

lemma receive_datagram_packet_mode:
  assumes "ur_callback r" and "\<not> ur_raw_callback r"
  shows "receive_datagram d r =
    (r\<lparr>ur_received_count := ur_received_count r + 1,
       ur_invalid_count := ur_invalid_count r + (if teleop_acceptable d then 0 else 1)\<rparr>,
     if teleop_acceptable d then [Deliver (teleop_of_bytes d)] else [])"
  using assms
  by (auto simp: receive_datagram_def teleop_acceptable_def Let_def split_beta)

lemma receive_loop_packet_mode:
  assumes "ur_running r" and "ur_callback r" and "\<not> ur_raw_callback r"
  shows "delivered (snd (receive_loop steps r)) =
           map teleop_of_bytes (filter teleop_acceptable (datagrams_read steps))
       \<and> ur_received_count (fst (receive_loop steps r)) =
           ur_received_count r + word_of_nat (length (datagrams_read steps))
       \<and> ur_invalid_count (fst (receive_loop steps r)) =
           ur_invalid_count r
             + word_of_nat (length (filter (\<lambda>d. \<not> teleop_acceptable d) (datagrams_read steps)))"
  using assms
proof (induction steps arbitrary: r rule: datagrams_read.induct)
  case (1 d steps)
  show ?case
  proof (cases "d = []")
    case True
    with 1 show ?thesis by (simp add: receive_iteration_def Let_def split_beta)
  next
    case False
    let ?r = "fst (receive_datagram (take 4096 d) r)"
    have "ur_running ?r \<and> ur_callback ?r \<and> \<not> ur_raw_callback ?r"
      using 1 by (simp add: receive_datagram_packet_mode)
    with False 1(2)[of ?r] 1(3-5) show ?thesis
      by (simp add: receive_iteration_def Let_def split_beta receive_datagram_packet_mode)
  qed
qed (auto simp: receive_iteration_def Let_def split_beta udp_stop_def)

section \<open>End to end\<close>

text \<open>\<open>d'\<close> differs from \<open>d\<close> at most inside a window of four bytes.\<close>

definition within_burst :: "u8 list \<Rightarrow> u8 list \<Rightarrow> bool" where
  "within_burst d d' \<longleftrightarrow>
     (\<exists>pre mid mid' post. d = pre @ mid @ post \<and> d' = pre @ mid' @ post
        \<and> length mid' = length mid \<and> length mid \<le> 4)"

lemma within_burst_refl [simp]: "within_burst d d"
  unfolding within_burst_def by (rule exI [of _ d], rule exI [of _ "[]"]) simp

lemma teleop_acceptable_burst:
  assumes "teleop_acceptable d" and "within_burst d d'" and "teleop_acceptable d'"
  shows "d' = d"
proof -
  obtain pre mid mid' post where w: "d = pre @ mid @ post" "d' = pre @ mid' @ post"
      "length mid' = length mid" "length mid \<le> 4"
    using assms(2) by (auto simp: within_burst_def)
  have "mid' = mid"
    using tpk.burst_detected [of pre mid post mid'] assms(1,3) w
    by (auto simp: teleop_acceptable_def)
  then show ?thesis using w by simp
qed

lemma teleop_acceptable_sent [simp]:
  "teleop_wf p \<Longrightarrow> teleop_acceptable (teleop_bytes (teleop_encode now p))"
  by (simp add: teleop_acceptable_def teleop_encode_accepted)

text \<open>C31: end to end integrity of the command channel.\<close>

theorem channel_delivers_only_sent:
  assumes "ur_running r" and "ur_callback r" and "\<not> ur_raw_callback r"
    and "\<forall>(now, p) \<in> set sent. teleop_wf p"
    and "\<forall>d \<in> set (datagrams_read steps). length d \<noteq> teleop_size \<or>
      (\<exists>(now, p) \<in> set sent. within_burst (teleop_bytes (teleop_encode now p)) d)"
  shows "set (delivered (snd (receive_loop steps r))) \<subseteq> (\<lambda>(now, p). teleop_encode now p) ` set sent"
proof -
  have "teleop_of_bytes d \<in> (\<lambda>(now, p). teleop_encode now p) ` set sent"
    if d: "d \<in> set (datagrams_read steps)" and acc: "teleop_acceptable d" for d
  proof -
    from acc have "length d = teleop_size" by (simp add: teleop_acceptable_def)
    with assms(5) d obtain now p where
        p: "(now, p) \<in> set sent" "within_burst (teleop_bytes (teleop_encode now p)) d"
      by auto
    with assms(4) have "teleop_wf p" by auto
    with p acc have "d = teleop_bytes (teleop_encode now p)"
      using teleop_acceptable_burst teleop_acceptable_sent by blast
    with p \<open>teleop_wf p\<close> show ?thesis by (auto intro: rev_image_eqI)
  qed
  then show ?thesis
    using receive_loop_packet_mode [OF assms(1-3)] by auto
qed

theorem channel_delivers_only_sent_witness:
  "let r = snd (udp_start (udp_receiver_new True));
       sent = [(3, teleop_zero 0), (4, teleop_zero 0\<lparr>tp_seq := 1\<rparr>)];
       steps = [Iteration Poll_Timeout,
         Iteration (Poll_Ready (Recv_Datagram (teleop_bytes (teleop_encode 4 (teleop_zero 0\<lparr>tp_seq := 1\<rparr>))))),
         Iteration (Poll_Ready (Recv_Datagram [1, 2, 3]))]
   in set (delivered (snd (receive_loop steps r))) \<subseteq> (\<lambda>(now, p). teleop_encode now p) ` set sent"
proof -
  have wf: "teleop_wf (teleop_zero (0 :: u64)\<lparr>tp_seq := 1\<rparr>)" "teleop_wf (teleop_zero (0 :: u64))"
    by (simp_all add: teleop_wf_def teleop_zero_def)
  have len: "length (teleop_bytes (teleop_encode 4 (teleop_zero 0\<lparr>tp_seq := 1\<rparr>))) = 224"
    using wf(1) by (simp add: teleop_size_def)
  show ?thesis
    unfolding Let_def
    by (rule channel_delivers_only_sent)
      (use wf len in \<open>auto simp: udp_start_def udp_start_internal_def udp_receiver_new_def teleop_size_def\<close>)
qed

end
