(* ===== verification/Event_App.thy ===== *)
theory Event_App
  imports Teleop_Prelude
begin

text \<open>
  The shape the applications share: a program that reacts to events, one at a time, with a new
  state and outputs, until it has exited or an operation fails. The interface
  \<open>app_invariant\<close> is what an application has to show of its reaction to single events; runs are
  dealt with here once.
\<close>

fun app_run ::
    "('e \<Rightarrow> 's \<Rightarrow> ('s \<times> 'o list) result) \<Rightarrow> ('s \<Rightarrow> bool) \<Rightarrow> 'e list \<Rightarrow> 's \<Rightarrow> ('s \<times> 'o list) result" where
  "app_run react exited [] s = Inr (s, [])"
| "app_run react exited (e # es) s =
     (if exited s then Inr (s, [])
      else
        res_bind (react e s) (\<lambda>(s, out).
        res_bind (app_run react exited es s) (\<lambda>(s, out'). Inr (s, out @ out'))))"

lemma app_run_exited [simp]: "exited s \<Longrightarrow> app_run react exited es s = Inr (s, [])"
  by (cases es) simp_all

lemma app_run_append:
  "app_run react exited (es @ es') s =
     res_bind (app_run react exited es s) (\<lambda>(s, out).
     res_bind (app_run react exited es' s) (\<lambda>(s, out'). Inr (s, out @ out')))"
proof (induction es arbitrary: s)
  case Nil
  show ?case by (cases "app_run react exited es' s") (simp_all split: prod.splits)
next
  case (Cons e es)
  show ?case
  proof (cases "exited s")
    case False
    then show ?thesis
      by (cases "react e s"; auto simp: Cons.IH res_bind_def split: sum.splits)
  qed simp
qed

text \<open>What none of the events of a run changes is the same at its end.\<close>

lemma app_run_keeps:
  assumes "app_run react exited es s = Inr (s', out)"
    and "\<And>e s s' out. e \<in> set es \<Longrightarrow> react e s = Inr (s', out) \<Longrightarrow> f s' = f s"
  shows "f s' = f s"
  using assms
proof (induction es arbitrary: s out)
  case (Cons e es)
  show ?case
  proof (cases "exited s")
    case False
    with Cons.prems(1) obtain s1 o1 o2 where
      r: "react e s = Inr (s1, o1)" "app_run react exited es s1 = Inr (s', o2)"
      by (auto simp: res_bind_eq_Inr)
    have "f s' = f s1" 
      by (rule Cons.IH [OF r(2)]) (erule (1) Cons.prems(2) [OF list.set_intros(2)])
    moreover have "f s1 = f s" by (rule Cons.prems(2) [OF list.set_intros(1) r(1)])
    ultimately show ?thesis by simp
  qed (use Cons.prems in simp)
qed simp

text \<open>A condition that a run establishes is established by one of its events.\<close>

lemma app_run_switch:
  assumes "app_run react exited es s = Inr (s', out)" and "\<not> P s" and "P s'"
  shows "\<exists>as e bs s1 out1 s2 out2. es = as @ e # bs \<and> app_run react exited as s = Inr (s1, out1)
    \<and> \<not> P s1 \<and> react e s1 = Inr (s2, out2) \<and> P s2"
  using assms
proof (induction es arbitrary: s out)
  case (Cons e es)
  then have ex: "\<not> exited s" by auto
  with Cons.prems(1) obtain s1 o1 o2 where
    r: "react e s = Inr (s1, o1)" "app_run react exited es s1 = Inr (s', o2)"
    by (auto simp: res_bind_eq_Inr)
  show ?case
  proof (cases "P s1")
    case True
    with r(1) Cons.prems(2)
    have "e # es = [] @ e # es \<and> app_run react exited [] s = Inr (s, []) \<and> \<not> P s
        \<and> react e s = Inr (s1, o1) \<and> P s1" by simp
    then show ?thesis by blast
  next
    case False
    then obtain as e' bs s2 out1 s3 out2 where
      "es = as @ e' # bs" "app_run react exited as s1 = Inr (s2, out1)" "\<not> P s2"
      "react e' s2 = Inr (s3, out2)" "P s3"
      using Cons.IH [OF r(2) _ Cons.prems(3)] by blast
    with r(1) ex show ?thesis
      by (intro exI [of _ "e # as"] exI [of _ e'] exI [of _ bs] exI [of _ s2]) auto
  qed
qed auto

locale app_invariant =
  fixes react :: "'e \<Rightarrow> 's \<Rightarrow> ('s \<times> 'o list) result"
    and exited :: "'s \<Rightarrow> bool"
    and inv :: "'s \<Rightarrow> bool"
  assumes react_inv: "react e s = Inr (s', out) \<Longrightarrow> inv s \<Longrightarrow> inv s'"
begin

lemma run_inv: "app_run react exited es s = Inr (s', out) \<Longrightarrow> inv s \<Longrightarrow> inv s'"
  by (induction es arbitrary: s s' out)
    (auto simp: res_bind_eq_Inr split: if_splits dest: react_inv)

text \<open>Every output of a run is the output of one event, taken in a state with the invariant.\<close>

lemma run_output:
  assumes "app_run react exited es s = Inr (s', out)" and "inv s" and "x \<in> set out"
  shows "\<exists>as e bs s1 s2 out1 out2. es = as @ e # bs
    \<and> app_run react exited as s = Inr (s1, out1) \<and> inv s1 \<and> \<not> exited s1
    \<and> react e s1 = Inr (s2, out2) \<and> x \<in> set out2"
  using assms
proof (induction es arbitrary: s s' out)
  case (Cons e es)
  then have ex: "\<not> exited s" by auto
  with Cons.prems(1) obtain s1 o1 o2 where
    r: "react e s = Inr (s1, o1)" "app_run react exited es s1 = Inr (s', o2)" and out: "out = o1 @ o2"
    by (auto simp: res_bind_eq_Inr)
  show ?case
  proof (cases "x \<in> set o1")
    case True
    with r(1) ex Cons.prems(2) show ?thesis
      by (intro exI [of _ "[]"] exI [of _ e] exI [of _ es]) auto
  next
    case False
    then have "x \<in> set o2" using Cons.prems(3) out by simp
    then obtain as e' bs s2 s3 out1 out2 where
      "es = as @ e' # bs" "app_run react exited as s1 = Inr (s2, out1)" "inv s2" "\<not> exited s2"
      "react e' s2 = Inr (s3, out2)" "x \<in> set out2"
      using Cons.IH [OF r(2) react_inv [OF r(1) Cons.prems(2)]] by blast
    with r(1) ex show ?thesis
      by (intro exI [of _ "e # as"] exI [of _ e'] exI [of _ bs]) auto
  qed
qed simp

end

end
