(* ===== verification/Network_Link.thy ===== *)
theory Network_Link
  imports Udp_Channel Event_App
begin

text \<open>
  Two programs joined by a channel of datagrams. They run independently, one event at a time; what
  the first hands to its sockets is put on the wire, and every packet the receive threads of the
  second store must have arrived from there. The wire may lose, repeat, delay and reorder datagrams
  and damage each within four bytes. The interface \<open>command_link\<close> lists what is needed of the two
  programs to conclude that whatever the second has stored, the first has sent; with a channel in
  each direction the conclusion holds both ways.
\<close>

section \<open>The two programs\<close>

text \<open>Every datagram sent so far, with the port, one for each arm, it was sent to.\<close>

type_synonym wire = "(ArmSide \<times> u8 list) list"

text \<open>
  A program that sends and one that receives: reaction and exit of each, the datagrams among the
  outputs of the first, the packets an event hands to the second, and the receive threads' test and
  reading of a datagram.
\<close>

record ('s, 'es, 'os, 'r, 'er, 'or, 'p) Link =
  ln_send :: "'es \<Rightarrow> 's \<Rightarrow> ('s \<times> 'os list) result"
  ln_sender_exited :: "'s \<Rightarrow> bool"
  ln_commands :: "'os list \<Rightarrow> wire"
  ln_receive :: "'er \<Rightarrow> 'r \<Rightarrow> ('r \<times> 'or list) result"
  ln_receiver_exited :: "'r \<Rightarrow> bool"
  ln_packets :: "'er \<Rightarrow> (ArmSide \<times> 'p) list"
  ln_accepts :: "u8 list \<Rightarrow> bool"
  ln_parse :: "u8 list \<Rightarrow> 'p"

text \<open>A packet arrives when a sent datagram, with at most four bytes in a row damaged, reads as it.\<close>

definition arrives :: "('s, 'es, 'os, 'r, 'er, 'or, 'p) Link \<Rightarrow> wire \<Rightarrow> ArmSide \<Rightarrow> 'p \<Rightarrow> bool" where
  "arrives K w side p \<longleftrightarrow> (\<exists>d d0. (side, d0) \<in> set w \<and> within_burst d0 d
     \<and> ln_accepts K d \<and> p = ln_parse K d)"

lemma sent_arrives: "(side, d) \<in> set w \<Longrightarrow> ln_accepts K d \<Longrightarrow> arrives K w side (ln_parse K d)"
  unfolding arrives_def using within_burst_refl by blast

section \<open>The composed system\<close>

inductive link_step ::
    "('s, 'es, 'os, 'r, 'er, 'or, 'p) Link \<Rightarrow> 's \<times> 'r \<times> wire \<Rightarrow> 's \<times> 'r \<times> wire \<Rightarrow> bool"
  for K :: "('s, 'es, 'os, 'r, 'er, 'or, 'p) Link" where
  send_step: "\<not> ln_sender_exited K s \<Longrightarrow> ln_send K e s = Inr (s', out) \<Longrightarrow>
    link_step K (s, r, w) (s', r, w @ ln_commands K out)"
| receive_step: "\<not> ln_receiver_exited K r \<Longrightarrow> ln_receive K e r = Inr (r', out) \<Longrightarrow>
    \<forall>(side, p) \<in> set (ln_packets K e). arrives K w side p \<Longrightarrow> link_step K (s, r, w) (s, r', w)"

inductive_cases link_stepE [consumes 1, case_names send receive]: "link_step K (s, r, w) (s', r', w')"

inductive link_reach ::
    "('s, 'es, 'os, 'r, 'er, 'or, 'p) Link \<Rightarrow> 's \<times> 'r \<times> wire \<Rightarrow> 's \<times> 'r \<times> wire \<Rightarrow> bool"
  for K :: "('s, 'es, 'os, 'r, 'er, 'or, 'p) Link" and c0 :: "'s \<times> 'r \<times> wire" where
  link_start: "link_reach K c0 c0"
| link_more: "link_reach K c0 c \<Longrightarrow> link_step K c c' \<Longrightarrow> link_reach K c0 c'"

lemma link_reach_send:
  "link_reach K c0 (s, r, w) \<Longrightarrow> \<not> ln_sender_exited K s \<Longrightarrow> ln_send K e s = Inr (s', out) \<Longrightarrow>
     link_reach K c0 (s', r, w @ ln_commands K out)"
  by (rule link_more) (auto intro: send_step)

lemma link_reach_receive:
  "link_reach K c0 (s, r, w) \<Longrightarrow> \<not> ln_receiver_exited K r \<Longrightarrow> ln_receive K e r = Inr (r', out) \<Longrightarrow>
     \<forall>(side, p) \<in> set (ln_packets K e). arrives K w side p \<Longrightarrow> link_reach K c0 (s, r', w)"
  by (rule link_more) (auto intro: receive_step)

text \<open>
  \<open>okcmd\<close>: what the sender promises of a datagram; \<open>stored\<close>: the receiver holds the packet. The
  checksum is what rules out damaged datagrams.
\<close>

locale command_link =
  fixes K :: "('s, 'es, 'os, 'r, 'er, 'or, 'p) Link"
    and sinv :: "'s \<Rightarrow> bool" and okcmd :: "ArmSide \<Rightarrow> u8 list \<Rightarrow> bool"
    and rinv :: "'r \<Rightarrow> bool" and stored :: "'r \<Rightarrow> ArmSide \<Rightarrow> 'p \<Rightarrow> bool"
  assumes accepts_burst: "ln_accepts K d0 \<Longrightarrow> within_burst d0 d1 \<Longrightarrow> ln_accepts K d1 \<Longrightarrow> d1 = d0"
    and send_keeps: "\<not> ln_sender_exited K s \<Longrightarrow> ln_send K e s = Inr (s', out) \<Longrightarrow> sinv s \<Longrightarrow> sinv s'"
    and send_ok: "\<not> ln_sender_exited K s \<Longrightarrow> ln_send K e s = Inr (s', out) \<Longrightarrow> sinv s \<Longrightarrow>
      (side, d) \<in> set (ln_commands K out) \<Longrightarrow> ln_accepts K d \<and> okcmd side d"
    and receive_keeps: "ln_receive K f r = Inr (r', frames) \<Longrightarrow> rinv r \<Longrightarrow> rinv r'"
    and receive_stored: "ln_receive K f r = Inr (r', frames) \<Longrightarrow> stored r' side p \<Longrightarrow>
      stored r side p \<or> (side, p) \<in> set (ln_packets K f)"
begin

lemma arrives_sent:
  assumes "arrives K w side p" and "\<forall>(side, d) \<in> set w. ln_accepts K d"
  shows "\<exists>d. (side, d) \<in> set w \<and> p = ln_parse K d"
proof -
  obtain d d0 where d: "(side, d0) \<in> set w" "within_burst d0 d" "ln_accepts K d" "p = ln_parse K d"
    using assms(1) by (auto simp: arrives_def)
  then have "d = d0" using assms(2) accepts_burst by blast
  with d show ?thesis by blast
qed

lemma step_inv:
  assumes "link_step K (s, r, w) (s', r', w')" and "sinv s" and "rinv r"
    and "\<forall>(side, d) \<in> set w. ln_accepts K d \<and> okcmd side d"
    and "\<forall>side p. stored r side p \<longrightarrow> (\<exists>d. (side, d) \<in> set w \<and> p = ln_parse K d)"
  shows "sinv s' \<and> rinv r' \<and> (\<forall>(side, d) \<in> set w'. ln_accepts K d \<and> okcmd side d)
    \<and> (\<forall>side p. stored r' side p \<longrightarrow> (\<exists>d. (side, d) \<in> set w' \<and> p = ln_parse K d))"
  using assms(1)
proof (cases rule: link_stepE)
  case (send e out)
  have "\<exists>d. (side, d) \<in> set w' \<and> p = ln_parse K d" if "stored r' side p" for side p
    using that send assms(5) by fastforce
  moreover have "\<forall>(side, d) \<in> set w'. ln_accepts K d \<and> okcmd side d"
    using send assms(4) send_ok [OF send(1,2) assms(2)] by auto
  ultimately show ?thesis using send assms(3) send_keeps [OF send(1,2) assms(2)] by simp
next
  case (receive f frames)
  have "\<exists>d. (side, d) \<in> set w \<and> p = ln_parse K d" if "stored r' side p" for side p
    using receive_stored [OF receive(2) that]
  proof
    assume "(side, p) \<in> set (ln_packets K f)"
    with receive(3) have "arrives K w side p" by auto
    then show ?thesis using arrives_sent assms(4) by fastforce
  qed (use assms(5) in blast)
  with receive assms(2-4) receive_keeps [OF receive(2)] show ?thesis by simp
qed

text \<open>Whatever the receiver holds was sent, and everything sent is as promised.\<close>

lemma reach_inv:
  assumes "link_reach K (s0, r0, []) (s, r, w)" and "sinv s0" and "rinv r0" and "\<forall>side p. \<not> stored r0 side p"
  shows "sinv s \<and> rinv r \<and> (\<forall>(side, d) \<in> set w. ln_accepts K d \<and> okcmd side d)
    \<and> (\<forall>side p. stored r side p \<longrightarrow> (\<exists>d. (side, d) \<in> set w \<and> p = ln_parse K d))"
  using assms(1)
proof (induction "(s, r, w)" arbitrary: s r w rule: link_reach.induct)
  case link_start
  then show ?case using assms(2-4) by auto
next
  case (link_more c)
  obtain s1 r1 w1 where c: "c = (s1, r1, w1)" by (cases c)
  from step_inv [OF link_more(3) [unfolded c]] link_more(2) [OF c] show ?case by blast
qed

lemma stored_promised:
  assumes "link_reach K (s0, r0, []) (s, r, w)" and "sinv s0" and "rinv r0" and "\<forall>side p. \<not> stored r0 side p"
    and "stored r side p"
  shows "\<exists>d. (side, d) \<in> set w \<and> p = ln_parse K d \<and> okcmd side d"
  using reach_inv [OF assms(1-4)] assms(5) by fastforce

end

section \<open>Both directions\<close>

text \<open>
  \<open>B\<close> is the channel from the second program back to the first: each takes an event only when
  every packet in it has arrived from the other.
\<close>

inductive duplex_reach ::
    "('s, 'es, 'os, 'r, 'er, 'or, 'p) Link \<Rightarrow> ('r, 'er, 'or, 's, 'es, 'os, 'q) Link \<Rightarrow> 's \<Rightarrow> 'r \<Rightarrow>
     's \<Rightarrow> 'r \<Rightarrow> wire \<Rightarrow> wire \<Rightarrow> bool"
  for K :: "('s, 'es, 'os, 'r, 'er, 'or, 'p) Link" and B :: "('r, 'er, 'or, 's, 'es, 'os, 'q) Link"
    and s0 :: 's and r0 :: 'r where
  duplex_start: "duplex_reach K B s0 r0 s0 r0 [] []"
| duplex_first: "duplex_reach K B s0 r0 s r w v \<Longrightarrow> \<not> ln_sender_exited K s \<Longrightarrow> ln_send K e s = Inr (s', out) \<Longrightarrow>
    \<forall>(side, p) \<in> set (ln_packets B e). arrives B v side p \<Longrightarrow>
    duplex_reach K B s0 r0 s' r (w @ ln_commands K out) v"
| duplex_second: "duplex_reach K B s0 r0 s r w v \<Longrightarrow> \<not> ln_receiver_exited K r \<Longrightarrow> ln_receive K f r = Inr (r', frames) \<Longrightarrow>
    \<forall>(side, p) \<in> set (ln_packets K f). arrives K w side p \<Longrightarrow>
    duplex_reach K B s0 r0 s r' w (v @ ln_commands B frames)"

text \<open>Seen from either channel, the composed system is that channel's.\<close>

lemma duplex_forward: "duplex_reach K B s0 r0 s r w v \<Longrightarrow> link_reach K (s0, r0, []) (s, r, w)"
proof (induction rule: duplex_reach.induct)
  case duplex_start
  show ?case by (rule link_start)
next
  case (duplex_first s r w v e s' out)
  then show ?case by (blast intro: link_reach_send)
next
  case (duplex_second s r w v f r' frames)
  then show ?case by (blast intro: link_reach_receive)
qed

lemma duplex_backward:
  assumes "duplex_reach K B s0 r0 s r w v"
    and "ln_send B = ln_receive K" and "ln_sender_exited B = ln_receiver_exited K"
    and "ln_receive B = ln_send K" and "ln_receiver_exited B = ln_sender_exited K"
  shows "link_reach B (r0, s0, []) (r, s, v)"
  using assms(1)
proof (induction rule: duplex_reach.induct)
  case duplex_start
  show ?case by (rule link_start)
next
  case (duplex_first s r w v e s' out)
  show ?case by (rule link_reach_receive [OF duplex_first(5)]) (use duplex_first assms in simp_all)
next
  case (duplex_second s r w v f r' frames)
  show ?case by (rule link_reach_send [OF duplex_second(5)]) (use duplex_second assms in simp_all)
qed

section \<open>Feedback datagrams\<close>

text \<open>The test of the leader's feedback callback, and what it rules out.\<close>

definition feedback_acceptable :: "u8 list \<Rightarrow> bool" where
  "feedback_acceptable d \<longleftrightarrow> length d = feedback_size \<and> fst (feedback_decode_and_validate (feedback_of_bytes d))"

lemma feedback_acceptable_burst:
  assumes "feedback_acceptable d" and "within_burst d d'" and "feedback_acceptable d'"
  shows "d' = d"
proof -
  obtain pre mid mid' post where w: "d = pre @ mid @ post" "d' = pre @ mid' @ post"
      "length mid' = length mid" "length mid \<le> 4"
    using assms(2) by (auto simp: within_burst_def)
  have "mid' = mid"
    using fpk.burst_detected [of pre mid post mid'] assms(1,3) w
    by (auto simp: feedback_acceptable_def)
  then show ?thesis using w by simp
qed

lemma feedback_acceptable_sent [simp]: "feedback_wf p \<Longrightarrow> feedback_acceptable (feedback_bytes (feedback_encode now p))"
  by (simp add: feedback_acceptable_def feedback_encode_accepted)

section \<open>Histories\<close>

text \<open>The states a program reaches from a start.\<close>

definition reached :: "('e \<Rightarrow> 's \<Rightarrow> ('s \<times> 'o list) result) \<Rightarrow> ('s \<Rightarrow> bool) \<Rightarrow> 's \<Rightarrow> 's \<Rightarrow> bool" where
  "reached react exited s0 s \<longleftrightarrow> (\<exists>es out. app_run react exited es s0 = Inr (s, out))"

lemma reached_start [simp]: "reached react exited s s"
  unfolding reached_def by (rule exI [of _ "[]"]) simp

lemma reached_step:
  assumes "reached react exited s0 s" and "\<not> exited s" and "react e s = Inr (s', out)"
  shows "reached react exited s0 s'"
proof -
  obtain es o1 where "app_run react exited es s0 = Inr (s, o1)" using assms(1) by (auto simp: reached_def)
  then have "app_run react exited (es @ [e]) s0 = Inr (s', o1 @ out)"
    using assms(2,3) by (simp add: app_run_append)
  then show ?thesis unfolding reached_def by blast
qed

end
