(* ===== verification/Cpp_Double.thy ===== *)
theory Cpp_Double
  imports Teleop_Prelude
begin

text \<open>
  The C++ type \<open>double\<close>. A finite value is a real number; the two infinities and NaN are
  values of their own, because the sources test for them (\<open>std::isfinite\<close>, \<open>std::isnan\<close>) and
  because packets received from the network may hold them. Comparisons follow IEEE 754: every
  comparison with NaN is false, so \<open>std::min\<close>, \<open>std::max\<close> and the clamps built from
  them are not symmetric in their arguments.

  Two abstractions: arithmetic on finite values is exact (rounding and overflow to infinity are
  not modelled), and there is one zero. Where a double becomes bytes it is rounded to its
  64-bit (or 32-bit) pattern, see the last section.
\<close>

named_theorems dbl_simps "evaluation of double operations on constructor arguments"

datatype dbl = Fin real | PInf | NInf | NaN

section \<open>Arithmetic and comparison\<close>

instantiation dbl :: "{zero, one, uminus, plus, minus, times, inverse, ord}"
begin

definition zero_dbl :: dbl where "zero_dbl = Fin 0"

definition one_dbl :: dbl where "one_dbl = Fin 1"

fun uminus_dbl :: "dbl \<Rightarrow> dbl" where
  "uminus_dbl (Fin a) = Fin (- a)"
| "uminus_dbl PInf = NInf"
| "uminus_dbl NInf = PInf"
| "uminus_dbl NaN = NaN"

fun plus_dbl :: "dbl \<Rightarrow> dbl \<Rightarrow> dbl" where
  "plus_dbl (Fin a) (Fin b) = Fin (a + b)"
| "plus_dbl NaN b = NaN"
| "plus_dbl a NaN = NaN"
| "plus_dbl PInf NInf = NaN"
| "plus_dbl NInf PInf = NaN"
| "plus_dbl (Fin a) b = b"
| "plus_dbl a b = a"

definition minus_dbl :: "dbl \<Rightarrow> dbl \<Rightarrow> dbl" where
  "minus_dbl a b = a + (- b)"

fun times_dbl :: "dbl \<Rightarrow> dbl \<Rightarrow> dbl" where
  "times_dbl (Fin a) (Fin b) = Fin (a * b)"
| "times_dbl NaN b = NaN"
| "times_dbl a NaN = NaN"
| "times_dbl (Fin a) PInf = (if 0 < a then PInf else if a < 0 then NInf else NaN)"
| "times_dbl (Fin a) NInf = (if 0 < a then NInf else if a < 0 then PInf else NaN)"
| "times_dbl PInf (Fin a) = (if 0 < a then PInf else if a < 0 then NInf else NaN)"
| "times_dbl NInf (Fin a) = (if 0 < a then NInf else if a < 0 then PInf else NaN)"
| "times_dbl PInf PInf = PInf"
| "times_dbl NInf NInf = PInf"
| "times_dbl PInf NInf = NInf"
| "times_dbl NInf PInf = NInf"

fun divide_dbl :: "dbl \<Rightarrow> dbl \<Rightarrow> dbl" where
  "divide_dbl (Fin a) (Fin b) =
     (if b = 0 then (if 0 < a then PInf else if a < 0 then NInf else NaN) else Fin (a / b))"
| "divide_dbl NaN b = NaN"
| "divide_dbl a NaN = NaN"
| "divide_dbl (Fin a) b = Fin 0"
| "divide_dbl PInf (Fin b) = (if b < 0 then NInf else PInf)"
| "divide_dbl NInf (Fin b) = (if b < 0 then PInf else NInf)"
| "divide_dbl a b = NaN"

definition inverse_dbl :: "dbl \<Rightarrow> dbl" where
  "inverse_dbl a = Fin 1 div a"

fun less_dbl :: "dbl \<Rightarrow> dbl \<Rightarrow> bool" where
  "less_dbl (Fin a) (Fin b) = (a < b)"
| "less_dbl NaN b = False"
| "less_dbl a NaN = False"
| "less_dbl NInf b = (b \<noteq> NInf)"
| "less_dbl a PInf = (a \<noteq> PInf)"
| "less_dbl a b = False"

definition less_eq_dbl :: "dbl \<Rightarrow> dbl \<Rightarrow> bool" where
  "less_eq_dbl a b = (a < b \<or> (a = b \<and> a \<noteq> NaN))"

instance ..

end

lemmas dbl_arith [simp, dbl_simps] =
  uminus_dbl.simps plus_dbl.simps times_dbl.simps divide_dbl.simps less_dbl.simps

lemma dbl_zero_one [simp, dbl_simps]: "(0 :: dbl) = Fin 0" "(1 :: dbl) = Fin 1"
  by (simp_all add: zero_dbl_def one_dbl_def)

lemma minus_Fin [simp, dbl_simps]: "Fin a - Fin b = Fin (a - b)"
  by (simp add: minus_dbl_def)

lemma minus_NaN [simp]: "NaN - a = NaN" "a - NaN = NaN"
  by (simp_all add: minus_dbl_def) (cases a; simp)

lemma minus_inf_Fin [simp]:
  "PInf - Fin b = PInf" "NInf - Fin b = NInf" "Fin b - PInf = NInf" "Fin b - NInf = PInf"
  by (simp_all add: minus_dbl_def)

lemma le_Fin [simp, dbl_simps]: "Fin a \<le> Fin b \<longleftrightarrow> a \<le> b"
  by (auto simp: less_eq_dbl_def)

lemma le_NaN [simp]: "\<not> NaN \<le> a" "\<not> a \<le> NaN"
  by (simp_all add: less_eq_dbl_def) (cases a; simp)

lemma less_NaN [simp]: "\<not> a < NaN" "\<not> NaN < (a :: dbl)"
  by (cases a; simp) (cases a; simp)

lemma less_PInf [simp]: "Fin a < PInf" "NInf < PInf" "NInf < Fin a" "\<not> PInf < d"
  "\<not> d < NInf"
  by (cases d; simp)+

lemma le_inf [simp]: "Fin a \<le> PInf" "NInf \<le> Fin a" "\<not> PInf \<le> Fin a" "\<not> Fin a \<le> NInf"
  "NInf \<le> PInf" "\<not> PInf \<le> NInf" "PInf \<le> PInf" "NInf \<le> NInf"
  by (simp_all add: less_eq_dbl_def)

lemma plus_NaN [simp]: "NaN + a = NaN" "a + NaN = (NaN :: dbl)"
  by (cases a; simp) (cases a; simp)

lemma times_NaN [simp]: "NaN * a = NaN" "a * NaN = (NaN :: dbl)"
  by (cases a; simp) (cases a; simp)

lemma dbl_less_irrefl [simp]: "\<not> a < (a :: dbl)"
  by (cases a) auto

lemma dbl_less_trans: "a < b \<Longrightarrow> b < c \<Longrightarrow> a < (c :: dbl)"
  by (cases a; cases b; cases c) auto

lemma dbl_le_trans: "a \<le> b \<Longrightarrow> b \<le> c \<Longrightarrow> a \<le> (c :: dbl)"
  by (cases a; cases b; cases c) auto

lemma dbl_less_imp_le: "a < b \<Longrightarrow> a \<le> (b :: dbl)"
  by (simp add: less_eq_dbl_def)

lemma dbl_not_less: "a \<noteq> NaN \<Longrightarrow> b \<noteq> NaN \<Longrightarrow> \<not> a < b \<longleftrightarrow> b \<le> (a :: dbl)"
  by (cases a; cases b) auto

lemma dbl_le_refl: "a \<le> a \<longleftrightarrow> a \<noteq> (NaN :: dbl)"
  by (cases a) auto

section \<open>Library functions on doubles\<close>

fun isfinite :: "dbl \<Rightarrow> bool" where
  "isfinite (Fin a) = True"
| "isfinite _ = False"

definition isnan :: "dbl \<Rightarrow> bool" where
  "isnan d = (d = NaN)"

text \<open>The C++ operator \<open>==\<close>: NaN is not equal to itself.\<close>

definition dbl_eq :: "dbl \<Rightarrow> dbl \<Rightarrow> bool" where
  "dbl_eq a b = (a = b \<and> a \<noteq> NaN)"

fun fabs :: "dbl \<Rightarrow> dbl" where
  "fabs (Fin a) = Fin \<bar>a\<bar>"
| "fabs PInf = PInf"
| "fabs NInf = PInf"
| "fabs NaN = NaN"

definition std_min :: "dbl \<Rightarrow> dbl \<Rightarrow> dbl" where
  "std_min a b = (if b < a then b else a)"

definition std_max :: "dbl \<Rightarrow> dbl \<Rightarrow> dbl" where
  "std_max a b = (if a < b then b else a)"

fun d_tanh :: "dbl \<Rightarrow> dbl" where
  "d_tanh (Fin a) = Fin (tanh a)"
| "d_tanh PInf = Fin 1"
| "d_tanh NInf = Fin (- 1)"
| "d_tanh NaN = NaN"

fun d_sqrt :: "dbl \<Rightarrow> dbl" where
  "d_sqrt (Fin a) = (if a < 0 then NaN else Fin (sqrt a))"
| "d_sqrt PInf = PInf"
| "d_sqrt NInf = NaN"
| "d_sqrt NaN = NaN"

text \<open>Conversions from integers; a value of up to 64 bits is taken as it is.\<close>

definition dbl_of_word :: "'a::len word \<Rightarrow> dbl" where
  "dbl_of_word w = Fin (real (unat w))"

definition dbl_of_int :: "int \<Rightarrow> dbl" where
  "dbl_of_int i = Fin (of_int i)"

definition dbl_of_nat :: "nat \<Rightarrow> dbl" where
  "dbl_of_nat n = Fin (real n)"

text \<open>\<open>static_cast<uint64_t>(d)\<close>: truncation; undefined outside the range of the type.\<close>

fun u64_of_dbl :: "dbl \<Rightarrow> u64 result" where
  "u64_of_dbl (Fin a) =
     (if - 1 < a \<and> a < 2 ^ 64 then Inr (if a < 0 then 0 else word_of_int \<lfloor>a\<rfloor>)
      else Inl Undefined_Behaviour)"
| "u64_of_dbl _ = Inl Undefined_Behaviour"

text \<open>The real a finite double stands for.\<close>

fun fval :: "dbl \<Rightarrow> real" where
  "fval (Fin a) = a"
| "fval _ = 0"

lemma isfinite_iff: "isfinite d \<longleftrightarrow> (\<exists>a. d = Fin a)"
  by (cases d) auto

lemma isfiniteE [elim!]: "isfinite d \<Longrightarrow> (\<And>a. d = Fin a \<Longrightarrow> P) \<Longrightarrow> P"
  by (cases d) auto

lemma Fin_fval [simp]: "isfinite d \<Longrightarrow> Fin (fval d) = d"
  by auto

lemma isfinite_arith [simp]:
  "isfinite a \<Longrightarrow> isfinite b \<Longrightarrow> isfinite (a + b)"
  "isfinite a \<Longrightarrow> isfinite b \<Longrightarrow> isfinite (a - b)"
  "isfinite a \<Longrightarrow> isfinite b \<Longrightarrow> isfinite (a * b)"
  "isfinite a \<Longrightarrow> isfinite (- a)"
  by auto

lemma std_min_Fin [simp, dbl_simps]: "std_min (Fin a) (Fin b) = Fin (min a b)"
  by (auto simp: std_min_def)

lemma std_max_Fin [simp, dbl_simps]: "std_max (Fin a) (Fin b) = Fin (max a b)"
  by (auto simp: std_max_def)

text \<open>
  The clamp idiom \<open>std::max(-l, std::min(l, x))\<close> with a finite bound. It is finite for every
  \<open>x\<close>, NaN included: then \<open>std::min(l, x)\<close> is \<open>l\<close>.
\<close>

definition clamp_sym :: "dbl \<Rightarrow> dbl \<Rightarrow> dbl" where
  "clamp_sym l x = std_max (- l) (std_min l x)"

lemma clamp_sym_Fin [simp]: "clamp_sym (Fin l) (Fin x) = Fin (max (- l) (min l x))"
  by (simp add: clamp_sym_def)

lemma clamp_sym_special [simp]:
  "0 \<le> l \<Longrightarrow> clamp_sym (Fin l) NaN = Fin l"
  "0 \<le> l \<Longrightarrow> clamp_sym (Fin l) PInf = Fin l"
  "0 \<le> l \<Longrightarrow> clamp_sym (Fin l) NInf = Fin (- l)"
  by (auto simp: clamp_sym_def std_min_def std_max_def)

lemma clamp_sym_bounds:
  assumes "0 \<le> l"
  shows "isfinite (clamp_sym (Fin l) x) \<and> \<bar>fval (clamp_sym (Fin l) x)\<bar> \<le> l"
  using assms by (cases x) auto

lemma clamp_sym_id: "\<bar>x\<bar> \<le> l \<Longrightarrow> clamp_sym (Fin l) (Fin x) = Fin x"
  by auto

end
