(* ===== verification/Robot_State.thy ===== *)
theory Robot_State
  imports Cpp_Double
begin

text \<open>
  \<open>src/robot_state.hpp\<close>, \<open>src/joint_state_converter.hpp\<close>, \<open>src/openarm_port/joint_mapper.cpp\<close>
  and \<open>src/controller/diff.hpp\<close>: the joint states an application and its controller share, the
  maps between motors and joints, and the numerical differentiator. The locale
  \<open>motor_joint_converter\<close> is the abstract base class with the laws its two
  implementations keep.
\<close>

section \<open>Joint states\<close>

record JointState =
  js_position :: dbl
  js_velocity :: dbl
  js_effort :: dbl

definition joint_state_zero :: JointState where
  "joint_state_zero = \<lparr> js_position = Fin 0, js_velocity = Fin 0, js_effort = Fin 0 \<rparr>"

record RobotState =
  rs_response :: "JointState list"
  rs_reference :: "JointState list"

definition robot_state_new :: "nat \<Rightarrow> RobotState" where
  "robot_state_new n =
     \<lparr> rs_response = replicate n joint_state_zero, rs_reference = replicate n joint_state_zero \<rparr>"

definition set_reference :: "nat \<Rightarrow> JointState \<Rightarrow> RobotState \<Rightarrow> RobotState" where
  "set_reference index state r =
     (if index < length (rs_reference r)
      then r\<lparr>rs_reference := (rs_reference r)[index := state]\<rparr> else r)"

definition set_all_references :: "JointState list \<Rightarrow> RobotState \<Rightarrow> RobotState" where
  "set_all_references states r = r\<lparr>rs_reference := states\<rparr>"

definition get_reference :: "nat \<Rightarrow> RobotState \<Rightarrow> JointState" where
  "get_reference index r =
     (if index < length (rs_reference r) then rs_reference r ! index else joint_state_zero)"

definition set_response :: "nat \<Rightarrow> JointState \<Rightarrow> RobotState \<Rightarrow> RobotState" where
  "set_response index state r =
     (if index < length (rs_response r)
      then r\<lparr>rs_response := (rs_response r)[index := state]\<rparr> else r)"

definition set_all_responses :: "JointState list \<Rightarrow> RobotState \<Rightarrow> RobotState" where
  "set_all_responses states r = r\<lparr>rs_response := states\<rparr>"

definition get_response :: "nat \<Rightarrow> RobotState \<Rightarrow> JointState" where
  "get_response index r =
     (if index < length (rs_response r) then rs_response r ! index else joint_state_zero)"

text \<open>\<open>vector::resize\<close>: cut off, or padded with default states.\<close>

definition resize_states :: "nat \<Rightarrow> JointState list \<Rightarrow> JointState list" where
  "resize_states n states = take n states @ replicate (n - length states) joint_state_zero"

definition robot_state_resize :: "nat \<Rightarrow> RobotState \<Rightarrow> RobotState" where
  "robot_state_resize n r =
     r\<lparr>rs_reference := resize_states n (rs_reference r),
       rs_response := resize_states n (rs_response r)\<rparr>"

definition get_size :: "RobotState \<Rightarrow> nat" where
  "get_size r = length (rs_response r)"

section \<open>Arm and hand together\<close>

record RobotSystemState =
  ss_arm :: RobotState
  ss_hand :: RobotState

definition system_state_new :: "nat \<Rightarrow> nat \<Rightarrow> RobotSystemState" where
  "system_state_new arm_joints hand_joints =
     \<lparr> ss_arm = robot_state_new arm_joints, ss_hand = robot_state_new hand_joints \<rparr>"

definition sys_get_all_responses :: "RobotSystemState \<Rightarrow> JointState list" where
  "sys_get_all_responses s = rs_response (ss_arm s) @ rs_response (ss_hand s)"

definition sys_get_all_references :: "RobotSystemState \<Rightarrow> JointState list" where
  "sys_get_all_references s = rs_reference (ss_arm s) @ rs_reference (ss_hand s)"

definition sys_set_all_references ::
    "JointState list \<Rightarrow> RobotSystemState \<Rightarrow> RobotSystemState result" where
  "sys_set_all_references all_refs s =
     (let arm_size = get_size (ss_arm s); hand_size = get_size (ss_hand s)
      in if length all_refs \<noteq> arm_size + hand_size
         then Inl (Runtime_Error ''set_all_references: size mismatch.'')
         else Inr (s\<lparr>ss_arm := set_all_references (take arm_size all_refs) (ss_arm s),
                     ss_hand := set_all_references (drop arm_size all_refs) (ss_hand s)\<rparr>))"

definition sys_set_all_responses ::
    "JointState list \<Rightarrow> RobotSystemState \<Rightarrow> RobotSystemState result" where
  "sys_set_all_responses all_responses s =
     (let arm_size = get_size (ss_arm s); hand_size = get_size (ss_hand s)
      in if length all_responses \<noteq> arm_size + hand_size
         then Inl (Runtime_Error ''set_all_responses: size mismatch.'')
         else Inr (s\<lparr>ss_arm := set_all_responses (take arm_size all_responses) (ss_arm s),
                     ss_hand := set_all_responses (drop arm_size all_responses) (ss_hand s)\<rparr>))"

definition get_total_joint_count :: "RobotSystemState \<Rightarrow> nat" where
  "get_total_joint_count s = get_size (ss_arm s) + get_size (ss_hand s)"

section \<open>Motors and joints\<close>

record MotorState =
  ms_position :: dbl
  ms_velocity :: dbl
  ms_effort :: dbl

definition arm_motor_to_joint :: "MotorState list \<Rightarrow> JointState list" where
  "arm_motor_to_joint m =
     map (\<lambda>x. \<lparr> js_position = ms_position x, js_velocity = ms_velocity x,
                js_effort = ms_effort x \<rparr>) m"

definition arm_joint_to_motor :: "JointState list \<Rightarrow> MotorState list" where
  "arm_joint_to_motor j =
     map (\<lambda>x. \<lparr> ms_position = js_position x, ms_velocity = js_velocity x,
                ms_effort = js_effort x \<rparr>) j"

definition gripper_motor_to_joint :: "MotorState list \<Rightarrow> JointState list" where
  "gripper_motor_to_joint m =
     map (\<lambda>x. \<lparr> js_position = Fin (44 / 1000) * (ms_position x div Fin (- 10472 / 10000)),
                js_velocity = ms_velocity x, js_effort = ms_effort x \<rparr>) m"

definition gripper_joint_to_motor :: "JointState list \<Rightarrow> MotorState list" where
  "gripper_joint_to_motor j =
     map (\<lambda>x. \<lparr> ms_position = (js_position x div Fin (44 / 1000)) * Fin (- 10472 / 10000),
                ms_velocity = js_velocity x, ms_effort = js_effort x \<rparr>) j"

text \<open>The base class: what the control code relies on for either implementation.\<close>

locale motor_joint_converter =
  fixes to_joint :: "MotorState list \<Rightarrow> JointState list"
    and to_motor :: "JointState list \<Rightarrow> MotorState list"
  assumes joint_length [simp]: "length (to_joint m) = length m"
    and motor_length [simp]: "length (to_motor j) = length j"
    and motor_joint [simp]: "to_motor (to_joint m) = m"
    and joint_motor [simp]: "to_joint (to_motor j) = j"
    and joint_effort: "i < length m \<Longrightarrow> js_effort (to_joint m ! i) = ms_effort (m ! i)"
    and motor_effort: "i < length j \<Longrightarrow> ms_effort (to_motor j ! i) = js_effort (j ! i)"
    and motor_velocity: "i < length j \<Longrightarrow> ms_velocity (to_motor j ! i) = js_velocity (j ! i)"
begin

lemma to_joint_inject: "to_joint m = to_joint m' \<longleftrightarrow> m = m'"
  by (metis motor_joint)

lemma to_motor_inject: "to_motor j = to_motor j' \<longleftrightarrow> j = j'"
  by (metis joint_motor)

lemma motor_efforts: "map ms_effort (to_motor j) = map js_effort j"
  by (rule nth_equalityI) (simp_all add: motor_effort)

end

lemma state_eta [simp]:
  "\<lparr> ms_position = ms_position x, ms_velocity = ms_velocity x, ms_effort = ms_effort x \<rparr> = x"
  "\<lparr> js_position = js_position y, js_velocity = js_velocity y, js_effort = js_effort y \<rparr> = y"
  by simp_all

lemma gripper_round_trip [simp]:
  "(Fin (11 / 250) * (x div Fin (- (1309 / 1250))) div Fin (11 / 250)) * Fin (- (1309 / 1250)) = x"
  "Fin (11 / 250) * ((x div Fin (11 / 250)) * Fin (- (1309 / 1250)) div Fin (- (1309 / 1250))) = x"
  by (cases x; simp)+

interpretation arm_conv: motor_joint_converter arm_motor_to_joint arm_joint_to_motor
  by unfold_locales (simp_all add: arm_motor_to_joint_def arm_joint_to_motor_def comp_def)

interpretation gripper_conv: motor_joint_converter gripper_motor_to_joint gripper_joint_to_motor
  by unfold_locales (simp_all add: gripper_motor_to_joint_def gripper_joint_to_motor_def comp_def)

section \<open>The joint mapper\<close>

text \<open>
  The C functions copy eight entries between arrays; \<open>dst\<close> is what the destination held.
\<close>

definition map8 :: "dbl list \<Rightarrow> dbl list \<Rightarrow> dbl list result" where
  "map8 src dst =
     (if length src < 8 \<or> length dst < 8 then Inl Undefined_Behaviour
      else Inr (take 8 src @ drop 8 dst))"

definition motor_to_joint_position :: "dbl list \<Rightarrow> dbl list \<Rightarrow> dbl list result" where
  "motor_to_joint_position motor_position joint_position = map8 motor_position joint_position"

definition motor_to_joint_velocity :: "dbl list \<Rightarrow> dbl list \<Rightarrow> dbl list result" where
  "motor_to_joint_velocity motor_velocity joint_velocity = map8 motor_velocity joint_velocity"

definition joint_to_motor_torque :: "dbl list \<Rightarrow> dbl list \<Rightarrow> dbl list result" where
  "joint_to_motor_torque joint_torque motor_torque = map8 joint_torque motor_torque"

section \<open>The differentiator\<close>

record Differentiator =
  df_Ts :: dbl
  df_velocity_z1 :: "dbl list"
  df_position_z1 :: "dbl list"
  df_acc_z1 :: "dbl list"
  df_acc :: "dbl list"

definition differentiator_new :: "dbl \<Rightarrow> Differentiator" where
  "differentiator_new Ts =
     \<lparr> df_Ts = Ts, df_velocity_z1 = replicate 8 (Fin 0), df_position_z1 = replicate 8 (Fin 0),
       df_acc_z1 = replicate 8 (Fin 0), df_acc = replicate 8 (Fin 0) \<rparr>"

text \<open>\<open>Differentiate\<close> on one joint: the velocity from the two remembered values.\<close>

definition differentiate1 :: "dbl \<Rightarrow> dbl \<Rightarrow> dbl \<Rightarrow> dbl \<Rightarrow> dbl" where
  "differentiate1 Ts vz pz position =
     (let a = Fin 1 div (Fin 1 + Ts * Fin 90); b = a * Fin 90;
          pz = (if dbl_eq pz (Fin 0) then position else pz)
      in vz * a + b * (position - pz))"

definition differentiate :: "dbl list \<Rightarrow> Differentiator \<Rightarrow> (Differentiator \<times> dbl list) result" where
  "differentiate position d =
     (if length position < 8 then Inl Undefined_Behaviour
      else
        let v = map (\<lambda>i. differentiate1 (df_Ts d) (df_velocity_z1 d ! i) (df_position_z1 d ! i)
                           (position ! i)) [0..<8]
        in Inr (d\<lparr>df_velocity_z1 := v, df_position_z1 := take 8 position\<rparr>, v))"

text \<open>
  \<open>Differentiate_w_obs\<close>, the variant with the torque put in: on one joint the new filtered
  acceleration and the velocity.
\<close>

definition differentiate_w_obs1 ::
    "dbl \<Rightarrow> dbl \<Rightarrow> dbl \<Rightarrow> dbl \<Rightarrow> dbl \<Rightarrow> dbl \<Rightarrow> dbl \<Rightarrow> dbl \<Rightarrow> dbl \<times> dbl" where
  "differentiate_w_obs1 Ts vz pz az acc position mass input_torque =
     (let a = Fin 1 div (Fin 1 + Ts * Fin 90); b = a * Fin 90;
          fresh = dbl_eq pz (Fin 0);
          pz = (if fresh then position else pz); az = (if fresh then acc else az);
          acc = az * a + b * (input_torque div mass)
      in (acc, vz * a + b * (position - pz) + acc))"

definition differentiate_w_obs ::
    "dbl list \<Rightarrow> dbl list \<Rightarrow> dbl list \<Rightarrow> Differentiator \<Rightarrow> (Differentiator \<times> dbl list) result" where
  "differentiate_w_obs position mass input_torque d =
     (if length position < 8 \<or> length mass < 8 \<or> length input_torque < 8 then Inl Undefined_Behaviour
      else
        let r = map (\<lambda>i. differentiate_w_obs1 (df_Ts d) (df_velocity_z1 d ! i) (df_position_z1 d ! i)
                           (df_acc_z1 d ! i) (df_acc d ! i) (position ! i) (mass ! i) (input_torque ! i)) [0..<8];
            acc = map fst r; v = map snd r
        in Inr (d\<lparr>df_velocity_z1 := v, df_position_z1 := take 8 position, df_acc_z1 := acc, df_acc := acc\<rparr>, v))"

text \<open>Without torque and with the acceleration at rest it is the plain differentiator.\<close>

lemma differentiate_w_obs_at_rest:
  assumes "Ts = Fin t" and "1 + t * 90 \<noteq> 0" and "m \<noteq> 0"
  shows "differentiate_w_obs1 Ts vz pz (Fin 0) (Fin 0) x (Fin m) (Fin 0) = (Fin 0, differentiate1 Ts vz pz x)"
proof -
  have "y + Fin 0 = y" for y :: dbl by (cases y) simp_all
  with assms show ?thesis
    by (simp add: differentiate_w_obs1_def differentiate1_def Let_def)
qed

end
