(* ===== verification/Controller.thy ===== *)
theory Controller
  imports Robot_State
begin

text \<open>
  \<open>src/controller/control.cpp\<close>: one control cycle of an arm. The CAN library is the
  environment: a cycle is given the motor readings it would get and returns the commands it
  would send, in order. The rigid body dynamics (KDL behind \<open>src/controller/dynamics.cpp\<close>)
  are a record of functions that a controller points to, or does not (a null pointer).

  A cycle ends in an error value where the source throws (\<open>at\<close>) or where it would read
  outside a vector or through a null pointer; nothing is sent in that case, because a cycle
  sends at its end.
\<close>

section \<open>Interfaces of the hardware and of the dynamics\<close>

record MITParam =
  mp_kp :: dbl
  mp_kd :: dbl
  mp_q :: dbl
  mp_dq :: dbl
  mp_tau :: dbl

datatype MotorType = DM8009 | DM4340 | DM4310

record MotorConfig =
  mc_arm_motor_types :: "MotorType list"
  mc_arm_send_can_ids :: "u32 list"
  mc_arm_recv_can_ids :: "u32 list"
  mc_gripper_motor_type :: MotorType
  mc_gripper_send_can_id :: u32
  mc_gripper_recv_can_id :: u32

definition DEFAULT_MOTOR_CONFIG :: MotorConfig where
  "DEFAULT_MOTOR_CONFIG =
     \<lparr> mc_arm_motor_types = [DM8009, DM8009, DM4340, DM4340, DM4310, DM4310, DM4310],
       mc_arm_send_can_ids = [0x01, 0x02, 0x03, 0x04, 0x05, 0x06, 0x07],
       mc_arm_recv_can_ids = [0x11, 0x12, 0x13, 0x14, 0x15, 0x16, 0x17],
       mc_gripper_motor_type = DM4310, mc_gripper_send_can_id = 0x08,
       mc_gripper_recv_can_id = 0x18 \<rparr>"

text \<open>The calls on an \<open>OpenArm\<close> object that reach the bus, and the pauses between them.\<close>

datatype can_command =
    Init_Arm_Motors "MotorType list" "u32 list" "u32 list"
  | Init_Gripper_Motor MotorType u32 u32
  | Set_Callback_Mode_State
  | Arm_Mit "MITParam list"
  | Gripper_Mit "MITParam list"
  | Recv_All "nat option"
  | Enable_All
  | Disable_All
  | Sleep_Us nat

definition Shutdown :: "can_command list" where
  "Shutdown = [Disable_All]"

record Readings =
  rd_arm :: "MotorState list"
  rd_gripper :: "MotorState list"

record Dynamics =
  dy_joints :: nat
  dy_gravity :: "dbl list \<Rightarrow> dbl list"
  dy_coriolis :: "dbl list \<Rightarrow> dbl list \<Rightarrow> dbl list"

text \<open>
  \<open>GetGravity(q, out)\<close> reads \<open>dy_joints\<close> positions and overwrites as many entries of
  \<open>out\<close>. The pointer to the dynamics is dereferenced unchecked.
\<close>

definition get_gravity :: "Dynamics option \<Rightarrow> dbl list \<Rightarrow> dbl list \<Rightarrow> dbl list result" where
  "get_gravity d q out =
     (case d of
        None \<Rightarrow> Inl Undefined_Behaviour
      | Some dy \<Rightarrow>
          (let n = dy_joints dy
           in if length q < n \<or> length out < n then Inl Undefined_Behaviour
              else Inr (map (\<lambda>i. dy_gravity dy (take n q) ! i) [0..<n] @ drop n out)))"

definition get_coriolis ::
    "Dynamics option \<Rightarrow> dbl list \<Rightarrow> dbl list \<Rightarrow> dbl list \<Rightarrow> dbl list result" where
  "get_coriolis d q dq out =
     (case d of
        None \<Rightarrow> Inl Undefined_Behaviour
      | Some dy \<Rightarrow>
          (let n = dy_joints dy
           in if length q < n \<or> length dq < n \<or> length out < n then Inl Undefined_Behaviour
              else Inr (map (\<lambda>i. dy_coriolis dy (take n q) (take n dq) ! i) [0..<n] @ drop n out)))"

section \<open>The controller\<close>

definition ROLE_LEADER :: nat where "ROLE_LEADER = 1"

definition ROLE_FOLLOWER :: nat where "ROLE_FOLLOWER = 2"

definition NMOTORS :: nat where "NMOTORS = 8"

definition PI :: real where "PI = 3.14159265358979323846"

definition INITIAL_POSITION :: "dbl list" where
  "INITIAL_POSITION = [Fin 0, Fin 0, Fin 0, Fin (PI / 5), Fin 0, Fin 0, Fin 0, Fin 0]"

definition effort_limit_L :: "dbl list" where
  "effort_limit_L = replicate 8 (Fin 20)"

definition effort_limit_F :: "dbl list" where
  "effort_limit_F = replicate 8 (Fin 20)"

record LeaderBilateralCommand =
  lb_arm_pos_ref :: "dbl list"
  lb_hand_pos_ref :: "dbl list"
  lb_arm_tau_f :: "dbl list"
  lb_hand_tau_f :: "dbl list"
  lb_scale :: dbl

record Control =
  ct_role :: nat
  ct_arm_type :: string
  ct_dynamics_l :: "Dynamics option"
  ct_dynamics_f :: "Dynamics option"
  ct_Kp :: "dbl list"
  ct_Kd :: "dbl list"
  ct_Fc :: "dbl list"
  ct_k :: "dbl list"
  ct_Fv :: "dbl list"
  ct_Fo :: "dbl list"
  ct_gscale :: "dbl list"
  ct_goffset :: "dbl list"
  ct_effort_limit :: "dbl list"
  ct_bkp :: "dbl list"
  ct_bkd :: "dbl list"
  ct_bkf :: "dbl list"
  ct_follower_gravity_ff :: bool
  ct_follower_gravity_ff_scale :: dbl
  ct_leader_first_cycle_logged :: bool
  ct_velocity_buffer :: "dbl list list"

definition SetParameter ::
    "dbl list \<Rightarrow> dbl list \<Rightarrow> dbl list \<Rightarrow> dbl list \<Rightarrow> dbl list \<Rightarrow> dbl list \<Rightarrow> Control \<Rightarrow> Control" where
  "SetParameter Kp Kd Fc k Fv Fo ct =
     ct\<lparr>ct_Kp := Kp, ct_Kd := Kd, ct_Fc := Fc, ct_k := k, ct_Fv := Fv, ct_Fo := Fo\<rparr>"

definition SetGravityTrim :: "dbl list \<Rightarrow> dbl list \<Rightarrow> Control \<Rightarrow> Control" where
  "SetGravityTrim scale offset ct = ct\<lparr>ct_gscale := scale, ct_goffset := offset\<rparr>"

definition effort_limits_from :: "dbl list \<Rightarrow> dbl list" where
  "effort_limits_from limits =
     (let base = effort_limit_L[NMOTORS - 1 := Fin 2]
      in map (\<lambda>i. if i < length limits \<and> isfinite (limits ! i) \<and> limits ! i > Fin 0
                  then limits ! i else base ! i) [0..<NMOTORS])"

definition SetEffortLimits :: "dbl list \<Rightarrow> Control \<Rightarrow> Control" where
  "SetEffortLimits limits ct = ct\<lparr>ct_effort_limit := effort_limits_from limits\<rparr>"

definition SetBilateralGains :: "dbl list \<Rightarrow> dbl list \<Rightarrow> dbl list \<Rightarrow> Control \<Rightarrow> Control" where
  "SetBilateralGains Kp Kd Kf ct = ct\<lparr>ct_bkp := Kp, ct_bkd := Kd, ct_bkf := Kf\<rparr>"

definition SetFollowerGravityFeedforward :: "bool \<Rightarrow> dbl \<Rightarrow> Control \<Rightarrow> Control" where
  "SetFollowerGravityFeedforward enabled scale ct =
     ct\<lparr>ct_follower_gravity_ff := enabled, ct_follower_gravity_ff_scale := scale\<rparr>"

definition control_new ::
    "Dynamics option \<Rightarrow> Dynamics option \<Rightarrow> nat \<Rightarrow> string \<Rightarrow> Control" where
  "control_new dynamics_l dynamics_f role arm_type =
     SetEffortLimits []
       \<lparr> ct_role = role, ct_arm_type = arm_type, ct_dynamics_l = dynamics_l,
         ct_dynamics_f = dynamics_f, ct_Kp = [], ct_Kd = [], ct_Fc = [], ct_k = [], ct_Fv = [],
         ct_Fo = [], ct_gscale = [], ct_goffset = [], ct_effort_limit = [], ct_bkp = [],
         ct_bkd = [], ct_bkf = [], ct_follower_gravity_ff = False,
         ct_follower_gravity_ff_scale = Fin 1, ct_leader_first_cycle_logged = False,
         ct_velocity_buffer = replicate 8 [] \<rparr>"

definition control_shutdown :: "can_command list" where
  "control_shutdown = [Disable_All]"

definition ClampLeaderEffort :: "Control \<Rightarrow> nat \<Rightarrow> dbl \<Rightarrow> dbl" where
  "ClampLeaderEffort ct index tau =
     (if \<not> isfinite tau then Fin 0
      else let lim = (if index < length (ct_effort_limit ct) then ct_effort_limit ct ! index
                      else Fin 0)
           in std_max (- lim) (std_min lim tau))"

text \<open>\<open>TANHFRIC\<close> is true. Out of range of a parameter vector \<open>at\<close> throws.\<close>

definition ComputeFriction :: "Control \<Rightarrow> dbl list \<Rightarrow> nat \<Rightarrow> dbl result" where
  "ComputeFriction ct velocity index =
     res_bind (vec_idx velocity index) (\<lambda>v.
     res_bind (vec_at (ct_Fc ct) index) (\<lambda>Fc.
     res_bind (vec_at (ct_k ct) index) (\<lambda>k.
     res_bind (vec_at (ct_Fv ct) index) (\<lambda>Fv.
     res_bind (vec_at (ct_Fo ct) index) (\<lambda>Fo.
       Inr (Fin 1 * Fc * d_tanh (Fin (1 / 10) * k * v) + Fv * v + Fo))))))"

definition ComputeAllFriction :: "Control \<Rightarrow> dbl list \<Rightarrow> dbl list \<Rightarrow> dbl list result" where
  "ComputeAllFriction ct arm_velocity gripper_velocity =
     (let velocity = arm_velocity @ gripper_velocity
      in res_map (ComputeFriction ct velocity) [0..<length velocity])"

text \<open>The first part of every cycle: the measured joint states become the responses.\<close>

definition store_responses :: "Readings \<Rightarrow> RobotSystemState \<Rightarrow> RobotSystemState" where
  "store_responses rd rs =
     rs\<lparr>ss_arm := set_all_responses (arm_motor_to_joint (rd_arm rd)) (ss_arm rs),
        ss_hand := set_all_responses (gripper_motor_to_joint (rd_gripper rd)) (ss_hand rs)\<rparr>"

section \<open>The leader's cycle\<close>

text \<open>The bilateral term is active: a command, a positive scale, gains and references for all joints.\<close>

definition bilateral_active :: "Control \<Rightarrow> nat \<Rightarrow> nat \<Rightarrow> LeaderBilateralCommand option \<Rightarrow> bool" where
  "bilateral_active ct arm_dof gripper_dof cmd =
     (case cmd of
        None \<Rightarrow> False
      | Some c \<Rightarrow> lb_scale c > Fin 0 \<and> length (ct_bkp ct) \<ge> arm_dof + gripper_dof
          \<and> length (ct_bkd ct) \<ge> arm_dof + gripper_dof
          \<and> length (lb_arm_pos_ref c) \<ge> arm_dof \<and> length (lb_hand_pos_ref c) \<ge> gripper_dof)"

definition kf_active :: "Control \<Rightarrow> nat \<Rightarrow> nat \<Rightarrow> LeaderBilateralCommand option \<Rightarrow> bool" where
  "kf_active ct arm_dof gripper_dof cmd =
     (bilateral_active ct arm_dof gripper_dof cmd \<and> length (ct_bkf ct) \<ge> arm_dof + gripper_dof
      \<and> length (lb_arm_tau_f (the cmd)) \<ge> arm_dof)"

text \<open>The force rendered on arm joint \<open>i\<close>, before the clamp.\<close>

definition leader_arm_tau_b ::
    "Control \<Rightarrow> LeaderBilateralCommand \<Rightarrow> bool \<Rightarrow> dbl list \<Rightarrow> JointState list \<Rightarrow> nat \<Rightarrow> dbl" where
  "leader_arm_tau_b ct c use_kf gravity_ref arm i =
     (let scale = std_max (Fin 0) (std_min (Fin 1) (lb_scale c));
          tau = ct_bkp ct ! i * (lb_arm_pos_ref c ! i - js_position (arm ! i))
                - ct_bkd ct ! i * js_velocity (arm ! i);
          tau = (if use_kf then tau - ct_bkf ct ! i * (lb_arm_tau_f c ! i - gravity_ref ! i) else tau)
      in tau * scale)"

text \<open>On gripper joint \<open>i\<close>, in motor space.\<close>

definition leader_gripper_tau_b ::
    "Control \<Rightarrow> LeaderBilateralCommand \<Rightarrow> bool \<Rightarrow> nat \<Rightarrow> MotorState list \<Rightarrow> nat \<Rightarrow> dbl" where
  "leader_gripper_tau_b ct c use_kf arm_dof motors i =
     (let scale = std_max (Fin 0) (std_min (Fin 1) (lb_scale c));
          ref_joint = joint_state_zero\<lparr>js_position := lb_hand_pos_ref c ! i\<rparr>;
          motor_ref = ms_position (gripper_joint_to_motor [ref_joint] ! 0);
          tau = ct_bkp ct ! (arm_dof + i) * (motor_ref - ms_position (motors ! i))
                - ct_bkd ct ! (arm_dof + i) * ms_velocity (motors ! i);
          tau = (if use_kf \<and> i < length (lb_hand_tau_f c)
                 then tau - ct_bkf ct ! (arm_dof + i) * lb_hand_tau_f c ! i else tau)
      in tau * scale)"

definition leader_arm_effort ::
    "Control \<Rightarrow> dbl list \<Rightarrow> dbl list \<Rightarrow> dbl list \<Rightarrow> nat \<Rightarrow> dbl \<Rightarrow> dbl" where
  "leader_arm_effort ct gravity coriolis friction i tau_b =
     (let gs = (if i < length (ct_gscale ct) then ct_gscale ct ! i else Fin 1);
          go = (if i < length (ct_goffset ct) then ct_goffset ct ! i else Fin 0);
          grav_cmd = gravity ! i * gs + go
      in ClampLeaderEffort ct i
           (grav_cmd + friction ! i * Fin (3 / 10) + coriolis ! i * Fin (1 / 10) + tau_b))"

definition torque_only :: "dbl \<Rightarrow> MITParam" where
  "torque_only tau = \<lparr> mp_kp = Fin 0, mp_kd = Fin 0, mp_q = Fin 0, mp_dq = Fin 0, mp_tau = tau \<rparr>"

type_synonym cycle = "(Control \<times> RobotSystemState \<times> can_command list) result"

definition leader_step ::
    "LeaderBilateralCommand option \<Rightarrow> Readings \<Rightarrow> Control \<Rightarrow> RobotSystemState \<Rightarrow> cycle" where
  "leader_step cmd rd ct rs =
     (let rs = store_responses rd rs;
          arm = arm_motor_to_joint (rd_arm rd); gripper = gripper_motor_to_joint (rd_gripper rd);
          arm_dof = get_size (ss_arm rs); gripper_dof = get_size (ss_hand rs);
          q = map js_position arm; dq = map js_velocity arm; zeros = replicate arm_dof (Fin 0);
          bilateral = bilateral_active ct arm_dof gripper_dof cmd;
          use_kf = kf_active ct arm_dof gripper_dof cmd
      in res_bind (if use_kf then get_gravity (ct_dynamics_l ct) (lb_arm_pos_ref (the cmd)) zeros
                   else Inr zeros) (\<lambda>gravity_ref.
         res_bind (get_gravity (ct_dynamics_l ct) q zeros) (\<lambda>gravity.
         res_bind (get_coriolis (ct_dynamics_l ct) q dq zeros) (\<lambda>coriolis.
         res_bind (ComputeAllFriction ct dq (map js_velocity gripper)) (\<lambda>friction.
         let arm_torque = map (\<lambda>i. (arm ! i)\<lparr>js_effort :=
               leader_arm_effort ct gravity coriolis friction i
                 (if bilateral then leader_arm_tau_b ct (the cmd) use_kf gravity_ref arm i
                  else Fin 0)\<rparr>) [0..<arm_dof];
             gripper_torque = map (\<lambda>i. (gripper ! i)\<lparr>js_effort :=
               ClampLeaderEffort ct (arm_dof + i)
                 (friction ! (arm_dof + i) * Fin (3 / 10)
                  + (if bilateral
                     then leader_gripper_tau_b ct (the cmd) use_kf arm_dof (rd_gripper rd) i
                     else Fin 0))\<rparr>) [0..<gripper_dof]
         in Inr (ct\<lparr>ct_leader_first_cycle_logged := True\<rparr>, rs,
                 [Arm_Mit (map (\<lambda>m. torque_only (ms_effort m)) (arm_joint_to_motor arm_torque)),
                  Gripper_Mit (map (\<lambda>m. torque_only (ms_effort m))
                    (gripper_joint_to_motor gripper_torque)),
                  Recv_All (Some 200)]))))))"

section \<open>The follower's cycle\<close>

text \<open>The gravity feedforward on joint \<open>i\<close>: non-finite becomes 0, then the clamp.\<close>

definition feedforward_effort :: "Control \<Rightarrow> dbl list \<Rightarrow> nat \<Rightarrow> dbl" where
  "feedforward_effort ct gravity i =
     (let g = gravity ! i * ct_follower_gravity_ff_scale ct;
          g = (if \<not> isfinite g then Fin 0 else g);
          lim = (if i < NMOTORS then effort_limit_F ! i else Fin 0)
      in std_max (- lim) (std_min lim g))"

definition follower_feedforward :: "Control \<Rightarrow> dbl list \<Rightarrow> nat \<Rightarrow> dbl list result" where
  "follower_feedforward ct q arm_dof =
     (if ct_follower_gravity_ff ct \<and> ct_dynamics_f ct \<noteq> None then
        res_bind (get_gravity (ct_dynamics_f ct) q (replicate arm_dof (Fin 0))) (\<lambda>gravity.
          Inr (map (feedforward_effort ct gravity) [0..<arm_dof]))
      else Inr (replicate arm_dof (Fin 0)))"

text \<open>The MIT commands that track a list of motor references; gains start at \<open>offset\<close>.\<close>

definition track_commands ::
    "Control \<Rightarrow> nat \<Rightarrow> dbl list \<Rightarrow> MotorState list \<Rightarrow> MITParam list result" where
  "track_commands ct offset tau refs =
     res_map (\<lambda>i.
       res_bind (vec_idx (ct_Kp ct) (i + offset)) (\<lambda>kp.
       res_bind (vec_idx (ct_Kd ct) (i + offset)) (\<lambda>kd.
         Inr \<lparr> mp_kp = kp, mp_kd = kd, mp_q = ms_position (refs ! i),
               mp_dq = ms_velocity (refs ! i),
               mp_tau = (if i < length tau then tau ! i else Fin 0) \<rparr>))) [0..<length refs]"

definition follower_step :: "Readings \<Rightarrow> Control \<Rightarrow> RobotSystemState \<Rightarrow> cycle" where
  "follower_step rd ct rs =
     (let rs = store_responses rd rs; arm_dof = get_size (ss_arm rs);
          q = map js_position (arm_motor_to_joint (rd_arm rd))
      in res_bind (follower_feedforward ct q arm_dof) (\<lambda>ff.
         res_bind (track_commands ct 0 ff (arm_joint_to_motor (rs_reference (ss_arm rs)))) (\<lambda>arm_cmds.
         res_bind (track_commands ct arm_dof []
             (gripper_joint_to_motor (rs_reference (ss_hand rs)))) (\<lambda>hand_cmds.
           Inr (ct, rs, [Arm_Mit arm_cmds, Gripper_Mit hand_cmds, Recv_All (Some 200)])))))"

definition unilateral_step :: "Readings \<Rightarrow> Control \<Rightarrow> RobotSystemState \<Rightarrow> cycle" where
  "unilateral_step rd ct rs =
     (if ct_role ct = ROLE_LEADER then leader_step None rd ct rs
      else if ct_role ct = ROLE_FOLLOWER then follower_step rd ct rs
      else Inr (ct, store_responses rd rs, []))"

section \<open>The wired bilateral cycle\<close>

text \<open>
  The references of the first \<open>n\<close> joints get the given efforts; too few references are an
  access outside the vector.
\<close>

definition with_efforts :: "nat \<Rightarrow> (nat \<Rightarrow> dbl) \<Rightarrow> JointState list \<Rightarrow> JointState list result" where
  "with_efforts n effort refs =
     (if length refs < n then Inl Undefined_Behaviour
      else Inr (map (\<lambda>i. (refs ! i)\<lparr>js_effort := effort i\<rparr>) [0..<n] @ drop n refs))"

definition model_gravity :: "Control \<Rightarrow> dbl list \<Rightarrow> dbl list \<Rightarrow> dbl list \<Rightarrow> dbl list result" where
  "model_gravity ct q dq zeros =
     (let d = (if ct_role ct = ROLE_LEADER then Some (ct_dynamics_l ct)
               else if ct_role ct = ROLE_FOLLOWER then Some (ct_dynamics_f ct) else None)
      in case d of
           None \<Rightarrow> Inr zeros
         | Some dyn \<Rightarrow> res_bind (get_gravity dyn q zeros) (\<lambda>g.
             res_bind (get_coriolis dyn q dq zeros) (\<lambda>_. Inr g)))"

definition bilateral_step :: "Readings \<Rightarrow> Control \<Rightarrow> RobotSystemState \<Rightarrow> cycle" where
  "bilateral_step rd ct rs =
     (let rs = store_responses rd rs;
          arm = arm_motor_to_joint (rd_arm rd); gripper = gripper_motor_to_joint (rd_gripper rd);
          arm_dof = get_size (ss_arm rs); gripper_dof = get_size (ss_hand rs);
          q = map js_position arm; dq = map js_velocity arm;
          arm_refs = rs_reference (ss_arm rs)
      in if length arm_refs < arm_dof then Inl Undefined_Behaviour else
         res_bind (model_gravity ct q dq (replicate arm_dof (Fin 0))) (\<lambda>gravity.
         res_bind (ComputeAllFriction ct dq (map js_velocity gripper)) (\<lambda>friction.
         res_bind (with_efforts arm_dof (\<lambda>i. gravity ! i + friction ! i) arm_refs) (\<lambda>arm_refs.
         res_bind (with_efforts gripper_dof (\<lambda>i. friction ! (i + arm_dof))
             (rs_reference (ss_hand rs))) (\<lambda>gripper_refs.
         let arm_motor = take arm_dof (arm_joint_to_motor arm_refs);
             gripper_motor = take gripper_dof (gripper_joint_to_motor gripper_refs)
         in res_bind (track_commands ct 0 (map ms_effort arm_motor) arm_motor) (\<lambda>arm_cmds.
            res_bind (track_commands ct arm_dof (map ms_effort gripper_motor) gripper_motor)
              (\<lambda>gripper_cmds.
               Inr (ct, rs, [Arm_Mit arm_cmds, Gripper_Mit gripper_cmds, Sleep_Us 200,
                             Recv_All (Some 220)]))))))))"

section \<open>Moving to a pose\<close>

definition move_goal :: "nat \<Rightarrow> dbl list \<Rightarrow> dbl list \<Rightarrow> dbl list" where
  "move_goal n target fallback =
     map (\<lambda>i. if i < length target then target ! i else fallback ! i) [0..<n]"

definition move_alpha :: "nat \<Rightarrow> dbl" where
  "move_alpha step = dbl_of_nat (step + 1) div dbl_of_nat 220"

definition interpolate :: "dbl \<Rightarrow> dbl \<Rightarrow> dbl \<Rightarrow> dbl" where
  "interpolate alpha goal now = goal * alpha + now * (Fin 1 - alpha)"

definition pose_state :: "dbl \<Rightarrow> JointState" where
  "pose_state p = joint_state_zero\<lparr>js_position := p\<rparr>"

definition move_params :: "dbl list \<Rightarrow> dbl list \<Rightarrow> MotorState list \<Rightarrow> MITParam list" where
  "move_params kp kd refs =
     map (\<lambda>i. \<lparr> mp_kp = kp ! i, mp_kd = kd ! i, mp_q = ms_position (refs ! i),
                mp_dq = ms_velocity (refs ! i), mp_tau = Fin 0 \<rparr>) [0..<length refs]"

definition kp_arm_temp :: "dbl list" where
  "kp_arm_temp = [Fin 50, Fin 50, Fin 50, Fin 50, Fin 10, Fin 10, Fin 10]"

definition kd_arm_temp :: "dbl list" where
  "kd_arm_temp = [Fin (12 / 10), Fin (12 / 10), Fin (12 / 10), Fin (12 / 10), Fin (3 / 10),
     Fin (2 / 10), Fin (3 / 10)]"

definition move_step ::
    "dbl list \<Rightarrow> dbl list \<Rightarrow> dbl list \<Rightarrow> dbl list \<Rightarrow> nat \<Rightarrow> can_command list" where
  "move_step arm_goal hand_goal arm_now hand_now step =
     (let alpha = move_alpha step
      in [Arm_Mit (move_params kp_arm_temp kd_arm_temp (arm_joint_to_motor
            (map (\<lambda>i. pose_state (interpolate alpha (arm_goal ! i) (arm_now ! i)))
               [0..<length arm_goal]))),
          Gripper_Mit (move_params [Fin 10] [Fin (5 / 10)] (gripper_joint_to_motor
            (map (\<lambda>i. pose_state (interpolate alpha (hand_goal ! i) (hand_now ! i)))
               [0..<length hand_goal]))),
          Sleep_Us 10000, Recv_All None])"

text \<open>Readings taken by this function have effort 0.\<close>

definition without_effort :: "MotorState list \<Rightarrow> MotorState list" where
  "without_effort m = map (\<lambda>x. x\<lparr>ms_effort := Fin 0\<rparr>) m"

definition move_readings :: "Readings \<Rightarrow> Readings" where
  "move_readings rd =
     \<lparr> rd_arm = without_effort (rd_arm rd), rd_gripper = without_effort (rd_gripper rd) \<rparr>"

text \<open>
  \<open>rd0\<close> are the readings at the start, \<open>rds step\<close> those after the \<open>recv_all\<close> of a step;
  the readings after the loop are the last of these, as only \<open>recv_all\<close> changes them.
\<close>

definition MoveToPose ::
    "dbl list \<Rightarrow> dbl list \<Rightarrow> Readings \<Rightarrow> (nat \<Rightarrow> Readings) \<Rightarrow> Control \<Rightarrow> RobotSystemState \<Rightarrow> cycle" where
  "MoveToPose target_arm target_gripper rd0 rds ct rs =
     (let rd0 = move_readings rd0;
          arm_now = map js_position (arm_motor_to_joint (rd_arm rd0));
          hand_now = map js_position (gripper_motor_to_joint (rd_gripper rd0));
          arm_goal = move_goal (NMOTORS - 1) target_arm INITIAL_POSITION;
          hand_goal = move_goal (length hand_now) target_gripper
            (replicate (length hand_now) (Fin 0))
      in if length arm_now < NMOTORS - 1 \<or> length hand_now > 1 then Inl Undefined_Behaviour
         else
           let rs = fold (\<lambda>step. store_responses (move_readings (rds step))) [0..<220] rs;
               final = move_readings (rds 219);
               arm_final = arm_motor_to_joint (rd_arm final);
               hand_final = gripper_motor_to_joint (rd_gripper final);
               rs = rs\<lparr>ss_arm := set_all_responses arm_final (set_all_references arm_final (ss_arm rs)),
                       ss_hand := set_all_responses hand_final
                         (set_all_references hand_final (ss_hand rs))\<rparr>
           in Inr (ct, rs,
                concat (map (move_step arm_goal hand_goal arm_now hand_now) [0..<220])))"

definition AdjustPosition ::
    "Readings \<Rightarrow> (nat \<Rightarrow> Readings) \<Rightarrow> Control \<Rightarrow> RobotSystemState \<Rightarrow> cycle" where
  "AdjustPosition = MoveToPose (take (NMOTORS - 1) INITIAL_POSITION) [Fin 0]"

section \<open>Vibration\<close>

definition VEL_WINDOW_SIZE :: nat where "VEL_WINDOW_SIZE = 10"

definition VIB_THRESHOLD :: dbl where "VIB_THRESHOLD = Fin (7 / 10)"

definition push_window :: "dbl \<Rightarrow> dbl list \<Rightarrow> dbl list" where
  "push_window v buf =
     (let buf = buf @ [v] in if length buf > VEL_WINDOW_SIZE then tl buf else buf)"

definition window_stddev :: "dbl list \<Rightarrow> dbl" where
  "window_stddev buf =
     (let n = dbl_of_nat (length buf); mean = foldl (+) (Fin 0) buf div n;
          var = foldl (\<lambda>a v. a + (v - mean) * (v - mean)) (Fin 0) buf
      in d_sqrt (var div n))"

definition axis_vibrates :: "dbl list \<Rightarrow> bool" where
  "axis_vibrates buf \<longleftrightarrow> \<not> length buf < VEL_WINDOW_SIZE \<and> window_stddev buf > VIB_THRESHOLD"

definition DetectVibration :: "dbl list \<Rightarrow> Control \<Rightarrow> (Control \<times> bool list \<times> bool) result" where
  "DetectVibration velocity ct =
     (if length velocity < 8 then Inl Undefined_Behaviour
      else
        let bufs = map2 push_window velocity (ct_velocity_buffer ct);
            what_axis = map axis_vibrates bufs
        in Inr (ct\<lparr>ct_velocity_buffer := bufs\<rparr>, what_axis, True \<in> set what_axis))"

end
