(* ===== verification/Cpp_Bits.thy ===== *)
theory Cpp_Bits
  imports Cpp_Double
begin

text \<open>
  The memory image of floating point values. \<open>ieee_decode e m\<close> reads a pattern with \<open>e\<close>
  exponent bits and \<open>m\<close> fraction bits, \<open>ieee_encode e m\<close> rounds a value to the nearest
  pattern, ties to even. \<open>double\<close> is (11, 52) on 64 bits and \<open>float\<close> is (8, 23) on 32
  bits. The main fact is \<open>bits_of_dbl_of_bits\<close>: a value that came from a pattern (other than
  a NaN payload or the negative zero, which the values do not distinguish) is written back as
  the same pattern, so a double survives the wire bit for bit.
\<close>

definition round_half_even :: "real \<Rightarrow> int" where
  "round_half_even x =
     (let f = \<lfloor>x\<rfloor>; r = x - of_int f
      in if r < 1 / 2 then f else if 1 / 2 < r then f + 1 else if even f then f else f + 1)"

definition ieee_bias :: "nat \<Rightarrow> int" where
  "ieee_bias e = 2 ^ (e - 1) - 1"

definition ieee_decode :: "nat \<Rightarrow> nat \<Rightarrow> nat \<Rightarrow> dbl" where
  "ieee_decode e m n =
     (let frac = n mod 2 ^ m; ex = (n div 2 ^ m) mod 2 ^ e;
          s = (if (n div 2 ^ (m + e)) mod 2 = 0 then 1 else - 1)
      in if ex = 2 ^ e - 1 then (if frac \<noteq> 0 then NaN else if s = 1 then PInf else NInf)
         else if ex = 0
              then Fin (s * (real frac * 2 powi (1 - ieee_bias e - int m)))
              else Fin (s * (real (2 ^ m + frac) * 2 powi (int ex - ieee_bias e - int m))))"

definition ieee_magnitude :: "nat \<Rightarrow> nat \<Rightarrow> real \<Rightarrow> int" where
  "ieee_magnitude e m a =
     (if a = 0 then 0
      else let k = max (1 - ieee_bias e) \<lfloor>log 2 a\<rfloor>;
               r = round_half_even (a * 2 powi (int m - k))
           in min ((2 ^ e - 1) * 2 ^ m) ((k + ieee_bias e - 1) * 2 ^ m + r))"

definition ieee_encode :: "nat \<Rightarrow> nat \<Rightarrow> dbl \<Rightarrow> int" where
  "ieee_encode e m d =
     (case d of
        NaN \<Rightarrow> (2 ^ e - 1) * 2 ^ m + 2 ^ (m - 1)
      | PInf \<Rightarrow> (2 ^ e - 1) * 2 ^ m
      | NInf \<Rightarrow> 2 ^ (m + e) + (2 ^ e - 1) * 2 ^ m
      | Fin x \<Rightarrow> (if x < 0 then 2 ^ (m + e) else 0) + ieee_magnitude e m \<bar>x\<bar>)"

definition dbl_of_bits :: "u64 \<Rightarrow> dbl" where
  "dbl_of_bits w = ieee_decode 11 52 (unat w)"

definition bits_of_dbl :: "dbl \<Rightarrow> u64" where
  "bits_of_dbl d = word_of_int (ieee_encode 11 52 d)"

definition dbl_of_bits32 :: "u32 \<Rightarrow> dbl" where
  "dbl_of_bits32 w = ieee_decode 8 23 (unat w)"

definition bits32_of_dbl :: "dbl \<Rightarrow> u32" where
  "bits32_of_dbl d = word_of_int (ieee_encode 8 23 d)"

section \<open>A value read from a pattern is written back as that pattern\<close>

lemma round_half_even_of_int [simp]: "round_half_even (of_int i) = i"
  by (simp add: round_half_even_def)

lemma round_half_even_of_nat [simp]: "round_half_even (real n) = int n"
  using round_half_even_of_int [of "int n"] by simp

lemma powi_cancel: "2 powi (- k) * 2 powi k = (1 :: real)"
  by (simp add: power_int_add [symmetric])

lemma floor_log_scaled:
  assumes "2 ^ m \<le> (n :: nat)" and "n < 2 * 2 ^ m"
  shows "\<lfloor>log 2 (real n * 2 powi (k - int m))\<rfloor> = k"
proof -
  have pos: "0 < real n"
    using assms(1) by (metis less_le_trans of_nat_0_less_iff zero_less_numeral zero_less_power)
  have "log 2 (real n * 2 powi (k - int m)) = log 2 (real n) + of_int (k - int m)"
    using pos by (simp add: log_mult flip: powr_real_of_int')
  moreover have "real m \<le> log 2 (real n)"
    using assms(1) pos
    by (metis le_log2_of_power)
  moreover have "log 2 (real n) < real m + 1"
    using assms(2) pos
    by (metis Suc_eq_plus1 less_log2_of_power log2_of_power_less of_nat_1 of_nat_add power_Suc
        of_nat_0_less_iff)
  ultimately show ?thesis
    by linarith
qed

lemma ieee_magnitude_scaled:
  assumes n: "n < 2 * 2 ^ m" and e: "1 < e" and ex: "ex < 2 ^ e - 1"
    and sub: "ex = 0 \<Longrightarrow> n < 2 ^ m" and norm: "0 < ex \<Longrightarrow> 2 ^ m \<le> n"
  shows "ieee_magnitude e m (real n * 2 powi (int (max 1 ex) - ieee_bias e - int m))
    = int (ex * 2 ^ m + (if ex = 0 then n else n - 2 ^ m))"
proof (cases "n = 0")
  case True
  with norm have "ex = 0" by (cases "ex = 0") auto
  with True show ?thesis by (simp add: ieee_magnitude_def)
next
  case False
  let ?k = "int (max 1 ex) - ieee_bias e"
  let ?a = "real n * 2 powi (?k - int m)"
  have a: "?a \<noteq> 0" using False by simp
  have k: "max (1 - ieee_bias e) \<lfloor>log 2 ?a\<rfloor> = ?k"
  proof (cases "ex = 0")
    case True
    then have "log 2 (real n) < real m"
      using sub False by (metis log2_of_power_less gr0I)
    moreover have "log 2 ?a = log 2 (real n) + of_int (?k - int m)"
      using False by (simp add: log_mult flip: powr_real_of_int')
    ultimately have "\<lfloor>log 2 ?a\<rfloor> < ?k" by linarith
    with True show ?thesis by simp
  next
    case False
    with norm n have "\<lfloor>log 2 ?a\<rfloor> = ?k" by (intro floor_log_scaled) auto
    with False show ?thesis by simp
  qed
  have "2 powi (?k - int m) * 2 powi (int m - ?k) = (1 :: real)"
    using powi_cancel [of "int m - ?k"] by simp
  then have "?a * 2 powi (int m - ?k) = real n"
    by (metis mult.assoc mult.right_neutral)
  then have r: "round_half_even (?a * 2 powi (int m - ?k)) = int n"
    by (simp only: round_half_even_of_nat)
  have eq: "(?k + ieee_bias e - 1) * 2 ^ m + int n
      = int (ex * 2 ^ m + (if ex = 0 then n else n - 2 ^ m))"
    using norm by (cases "ex = 0") (auto simp: of_nat_diff algebra_simps)
  have "ex + 1 \<le> 2 ^ e - 1" using ex by simp
  then have "(ex + 1) * 2 ^ m \<le> (2 ^ e - 1) * 2 ^ m" by (rule mult_le_mono1)
  moreover have "ex * 2 ^ m + (if ex = 0 then n else n - 2 ^ m) \<le> (ex + 1) * 2 ^ m"
    using sub norm n by (cases "ex = 0") auto
  ultimately have "int (ex * 2 ^ m + (if ex = 0 then n else n - 2 ^ m)) \<le> int ((2 ^ e - 1) * 2 ^ m)"
    using of_nat_mono order_trans by blast
  then have bound: "int (ex * 2 ^ m + (if ex = 0 then n else n - 2 ^ m)) \<le> (2 ^ e - 1) * 2 ^ m"
    by (simp add: of_nat_diff)
  show ?thesis
    using a k r eq bound by (simp add: ieee_magnitude_def Let_def)
qed

lemma nat_pattern_split:
  fixes n :: nat
  assumes "n < 2 ^ (m + e + 1)"
  shows "n = n mod 2 ^ m + ((n div 2 ^ m) mod 2 ^ e) * 2 ^ m + ((n div 2 ^ (m + e)) mod 2) * 2 ^ (m + e)"
proof -
  have "n div 2 ^ (m + e) < 2"
    by (rule less_mult_imp_div_less) (use assms in \<open>simp add: mult.commute\<close>)
  then have top: "(n div 2 ^ (m + e)) mod 2 = n div 2 ^ m div 2 ^ e"
    by (simp add: div_mult2_eq power_add)
  have "n div 2 ^ m = (n div 2 ^ m) mod 2 ^ e + (n div 2 ^ m div 2 ^ e) * 2 ^ e"
    by (rule mod_div_mult_eq [symmetric])
  then have "n div 2 ^ m * 2 ^ m
      = ((n div 2 ^ m) mod 2 ^ e + (n div 2 ^ m div 2 ^ e) * 2 ^ e) * 2 ^ m" by (rule arg_cong)
  then have "n div 2 ^ m * 2 ^ m = ((n div 2 ^ m) mod 2 ^ e) * 2 ^ m + (n div 2 ^ m div 2 ^ e) * 2 ^ (m + e)"
    by (simp only: distrib_left distrib_right power_add mult_ac)
  moreover have "n = n mod 2 ^ m + n div 2 ^ m * 2 ^ m" by (rule mod_div_mult_eq [symmetric])
  ultimately show ?thesis using top by (simp only: add.assoc)
qed

text \<open>The excluded patterns: NaN payloads, and the negative zero.\<close>

theorem ieee_encode_decode:
  assumes n: "n < 2 ^ (m + e + 1)" and e: "1 < e"
    and nan: "ieee_decode e m n \<noteq> NaN" and nz: "n \<noteq> 2 ^ (m + e)"
  shows "ieee_encode e m (ieee_decode e m n) = int n"
proof -
  define frac where "frac = n mod 2 ^ m"
  define ex where "ex = (n div 2 ^ m) mod 2 ^ e"
  define sb where "sb = (n div 2 ^ (m + e)) mod 2"
  have split: "n = frac + ex * 2 ^ m + sb * 2 ^ (m + e)"
    unfolding frac_def ex_def sb_def by (rule nat_pattern_split [OF n])
  have frac: "frac < 2 ^ m" and ex: "ex < 2 ^ e" and sb: "sb = 0 \<or> sb = 1"
    by (auto simp: frac_def ex_def sb_def)
  note dec = ieee_decode_def [of e m n, folded frac_def ex_def sb_def, unfolded Let_def]
  show ?thesis
  proof (cases "ex = 2 ^ e - 1")
    case True
    with nan have "frac = 0" by (auto simp: dec split: if_splits)
    have "ieee_decode e m n = (if sb = 0 then PInf else NInf)"
      using True \<open>frac = 0\<close> by (simp add: dec)
    then have "ieee_encode e m (ieee_decode e m n)
        = (if sb = 0 then 0 else 2 ^ (m + e)) + (2 ^ e - 1) * 2 ^ m"
      by (simp add: ieee_encode_def)
    moreover have "int n = (if sb = 0 then 0 else 2 ^ (m + e)) + (2 ^ e - 1) * 2 ^ m"
      by (subst split) (use \<open>frac = 0\<close> True sb in \<open>auto simp: of_nat_diff\<close>)
    ultimately show ?thesis by simp
  next
    case False
    then have ex': "ex < 2 ^ e - 1" using ex by simp
    define k where "k = (if ex = 0 then frac else 2 ^ m + frac)"
    define a where "a = real k * 2 powi (int (max 1 ex) - ieee_bias e - int m)"
    have val: "ieee_decode e m n = Fin ((if sb = 0 then 1 else - 1) * a)"
      using False by (auto simp: dec a_def k_def max_def)
    have a0: "0 \<le> a" by (simp add: a_def)
    have mag: "ieee_magnitude e m a = int (ex * 2 ^ m + frac)"
      unfolding a_def
      by (subst ieee_magnitude_scaled) (use frac e ex' in \<open>auto simp: k_def\<close>)
    have "a \<noteq> 0" if "sb = 1"
    proof
      assume "a = 0"
      then have "k = 0" by (simp add: a_def)
      with that split nz show False by (auto simp: k_def split: if_splits)
    qed
    with val a0 mag sb split show ?thesis
      by (auto simp: ieee_encode_def)
  qed
qed

corollary bits_of_dbl_of_bits:
  assumes "dbl_of_bits w \<noteq> NaN" and "w \<noteq> 2 ^ 63"
  shows "bits_of_dbl (dbl_of_bits w) = w"
proof -
  have "unat w < 2 ^ (52 + 11 + 1)"
    using unsigned_less [of w] by simp
  moreover have "unat w \<noteq> 2 ^ (52 + 11)"
  proof
    assume "unat w = 2 ^ (52 + 11)"
    then have "(word_of_nat (unat w) :: u64) = word_of_nat (2 ^ 63)" by simp
    then have "w = 2 ^ 63" by simp
    with assms(2) show False by simp
  qed
  ultimately have "ieee_encode 11 52 (ieee_decode 11 52 (unat w)) = int (unat w)"
    using assms(1) by (intro ieee_encode_decode) (auto simp: dbl_of_bits_def)
  then show ?thesis
    by (simp add: bits_of_dbl_def dbl_of_bits_def)
qed

end
