(* ===== verification/Cpp_Text.thy ===== *)
theory Cpp_Text
  imports Cpp_Bits
begin

text \<open>
  The parts of the C++ standard library that turn numbers into text and back, as far as the
  sources use them: \<open>operator<<\<close> on integers and on doubles with two fixed decimals,
  \<open>std::stol\<close>, \<open>std::stoi\<close>, \<open>std::stod\<close> and \<open>operator>>\<close> on doubles. Text is a list of
  characters, a \<open>string\<close>.

  Hexadecimal floats are not read, and a decimal literal denotes its exact value.
\<close>

section \<open>Writing numbers\<close>

definition digit_char :: "nat \<Rightarrow> char" where
  "digit_char d = char_of (48 + d)"

fun show_nat :: "nat \<Rightarrow> string" where
  "show_nat n = (if n < 10 then [digit_char n] else show_nat (n div 10) @ [digit_char (n mod 10)])"

declare show_nat.simps [simp del]

definition show_int :: "int \<Rightarrow> string" where
  "show_int i = (if i < 0 then ''-'' @ show_nat (nat (- i)) else show_nat (nat i))"

definition show_word :: "'a::len word \<Rightarrow> string" where
  "show_word w = show_nat (unat w)"

text \<open>\<open>std::fixed\<close> with \<open>setprecision(2)\<close>: the exact value rounded half to even.\<close>

definition show_fixed2 :: "dbl \<Rightarrow> string" where
  "show_fixed2 d =
     (case d of
        NaN \<Rightarrow> ''nan'' | PInf \<Rightarrow> ''inf'' | NInf \<Rightarrow> ''-inf''
      | Fin x \<Rightarrow>
          (let h = nat (round_half_even (\<bar>x\<bar> * 100))
           in (if x < 0 then ''-'' else []) @ show_nat (h div 100) @ ''.''
                @ [digit_char (h div 10 mod 10), digit_char (h mod 10)]))"

definition show_bool :: "bool \<Rightarrow> string" where
  "show_bool b = (if b then ''true'' else ''false'')"

section \<open>Reading numbers\<close>

definition is_digit :: "char \<Rightarrow> bool" where
  "is_digit c \<longleftrightarrow> 48 \<le> (of_char c :: nat) \<and> (of_char c :: nat) \<le> 57"

definition is_space :: "char \<Rightarrow> bool" where
  "is_space c \<longleftrightarrow> (of_char c :: nat) = 32 \<or> 9 \<le> (of_char c :: nat) \<and> (of_char c :: nat) \<le> 13"

definition digit_value :: "char \<Rightarrow> nat" where
  "digit_value c = of_char c - 48"

definition digits_value :: "string \<Rightarrow> nat" where
  "digits_value ds = foldl (\<lambda>a c. 10 * a + digit_value c) 0 ds"

text \<open>An optional sign; the result says whether it was a minus.\<close>

fun scan_sign :: "string \<Rightarrow> bool \<times> string" where
  "scan_sign [] = (False, [])"
| "scan_sign (c # s) =
     (if c = CHR ''-'' then (True, s) else if c = CHR ''+'' then (False, s) else (False, c # s))"

text \<open>
  Both read the longest prefix that is a number and ignore what follows, as the library does.
\<close>

definition sto_integer :: "string \<Rightarrow> nat \<Rightarrow> string \<Rightarrow> int result" where
  "sto_integer name bits str =
     (let (neg, s) = scan_sign (dropWhile is_space str);
          ds = takeWhile is_digit s;
          v = (if neg then - int (digits_value ds) else int (digits_value ds))
      in if ds = [] then Inl (Invalid_Argument name)
         else if v < - (2 ^ (bits - 1)) \<or> 2 ^ (bits - 1) \<le> v then Inl Out_Of_Range
         else Inr v)"

definition stol :: "string \<Rightarrow> int result" where
  "stol = sto_integer ''stol'' 64"

definition stoi :: "string \<Rightarrow> int result" where
  "stoi = sto_integer ''stoi'' 32"

text \<open>The exponent of a decimal literal, if a complete one follows; else nothing is consumed.\<close>

definition scan_exponent :: "string \<Rightarrow> int \<times> string" where
  "scan_exponent s =
     (case s of
        c # s1 \<Rightarrow>
          (if c = CHR ''e'' \<or> c = CHR ''E'' then
             (let (neg, s2) = scan_sign s1; ds = takeWhile is_digit s2
              in if ds = [] then (0, s)
                 else (if neg then - int (digits_value ds) else int (digits_value ds),
                       dropWhile is_digit s2))
           else (0, s))
      | [] \<Rightarrow> (0, s))"

text \<open>The digits after a decimal point, if there is one.\<close>

fun scan_fraction :: "string \<Rightarrow> string \<times> string" where
  "scan_fraction [] = ([], [])"
| "scan_fraction (c # r) =
     (if c = CHR ''.'' then (takeWhile is_digit r, dropWhile is_digit r) else ([], c # r))"

text \<open>A decimal literal at the front of the text: its value and the rest.\<close>

definition scan_decimal :: "string \<Rightarrow> (real \<times> string) option" where
  "scan_decimal str =
     (let (neg, s) = scan_sign str;
          ip = takeWhile is_digit s;
          (fp, s2) = scan_fraction (dropWhile is_digit s);
          (e, s3) = scan_exponent s2;
          m = real (digits_value (ip @ fp)) * 10 powi (e - int (length fp))
      in if ip = [] \<and> fp = [] then None else Some (if neg then - m else m, s3))"

text \<open>The largest finite double is below \<open>2 ^ 1024\<close>; larger literals are range errors.\<close>

definition double_overflow :: "real \<Rightarrow> bool" where
  "double_overflow x \<longleftrightarrow> 2 ^ 1024 - 2 ^ 970 \<le> \<bar>x\<bar>"

definition to_lower :: "char \<Rightarrow> char" where
  "to_lower c =
     (if 65 \<le> (of_char c :: nat) \<and> (of_char c :: nat) \<le> 90 then char_of ((of_char c :: nat) + 32) else c)"

definition stod :: "string \<Rightarrow> dbl result" where
  "stod str =
     (let s = dropWhile is_space str; (neg, r) = scan_sign s
      in if map to_lower (take 3 r) = ''inf'' then Inr (if neg then NInf else PInf)
         else if map to_lower (take 3 r) = ''nan'' then Inr NaN
         else case scan_decimal s of
                None \<Rightarrow> Inl (Invalid_Argument ''stod'')
              | Some (x, _) \<Rightarrow> if double_overflow x then Inl Out_Of_Range else Inr (Fin x))"

text \<open>
  \<open>stream >> v\<close> on a double: leading white space is skipped; \<open>None\<close> when the stream fails.
\<close>

definition stream_double :: "string \<Rightarrow> (dbl \<times> string) option" where
  "stream_double str =
     (case scan_decimal (dropWhile is_space str) of
        None \<Rightarrow> None
      | Some (x, rest) \<Rightarrow> if double_overflow x then None else Some (Fin x, rest))"

lemma scan_exponent_shorter: "length (snd (scan_exponent s)) \<le> length s"
proof (cases s)
  case (Cons c s1)
  obtain n s2 where s2: "scan_sign s1 = (n, s2)" by (cases "scan_sign s1")
  have "length s2 \<le> length s1"
    using s2 by (cases s1) (auto split: if_splits)
  then have "length (dropWhile is_digit s2) \<le> Suc (length s1)"
    by (meson le_SucI length_dropWhile_le order_trans)
  with Cons s2 show ?thesis
    by (auto simp: scan_exponent_def Let_def)
qed (simp add: scan_exponent_def)

lemma scan_sign_shorter: "length (snd (scan_sign s)) \<le> length s"
  by (cases s) simp_all

lemma dropWhile_shorter: "takeWhile P s \<noteq> [] \<Longrightarrow> length (dropWhile P s) < length s"
  by (metis add_diff_cancel_left' diff_less length_append length_greater_0_conv
      takeWhile_dropWhile_id trans_less_add1)

lemma scan_fraction_shorter:
  "scan_fraction s = (fp, r) \<Longrightarrow> length r + (if fp = [] then 0 else 1) \<le> length s"
  by (cases s) (auto split: if_splits intro: le_trans [OF length_dropWhile_le])

lemma scan_decimal_shorter:
  assumes "scan_decimal str = Some (x, rest)"
  shows "length rest < length str"
proof -
  obtain neg s where s: "scan_sign str = (neg, s)" by (cases "scan_sign str")
  obtain fp s2 where fp: "scan_fraction (dropWhile is_digit s) = (fp, s2)"
    by (cases "scan_fraction (dropWhile is_digit s)")
  obtain e s3 where e: "scan_exponent s2 = (e, s3)" by (cases "scan_exponent s2")
  have "rest = s3" and nonempty: "takeWhile is_digit s \<noteq> [] \<or> fp \<noteq> []"
    using assms by (auto simp: scan_decimal_def s fp e Let_def split: if_splits)
  then have "length rest \<le> length s2"
    using scan_exponent_shorter [of s2] e by simp
  moreover have "length s2 < length s"
    using nonempty scan_fraction_shorter [OF fp] dropWhile_shorter [of is_digit s]
      length_dropWhile_le [of is_digit s]
    by (cases "fp = []") auto
  moreover have "length s \<le> length str"
    using scan_sign_shorter [of str] s by simp
  ultimately show ?thesis by linarith
qed

lemma stream_double_shorter:
  "stream_double str = Some (v, rest) \<Longrightarrow> length rest < length str"
  by (auto simp: stream_double_def split: option.splits if_splits dest!: scan_decimal_shorter)
    (meson length_dropWhile_le less_le_trans)

text \<open>\<open>while (stream >> v) out.push_back(v)\<close>\<close>

function stream_doubles :: "string \<Rightarrow> dbl list" where
  "stream_doubles str =
     (case stream_double str of None \<Rightarrow> [] | Some (v, rest) \<Rightarrow> v # stream_doubles rest)"
  by auto
termination
  by (relation "measure length") (auto dest: stream_double_shorter)

declare stream_doubles.simps [simp del]

section \<open>An integer that is written can be read back\<close>

lemma of_char_digit: "d < 10 \<Longrightarrow> (of_char (digit_char d) :: nat) = 48 + d"
  by (simp add: digit_char_def)

lemma is_digit_char [simp]: "d < 10 \<Longrightarrow> is_digit (digit_char d)"
  by (simp add: is_digit_def of_char_digit)

lemma digit_value_char [simp]: "d < 10 \<Longrightarrow> digit_value (digit_char d) = d"
  by (simp add: digit_value_def of_char_digit)

lemma show_nat_digits: "\<forall>c \<in> set (show_nat n). is_digit c"
proof (induction n rule: show_nat.induct)
  case (1 n)
  then show ?case by (subst show_nat.simps) auto
qed

lemma show_nat_nonempty [simp]: "show_nat n \<noteq> []"
  by (subst show_nat.simps) simp

lemma digits_value_append: "digits_value (ds @ [c]) = 10 * digits_value ds + digit_value c"
  by (simp add: digits_value_def)

lemma digits_value_show_nat [simp]: "digits_value (show_nat n) = n"
proof (induction n rule: show_nat.induct)
  case (1 n)
  show ?case
  proof (cases "n < 10")
    case True
    then show ?thesis by (subst show_nat.simps) (simp add: digits_value_def)
  next
    case False
    with 1 show ?thesis by (subst show_nat.simps) (simp add: digits_value_append)
  qed
qed

lemma show_nat_inject [simp]: "show_nat m = show_nat n \<longleftrightarrow> m = n"
  by (metis digits_value_show_nat)

lemma digit_not_sign_or_space:
  assumes "is_digit c"
  shows "c \<noteq> CHR ''-'' \<and> c \<noteq> CHR ''+'' \<and> \<not> is_space c"
  using assms by (auto simp: is_digit_def is_space_def)

lemma sto_integer_show_int:
  assumes "- (2 ^ (bits - 1)) \<le> i" and "i < 2 ^ (bits - 1)"
  shows "sto_integer name bits (show_int i) = Inr i"
proof -
  have all: "takeWhile is_digit (show_nat n) = show_nat n" for n
    using show_nat_digits by (simp add: takeWhile_eq_all_conv)
  obtain c cs where nat: "show_nat (nat i) = c # cs" by (metis list.exhaust show_nat_nonempty)
  have c: "is_digit c" using show_nat_digits [of "nat i"] nat by simp
  show ?thesis
  proof (cases "i < 0")
    case True
    have "\<not> is_space CHR ''-''" by (simp add: is_space_def)
    with True assms show ?thesis
      by (simp add: sto_integer_def show_int_def all)
  next
    case False
    have "scan_sign (dropWhile is_space (show_nat (nat i))) = (False, show_nat (nat i))"
      using digit_not_sign_or_space [OF c] by (simp add: nat)
    with False assms show ?thesis
      by (simp add: sto_integer_def show_int_def all)
  qed
qed

end
