(* ===== verification/Runtime_Control.thy ===== *)
theory Runtime_Control
  imports Cpp_Text
begin

text \<open>
  \<open>src/control/runtime_control_server.cpp\<close>: the line-based TCP server through which an
  operator commands a running application. A handler works on the application's state, so it
  is a state transformer that also returns the response; the socket calls are the environment.
\<close>

section \<open>The code\<close>

type_synonym 's handler = "string \<Rightarrow> 's \<Rightarrow> 's \<times> string"

definition trim_char :: "char \<Rightarrow> bool" where
  "trim_char c \<longleftrightarrow> c \<in> {CHR 0x20, CHR 0x09, CHR 0x0D, CHR 0x0A}"

definition trim :: "string \<Rightarrow> string" where
  "trim s = rev (dropWhile trim_char (rev (dropWhile trim_char s)))"

definition quote :: string where
  "quote = [CHR 0x22]"

fun json_escape_char :: "char \<Rightarrow> string" where
  "json_escape_char c =
     (if c = CHR 0x5C then [CHR 0x5C, CHR 0x5C]
      else if c = CHR 0x22 then [CHR 0x5C, CHR 0x22]
      else if c = CHR 0x0A then [CHR 0x5C, CHR ''n'']
      else if c = CHR 0x0D then [CHR 0x5C, CHR ''r'']
      else if c = CHR 0x09 then [CHR 0x5C, CHR ''t'']
      else [c])"

definition json_escape :: "string \<Rightarrow> string" where
  "json_escape value = concat (map json_escape_char value)"

definition json_string :: "string \<Rightarrow> string" where
  "json_string s = quote @ s @ quote"

definition json_ok :: "string \<Rightarrow> string" where
  "json_ok fields =
     (if fields = [] then ''{'' @ json_string ''status'' @ '':'' @ json_string ''ok'' @ ''}''
      else ''{'' @ json_string ''status'' @ '':'' @ json_string ''ok'' @ '','' @ fields @ ''}'')"

definition json_error :: "string \<Rightarrow> string" where
  "json_error message =
     ''{'' @ json_string ''status'' @ '':'' @ json_string ''error'' @ '',''
       @ json_string ''message'' @ '':'' @ json_string (json_escape message) @ ''}''"

text \<open>How the handlers put a response together: fields separated by commas.\<close>

definition json_field :: "string \<Rightarrow> string \<Rightarrow> string" where
  "json_field key value = json_string key @ '':'' @ value"

fun json_join :: "string list \<Rightarrow> string" where
  "json_join [] = []"
| "json_join [f] = f"
| "json_join (f # fs) = f @ '','' @ json_join fs"

definition json_message :: "string \<Rightarrow> string" where
  "json_message m = json_ok (json_field ''message'' (json_string m))"

record 's RuntimeControlServer =
  rc_socket_open :: bool
  rc_running :: bool
  rc_handlers :: "string \<Rightarrow> 's handler option"

definition rc_new :: "'s RuntimeControlServer" where
  "rc_new = \<lparr> rc_socket_open = False, rc_running = False, rc_handlers = (\<lambda>_. None) \<rparr>"

definition register_handler ::
    "string \<Rightarrow> 's handler \<Rightarrow> 's RuntimeControlServer \<Rightarrow> 's RuntimeControlServer" where
  "register_handler command h srv = srv\<lparr>rc_handlers := (rc_handlers srv)(command \<mapsto> h)\<rparr>"

text \<open>Whether \<open>socket\<close>, \<open>inet_pton\<close>, \<open>bind\<close> and \<open>listen\<close> succeed.\<close>

record ListenEnv =
  ln_socket :: bool
  ln_inet_pton :: bool
  ln_bind :: bool
  ln_listen :: bool

definition rc_start :: "ListenEnv \<Rightarrow> 's RuntimeControlServer \<Rightarrow> 's RuntimeControlServer \<times> bool" where
  "rc_start env srv =
     (if rc_running srv then (srv, True)
      else if \<not> ln_socket env then (srv\<lparr>rc_socket_open := False\<rparr>, False)
      else if \<not> ln_inet_pton env then (srv\<lparr>rc_socket_open := False\<rparr>, False)
      else if \<not> ln_bind env then (srv\<lparr>rc_socket_open := False\<rparr>, False)
      else if \<not> ln_listen env then (srv\<lparr>rc_socket_open := False\<rparr>, False)
      else (srv\<lparr>rc_socket_open := True, rc_running := True\<rparr>, True))"

definition rc_stop :: "'s RuntimeControlServer \<Rightarrow> 's RuntimeControlServer" where
  "rc_stop srv =
     (if \<not> rc_running srv \<and> \<not> rc_socket_open srv then srv
      else srv\<lparr>rc_running := False, rc_socket_open := False\<rparr>)"

definition is_blank :: "char \<Rightarrow> bool" where
  "is_blank c \<longleftrightarrow> c = CHR 0x20 \<or> c = CHR 0x09"

definition split_command :: "string \<Rightarrow> string \<times> string" where
  "split_command line =
     (let command = trim line; rest = dropWhile (\<lambda>c. \<not> is_blank c) command
      in if rest = [] then (command, [])
         else (takeWhile (\<lambda>c. \<not> is_blank c) command, trim (tl rest)))"

definition handle_command ::
    "(string \<Rightarrow> 's handler option) \<Rightarrow> string \<Rightarrow> 's \<Rightarrow> 's \<times> string" where
  "handle_command handlers line s =
     (let (command, args) = split_command line
      in case handlers command of
           None \<Rightarrow> (s, json_error (''unknown command: '' @ command))
         | Some h \<Rightarrow> h args s)"

text \<open>
  One client of the accept loop: \<open>None\<close> when \<open>recv\<close> returns nothing, else the bytes it read,
  at most 1023, taken up to the first NUL. The result is what is sent back.
\<close>

definition serve_client ::
    "(string \<Rightarrow> 's handler option) \<Rightarrow> string option \<Rightarrow> 's \<Rightarrow> 's \<times> string" where
  "serve_client handlers received s =
     (let (s', response) =
        (case received of
           Some bytes \<Rightarrow>
             (if bytes \<noteq> [] then
                handle_command handlers (takeWhile (\<lambda>c. c \<noteq> CHR 0x00) (take 1023 bytes)) s
              else (s, json_error ''empty command''))
         | None \<Rightarrow> (s, json_error ''empty command''))
      in (s', response @ [CHR 0x0A]))"

text \<open>The accept loop: \<open>None\<close> is a failed \<open>accept\<close>; \<open>running_\<close> is tested before each one.\<close>

datatype rc_event = Client "string option" | Accept_Failed | Stop_Requested

fun rc_run ::
    "rc_event list \<Rightarrow> 's RuntimeControlServer \<Rightarrow> 's \<Rightarrow> 's RuntimeControlServer \<times> 's \<times> string list" where
  "rc_run [] srv s = (srv, s, [])"
| "rc_run (Stop_Requested # evs) srv s = rc_run evs (rc_stop srv) s"
| "rc_run (Accept_Failed # evs) srv s = rc_run evs srv s"
| "rc_run (Client received # evs) srv s =
     (if rc_running srv then
        (let (s', response) = serve_client (rc_handlers srv) received s;
             (srv', s'', responses) = rc_run evs srv s'
         in (srv', s'', response # responses))
      else rc_run evs srv s)"

section \<open>Reading what was escaped\<close>

text \<open>A reader of JSON string contents up to the closing quote: the specification of the escape.\<close>

fun json_read :: "string \<Rightarrow> (string \<times> string) option" where
  "json_read [] = None"
| "json_read [c] = (if c = CHR 0x22 then Some ([], []) else None)"
| "json_read (c # d # s) =
     (if c = CHR 0x22 then Some ([], d # s)
      else if c = CHR 0x5C then
        (let x = (if d = CHR ''n'' then CHR 0x0A else if d = CHR ''r'' then CHR 0x0D
                  else if d = CHR ''t'' then CHR 0x09 else d)
         in map_option (\<lambda>(v, r). (x # v, r)) (json_read s))
      else map_option (\<lambda>(v, r). (c # v, r)) (json_read (d # s)))"

lemma json_escape_simps [simp]:
  "json_escape [] = []"
  "json_escape (c # s) = json_escape_char c @ json_escape s"
  by (simp_all add: json_escape_def)

lemma json_read_plain:
  "c \<noteq> CHR 0x22 \<Longrightarrow> c \<noteq> CHR 0x5C \<Longrightarrow> s \<noteq> [] \<Longrightarrow>
     json_read (c # s) = map_option (\<lambda>(v, r). (c # v, r)) (json_read s)"
  by (cases s) simp_all

lemma json_read_escape: "json_read (json_escape v @ CHR 0x22 # rest) = Some (v, rest)"
proof (induction v)
  case Nil
  show ?case by (cases rest) simp_all
next
  case (Cons c v)
  then show ?case by (simp add: json_read_plain)
qed

section \<open>Trimming and splitting\<close>

lemma trim_char_blank: "is_blank c \<Longrightarrow> trim_char c"
  by (auto simp: is_blank_def trim_char_def)

lemma dropWhile_all_append: "\<forall>c \<in> set w. P c \<Longrightarrow> dropWhile P (w @ s) = dropWhile P s"
  by (induction w) auto

lemma trim_padded:
  assumes "\<forall>c \<in> set w. trim_char c" and "\<forall>c \<in> set w'. trim_char c"
    and "s \<noteq> []" and "\<not> trim_char (hd s)" and "\<not> trim_char (last s)"
  shows "trim (w @ s @ w') = s"
proof -
  have 1: "dropWhile trim_char (w @ s @ w') = s @ w'"
    using assms by (cases s) (auto simp: dropWhile_all_append)
  have "dropWhile trim_char (rev w' @ rev s) = rev s"
    using assms by (cases "rev s") (auto simp: dropWhile_all_append last_rev hd_rev
      dest: arg_cong [of _ _ hd])
  then show ?thesis by (simp add: trim_def 1)
qed

lemma takeWhile_dropWhile_block:
  assumes "\<forall>c \<in> set s. P c" and "\<not> P x"
  shows "takeWhile P (s @ x # r) = s" and "dropWhile P (s @ x # r) = x # r"
  using assms by (induction s) auto

lemma split_command_words:
  assumes "c \<noteq> []" and "\<forall>x \<in> set c. \<not> trim_char x" and "is_blank b"
    and "\<forall>x \<in> set bs. trim_char x" and "args \<noteq> []" and "\<not> trim_char (hd args)"
    and "\<not> trim_char (last args)" and "\<forall>x \<in> set w. trim_char x" and "\<forall>x \<in> set w'. trim_char x"
  shows "split_command (w @ c @ b # bs @ args @ w') = (c, args)"
proof -
  have "trim (w @ (c @ b # bs @ args) @ w') = c @ b # bs @ args"
    using assms by (intro trim_padded) (cases c, auto)
  moreover have "trim (bs @ args @ []) = args"
    using assms by (intro trim_padded) auto
  moreover have "\<forall>x \<in> set c. \<not> is_blank x"
    using assms(2) trim_char_blank by blast
  ultimately show ?thesis
    using assms(3) by (simp add: split_command_def Let_def takeWhile_dropWhile_block)
qed

lemma split_command_word:
  assumes "c \<noteq> []" and "\<forall>x \<in> set c. \<not> trim_char x"
    and "\<forall>x \<in> set w. trim_char x" and "\<forall>x \<in> set w'. trim_char x"
  shows "split_command (w @ c @ w') = (c, [])"
proof -
  have "trim (w @ c @ w') = c"
    using assms by (intro trim_padded) auto
  moreover have "dropWhile (\<lambda>x. \<not> is_blank x) c = []"
    using assms(2) trim_char_blank by auto
  ultimately show ?thesis by (simp add: split_command_def)
qed

lemma quote_read [simp]: "json_read (json_escape v @ quote @ rest) = Some (v, rest)"
  using json_read_escape [of v rest] by (simp add: quote_def)

section \<open>Properties\<close>

text \<open>
  Commands reach their handler. However a line is padded with white space, its first word
  selects the handler and the handler gets exactly the remaining text, without its padding; a
  word nobody registered is answered with an error and leaves the application's state alone.
\<close>

theorem command_dispatch:
  assumes "c \<noteq> []" and "\<forall>x \<in> set c. \<not> trim_char x" and "is_blank b"
    and "\<forall>x \<in> set (bs @ w @ w'). trim_char x"
    and "args \<noteq> []" and "\<not> trim_char (hd args)" and "\<not> trim_char (last args)"
  shows "handle_command handlers (w @ c @ b # bs @ args @ w') s =
      (case handlers c of Some h \<Rightarrow> h args s | None \<Rightarrow> (s, json_error (''unknown command: '' @ c)))
    \<and> handle_command handlers (w @ c @ w') s =
      (case handlers c of Some h \<Rightarrow> h [] s | None \<Rightarrow> (s, json_error (''unknown command: '' @ c)))"
  using assms by (simp add: handle_command_def split_command_words split_command_word)

theorem command_dispatch_witness:
  "handle_command [''goto'' \<mapsto> (\<lambda>args s. (s + length args, args))]
     ('' goto'' @ CHR 0x20 # '' '' @ ''1 2'' @ [CHR 0x0A]) (4 :: nat) = (7, ''1 2'')"
  using command_dispatch [of "''goto''" "CHR 0x20" "'' ''" "'' ''" "[CHR 0x0A]" "''1 2''"
      "[''goto'' \<mapsto> (\<lambda>args s. (s + length args, args))]" 4]
  by (simp add: trim_char_def is_blank_def)

text \<open>
  Error messages survive their encoding. Whatever bytes a client sent, the message inside an
  error response is a terminated JSON string that reads back as the original message, followed by
  the closing brace alone.
\<close>

theorem json_error_readable:
  "\<exists>prefix rest. json_error message = prefix @ rest
    \<and> length prefix = length (json_error []) - 2 \<and> json_read rest = Some (message, ''}'')"
proof (intro exI conjI)
  let ?prefix = "''{'' @ json_string ''status'' @ '':'' @ json_string ''error'' @ '',''
       @ json_string ''message'' @ '':'' @ quote"
  show "json_error message = ?prefix @ json_escape message @ quote @ ''}''"
    by (simp add: json_error_def json_string_def)
  show "length ?prefix = length (json_error []) - 2"
    by (simp add: json_error_def json_string_def quote_def)
qed (rule quote_read)

end
