(* ===== verification/Teleop_State_Buffer.thy ===== *)
theory Teleop_State_Buffer
  imports Packets Cpp_Double
begin

text \<open>
  \<open>src/core/teleop_state_buffer.cpp\<close>: the follower's view of the command stream. The receive
  thread calls \<open>update\<close>, the control loop the getters; a mutex makes each call atomic, so a
  run is a sequence of calls. The clock reading of \<open>update\<close> is an argument.

  The interface \<open>latest_register\<close> is what the control loops rely on, for commands here
  and for feedback in the theory of the feedback buffer.
\<close>

section \<open>The code\<close>

text \<open>\<open>latest_packet_\<close> is uninitialised until the first update: \<open>None\<close>.\<close>

record 'd TeleopStateBuffer =
  tb_latest_packet :: "'d TeleopPacket option"
  tb_has_data :: bool
  tb_last_receive_time_ns :: u64
  tb_last_seq :: u32
  tb_lost_packet_count :: u32
  tb_average_receive_period_ms :: dbl
  tb_max_receive_gap_ms :: dbl

definition tb_new :: "'d TeleopStateBuffer" where
  "tb_new =
     \<lparr> tb_latest_packet = None, tb_has_data = False, tb_last_receive_time_ns = 0,
       tb_last_seq = 0, tb_lost_packet_count = 0,
       tb_average_receive_period_ms = Fin 0, tb_max_receive_gap_ms = Fin 0 \<rparr>"

definition tb_alpha :: dbl where
  "tb_alpha = Fin (1 / 10)"

definition tb_update :: "u64 \<Rightarrow> 'd TeleopPacket \<Rightarrow> 'd TeleopStateBuffer \<Rightarrow> 'd TeleopStateBuffer" where
  "tb_update now_ns packet b =
     (let b1 =
        (if tb_has_data b then
           (let diff = tp_seq packet - tb_last_seq b
            in if diff > 0x7FFFFFFF then
                 b\<lparr>tb_has_data := False, tb_average_receive_period_ms := Fin 0,
                   tb_max_receive_gap_ms := Fin 0\<rparr>
               else
                 (let lost = (if diff > 1 then tb_lost_packet_count b + (diff - 1)
                              else tb_lost_packet_count b);
                      gap_ms = dbl_of_word (now_ns - tb_last_receive_time_ns b) div Fin 1000000;
                      max_gap = (if gap_ms > tb_max_receive_gap_ms b then gap_ms
                                 else tb_max_receive_gap_ms b);
                      average = (if dbl_eq (tb_average_receive_period_ms b) (Fin 0) then gap_ms
                                 else tb_alpha * gap_ms
                                        + (Fin 1 - tb_alpha) * tb_average_receive_period_ms b)
                  in b\<lparr>tb_lost_packet_count := lost, tb_max_receive_gap_ms := max_gap,
                       tb_average_receive_period_ms := average\<rparr>))
         else b)
      in b1\<lparr>tb_latest_packet := Some packet, tb_last_seq := tp_seq packet,
            tb_last_receive_time_ns := now_ns, tb_has_data := True\<rparr>)"

definition tb_get_latest :: "'d TeleopStateBuffer \<Rightarrow> 'd TeleopPacket option" where
  "tb_get_latest b = (if \<not> tb_has_data b then None else tb_latest_packet b)"

section \<open>The interface: a register that holds the newest packet\<close>

locale latest_register =
  fixes empty :: 'b
    and wf :: "'b \<Rightarrow> bool"
    and upd :: "u64 \<Rightarrow> 'i \<Rightarrow> 'b \<Rightarrow> 'b"
    and get :: "'b \<Rightarrow> 'p option"
    and pkt_of :: "'i \<Rightarrow> 'p"
    and seq_of :: "'p \<Rightarrow> u32"
  assumes get_empty: "get empty = None"
    and wf_empty: "wf empty"
    and wf_upd: "wf b \<Longrightarrow> wf (upd now i b)"
    and get_upd: "wf b \<Longrightarrow> get (upd now i b) = Some (pkt_of i)
      \<or> (\<exists>q. get b = Some q \<and> seq_of q = seq_of (pkt_of i) \<and> get (upd now i b) = Some q)"
begin

lemma wf_run: "wf b \<Longrightarrow> wf (fold (\<lambda>(now, i). upd now i) is b)"
  by (induction "is" arbitrary: b) (auto simp: wf_upd)

lemma get_run:
  assumes "is \<noteq> []"
  shows "\<exists>q. get (fold (\<lambda>(now, i). upd now i) is empty) = Some q
    \<and> q \<in> (pkt_of \<circ> snd) ` set is \<and> seq_of q = seq_of (pkt_of (snd (last is)))"
  using assms
proof (induction "is" rule: rev_induct)
  case (snoc x "is")
  let ?b = "fold (\<lambda>(now, i). upd now i) is empty"
  obtain now i where x: "x = (now, i)" by (cases x)
  show ?case
  proof (cases "get (upd now i ?b) = Some (pkt_of i)")
    case True
    with x show ?thesis by auto
  next
    case False
    then obtain q where q: "get ?b = Some q" "seq_of q = seq_of (pkt_of i)"
        "get (upd now i ?b) = Some q"
      using get_upd [OF wf_run [OF wf_empty], of now i] by auto
    then have "is \<noteq> []" using get_empty by auto
    then have "q \<in> (pkt_of \<circ> snd) ` set is" using snoc.IH q(1) by auto
    with q x show ?thesis by auto
  qed
qed simp

end

lemma tb_get_latest_update [simp]: "tb_get_latest (tb_update now p b) = Some p"
  by (simp add: tb_update_def tb_get_latest_def Let_def)

interpretation tb: latest_register tb_new "\<lambda>_. True" tb_update tb_get_latest "\<lambda>p. p" tp_seq
  by unfold_locales (simp add: tb_get_latest_def tb_new_def, simp_all)

section \<open>Accounting of losses\<close>

definition tb_run :: "(u64 \<times> 'd TeleopPacket) list \<Rightarrow> 'd TeleopStateBuffer \<Rightarrow> 'd TeleopStateBuffer" where
  "tb_run ps b = fold (\<lambda>(now, p). tb_update now p) ps b"

lemma tb_run_simps [simp]:
  "tb_run [] b = b"
  "tb_run ((now, p) # ps) b = tb_run ps (tb_update now p b)"
  by (simp_all add: tb_run_def)

lemma tb_update_fields [simp]:
  "tb_has_data (tb_update now p b)"
  "tb_last_seq (tb_update now p b) = tp_seq p"
  "tb_last_receive_time_ns (tb_update now p b) = now"
  "tb_latest_packet (tb_update now p b) = Some p"
  by (simp_all add: tb_update_def Let_def)

lemma tb_update_lost:
  "tb_lost_packet_count (tb_update now p b) =
     (let diff = tp_seq p - tb_last_seq b
      in if tb_has_data b \<and> 1 < diff \<and> diff \<le> 0x7FFFFFFF
         then tb_lost_packet_count b + (diff - 1) else tb_lost_packet_count b)"
  by (auto simp: tb_update_def Let_def)

text \<open>Each sequence number is a step of 1 to 2^31 - 1 ahead of the one before.\<close>

fun forward_stream :: "u32 \<Rightarrow> u32 list \<Rightarrow> bool" where
  "forward_stream s [] = True"
| "forward_stream s (t # ts) = (1 \<le> t - s \<and> t - s \<le> 0x7FFFFFFF \<and> forward_stream t ts)"

lemma word_span:
  fixes l1 :: u32
  assumes "l1 + 1 = l + (p - s)" and "l2 + n = l1 + (t - p)"
  shows "l2 + (n + 1) = l + (t - s)"
proof -
  have "l2 + (n + 1) = l1 + 1 + (t - p)" using assms(2) by (simp add: ac_simps)
  also have "\<dots> = l + (t - s)" by (simp only: assms(1)) simp
  finally show ?thesis .
qed

lemma tb_run_lost:
  assumes "tb_has_data b" and "forward_stream (tb_last_seq b) (map (tp_seq \<circ> snd) ps)"
  shows "tb_lost_packet_count (tb_run ps b) + word_of_nat (length ps) =
    tb_lost_packet_count b + (tb_last_seq (tb_run ps b) - tb_last_seq b)"
  using assms
proof (induction ps arbitrary: b)
  case (Cons x ps)
  obtain now p where x: "x = (now, p)" by (cases x)
  let ?b = "tb_update now p b"
  have span: "tb_lost_packet_count ?b + 1 = tb_lost_packet_count b + (tp_seq p - tb_last_seq b)"
  proof (cases "1 < tp_seq p - tb_last_seq b")
    case False
    with Cons.prems x have "tp_seq p - tb_last_seq b = 1" by auto
    with Cons.prems show ?thesis by (simp add: tb_update_lost Let_def)
  qed (use Cons.prems x in \<open>simp add: tb_update_lost Let_def\<close>)
  have "tb_lost_packet_count (tb_run ps ?b) + word_of_nat (length ps) =
      tb_lost_packet_count ?b + (tb_last_seq (tb_run ps ?b) - tb_last_seq ?b)"
    using Cons.prems x by (intro Cons.IH) auto
  then have "tb_lost_packet_count (tb_run ps ?b) + word_of_nat (length ps) =
      tb_lost_packet_count ?b + (tb_last_seq (tb_run ps ?b) - tp_seq p)" by simp
  from word_span [OF span this] show ?case
    using x by (simp add: ac_simps)
qed simp

section \<open>Timing statistics\<close>

definition tb_stats_ok :: "'d TeleopStateBuffer \<Rightarrow> bool" where
  "tb_stats_ok b \<longleftrightarrow>
     isfinite (tb_average_receive_period_ms b) \<and> isfinite (tb_max_receive_gap_ms b)
     \<and> 0 \<le> fval (tb_average_receive_period_ms b)
     \<and> fval (tb_average_receive_period_ms b) \<le> fval (tb_max_receive_gap_ms b)"

lemma tb_stats_new [simp]: "tb_stats_ok tb_new"
  by (simp add: tb_stats_ok_def tb_new_def)

lemma tb_stats_update:
  assumes "tb_stats_ok b"
  shows "tb_stats_ok (tb_update now p b)"
proof -
  obtain a m where am: "tb_average_receive_period_ms b = Fin a" "tb_max_receive_gap_ms b = Fin m"
      "0 \<le> a" "a \<le> m"
    using assms by (auto simp: tb_stats_ok_def)
  define g where "g = real (unat (now - tb_last_receive_time_ns b)) / 1000000"
  have g: "0 \<le> g" by (simp add: g_def)
  have ema: "1 / 10 * g + 9 / 10 * a \<le> max g m" "0 \<le> 1 / 10 * g + 9 / 10 * a"
    using am g by (auto simp: max_def)
  show ?thesis
    using am g ema
    by (auto simp: tb_update_def Let_def tb_stats_ok_def dbl_of_word_def tb_alpha_def
        dbl_eq_def max_def g_def [symmetric] split: if_splits)
qed

lemma tb_stats_run: "tb_stats_ok b \<Longrightarrow> tb_stats_ok (tb_run ps b)"
  by (induction ps arbitrary: b) (auto simp: tb_stats_update)

section \<open>Properties\<close>

text \<open>
  C35: no packet disappears unnoticed. On a stream that moves forward by less than 2^31 at a
  time, across the wrap-around of the sequence number too, the packets received after the
  first and the packets counted as lost add up to the distance covered.
\<close>

theorem teleop_loss_accounting:
  assumes "forward_stream (tp_seq p) (map (tp_seq \<circ> snd) ps)"
  shows "tb_lost_packet_count (tb_run ((now, p) # ps) tb_new) + word_of_nat (length ps) =
    tb_last_seq (tb_run ((now, p) # ps) tb_new) - tp_seq p"
proof -
  have "tb_lost_packet_count (tb_update now p tb_new) = 0"
    by (simp add: tb_update_lost tb_new_def)
  then show ?thesis
    using tb_run_lost [of "tb_update now p tb_new" ps] assms by simp
qed

theorem teleop_loss_accounting_witness:
  "tb_lost_packet_count (tb_run [(1, teleop_zero (0 :: u64)\<lparr>tp_seq := 0xFFFFFFFE\<rparr>),
      (2, teleop_zero 0\<lparr>tp_seq := 1\<rparr>)] tb_new) + 1 = 1 - 0xFFFFFFFE"
  using teleop_loss_accounting [of "teleop_zero (0 :: u64)\<lparr>tp_seq := 0xFFFFFFFE\<rparr>"
      "[(2, teleop_zero 0\<lparr>tp_seq := 1\<rparr>)]" 1]
  by (simp add: word_le_nat_alt)

text \<open>
  C36: what the buffer does with an old packet. A packet whose number lies behind the last one
  is not rejected: it becomes the latest packet, the sequence position moves back to it and the
  timing statistics restart, while the loss count stays.
\<close>

theorem teleop_old_packet_accepted:
  assumes "tb_has_data b" and "tp_seq p - tb_last_seq b > 0x7FFFFFFF"
  shows "tb_get_latest (tb_update now p b) = Some p
    \<and> tb_last_seq (tb_update now p b) = tp_seq p
    \<and> tb_average_receive_period_ms (tb_update now p b) = Fin 0
    \<and> tb_max_receive_gap_ms (tb_update now p b) = Fin 0
    \<and> tb_lost_packet_count (tb_update now p b) = tb_lost_packet_count b"
  using assms by (simp add: tb_update_def tb_get_latest_def Let_def)

theorem teleop_old_packet_accepted_witness:
  "tb_last_seq (tb_update 9 (teleop_zero (0 :: u64)\<lparr>tp_seq := 4\<rparr>)
     (tb_update 8 (teleop_zero 0\<lparr>tp_seq := 5\<rparr>) tb_new)) = 4"
  using teleop_old_packet_accepted [of "tb_update 8 (teleop_zero 0\<lparr>tp_seq := 5\<rparr>) tb_new"
      "teleop_zero (0 :: u64)\<lparr>tp_seq := 4\<rparr>" 9]
  by simp

text \<open>
  The timing statistics of any run are finite, non-negative, and the moving average never
  exceeds the largest gap.
\<close>

theorem teleop_timing_statistics:
  "tb_stats_ok (tb_run ps tb_new)"
  by (rule tb_stats_run) simp

end
