(* ===== verification/Feedback_State_Buffer.thy ===== *)
theory Feedback_State_Buffer
  imports Teleop_State_Buffer
begin

text \<open>
  \<open>src/core/feedback_state_buffer.cpp\<close>: the leader's view of the feedback of one arm, with
  the link statistics over a sliding window that the bilateral gate reads. Each call holds the
  mutex, so a run is a sequence of calls; the clock reading of each call is an argument.

  The window is refined against a specification that never forgets a sample
  (\<open>fb_update_spec\<close>): as long as the clock does not run backwards, the statistics of the
  trimmed deque are those of the whole history.
\<close>

section \<open>The code\<close>

record Sample =
  sm_recv_time_ns :: u64
  sm_lost_before :: u32
  sm_rtt_ns :: u64
  sm_cmd_hold_ns :: u64

record 'd FeedbackStateBuffer =
  fb_window_ns :: u64
  fb_latest :: "'d FeedbackPacket option"
  fb_has_data :: bool
  fb_last_receive_time_ns :: u64
  fb_last_seq :: u32
  fb_received_total :: u32
  fb_lost_total :: u32
  fb_samples :: "Sample list"

record Stats =
  st_has_data :: bool
  st_age_ms :: dbl
  st_rate_hz :: dbl
  st_loss_percent :: dbl
  st_rtt_p50_ms :: dbl
  st_rtt_p95_ms :: dbl
  st_rtt_max_ms :: dbl
  st_cmd_hold_p95_ms :: dbl
  st_received_total :: u32
  st_lost_total :: u32

definition stats_new :: Stats where
  "stats_new =
     \<lparr> st_has_data = False, st_age_ms = Fin (- 1), st_rate_hz = Fin 0, st_loss_percent = Fin 0,
       st_rtt_p50_ms = Fin (- 1), st_rtt_p95_ms = Fin (- 1), st_rtt_max_ms = Fin (- 1),
       st_cmd_hold_p95_ms = Fin (- 1), st_received_total = 0, st_lost_total = 0 \<rparr>"

text \<open>\<open>latest_\<close> is zeroed by the constructor and read only when \<open>has_data_\<close>: \<open>None\<close>.\<close>

definition fb_init :: "u64 \<Rightarrow> 'd FeedbackStateBuffer" where
  "fb_init window_ns =
     \<lparr> fb_window_ns = window_ns, fb_latest = None, fb_has_data = False,
       fb_last_receive_time_ns = 0, fb_last_seq = 0, fb_received_total = 0, fb_lost_total = 0,
       fb_samples = [] \<rparr>"

definition fb_new :: "dbl \<Rightarrow> 'd FeedbackStateBuffer result" where
  "fb_new window_s = res_bind (u64_of_dbl (window_s * Fin 1000000000)) (\<lambda>w. Inr (fb_init w))"

definition fb_trim_locked :: "u64 \<Rightarrow> 'd FeedbackStateBuffer \<Rightarrow> 'd FeedbackStateBuffer" where
  "fb_trim_locked now_ns b =
     b\<lparr>fb_samples := dropWhile (\<lambda>s. now_ns - sm_recv_time_ns s > fb_window_ns b) (fb_samples b)\<rparr>"

definition fb_store ::
    "u64 \<Rightarrow> 'd FeedbackPacket \<Rightarrow> u64 \<Rightarrow> u32 \<Rightarrow> 'd FeedbackStateBuffer \<Rightarrow> 'd FeedbackStateBuffer" where
  "fb_store now_ns packet rtt_ns lost_before b =
     b\<lparr>fb_latest := Some packet, fb_last_seq := fp_seq packet,
       fb_last_receive_time_ns := now_ns, fb_has_data := True,
       fb_received_total := fb_received_total b + 1,
       fb_samples := fb_samples b @
         [\<lparr> sm_recv_time_ns = now_ns, sm_lost_before = lost_before, sm_rtt_ns = rtt_ns,
            sm_cmd_hold_ns = fp_cmd_hold_ns packet \<rparr>]\<rparr>"

text \<open>\<open>trim\<close> is \<open>fb_trim_locked now_ns\<close> in the code.\<close>

definition fb_update_with ::
    "('d FeedbackStateBuffer \<Rightarrow> 'd FeedbackStateBuffer) \<Rightarrow>
     u64 \<Rightarrow> 'd FeedbackPacket \<times> u64 \<Rightarrow> 'd FeedbackStateBuffer \<Rightarrow> 'd FeedbackStateBuffer" where
  "fb_update_with trim now_ns pr b =
     (let (packet, rtt_ns) = pr; diff = fp_seq packet - fb_last_seq b
      in if fb_has_data b then
           (if diff > 0x7FFFFFFF then
              trim (fb_store now_ns packet rtt_ns 0 (b\<lparr>fb_samples := []\<rparr>))
            else if diff = 0 then b
            else if diff > 1 then
              trim (fb_store now_ns packet rtt_ns (diff - 1)
                (b\<lparr>fb_lost_total := fb_lost_total b + (diff - 1)\<rparr>))
            else trim (fb_store now_ns packet rtt_ns 0 b))
         else trim (fb_store now_ns packet rtt_ns 0 b))"

definition fb_update ::
    "u64 \<Rightarrow> 'd FeedbackPacket \<times> u64 \<Rightarrow> 'd FeedbackStateBuffer \<Rightarrow> 'd FeedbackStateBuffer" where
  "fb_update now_ns = fb_update_with (fb_trim_locked now_ns) now_ns"

definition fb_get_latest :: "'d FeedbackStateBuffer \<Rightarrow> 'd FeedbackPacket option" where
  "fb_get_latest b = (if \<not> fb_has_data b then None else fb_latest b)"

definition fb_reset :: "'d FeedbackStateBuffer \<Rightarrow> 'd FeedbackStateBuffer" where
  "fb_reset b = b\<lparr>fb_has_data := False, fb_samples := []\<rparr>"

text \<open>The lambda \<open>percentile\<close>: \<open>p\<close> is one of its two literals; \<open>v\<close> comes back sorted.\<close>

definition percentile_index :: "real \<Rightarrow> nat \<Rightarrow> nat" where
  "percentile_index p n = nat \<lfloor>p * real (n - 1) + 1 / 2\<rfloor>"

definition ms_of_ns :: "u64 \<Rightarrow> dbl" where
  "ms_of_ns w = dbl_of_word w div Fin 1000000"

definition percentile :: "u64 list \<Rightarrow> real \<Rightarrow> dbl" where
  "percentile v p =
     (let sv = sort v
      in ms_of_ns (sv ! min (percentile_index p (length sv)) (length sv - 1)))"

definition in_window :: "u64 \<Rightarrow> u64 \<Rightarrow> Sample \<Rightarrow> bool" where
  "in_window now_ns window s \<longleftrightarrow> \<not> now_ns - sm_recv_time_ns s > window"

definition fb_snapshot :: "u64 \<Rightarrow> 'd FeedbackStateBuffer \<Rightarrow> Stats" where
  "fb_snapshot now_ns b =
     (let s = stats_new\<lparr>st_has_data := fb_has_data b, st_received_total := fb_received_total b,
                        st_lost_total := fb_lost_total b\<rparr>
      in if \<not> fb_has_data b then s
         else
           (let smps = filter (in_window now_ns (fb_window_ns b)) (fb_samples b);
                received = (word_of_nat (length smps) :: u32);
                lost = sum_list (map sm_lost_before smps);
                rtts = map sm_rtt_ns (filter (\<lambda>smp. sm_rtt_ns smp > 0) smps);
                holds = map sm_cmd_hold_ns smps;
                s = s\<lparr>st_age_ms := ms_of_ns (now_ns - fb_last_receive_time_ns b),
                      st_rate_hz := dbl_of_word received
                        div (dbl_of_word (fb_window_ns b) div Fin 1000000000),
                      st_loss_percent :=
                        (if received + lost > 0
                         then Fin 100 * dbl_of_word lost div dbl_of_word (received + lost)
                         else Fin 0)\<rparr>;
                s = (if rtts \<noteq> [] then
                       s\<lparr>st_rtt_p50_ms := percentile rtts (1 / 2),
                         st_rtt_p95_ms := percentile rtts (95 / 100),
                         st_rtt_max_ms := ms_of_ns (last (sort rtts))\<rparr>
                     else s)
            in if holds \<noteq> [] then s\<lparr>st_cmd_hold_p95_ms := percentile holds (95 / 100)\<rparr>
               else s))"

section \<open>The register of the newest packet\<close>

lemma fb_get_latest_trim [simp]: "fb_get_latest (fb_trim_locked now b) = fb_get_latest b"
  by (simp add: fb_trim_locked_def fb_get_latest_def)

lemma fb_get_latest_store [simp]: "fb_get_latest (fb_store now p rtt l b) = Some p"
  by (simp add: fb_store_def fb_get_latest_def)

text \<open>The newest packet's number is the last number seen.\<close>

definition fb_wf :: "'d FeedbackStateBuffer \<Rightarrow> bool" where
  "fb_wf b \<longleftrightarrow> (fb_has_data b \<longrightarrow> (\<exists>q. fb_latest b = Some q \<and> fp_seq q = fb_last_seq b))"

lemma fb_wf_update: "fb_wf b \<Longrightarrow> fb_wf (fb_update now pr b)"
  by (auto simp: fb_wf_def fb_update_def fb_update_with_def fb_store_def fb_trim_locked_def
      Let_def split: prod.splits)

lemma fb_get_latest_update:
  assumes "fb_wf b"
  shows "fb_get_latest (fb_update now (p, rtt) b) = Some p
    \<or> (\<exists>q. fb_get_latest b = Some q \<and> fp_seq q = fp_seq p
          \<and> fb_get_latest (fb_update now (p, rtt) b) = Some q)"
  using assms
  by (auto simp: fb_update_def fb_update_with_def Let_def fb_wf_def fb_get_latest_def [of b])

interpretation fb: latest_register "fb_init w" fb_wf fb_update fb_get_latest fst fp_seq
  by unfold_locales
    (simp add: fb_init_def fb_get_latest_def, simp add: fb_init_def fb_wf_def,
     erule fb_wf_update, metis fb_get_latest_update prod.collapse)

section \<open>The window against the whole history\<close>

definition fb_update_spec ::
    "u64 \<Rightarrow> 'd FeedbackPacket \<times> u64 \<Rightarrow> 'd FeedbackStateBuffer \<Rightarrow> 'd FeedbackStateBuffer" where
  "fb_update_spec now_ns = fb_update_with (\<lambda>b. b) now_ns"

text \<open>The buffer \<open>b\<close> is the history \<open>a\<close> with some samples forgotten, all stale at \<open>now\<close>.\<close>

definition forgets :: "u64 \<Rightarrow> 'd FeedbackStateBuffer \<Rightarrow> 'd FeedbackStateBuffer \<Rightarrow> bool" where
  "forgets now b a \<longleftrightarrow>
     (\<exists>old. a = b\<lparr>fb_samples := old @ fb_samples b\<rparr>
        \<and> (\<forall>s \<in> set old. sm_recv_time_ns s \<le> now \<and> \<not> in_window now (fb_window_ns b) s))
     \<and> (\<forall>s \<in> set (fb_samples b). sm_recv_time_ns s \<le> now)"

lemma stale_later:
  assumes "t \<le> now" and "now \<le> later" and "w < now - (t :: u64)"
  shows "w < later - t"
proof -
  have "now - t \<le> later - t"
    using assms(1,2) by (simp add: word_le_nat_alt unat_sub order_trans)
  with assms(3) show ?thesis by simp
qed

lemma forgets_later: "forgets now b a \<Longrightarrow> now \<le> later \<Longrightarrow> forgets later b a"
  by (fastforce simp: forgets_def in_window_def intro: stale_later order_trans)

lemma forgets_trim: "forgets now b a \<Longrightarrow> forgets now (fb_trim_locked now b) a"
proof -
  assume "forgets now b a"
  then obtain old where a: "a = b\<lparr>fb_samples := old @ fb_samples b\<rparr>"
      and old: "\<forall>s \<in> set old. sm_recv_time_ns s \<le> now \<and> \<not> in_window now (fb_window_ns b) s"
      and new: "\<forall>s \<in> set (fb_samples b). sm_recv_time_ns s \<le> now"
    by (auto simp: forgets_def)
  let ?P = "\<lambda>s. now - sm_recv_time_ns s > fb_window_ns b"
  have "a = (fb_trim_locked now b)\<lparr>fb_samples :=
      (old @ takeWhile ?P (fb_samples b)) @ fb_samples (fb_trim_locked now b)\<rparr>"
    by (simp add: a fb_trim_locked_def)
  moreover have "\<forall>s \<in> set (old @ takeWhile ?P (fb_samples b)). sm_recv_time_ns s \<le> now
      \<and> \<not> in_window now (fb_window_ns (fb_trim_locked now b)) s"
    using old new by (auto simp: in_window_def fb_trim_locked_def dest!: set_takeWhileD)
  moreover have "\<forall>s \<in> set (fb_samples (fb_trim_locked now b)). sm_recv_time_ns s \<le> now"
    using new by (auto simp: fb_trim_locked_def dest: set_dropWhileD)
  ultimately show ?thesis unfolding forgets_def by blast
qed

lemma forgets_store:
  "forgets now b a \<Longrightarrow> forgets now (fb_store now p r l b) (fb_store now p r l a)"
  by (force simp: forgets_def fb_store_def)

lemma forgets_update:
  assumes "forgets now b a"
  shows "forgets now (fb_update now pr b) (fb_update_spec now pr a)"
proof -
  obtain p rtt where pr: "pr = (p, rtt)" by (cases pr)
  have same: "fb_has_data a = fb_has_data b" "fb_last_seq a = fb_last_seq b"
      "fb_lost_total a = fb_lost_total b"
    using assms by (auto simp: forgets_def)
  have "forgets now (b\<lparr>fb_samples := []\<rparr>) (a\<lparr>fb_samples := []\<rparr>)"
    and "forgets now (b\<lparr>fb_lost_total := n\<rparr>) (a\<lparr>fb_lost_total := n\<rparr>)" for n
    using assms by (cases b; auto simp: forgets_def)+
  with assms same show ?thesis
    by (auto simp: pr fb_update_def fb_update_spec_def fb_update_with_def Let_def
        intro!: forgets_trim forgets_store)
qed

lemma snapshot_forgets:
  assumes "forgets now b a"
  shows "fb_snapshot now b = fb_snapshot now a"
proof -
  obtain old where a: "a = b\<lparr>fb_samples := old @ fb_samples b\<rparr>"
      and old: "\<forall>s \<in> set old. \<not> in_window now (fb_window_ns b) s"
    using assms by (auto simp: forgets_def)
  then have "filter (in_window now (fb_window_ns a)) (fb_samples a)
      = filter (in_window now (fb_window_ns b)) (fb_samples b)"
    by (simp add: filter_empty_conv)
  with a show ?thesis by (simp add: fb_snapshot_def Let_def)
qed

lemma forgets_run:
  assumes "forgets now b a" and "sorted (map fst is)" and "\<forall>i \<in> set is. now \<le> fst i \<and> fst i \<le> t"
    and "now \<le> t"
  shows "forgets t (fold (\<lambda>(n, i). fb_update n i) is b) (fold (\<lambda>(n, i). fb_update_spec n i) is a)"
  using assms
proof (induction "is" arbitrary: now b a)
  case Nil
  then show ?case by (auto intro: forgets_later)
next
  case (Cons x "is")
  obtain n i where x: "x = (n, i)" by (cases x)
  have "forgets n (fb_update n i b) (fb_update_spec n i a)"
    using Cons.prems x by (intro forgets_update) (auto intro: forgets_later)
  then show ?case
    using Cons.prems x Cons.IH [of n "fb_update n i b" "fb_update_spec n i a"] by auto
qed

section \<open>The statistics\<close>

lemma ms_of_ns_mono: "v \<le> w \<Longrightarrow> ms_of_ns v \<le> ms_of_ns w"
  by (simp add: ms_of_ns_def dbl_of_word_def word_le_nat_alt divide_right_mono)

lemma percentile_index_mono: "p \<le> q \<Longrightarrow> percentile_index p n \<le> percentile_index q n"
  unfolding percentile_index_def by (intro nat_mono floor_mono add_right_mono mult_right_mono) simp_all

lemma percentile_mono:
  assumes "v \<noteq> []" and "p \<le> q"
  shows "percentile v p \<le> percentile v q"
proof -
  have "min (percentile_index p (length v)) (length v - 1)
      \<le> min (percentile_index q (length v)) (length v - 1)"
    using percentile_index_mono [OF assms(2)] by (rule min.mono) simp
  moreover have "min (percentile_index q (length v)) (length v - 1) < length (sort v)"
    using assms(1) by (cases v) (auto simp: min_def)
  ultimately show ?thesis
    unfolding percentile_def Let_def
    by (intro ms_of_ns_mono) (simp add: sorted_nth_mono)
qed

lemma percentile_le_max:
  assumes "v \<noteq> []"
  shows "percentile v p \<le> ms_of_ns (last (sort v))"
proof -
  have "sort v \<noteq> []"
    using assms by (metis length_0_conv length_sort)
  then have "last (sort v) = sort v ! (length v - 1)"
    by (simp add: last_conv_nth)
  moreover have "length v - 1 < length (sort v)"
    using assms by (cases v) auto
  ultimately show ?thesis
    unfolding percentile_def Let_def
    by (intro ms_of_ns_mono) (simp add: sorted_nth_mono)
qed

lemma loss_percent_bounds:
  fixes received lost :: u32
  assumes "unat received + unat lost < 2 ^ 32"
  shows "\<exists>x. (if received + lost > 0
      then Fin 100 * dbl_of_word lost div dbl_of_word (received + lost) else Fin 0) = Fin x
    \<and> 0 \<le> x \<and> x \<le> 100"
proof -
  have sum: "unat (received + lost) = unat received + unat lost"
    using assms by (simp add: unat_add_lem [THEN iffD1])
  show ?thesis
  proof (cases "received + lost > 0")
    case True
    then have "0 < unat received + unat lost"
      by (simp add: sum [symmetric] word_less_nat_alt)
    with True sum show ?thesis
      by (auto simp: dbl_of_word_def divide_le_eq zero_le_divide_iff)
  qed simp
qed

text \<open>The samples the window holds at \<open>now\<close>, and what they add up to.\<close>

definition window_samples :: "u64 \<Rightarrow> 'd FeedbackStateBuffer \<Rightarrow> Sample list" where
  "window_samples now b = filter (in_window now (fb_window_ns b)) (fb_samples b)"

definition window_rtts :: "u64 \<Rightarrow> 'd FeedbackStateBuffer \<Rightarrow> u64 list" where
  "window_rtts now b =
     map sm_rtt_ns (filter (\<lambda>smp. sm_rtt_ns smp > 0) (window_samples now b))"

lemma snapshot_rtts:
  assumes "fb_has_data b" and "window_rtts now b \<noteq> []"
  shows "st_rtt_p50_ms (fb_snapshot now b) = percentile (window_rtts now b) (1 / 2)"
    "st_rtt_p95_ms (fb_snapshot now b) = percentile (window_rtts now b) (95 / 100)"
    "st_rtt_max_ms (fb_snapshot now b) = ms_of_ns (last (sort (window_rtts now b)))"
  using assms
  by (auto simp: fb_snapshot_def Let_def window_rtts_def window_samples_def
      simp del: filter_filter)

lemma snapshot_loss:
  assumes "fb_has_data b"
  shows "st_loss_percent (fb_snapshot now b) =
    (let received = word_of_nat (length (window_samples now b)) :: u32;
         lost = sum_list (map sm_lost_before (window_samples now b))
     in if received + lost > 0
        then Fin 100 * dbl_of_word lost div dbl_of_word (received + lost) else Fin 0)"
  using assms by (simp add: fb_snapshot_def Let_def window_samples_def)

section \<open>Properties\<close>

text \<open>
  C37: the sliding window loses nothing that matters. For a monotone clock the statistics
  computed from the trimmed deque are those computed from every sample ever received since the
  last restart of the sender.
\<close>

theorem feedback_window_refines_history:
  fixes "is" :: "(u64 \<times> 'd FeedbackPacket \<times> u64) list"
  assumes "sorted (map fst is)" and "\<forall>i \<in> set is. fst i \<le> now"
  shows "fb_snapshot now (fold (\<lambda>(n, i). fb_update n i) is (fb_init w)) =
    fb_snapshot now (fold (\<lambda>(n, i). fb_update_spec n i) is (fb_init w))"
proof -
  have "forgets 0 (fb_init w :: 'd FeedbackStateBuffer) (fb_init w)"
    by (simp add: forgets_def fb_init_def)
  then have "forgets now (fold (\<lambda>(n, i). fb_update n i) is (fb_init w))
      (fold (\<lambda>(n, i). fb_update_spec n i) is (fb_init w))"
    using assms by (intro forgets_run) auto
  then show ?thesis by (rule snapshot_forgets)
qed

theorem feedback_window_refines_history_witness:
  "fb_snapshot 30 (fold (\<lambda>(n, i). fb_update n i) [(5, (feedback_zero (0 :: u64), 2)), (20, (feedback_zero 0\<lparr>fp_seq := 1\<rparr>, 3))] (fb_init 12)) =
    fb_snapshot 30 (fold (\<lambda>(n, i). fb_update_spec n i) [(5, (feedback_zero (0 :: u64), 2)), (20, (feedback_zero 0\<lparr>fp_seq := 1\<rparr>, 3))] (fb_init 12))"
  by (rule feedback_window_refines_history) simp_all

text \<open>
  The statistics are what they claim to be: the loss is a percentage and the round trip
  percentiles are ordered, the largest being the maximum.
\<close>

theorem feedback_statistics_bounds:
  assumes "fb_has_data b"
    and "length (window_samples now b)
      + unat (sum_list (map sm_lost_before (window_samples now b)) :: u32) < 2 ^ 32"
    and "window_rtts now b \<noteq> []"
  shows "(\<exists>x. st_loss_percent (fb_snapshot now b) = Fin x \<and> 0 \<le> x \<and> x \<le> 100)
    \<and> st_rtt_p50_ms (fb_snapshot now b) \<le> st_rtt_p95_ms (fb_snapshot now b)
    \<and> st_rtt_p95_ms (fb_snapshot now b) \<le> st_rtt_max_ms (fb_snapshot now b)"
proof (intro conjI)
  let ?n = "length (window_samples now b)"
  have "unat (word_of_nat ?n :: u32) = ?n"
    using assms(2) by (simp add: unat_word_of_nat_less)
  then show "\<exists>x. st_loss_percent (fb_snapshot now b) = Fin x \<and> 0 \<le> x \<and> x \<le> 100"
    using assms(2) loss_percent_bounds [of "word_of_nat ?n"]
    by (simp add: snapshot_loss [OF assms(1)] Let_def)
  show "st_rtt_p50_ms (fb_snapshot now b) \<le> st_rtt_p95_ms (fb_snapshot now b)"
    using assms(3) by (simp add: snapshot_rtts [OF assms(1,3)] percentile_mono)
  show "st_rtt_p95_ms (fb_snapshot now b) \<le> st_rtt_max_ms (fb_snapshot now b)"
    using assms(3) by (simp add: snapshot_rtts [OF assms(1,3)] percentile_le_max)
qed

theorem feedback_statistics_bounds_witness:
  "st_rtt_p50_ms (fb_snapshot 9 (fb_update 5 (feedback_zero (0 :: u64), 2) (fb_init 12)))
    \<le> st_rtt_p95_ms (fb_snapshot 9 (fb_update 5 (feedback_zero (0 :: u64), 2) (fb_init 12)))"
proof -
  let ?b = "fb_update 5 (feedback_zero (0 :: u64), 2) (fb_init 12)"
  have "fb_has_data ?b" and "fb_window_ns ?b = 12" and
    "fb_samples ?b = [\<lparr> sm_recv_time_ns = 5, sm_lost_before = 0, sm_rtt_ns = 2, sm_cmd_hold_ns = 0 \<rparr>]"
    by (simp_all add: fb_update_def fb_update_with_def fb_store_def fb_trim_locked_def fb_init_def
        feedback_zero_def)
  then show ?thesis
    using feedback_statistics_bounds [of ?b 9]
    by (simp add: window_samples_def window_rtts_def in_window_def)
qed

end
