(* ===== verification/Link_Check.thy ===== *)
theory Link_Check
  imports Cpp_Text
begin

text \<open>
  \<open>src/utils/link_check.cpp\<close> and \<open>src/utils/network.cpp\<close>: which interface leads to a peer
  and what kind of link it is. The kernel is the environment: a record holds the answers of
  the system calls, the interface list and the files of sysfs.
\<close>

section \<open>The environment\<close>

text \<open>\<open>ia_addr\<close>: the IPv4 address in network form, \<open>None\<close> for entries without one.\<close>

record IfAddr =
  ia_name :: string
  ia_addr :: "u32 option"
  ia_loopback :: bool

text \<open>
  A system call answers with \<open>None\<close> or a value when it succeeds, with the text of \<open>strerror\<close>
  when it fails.
\<close>

record LinkEnv =
  le_inet_pton :: "string \<Rightarrow> bool"
  le_socket :: "string option"
  le_connect :: "string option"
  le_getsockname :: "string + u32"
  le_inet_ntop :: "u32 \<Rightarrow> string"
  le_getifaddrs :: "string + IfAddr list"
  le_path_exists :: "string \<Rightarrow> bool"
  le_first_line :: "string \<Rightarrow> string option"
  le_siocgiwname :: "string \<Rightarrow> bool"

section \<open>The code\<close>

record LinkInfo =
  li_resolved :: bool
  li_ifname :: string
  li_local_ip :: string
  li_is_loopback :: bool
  li_is_wireless :: bool
  li_has_device :: bool
  li_carrier :: bool
  li_speed_mbps :: int
  li_error :: string

definition link_info_new :: LinkInfo where
  "link_info_new =
     \<lparr> li_resolved = False, li_ifname = [], li_local_ip = [], li_is_loopback = False,
       li_is_wireless = False, li_has_device = False, li_carrier = False, li_speed_mbps = - 1,
       li_error = [] \<rparr>"

definition link_describe :: "LinkInfo \<Rightarrow> string" where
  "link_describe l =
     (if \<not> li_resolved l then ''unresolved ('' @ li_error l @ '')''
      else li_ifname l @ '' local_ip='' @ li_local_ip l
        @ (if li_is_loopback l then '' loopback'' else [])
        @ (if li_is_wireless l then '' wireless'' else '' wired'')
        @ (if li_has_device l then [] else '' virtual'')
        @ '' carrier='' @ (if li_carrier l then ''1'' else ''0'')
        @ '' speed='' @ show_int (li_speed_mbps l) @ ''Mbps'')"

definition read_sysfs_int :: "LinkEnv \<Rightarrow> string \<Rightarrow> int option" where
  "read_sysfs_int env path =
     (case le_first_line env path of
        None \<Rightarrow> None
      | Some line \<Rightarrow> (case stol line of Inl _ \<Rightarrow> None | Inr v \<Rightarrow> Some v))"

text \<open>\<open>static_cast<int>\<close> of a \<open>long\<close>.\<close>

definition int_of_long :: "int \<Rightarrow> int" where
  "int_of_long v = signed_take_bit 31 v"

definition query_link_to :: "LinkEnv \<Rightarrow> string \<Rightarrow> LinkInfo" where
  "query_link_to env peer_ip =
     (let info = link_info_new
      in if \<not> le_inet_pton env peer_ip then info\<lparr>li_error := ''invalid peer ip: '' @ peer_ip\<rparr>
         else case le_socket env of
           Some e \<Rightarrow> info\<lparr>li_error := ''socket: '' @ e\<rparr>
         | None \<Rightarrow>
         (case le_connect env of
           Some e \<Rightarrow> info\<lparr>li_error := ''no route to '' @ peer_ip @ '': '' @ e\<rparr>
         | None \<Rightarrow>
         (case le_getsockname env of
           Inl e \<Rightarrow> info\<lparr>li_error := ''getsockname: '' @ e\<rparr>
         | Inr local \<Rightarrow>
           let info = info\<lparr>li_local_ip := le_inet_ntop env local\<rparr>
           in case le_getifaddrs env of
                Inl e \<Rightarrow> info\<lparr>li_error := ''getifaddrs: '' @ e\<rparr>
              | Inr ifs \<Rightarrow>
                let info = (case find (\<lambda>a. ia_addr a = Some local) ifs of
                      Some a \<Rightarrow> info\<lparr>li_ifname := ia_name a, li_is_loopback := ia_loopback a\<rparr>
                    | None \<Rightarrow> info)
                in if li_ifname info = []
                   then info\<lparr>li_error := ''no interface owns '' @ li_local_ip info\<rparr>
                   else
                     let sys = ''/sys/class/net/'' @ li_ifname info
                     in info\<lparr>
                          li_is_wireless := le_path_exists env (sys @ ''/wireless'')
                            \<or> le_path_exists env (sys @ ''/phy80211'')
                            \<or> le_siocgiwname env (li_ifname info),
                          li_has_device := le_path_exists env (sys @ ''/device''),
                          li_carrier := (read_sysfs_int env (sys @ ''/carrier'') = Some 1
                            \<or> li_is_loopback info),
                          li_speed_mbps := (case read_sysfs_int env (sys @ ''/speed'') of
                              Some v \<Rightarrow> int_of_long v | None \<Rightarrow> - 1),
                          li_resolved := True\<rparr>)))"

text \<open>\<open>get_interface_ip\<close>: the empty string when the interface has no IPv4 address.\<close>

definition get_interface_ip :: "LinkEnv \<Rightarrow> string \<Rightarrow> string" where
  "get_interface_ip env interface_name =
     (case le_getifaddrs env of
        Inl _ \<Rightarrow> []
      | Inr ifs \<Rightarrow>
          (case find (\<lambda>a. ia_addr a \<noteq> None \<and> interface_name = ia_name a) ifs of
             Some a \<Rightarrow> le_inet_ntop env (the (ia_addr a))
           | None \<Rightarrow> []))"

section \<open>What a resolved link says about the system\<close>

lemma query_link_resolved:
  assumes "li_resolved (query_link_to env peer_ip)"
  shows "\<exists>local ifs a. le_getsockname env = Inr local \<and> le_getifaddrs env = Inr ifs
    \<and> a \<in> set ifs \<and> ia_addr a = Some local \<and> ia_name a \<noteq> []
    \<and> query_link_to env peer_ip =
        \<lparr> li_resolved = True, li_ifname = ia_name a, li_local_ip = le_inet_ntop env local,
          li_is_loopback = ia_loopback a,
          li_is_wireless = le_path_exists env (''/sys/class/net/'' @ ia_name a @ ''/wireless'')
            \<or> le_path_exists env (''/sys/class/net/'' @ ia_name a @ ''/phy80211'')
            \<or> le_siocgiwname env (ia_name a),
          li_has_device = le_path_exists env (''/sys/class/net/'' @ ia_name a @ ''/device''),
          li_carrier = (read_sysfs_int env (''/sys/class/net/'' @ ia_name a @ ''/carrier'') = Some 1
            \<or> ia_loopback a),
          li_speed_mbps = (case read_sysfs_int env (''/sys/class/net/'' @ ia_name a @ ''/speed'') of
            Some v \<Rightarrow> int_of_long v | None \<Rightarrow> - 1),
          li_error = [] \<rparr>"
proof -
  note defs = query_link_to_def link_info_new_def
  have p: "le_inet_pton env peer_ip"
    using assms by (rule contrapos_pp) (simp add: defs)
  have s: "le_socket env = None"
    using assms p by (cases "le_socket env") (simp_all add: defs)
  have c: "le_connect env = None"
    using assms p s by (cases "le_connect env") (simp_all add: defs)
  obtain local where l: "le_getsockname env = Inr local"
    using assms p s c by (cases "le_getsockname env") (simp_all add: defs)
  obtain ifs where i: "le_getifaddrs env = Inr ifs"
    using assms p s c l by (cases "le_getifaddrs env") (simp_all add: defs)
  note ok = p s c
  obtain a where a: "find (\<lambda>a. ia_addr a = Some local) ifs = Some a"
    using assms ok l i
    by (cases "find (\<lambda>a. ia_addr a = Some local) ifs")
      (simp_all add: query_link_to_def link_info_new_def Let_def)
  have n: "ia_name a \<noteq> []"
    using assms ok l i a
    by (cases "ia_name a") (simp_all add: query_link_to_def link_info_new_def Let_def)
  have "a \<in> set ifs" and "ia_addr a = Some local"
    using a by (auto simp: find_Some_iff)
  then show ?thesis
    using ok l i a n by (simp add: query_link_to_def link_info_new_def Let_def) blast
qed

end
