(* ===== verification/App_Common.thy ===== *)
theory App_Common
  imports Event_App Runtime_Control Udp_Channel Feedback_State_Buffer Link_Check Cpp_Bits
begin

text \<open>
  What the applications share: the configuration file (\<open>src/yamlloader.hpp\<close>, whose YAML
  library is the environment), command lines, the pose argument of \<open>goto_pose\<close>, and the
  passage between packets as bit patterns and packets as doubles.
\<close>

section \<open>Configuration files\<close>

text \<open>A scalar or sequence node: what the library's \<open>as<T>\<close> makes of it for each type asked for.\<close>

record YamlNode =
  yn_double :: "dbl result"
  yn_vector :: "dbl list result"
  yn_string :: "string result"
  yn_bool :: "bool result"
  yn_int :: "int result"

type_synonym YamlLoader = "string \<Rightarrow> (string \<Rightarrow> YamlNode option) option"

text \<open>The constructor: \<open>file\<close> is the parsed file, or the library's error text.\<close>

definition yaml_load :: "string \<Rightarrow> string + YamlLoader \<Rightarrow> YamlLoader result" where
  "yaml_load filepath file =
     (case file of
        Inl what \<Rightarrow> Inl (Runtime_Error
          (''Failed to load YAML file: '' @ filepath @ '', error: '' @ what))
      | Inr cfg \<Rightarrow> Inr cfg)"

definition yaml_get_node :: "YamlLoader \<Rightarrow> string \<Rightarrow> string \<Rightarrow> YamlNode result" where
  "yaml_get_node cfg node_name key =
     (case cfg node_name of
        None \<Rightarrow> Inl (Runtime_Error (''Node '' @ [CHR 0x27] @ node_name @ [CHR 0x27] @ '' not found.''))
      | Some keys \<Rightarrow>
          (case keys key of
             None \<Rightarrow> Inl (Runtime_Error (''Key '' @ [CHR 0x27] @ key @ [CHR 0x27]
               @ '' not found under node '' @ [CHR 0x27] @ node_name @ [CHR 0x27] @ ''.''))
           | Some n \<Rightarrow> Inr n))"

definition yaml_get :: "(YamlNode \<Rightarrow> 'a result) \<Rightarrow> YamlLoader \<Rightarrow> string \<Rightarrow> string \<Rightarrow> 'a result" where
  "yaml_get as_type cfg node_name key = res_bind (yaml_get_node cfg node_name key) as_type"

definition yaml_has :: "YamlLoader \<Rightarrow> string \<Rightarrow> string \<Rightarrow> bool" where
  "yaml_has cfg node_name key =
     (case cfg node_name of None \<Rightarrow> False | Some keys \<Rightarrow> keys key \<noteq> None)"

definition yaml_has_node :: "YamlLoader \<Rightarrow> string \<Rightarrow> bool" where
  "yaml_has_node cfg node_name \<longleftrightarrow> cfg node_name \<noteq> None"

definition yaml_get_or ::
    "(YamlNode \<Rightarrow> 'a result) \<Rightarrow> YamlLoader \<Rightarrow> string \<Rightarrow> string \<Rightarrow> 'a \<Rightarrow> 'a result" where
  "yaml_get_or as_type cfg node_name key def =
     (if yaml_has cfg node_name key then yaml_get as_type cfg node_name key else Inr def)"

text \<open>The parameter vectors of an arm, as the programs without further options read them.\<close>

definition six_vectors ::
    "YamlLoader \<Rightarrow> string \<Rightarrow> (dbl list \<times> dbl list \<times> dbl list \<times> dbl list \<times> dbl list \<times> dbl list) result" where
  "six_vectors cfg node =
     res_bind (yaml_get yn_vector cfg node ''Kp'') (\<lambda>kp.
     res_bind (yaml_get yn_vector cfg node ''Kd'') (\<lambda>kd.
     res_bind (yaml_get yn_vector cfg node ''Fc'') (\<lambda>Fc.
     res_bind (yaml_get yn_vector cfg node ''k'') (\<lambda>k.
     res_bind (yaml_get yn_vector cfg node ''Fv'') (\<lambda>Fv.
     res_bind (yaml_get yn_vector cfg node ''Fo'') (\<lambda>Fo. Inr (kp, kd, Fc, k, Fv, Fo)))))))"

text \<open>A getter with a default fails only when the key is there and is not of the type.\<close>

lemma yaml_get_or_cases:
  "yaml_get_or f cfg n k d =
     (case cfg n of Some keys \<Rightarrow> (case keys k of Some node \<Rightarrow> f node | None \<Rightarrow> Inr d) | None \<Rightarrow> Inr d)"
  by (auto simp: yaml_get_or_def yaml_has_def yaml_get_def yaml_get_node_def split: option.splits)

section \<open>Command lines\<close>

text \<open>
  The loop over \<open>argv\<close>: an option with a value needs a following argument and consumes it; a
  flag stands alone; anything else is skipped.
\<close>

fun parse_args ::
    "(string \<Rightarrow> string \<Rightarrow> 'a \<Rightarrow> 'a result option) \<Rightarrow> (string \<Rightarrow> 'a \<Rightarrow> 'a option) \<Rightarrow>
     string list \<Rightarrow> 'a \<Rightarrow> 'a result" where
  "parse_args option_of flag_of [] a = Inr a"
| "parse_args option_of flag_of [x] a =
     (case flag_of x a of Some a' \<Rightarrow> Inr a' | None \<Rightarrow> Inr a)"
| "parse_args option_of flag_of (x # v # xs) a =
     (case option_of x v a of
        Some (Inl e) \<Rightarrow> Inl e
      | Some (Inr a') \<Rightarrow> parse_args option_of flag_of xs a'
      | None \<Rightarrow> (case flag_of x a of
                   Some a' \<Rightarrow> parse_args option_of flag_of (v # xs) a'
                 | None \<Rightarrow> parse_args option_of flag_of (v # xs) a))"

lemma parse_args_inv:
  assumes "parse_args option_of flag_of xs a = Inr a'" and "P a"
    and "\<And>x v a b. P a \<Longrightarrow> option_of x v a = Some (Inr b) \<Longrightarrow> P b"
    and "\<And>x a b. P a \<Longrightarrow> flag_of x a = Some b \<Longrightarrow> P b"
  shows "P a'"
  using assms(1,2)
proof (induction xs arbitrary: a rule: induct_list012)
  case (2 x)
  then show ?case by (auto split: option.splits dest: assms(4))
next
  case (3 x v xs)
  show ?case
  proof (cases "option_of x v a")
    case None
    with 3 show ?thesis by (cases "flag_of x a") (auto dest: assms(4))
  next
    case (Some r)
    with 3 show ?thesis by (cases r) (auto dest: assms(3))
  qed
qed simp

text \<open>\<open>uint16_t port = std::stoi(v)\<close>: the conversion keeps the low 16 bits.\<close>

definition arg_u16 :: "string \<Rightarrow> (u16 \<Rightarrow> 'a) \<Rightarrow> 'a result option" where
  "arg_u16 v f = Some (res_bind (stoi v) (\<lambda>i. Inr (f (word_of_int i))))"

definition arg_double :: "string \<Rightarrow> (dbl \<Rightarrow> 'a) \<Rightarrow> 'a result option" where
  "arg_double v f = Some (res_bind (stod v) (\<lambda>d. Inr (f d)))"

text \<open>\<open>--interface\<close> replaces the address to bind to; an interface without one ends the program.\<close>

definition bind_address :: "LinkEnv \<Rightarrow> string \<Rightarrow> string \<Rightarrow> string option" where
  "bind_address env interface_name bind_ip =
     (if interface_name \<noteq> [] then
        (let ip = get_interface_ip env interface_name in if ip \<noteq> [] then Some ip else None)
      else Some bind_ip)"

text \<open>
  The body of a \<open>try\<close> block that fills a struct field by field: an exception leaves the fields
  filled so far.
\<close>

fun try_steps :: "('s \<Rightarrow> 's result) list \<Rightarrow> 's \<Rightarrow> 's \<times> cpp_error option" where
  "try_steps [] s = (s, None)"
| "try_steps (f # fs) s = (case f s of Inl e \<Rightarrow> (s, Some e) | Inr s' \<Rightarrow> try_steps fs s')"

lemma try_steps_append:
  "try_steps (fs @ gs) s = (case try_steps fs s of (s', None) \<Rightarrow> try_steps gs s' | (s', Some e) \<Rightarrow> (s', Some e))"
  by (induction fs s rule: try_steps.induct) (simp_all split: sum.splits)

lemma try_steps_inv:
  assumes "\<And>f s s'. f \<in> set fs \<Longrightarrow> f s = Inr s' \<Longrightarrow> P s \<Longrightarrow> P s'" and "P s"
  shows "P (fst (try_steps fs s))"
  using assms by (induction fs s rule: try_steps.induct) (auto split: sum.splits)

text \<open>\<open>duration_cast<nanoseconds>(duration<double>(s))\<close>, undefined outside 64 bits.\<close>

definition ns_of_seconds :: "dbl \<Rightarrow> int result" where
  "ns_of_seconds s =
     (case s * Fin 1000000000 of
        Fin x \<Rightarrow> (if \<bar>x\<bar> < 2 ^ 63 then Inr (if x < 0 then \<lceil>x\<rceil> else \<lfloor>x\<rfloor>) else Inl Undefined_Behaviour)
      | _ \<Rightarrow> Inl Undefined_Behaviour)"

section \<open>Poses and packets\<close>

definition parse_pose16 :: "string \<Rightarrow> bool \<times> dbl list" where
  "parse_pose16 args = (let out = stream_doubles args in (length out = 16, out))"

text \<open>The floating point fields of a packet, read and written through memory.\<close>

definition teleop_doubles :: "u64 TeleopPacket \<Rightarrow> dbl TeleopPacket" where
  "teleop_doubles p = \<lparr>
     tp_magic = tp_magic p, tp_version = tp_version p, tp_packet_size = tp_packet_size p,
     tp_seq = tp_seq p, tp_send_time_ns = tp_send_time_ns p, tp_arm_side = tp_arm_side p,
     tp_mode = tp_mode p, tp_enable = tp_enable p, tp_estop = tp_estop p,
     tp_arm_dof = tp_arm_dof p, tp_hand_dof = tp_hand_dof p, tp_reserved0 = tp_reserved0 p,
     tp_reserved1 = tp_reserved1 p, tp_arm_pos = map dbl_of_bits (tp_arm_pos p),
     tp_arm_vel = map dbl_of_bits (tp_arm_vel p), tp_hand_pos = map dbl_of_bits (tp_hand_pos p),
     tp_hand_vel = map dbl_of_bits (tp_hand_vel p), tp_crc32 = tp_crc32 p \<rparr>"

definition teleop_bits :: "dbl TeleopPacket \<Rightarrow> u64 TeleopPacket" where
  "teleop_bits p = \<lparr>
     tp_magic = tp_magic p, tp_version = tp_version p, tp_packet_size = tp_packet_size p,
     tp_seq = tp_seq p, tp_send_time_ns = tp_send_time_ns p, tp_arm_side = tp_arm_side p,
     tp_mode = tp_mode p, tp_enable = tp_enable p, tp_estop = tp_estop p,
     tp_arm_dof = tp_arm_dof p, tp_hand_dof = tp_hand_dof p, tp_reserved0 = tp_reserved0 p,
     tp_reserved1 = tp_reserved1 p, tp_arm_pos = map bits_of_dbl (tp_arm_pos p),
     tp_arm_vel = map bits_of_dbl (tp_arm_vel p), tp_hand_pos = map bits_of_dbl (tp_hand_pos p),
     tp_hand_vel = map bits_of_dbl (tp_hand_vel p), tp_crc32 = tp_crc32 p \<rparr>"

definition feedback_doubles :: "u64 FeedbackPacket \<Rightarrow> dbl FeedbackPacket" where
  "feedback_doubles p = \<lparr>
     fp_magic = fp_magic p, fp_version = fp_version p, fp_packet_size = fp_packet_size p,
     fp_seq = fp_seq p, fp_send_time_ns = fp_send_time_ns p, fp_arm_side = fp_arm_side p,
     fp_mode = fp_mode p, fp_enabled = fp_enabled p, fp_estop = fp_estop p,
     fp_arm_dof = fp_arm_dof p, fp_hand_dof = fp_hand_dof p, fp_safety_state = fp_safety_state p,
     fp_link_ok = fp_link_ok p, fp_echo_cmd_seq = fp_echo_cmd_seq p,
     fp_echo_cmd_send_time_ns = fp_echo_cmd_send_time_ns p, fp_cmd_hold_ns = fp_cmd_hold_ns p,
     fp_arm_pos = map dbl_of_bits (fp_arm_pos p), fp_arm_vel = map dbl_of_bits (fp_arm_vel p),
     fp_arm_tau = map dbl_of_bits (fp_arm_tau p), fp_hand_pos = map dbl_of_bits (fp_hand_pos p),
     fp_hand_vel = map dbl_of_bits (fp_hand_vel p), fp_hand_tau = map dbl_of_bits (fp_hand_tau p),
     fp_crc32 = fp_crc32 p \<rparr>"

definition feedback_bits :: "dbl FeedbackPacket \<Rightarrow> u64 FeedbackPacket" where
  "feedback_bits p = \<lparr>
     fp_magic = fp_magic p, fp_version = fp_version p, fp_packet_size = fp_packet_size p,
     fp_seq = fp_seq p, fp_send_time_ns = fp_send_time_ns p, fp_arm_side = fp_arm_side p,
     fp_mode = fp_mode p, fp_enabled = fp_enabled p, fp_estop = fp_estop p,
     fp_arm_dof = fp_arm_dof p, fp_hand_dof = fp_hand_dof p, fp_safety_state = fp_safety_state p,
     fp_link_ok = fp_link_ok p, fp_echo_cmd_seq = fp_echo_cmd_seq p,
     fp_echo_cmd_send_time_ns = fp_echo_cmd_send_time_ns p, fp_cmd_hold_ns = fp_cmd_hold_ns p,
     fp_arm_pos = map bits_of_dbl (fp_arm_pos p), fp_arm_vel = map bits_of_dbl (fp_arm_vel p),
     fp_arm_tau = map bits_of_dbl (fp_arm_tau p), fp_hand_pos = map bits_of_dbl (fp_hand_pos p),
     fp_hand_vel = map bits_of_dbl (fp_hand_vel p), fp_hand_tau = map bits_of_dbl (fp_hand_tau p),
     fp_crc32 = fp_crc32 p \<rparr>"

lemma packet_views_wf [simp]:
  "teleop_wf (teleop_doubles p) \<longleftrightarrow> teleop_wf p" "teleop_wf (teleop_bits q) \<longleftrightarrow> teleop_wf q"
  "feedback_wf (feedback_doubles f) \<longleftrightarrow> feedback_wf f"
  "feedback_wf (feedback_bits g) \<longleftrightarrow> feedback_wf g"
  by (simp_all add: teleop_doubles_def teleop_bits_def feedback_doubles_def feedback_bits_def
      teleop_wf_def feedback_wf_def)

text \<open>A machine on which every socket call fails, for examples.\<close>

definition example_link_env :: LinkEnv where
  "example_link_env =
     \<lparr> le_inet_pton = (\<lambda>_. False), le_socket = None, le_connect = None, le_getsockname = Inl [],
       le_inet_ntop = (\<lambda>_. []), le_getifaddrs = Inr [], le_path_exists = (\<lambda>_. False),
       le_first_line = (\<lambda>_. None), le_siocgiwname = (\<lambda>_. False) \<rparr>"

end
