(* ===== verification/Hardware_Setup.thy ===== *)
theory Hardware_Setup
  imports Controller App_Common
begin

text \<open>
  Bringing up an arm before the control loop: \<open>src/openarm_port/openarm_init.cpp\<close> and the
  \<open>verify_arm_hardware\<close> function that the two bimanual applications share.
\<close>

section \<open>Initialisation and verification of one arm\<close>

text \<open>The calls of \<open>initialize_openarm\<close> on a freshly opened bus.\<close>

definition initialize_openarm :: "MotorConfig \<Rightarrow> can_command list" where
  "initialize_openarm config =
     [Init_Arm_Motors (mc_arm_motor_types config) (mc_arm_send_can_ids config)
        (mc_arm_recv_can_ids config),
      Init_Gripper_Motor (mc_gripper_motor_type config) (mc_gripper_send_can_id config)
        (mc_gripper_recv_can_id config),
      Set_Callback_Mode_State, Enable_All, Sleep_Us 100000, Recv_All None, Sleep_Us 100000]"

definition motor_has_data :: "MotorState \<Rightarrow> bool" where
  "motor_has_data m \<longleftrightarrow> \<not> dbl_eq (ms_position m) (Fin 0) \<or> \<not> dbl_eq (ms_velocity m) (Fin 0)"

definition responding :: "MotorState list \<Rightarrow> nat" where
  "responding motors = length (filter motor_has_data motors)"

text \<open>\<open>rd\<close>: the readings after the second \<open>recv_all\<close>.\<close>

definition verify_arm_hardware :: "Readings \<Rightarrow> can_command list \<times> bool" where
  "verify_arm_hardware rd =
     ([Recv_All (Some 1000), Sleep_Us 50000, Recv_All (Some 1000)],
      \<not> (responding (rd_arm rd) = 0 \<and> responding (rd_gripper rd) = 0))"

lemma verify_arm_hardware_iff:
  "snd (verify_arm_hardware rd) \<longleftrightarrow> (\<exists>m \<in> set (rd_arm rd) \<union> set (rd_gripper rd). motor_has_data m)"
  by (auto simp: verify_arm_hardware_def responding_def filter_empty_conv)

section \<open>The environment of one arm while it is brought up\<close>

text \<open>
  What \<open>Dynamics::Init\<close> makes of the URDF file (\<open>None\<close>: it fails), the readings while the
  hardware is verified, and those during \<open>AdjustPosition\<close>.
\<close>

record ArmEnv =
  ae_dynamics :: "Dynamics option"
  ae_verify :: Readings
  ae_start :: Readings
  ae_steps :: "nat \<Rightarrow> Readings"

text \<open>\<open>AdjustPosition\<close> on both arms, each on a thread of its own; joined.\<close>

type_synonym arm = "Control \<times> RobotSystemState"

definition adjust_arm :: "ArmEnv \<Rightarrow> arm \<Rightarrow> (arm \<times> can_command list) result" where
  "adjust_arm e a =
     res_bind (AdjustPosition (ae_start e) (ae_steps e) (fst a) (snd a)) (\<lambda>(ct, rs, cmds).
       Inr ((ct, rs), cmds))"

section \<open>Moving both arms\<close>

text \<open>The readings of the two buses while the two arms are moved.\<close>

record ThreadEnv =
  th_start_r :: Readings
  th_steps_r :: "nat \<Rightarrow> Readings"
  th_start_l :: Readings
  th_steps_l :: "nat \<Rightarrow> Readings"

definition move_arm ::
    "dbl list \<Rightarrow> dbl list \<Rightarrow> Readings \<Rightarrow> (nat \<Rightarrow> Readings) \<Rightarrow> arm \<Rightarrow> (arm \<times> can_command list) result" where
  "move_arm pose grip start steps a =
     res_bind (MoveToPose pose grip start steps (fst a) (snd a)) (\<lambda>(ct, rs, cmds). Inr ((ct, rs), cmds))"

definition home_pose :: "dbl list" where
  "home_pose = take (NMOTORS - 1) INITIAL_POSITION"

text \<open>Both arms, each on a thread; the result is that of the two threads joined.\<close>

definition move_arms ::
    "dbl list \<Rightarrow> dbl list \<Rightarrow> dbl list \<Rightarrow> dbl list \<Rightarrow> ThreadEnv \<Rightarrow> arm \<times> arm \<Rightarrow>
     ((arm \<times> arm) \<times> can_command list \<times> can_command list) result" where
  "move_arms pr gr pl gl env arms =
     res_bind (move_arm pr gr (th_start_r env) (th_steps_r env) (fst arms)) (\<lambda>(r, cr).
     res_bind (move_arm pl gl (th_start_l env) (th_steps_l env) (snd arms)) (\<lambda>(l, cl).
       Inr ((r, l), cr, cl)))"

text \<open>
  The bring-up sequence of the bimanual applications: right dynamics, right arm, left dynamics,
  left arm, then both to the initial position. \<open>mk\<close> builds the controller of a side. The
  results: the commands on the two buses, and the two arms unless the program returned 1.
\<close>

definition bring_up ::
    "(Dynamics \<Rightarrow> string \<Rightarrow> Control) \<Rightarrow> ArmEnv \<Rightarrow> ArmEnv \<Rightarrow>
     ((can_command list \<times> can_command list) \<times> (arm \<times> arm) option) result" where
  "bring_up mk er el =
     (let init = initialize_openarm DEFAULT_MOTOR_CONFIG;
          new = (\<lambda>e. system_state_new (length (rd_arm (ae_verify e))) (length (rd_gripper (ae_verify e))))
      in case ae_dynamics er of
           None \<Rightarrow> Inr (([], []), None)
         | Some dyn_r \<Rightarrow>
           (let (vr, ok_r) = verify_arm_hardware (ae_verify er)
            in if \<not> ok_r then Inr ((init @ vr @ [Disable_All], []), None)
               else case ae_dynamics el of
                 None \<Rightarrow> Inr ((init @ vr, []), None)
               | Some dyn_l \<Rightarrow>
                 (let (vl, ok_l) = verify_arm_hardware (ae_verify el)
                  in if \<not> ok_l then
                       Inr ((init @ vr @ [Disable_All], init @ vl @ [Disable_All]), None)
                     else
                       res_bind (adjust_arm er (mk dyn_r ''right_arm'', new er)) (\<lambda>(r, cr).
                       res_bind (adjust_arm el (mk dyn_l ''left_arm'', new el)) (\<lambda>(l, cl).
                         Inr ((init @ vr @ cr, init @ vl @ cl), Some (r, l)))))))"

section \<open>When the program gives up\<close>

text \<open>The last command of a bus that switches motors on or off decides whether they are on.\<close>

definition motors_on :: "can_command list \<Rightarrow> bool" where
  "motors_on cmds = fold (\<lambda>c on. if c = Enable_All then True else if c = Disable_All then False else on)
     cmds False"

lemma motors_on_append [simp]: "motors_on (cmds @ [Disable_All]) = False"
  by (simp add: motors_on_def)

lemma motors_on_neutral:
  assumes "Enable_All \<notin> set xs" and "Disable_All \<notin> set xs"
  shows "motors_on (cmds @ xs) = motors_on cmds"
proof -
  have "fold (\<lambda>c on. if c = Enable_All then True else if c = Disable_All then False else on) xs b = b" for b
    using assms by (induction xs arbitrary: b) auto
  then show ?thesis by (simp add: motors_on_def)
qed

lemma adjust_arm_frames:
  "adjust_arm e a = Inr (a', cmds) \<Longrightarrow> Enable_All \<notin> set cmds \<and> Disable_All \<notin> set cmds"
  by (auto simp: adjust_arm_def AdjustPosition_def MoveToPose_def move_step_def res_bind_eq_Inr Let_def
      split: if_splits)

lemma motors_on_started:
  "motors_on (initialize_openarm config @ fst (verify_arm_hardware rd))"
  "Enable_All \<notin> set xs \<Longrightarrow> Disable_All \<notin> set xs \<Longrightarrow>
     motors_on (initialize_openarm config @ fst (verify_arm_hardware rd) @ xs)"
  "\<not> motors_on (initialize_openarm config @ fst (verify_arm_hardware rd) @ [Disable_All])"
  "\<not> motors_on []"
proof -
  show on: "motors_on (initialize_openarm config @ fst (verify_arm_hardware rd))"
    by (simp add: motors_on_def initialize_openarm_def verify_arm_hardware_def)
  show "motors_on (initialize_openarm config @ fst (verify_arm_hardware rd) @ xs)"
    if "Enable_All \<notin> set xs" "Disable_All \<notin> set xs"
    using on motors_on_neutral [OF that, of "initialize_openarm config @ fst (verify_arm_hardware rd)"]
    by simp
qed (simp_all add: motors_on_def)

lemma bring_up_leaves_on:
  assumes "bring_up mk er el = Inr ((cr, cl), r)"
  shows "motors_on cl \<longleftrightarrow> r \<noteq> None" and "r \<noteq> None \<Longrightarrow> motors_on cr"
  using assms
  by (auto simp: bring_up_def res_bind_eq_Inr Let_def split_beta motors_on_started
      split: option.splits if_splits dest!: adjust_arm_frames)

text \<open>
  C33: a failed bring-up. When the program gives up, no arm moved; both arms are off if the cause
  was a hardware verification or the right arm's model, but when only the left arm's model fails
  to load, the right arm is left switched on.
\<close>

theorem bring_up_failure:
  assumes "bring_up mk er el = Inr ((cr, cl), None)"
  shows "(\<forall>c \<in> set (cr @ cl). \<forall>ps. c \<noteq> Arm_Mit ps \<and> c \<noteq> Gripper_Mit ps) \<and> \<not> motors_on cl
    \<and> (motors_on cr \<longleftrightarrow> ae_dynamics er \<noteq> None \<and> snd (verify_arm_hardware (ae_verify er))
         \<and> ae_dynamics el = None)"
  using assms
  by (cases "ae_dynamics er"; cases "ae_dynamics el")
    (auto simp: bring_up_def verify_arm_hardware_def initialize_openarm_def motors_on_def Let_def
      res_bind_eq_Inr split: if_splits)

theorem bring_up_failure_witness:
  "\<exists>cr cl. bring_up (\<lambda>_ _. control_new None None 0 [])
      \<lparr> ae_dynamics = Some \<lparr> dy_joints = 7, dy_gravity = (\<lambda>q. q), dy_coriolis = (\<lambda>q dq. q) \<rparr>,
        ae_verify = \<lparr> rd_arm = [\<lparr> ms_position = Fin 1, ms_velocity = Fin 0, ms_effort = Fin 0 \<rparr>],
          rd_gripper = [] \<rparr>,
        ae_start = \<lparr> rd_arm = [], rd_gripper = [] \<rparr>,
        ae_steps = (\<lambda>_. \<lparr> rd_arm = [], rd_gripper = [] \<rparr>) \<rparr>
      \<lparr> ae_dynamics = None, ae_verify = \<lparr> rd_arm = [], rd_gripper = [] \<rparr>,
        ae_start = \<lparr> rd_arm = [], rd_gripper = [] \<rparr>,
        ae_steps = (\<lambda>_. \<lparr> rd_arm = [], rd_gripper = [] \<rparr>) \<rparr> = Inr ((cr, cl), None) \<and> motors_on cr"
  (is "\<exists>cr cl. bring_up ?mk ?er ?el = _ \<and> _")
proof -
  obtain cr cl where b: "bring_up ?mk ?er ?el = Inr ((cr, cl), None)"
    by (simp add: bring_up_def verify_arm_hardware_def responding_def motor_has_data_def dbl_eq_def)
  from bring_up_failure [OF b] have "motors_on cr"
    by (simp add: verify_arm_hardware_def responding_def motor_has_data_def dbl_eq_def)
  with b show ?thesis by blast
qed

text \<open>A bus without motors, for examples.\<close>

definition no_motors :: Readings where
  "no_motors = \<lparr> rd_arm = [], rd_gripper = [] \<rparr>"

end
