(* ===== verification/Safety.thy ===== *)
theory Safety
  imports Packets Cpp_Double
begin

text \<open>
  \<open>src/safety/watchdog.cpp\<close> and \<open>src/safety/safety_manager.cpp\<close>: the state machine that
  decides whether a follower arm may move. The manager's methods hold its mutex, so a run is a
  sequence of calls. The transition relation \<open>safety_step\<close> states the policy as rules; the
  code is proved to implement exactly it (\<open>safety_call_iff_step\<close>), and the safety properties
  are consequences of the rules.
\<close>

section \<open>The watchdog\<close>

datatype Status = OK | WARNING | HOLD_STATUS | DISABLE

record Watchdog =
  wd_warning_ms :: dbl
  wd_hold_ms :: dbl
  wd_disable_ms :: dbl

definition watchdog_check :: "Watchdog \<Rightarrow> dbl \<Rightarrow> Status" where
  "watchdog_check w t =
     (if t \<ge> wd_disable_ms w then DISABLE
      else if t \<ge> wd_hold_ms w then HOLD_STATUS
      else if t \<ge> wd_warning_ms w then WARNING
      else OK)"

text \<open>Statuses in the order of severity.\<close>

definition severity :: "Status \<Rightarrow> nat" where
  "severity s = (case s of OK \<Rightarrow> 0 | WARNING \<Rightarrow> 1 | HOLD_STATUS \<Rightarrow> 2 | DISABLE \<Rightarrow> 3)"

lemma severity_inject [simp]: "severity s = severity t \<longleftrightarrow> s = t"
  by (simp add: severity_def split: Status.splits)

instantiation Status :: linorder
begin

definition less_eq_Status :: "Status \<Rightarrow> Status \<Rightarrow> bool" where
  "less_eq_Status s t \<longleftrightarrow> severity s \<le> severity t"

definition less_Status :: "Status \<Rightarrow> Status \<Rightarrow> bool" where
  "less_Status s t \<longleftrightarrow> severity s < severity t"

instance
  by standard (auto simp: less_eq_Status_def less_Status_def)

end

lemma watchdog_mono: "s \<le> t \<Longrightarrow> watchdog_check w s \<le> watchdog_check w t"
  by (auto simp: watchdog_check_def less_eq_Status_def severity_def intro: dbl_le_trans)

section \<open>The safety manager\<close>

datatype SafetyState =
    DISABLED
  | WAITING_FOR_ENABLE
  | READY
  | ACTIVE
  | WARNING_TIMEOUT
  | HOLD
  | ESTOP
  | FAULT

text \<open>The numeric value of the enumerator, as it is sent in packets.\<close>

definition safety_state_code :: "SafetyState \<Rightarrow> u8" where
  "safety_state_code s =
     (case s of DISABLED \<Rightarrow> 0 | WAITING_FOR_ENABLE \<Rightarrow> 1 | READY \<Rightarrow> 2 | ACTIVE \<Rightarrow> 3
      | WARNING_TIMEOUT \<Rightarrow> 4 | HOLD \<Rightarrow> 5 | ESTOP \<Rightarrow> 6 | FAULT \<Rightarrow> 7)"

record SafetyConfig =
  sc_require_enable :: bool
  sc_watchdog_warning_ms :: dbl
  sc_watchdog_hold_ms :: dbl
  sc_watchdog_disable_ms :: dbl
  sc_initial_pose_max_error_rad :: dbl
  sc_max_target_delta_rad_per_cycle :: dbl
  sc_max_joint_velocity_rad_s :: dbl
  sc_reject_out_of_order_packets :: bool

definition safety_config_default :: SafetyConfig where
  "safety_config_default =
     \<lparr> sc_require_enable = True, sc_watchdog_warning_ms = Fin 20, sc_watchdog_hold_ms = Fin 50,
       sc_watchdog_disable_ms = Fin 100, sc_initial_pose_max_error_rad = Fin (3 / 10),
       sc_max_target_delta_rad_per_cycle = Fin (2 / 100),
       sc_max_joint_velocity_rad_s = Fin (15 / 10), sc_reject_out_of_order_packets = True \<rparr>"

record SafetyManager =
  sm_config :: SafetyConfig
  sm_state :: SafetyState
  sm_estop_triggered :: bool

definition safety_initial_state :: "SafetyConfig \<Rightarrow> SafetyState" where
  "safety_initial_state c = (if sc_require_enable c then WAITING_FOR_ENABLE else READY)"

definition safety_new :: "SafetyConfig \<Rightarrow> SafetyManager" where
  "safety_new c =
     \<lparr> sm_config = c, sm_state = safety_initial_state c, sm_estop_triggered = False \<rparr>"

definition safety_watchdog :: "SafetyConfig \<Rightarrow> Watchdog" where
  "safety_watchdog c =
     \<lparr> wd_warning_ms = sc_watchdog_warning_ms c, wd_hold_ms = sc_watchdog_hold_ms c,
       wd_disable_ms = sc_watchdog_disable_ms c \<rparr>"

definition safety_update :: "'d TeleopPacket \<Rightarrow> dbl \<Rightarrow> SafetyManager \<Rightarrow> SafetyManager" where
  "safety_update latest_packet time_since_ms m =
     (if sm_estop_triggered m \<or> tp_estop latest_packet = 1 then m\<lparr>sm_state := ESTOP\<rparr>
      else if sm_state m = DISABLED then m
      else if sc_require_enable (sm_config m) \<and> tp_enable latest_packet = 0
        then m\<lparr>sm_state := WAITING_FOR_ENABLE\<rparr>
      else
        let wd_status = watchdog_check (safety_watchdog (sm_config m)) time_since_ms
        in if wd_status = DISABLE then m\<lparr>sm_state := FAULT\<rparr>
           else if sm_state m = WAITING_FOR_ENABLE \<and> tp_enable latest_packet \<noteq> 1 then m
           else
             let state = (if sm_state m = WAITING_FOR_ENABLE then READY else sm_state m)
             in if state = READY \<or> state = ACTIVE \<or> state = WARNING_TIMEOUT \<or> state = HOLD
                then (if wd_status = HOLD_STATUS then m\<lparr>sm_state := HOLD\<rparr>
                      else if wd_status = WARNING then m\<lparr>sm_state := WARNING_TIMEOUT\<rparr>
                      else m\<lparr>sm_state := ACTIVE\<rparr>)
                else m\<lparr>sm_state := state\<rparr>)"

definition safety_trigger_estop :: "SafetyManager \<Rightarrow> SafetyManager" where
  "safety_trigger_estop m = m\<lparr>sm_estop_triggered := True, sm_state := ESTOP\<rparr>"

definition safety_reset :: "SafetyManager \<Rightarrow> SafetyManager" where
  "safety_reset m =
     m\<lparr>sm_estop_triggered := False, sm_state := safety_initial_state (sm_config m)\<rparr>"

text \<open>The calls other threads make on a manager, in the order the mutex admits them.\<close>

datatype 'd safety_op =
    Update "'d TeleopPacket" dbl
  | Trigger_Estop
  | Reset

fun safety_call :: "'d safety_op \<Rightarrow> SafetyManager \<Rightarrow> SafetyManager" where
  "safety_call (Update p t) m = safety_update p t m"
| "safety_call Trigger_Estop m = safety_trigger_estop m"
| "safety_call Reset m = safety_reset m"

definition safety_run :: "'d safety_op list \<Rightarrow> SafetyManager \<Rightarrow> SafetyManager" where
  "safety_run cs m = fold safety_call cs m"

section \<open>The policy as rules\<close>

text \<open>States in which the arm is driven: the policy's notion of being live.\<close>

definition live :: "SafetyState \<Rightarrow> bool" where
  "live s \<longleftrightarrow> s = ACTIVE \<or> s = WARNING_TIMEOUT \<or> s = HOLD"

definition live_state :: "Status \<Rightarrow> SafetyState" where
  "live_state w = (case w of WARNING \<Rightarrow> WARNING_TIMEOUT | HOLD_STATUS \<Rightarrow> HOLD | _ \<Rightarrow> ACTIVE)"

text \<open>
  One rule per reason for a transition; a state is the pair of the visible state and the
  latch of the software emergency stop.
\<close>

inductive safety_step ::
    "SafetyConfig \<Rightarrow> SafetyState \<times> bool \<Rightarrow> 'd safety_op \<Rightarrow> SafetyState \<times> bool \<Rightarrow> bool"
  for c where
  latched: "safety_step c (s, True) (Update p t) (ESTOP, True)"
| packet_estop: "tp_estop p = 1 \<Longrightarrow> safety_step c (s, False) (Update p t) (ESTOP, False)"
| disabled: "tp_estop p \<noteq> 1 \<Longrightarrow> safety_step c (DISABLED, False) (Update p t) (DISABLED, False)"
| not_enabled: "tp_estop p \<noteq> 1 \<Longrightarrow> s \<noteq> DISABLED \<Longrightarrow> sc_require_enable c \<Longrightarrow> tp_enable p = 0 \<Longrightarrow>
    safety_step c (s, False) (Update p t) (WAITING_FOR_ENABLE, False)"
| timeout: "tp_estop p \<noteq> 1 \<Longrightarrow> s \<noteq> DISABLED \<Longrightarrow> \<not> (sc_require_enable c \<and> tp_enable p = 0) \<Longrightarrow>
    watchdog_check (safety_watchdog c) t = DISABLE \<Longrightarrow>
    safety_step c (s, False) (Update p t) (FAULT, False)"
| still_waiting: "tp_estop p \<noteq> 1 \<Longrightarrow> \<not> (sc_require_enable c \<and> tp_enable p = 0) \<Longrightarrow>
    watchdog_check (safety_watchdog c) t \<noteq> DISABLE \<Longrightarrow> tp_enable p \<noteq> 1 \<Longrightarrow>
    safety_step c (WAITING_FOR_ENABLE, False) (Update p t) (WAITING_FOR_ENABLE, False)"
| enabled: "tp_estop p \<noteq> 1 \<Longrightarrow> watchdog_check (safety_watchdog c) t \<noteq> DISABLE \<Longrightarrow>
    tp_enable p = 1 \<Longrightarrow>
    safety_step c (WAITING_FOR_ENABLE, False) (Update p t)
      (live_state (watchdog_check (safety_watchdog c) t), False)"
| fresh: "tp_estop p \<noteq> 1 \<Longrightarrow> s = READY \<or> live s \<Longrightarrow>
    \<not> (sc_require_enable c \<and> tp_enable p = 0) \<Longrightarrow>
    watchdog_check (safety_watchdog c) t \<noteq> DISABLE \<Longrightarrow>
    safety_step c (s, False) (Update p t)
      (live_state (watchdog_check (safety_watchdog c) t), False)"
| stuck: "tp_estop p \<noteq> 1 \<Longrightarrow> s = FAULT \<or> s = ESTOP \<Longrightarrow>
    \<not> (sc_require_enable c \<and> tp_enable p = 0) \<Longrightarrow>
    watchdog_check (safety_watchdog c) t \<noteq> DISABLE \<Longrightarrow>
    safety_step c (s, False) (Update p t) (s, False)"
| trigger: "safety_step c (s, e) Trigger_Estop (ESTOP, True)"
| reset: "safety_step c (s, e) Reset (safety_initial_state c, False)"

inductive_cases safety_step_UpdateE: "safety_step c s (Update p t) s'"
inductive_simps safety_step_trigger [simp]: "safety_step c s Trigger_Estop s'"
inductive_simps safety_step_reset [simp]: "safety_step c s Reset s'"

definition safety_view :: "SafetyManager \<Rightarrow> SafetyState \<times> bool" where
  "safety_view m = (sm_state m, sm_estop_triggered m)"

lemma safety_call_config [simp]: "sm_config (safety_call call m) = sm_config m"
  by (cases call)
    (simp_all add: safety_update_def Let_def safety_trigger_estop_def safety_reset_def)

lemma safety_step_live:
  assumes "tp_estop p \<noteq> 1" and "watchdog_check (safety_watchdog c) t = w" and "w \<noteq> DISABLE"
    and "s = WAITING_FOR_ENABLE \<and> tp_enable p = 1
      \<or> (s = READY \<or> live s) \<and> \<not> (sc_require_enable c \<and> tp_enable p = 0)"
    and "s' = live_state w"
  shows "safety_step c (s, False) (Update p t) (s', False)"
  using assms by (auto intro: enabled fresh)

lemma safety_call_step:
  "safety_step (sm_config m) (safety_view m) call (safety_view (safety_call call m))"
proof (cases call)
  case (Update p t)
  let ?c = "sm_config m" and ?s = "sm_state m"
  let ?w = "watchdog_check (safety_watchdog ?c) t"
  consider (stop) "sm_estop_triggered m \<or> tp_estop p = 1"
    | (off) "\<not> sm_estop_triggered m" "tp_estop p \<noteq> 1" "?s = DISABLED"
    | (cleared) "\<not> sm_estop_triggered m" "tp_estop p \<noteq> 1" "?s \<noteq> DISABLED"
        "sc_require_enable ?c \<and> tp_enable p = 0"
    | (late) "\<not> sm_estop_triggered m" "tp_estop p \<noteq> 1" "?s \<noteq> DISABLED"
        "\<not> (sc_require_enable ?c \<and> tp_enable p = 0)" "?w = DISABLE"
    | (timely) "\<not> sm_estop_triggered m" "tp_estop p \<noteq> 1" "?s \<noteq> DISABLED"
        "\<not> (sc_require_enable ?c \<and> tp_enable p = 0)" "?w \<noteq> DISABLE"
    by blast
  then have "safety_step ?c (safety_view m) (Update p t) (safety_view (safety_update p t m))"
    (is ?step)
  proof cases
    case stop
    then show ?step
      by (cases "sm_estop_triggered m")
        (auto simp: safety_view_def safety_update_def intro: latched packet_estop)
  next
    case timely
    show ?step
    proof (cases "?s = WAITING_FOR_ENABLE \<and> tp_enable p = 1 \<or> ?s = READY \<or> live ?s")
      case True
      with timely have "safety_view (safety_update p t m) = (live_state ?w, False)"
        by (cases ?w) (auto simp: safety_view_def safety_update_def Let_def live_state_def live_def)
      with True timely show ?step
        by (auto simp: safety_view_def intro!: safety_step_live)
    next
      case False
      then have "?s = WAITING_FOR_ENABLE \<and> tp_enable p \<noteq> 1 \<or> ?s = FAULT \<or> ?s = ESTOP"
        using timely(3) by (cases ?s) (auto simp: live_def)
      with timely show ?step
        by (auto simp: safety_view_def safety_update_def Let_def intro: still_waiting stuck)
    qed
  qed (auto simp: safety_view_def safety_update_def Let_def intro: disabled not_enabled timeout)
  then show ?thesis using Update by simp
qed (auto simp: safety_view_def safety_trigger_estop_def safety_reset_def)

text \<open>The rules are deterministic, so the code and the policy are the same function.\<close>

lemma safety_step_det:
  "safety_step c s call s' \<Longrightarrow> safety_step c s call s'' \<Longrightarrow> s' = s''"
  by (cases call) (auto elim!: safety_step_UpdateE simp: live_def)

lemma safety_call_iff_step:
  "safety_step (sm_config m) (safety_view m) call s' \<longleftrightarrow> s' = safety_view (safety_call call m)"
  using safety_call_step safety_step_det by blast

section \<open>Runs\<close>

lemma safety_run_simps [simp]:
  "safety_run [] m = m"
  "safety_run (c # cs) m = safety_run cs (safety_call c m)"
  by (simp_all add: safety_run_def)

lemma safety_run_config [simp]: "sm_config (safety_run cs m) = sm_config m"
  by (induction cs arbitrary: m) simp_all

lemma safety_step_latched:
  "safety_step c (ESTOP, True) call s' \<Longrightarrow> call \<noteq> Reset \<Longrightarrow> s' = (ESTOP, True)"
  by (cases call) (auto elim!: safety_step_UpdateE)

lemma safety_run_latched:
  "safety_view m = (ESTOP, True) \<Longrightarrow> Reset \<notin> set cs \<Longrightarrow> safety_view (safety_run cs m) = (ESTOP, True)"
proof (induction cs arbitrary: m)
  case (Cons c cs)
  then have "safety_view (safety_call c m) = (ESTOP, True)"
    using safety_call_step [of m c] safety_step_latched by fastforce
  with Cons show ?case by simp
qed simp

text \<open>The runs the policy allows: one rule of \<open>safety_step\<close> for each call.\<close>

inductive safety_policy_run ::
    "SafetyConfig \<Rightarrow> SafetyState \<times> bool \<Rightarrow> 'd safety_op list \<Rightarrow> SafetyState \<times> bool \<Rightarrow> bool"
  for c where
  policy_nil: "safety_policy_run c s [] s"
| policy_cons: "safety_step c s call s' \<Longrightarrow> safety_policy_run c s' calls s'' \<Longrightarrow>
    safety_policy_run c s (call # calls) s''"

inductive_cases safety_policy_run_NilE [elim!]: "safety_policy_run c s [] s'"
inductive_cases safety_policy_run_ConsE [elim!]: "safety_policy_run c s (call # calls) s'"

lemma safety_run_iff_policy:
  "safety_policy_run (sm_config m) (safety_view m) calls s'
     \<longleftrightarrow> s' = safety_view (safety_run calls m)"
proof
  show "safety_policy_run (sm_config m) (safety_view m) calls s' \<Longrightarrow>
      s' = safety_view (safety_run calls m)"
  proof (induction calls arbitrary: m)
    case (Cons call calls)
    then obtain v where "safety_step (sm_config m) (safety_view m) call v"
      and rest: "safety_policy_run (sm_config m) v calls s'"
      by blast
    then have "v = safety_view (safety_call call m)"
      using safety_call_iff_step by blast
    with rest Cons.IH [of "safety_call call m"] show ?case by simp
  qed auto
  have "safety_policy_run (sm_config m) (safety_view m) calls (safety_view (safety_run calls m))"
  proof (induction calls arbitrary: m)
    case (Cons call calls)
    show ?case
      using policy_cons [OF safety_call_step Cons.IH [of "safety_call call m", simplified]] by simp
  qed (simp add: policy_nil)
  then show "s' = safety_view (safety_run calls m) \<Longrightarrow>
      safety_policy_run (sm_config m) (safety_view m) calls s'"
    by simp
qed

text \<open>A call that takes the enable signal away, and one that can make a waiting arm live.\<close>

fun disarming :: "'d safety_op \<Rightarrow> bool" where
  "disarming (Update p t) \<longleftrightarrow> tp_enable p = 0"
| "disarming Trigger_Estop \<longleftrightarrow> False"
| "disarming Reset \<longleftrightarrow> True"

fun enabling :: "SafetyConfig \<Rightarrow> 'd safety_op \<Rightarrow> bool" where
  "enabling c (Update p t) \<longleftrightarrow>
     tp_enable p = 1 \<and> tp_estop p \<noteq> 1 \<and> watchdog_check (safety_watchdog c) t \<noteq> DISABLE"
| "enabling c _ \<longleftrightarrow> False"

lemma live_live_state [simp]: "w \<noteq> DISABLE \<Longrightarrow> live (live_state w)"
  by (cases w) (simp_all add: live_state_def live_def)

lemma safety_step_to_live:
  assumes "safety_step c (s, e) call (s', e')" and "live s'" and "\<not> live s" and "s \<noteq> READY"
  shows "enabling c call \<and> s = WAITING_FOR_ENABLE"
  using assms by (cases call) (auto elim!: safety_step_UpdateE simp: live_def safety_initial_state_def
      split: if_splits)

lemma safety_step_not_ready:
  "safety_step c (s, e) call (s', e') \<Longrightarrow> sc_require_enable c \<Longrightarrow> s \<noteq> READY \<Longrightarrow> s' \<noteq> READY"
  by (cases call) (auto elim!: safety_step_UpdateE simp: live_state_def safety_initial_state_def
      split: Status.splits)

lemma safety_step_recover:
  assumes "safety_step c (s, e) call (s', e')" and "s = FAULT \<or> s = ESTOP"
    and "s' \<noteq> FAULT" and "s' \<noteq> ESTOP"
  shows "disarming call"
  using assms by (cases call) (auto elim!: safety_step_UpdateE simp: live_def)

lemma safety_call_view_step:
  "safety_step (sm_config m) (sm_state m, sm_estop_triggered m) call
     (sm_state (safety_call call m), sm_estop_triggered (safety_call call m))"
  using safety_call_step [of m call] by (simp add: safety_view_def)

lemma run_to_live:
  assumes "sc_require_enable (sm_config m)" and "\<not> live (sm_state m)" and "sm_state m \<noteq> READY"
    and "live (sm_state (safety_run cs m))"
  shows "\<exists>as a bs. cs = as @ a # bs \<and> enabling (sm_config m) a"
  using assms
proof (induction cs arbitrary: m)
  case (Cons c cs)
  note step = safety_call_view_step [of m c]
  show ?case
  proof (cases "live (sm_state (safety_call c m))")
    case True
    then have "enabling (sm_config m) c"
      using safety_step_to_live [OF step] Cons.prems by simp
    then show ?thesis by (metis append_Nil)
  next
    case False
    moreover have "sm_state (safety_call c m) \<noteq> READY"
      using safety_step_not_ready [OF step] Cons.prems by simp
    ultimately obtain as a bs where "cs = as @ a # bs" "enabling (sm_config m) a"
      using Cons.IH [of "safety_call c m"] Cons.prems by auto
    then show ?thesis by (metis append_Cons)
  qed
qed simp

lemma run_recover:
  assumes "sc_require_enable (sm_config m)" and "sm_state m = FAULT \<or> sm_state m = ESTOP"
    and "live (sm_state (safety_run cs m))"
  shows "\<exists>as d bs a ds. cs = as @ d # bs @ a # ds \<and> disarming d \<and> enabling (sm_config m) a"
  using assms
proof (induction cs arbitrary: m)
  case Nil
  then show ?case by (auto simp: live_def)
next
  case (Cons c cs)
  note step = safety_call_view_step [of m c]
  show ?case
  proof (cases "sm_state (safety_call c m) = FAULT \<or> sm_state (safety_call c m) = ESTOP")
    case True
    then obtain as d bs a ds where "cs = as @ d # bs @ a # ds" "disarming d"
        "enabling (sm_config m) a"
      using Cons.IH [of "safety_call c m"] Cons.prems by auto
    then show ?thesis by (metis append_Cons)
  next
    case False
    then have "disarming c"
      using safety_step_recover [OF step] Cons.prems(2) by auto
    moreover have "\<not> live (sm_state (safety_call c m))" and "sm_state (safety_call c m) \<noteq> READY"
      using safety_step_to_live [OF step] safety_step_not_ready [OF step] Cons.prems
      by (auto simp: live_def)
    then have "\<exists>as a bs. cs = as @ a # bs \<and> enabling (sm_config m) a"
      using run_to_live [of "safety_call c m" cs] Cons.prems by simp
    ultimately show ?thesis by (metis append_Nil)
  qed
qed

lemma update_live:
  assumes "live (sm_state (safety_update p t m))" and "sm_state m \<noteq> DISABLED"
  shows "\<not> sm_estop_triggered m \<and> tp_estop p \<noteq> 1
    \<and> (sc_require_enable (sm_config m) \<longrightarrow> tp_enable p \<noteq> 0)
    \<and> watchdog_check (safety_watchdog (sm_config m)) t \<noteq> DISABLE
    \<and> sm_state (safety_update p t m) = live_state (watchdog_check (safety_watchdog (sm_config m)) t)"
  using safety_call_view_step [of m "Update p t"] assms
  by (auto elim!: safety_step_UpdateE simp: live_def)

section \<open>Properties\<close>

text \<open>
  The software emergency stop is latched. After \<open>trigger_estop\<close> no sequence of packets,
  however it looks, and no further stop brings the arm out of ESTOP; only \<open>reset\<close> does.
\<close>

theorem estop_latched:
  assumes "Reset \<notin> set cs"
  shows "sm_state (safety_run cs (safety_trigger_estop m)) = ESTOP"
  using safety_run_latched [of "safety_trigger_estop m" cs] assms
  by (simp add: safety_view_def safety_trigger_estop_def)

theorem estop_latched_witness:
  "sm_state (safety_run [Update (teleop_zero (0 :: u64)\<lparr>tp_enable := 1\<rparr>) (Fin 1), Trigger_Estop]
     (safety_trigger_estop (safety_new safety_config_default))) = ESTOP"
  by (rule estop_latched) simp

text \<open>
  An arm is only driven for a reason. If an update leaves the manager in ACTIVE,
  WARNING_TIMEOUT or HOLD, no stop was pending or sent, the packet did not clear a required
  enable, the stream is younger than the disable threshold, and which of the three it is says
  exactly how old the stream is.
\<close>

theorem live_only_when_allowed:
  assumes "live (sm_state (safety_update p t m))" and "sm_state m \<noteq> DISABLED"
  shows "\<not> sm_estop_triggered m \<and> tp_estop p \<noteq> 1
    \<and> (sc_require_enable (sm_config m) \<longrightarrow> tp_enable p \<noteq> 0)
    \<and> watchdog_check (safety_watchdog (sm_config m)) t \<noteq> DISABLE
    \<and> sm_state (safety_update p t m) = live_state (watchdog_check (safety_watchdog (sm_config m)) t)"
  using assms by (rule update_live)

theorem live_only_when_allowed_witness:
  "sm_state (safety_update (teleop_zero (0 :: u64)\<lparr>tp_enable := 1\<rparr>) (Fin 30)
     (safety_new safety_config_default)) =
   live_state (watchdog_check (safety_watchdog safety_config_default) (Fin 30))"
  using live_only_when_allowed [of "teleop_zero (0 :: u64)\<lparr>tp_enable := 1\<rparr>" "Fin 30"
      "safety_new safety_config_default"]
  by (simp add: safety_update_def safety_new_def safety_initial_state_def safety_config_default_def
      watchdog_check_def safety_watchdog_def teleop_zero_def live_def)

text \<open>
  C26: the manager implements its policy, and nothing else. Over any sequence of calls from its
  constructor (packets of every age, software stops, resets, in the order its mutex admits
  them) the visible state and the stop latch are the ones the rules of \<open>safety_step\<close> allow, and
  for every sequence the rules allow exactly one outcome: no transition of the code is missing
  from the policy, and the policy has none the code does not take.
\<close>

theorem safety_refines_policy:
  "safety_policy_run c (safety_initial_state c, False) calls s'
     \<longleftrightarrow> s' = safety_view (safety_run calls (safety_new c))"
  using safety_run_iff_policy [of "safety_new c" calls s']
  by (simp add: safety_view_def safety_new_def)

text \<open>
  C27: no restart without a new enable. When the enable signal is required, an arm that is in
  FAULT or ESTOP is driven again only after a call that takes the enable away (a packet with
  enable 0, or \<open>reset\<close>) and, later, a packet that grants it while the stream is fresh.
\<close>

theorem restart_needs_enable_edge:
  assumes "sc_require_enable (sm_config m)" and "sm_state m = FAULT \<or> sm_state m = ESTOP"
    and "live (sm_state (safety_run cs m))"
  shows "\<exists>as d bs a ds. cs = as @ d # bs @ a # ds \<and> disarming d \<and> enabling (sm_config m) a"
  using assms by (rule run_recover)

lemmas safety_eval =
  safety_update_def safety_new_def safety_initial_state_def safety_config_default_def
  watchdog_check_def safety_watchdog_def teleop_zero_def live_def

theorem restart_needs_enable_edge_witness:
  "\<exists>as d bs a ds. [Update (teleop_zero (0 :: u64)) (Fin 1),
      Update (teleop_zero 0\<lparr>tp_enable := 1\<rparr>) (Fin 2)] = as @ d # bs @ a # ds
    \<and> disarming d \<and> enabling safety_config_default a"
  using restart_needs_enable_edge [of "safety_new safety_config_default\<lparr>sm_state := FAULT\<rparr>"
      "[Update (teleop_zero (0 :: u64)) (Fin 1), Update (teleop_zero 0\<lparr>tp_enable := 1\<rparr>) (Fin 2)]"]
  by (simp add: safety_eval)

lemma run_not_ready:
  "sm_state m \<notin> {READY, DISABLED} \<Longrightarrow> sc_require_enable (sm_config m) \<Longrightarrow>
     sm_state (safety_run cs m) \<notin> {READY, DISABLED}"
proof (induction cs arbitrary: m)
  case (Cons x cs)
  have "sm_state (safety_call x m) \<notin> {READY, DISABLED}"
    using safety_call_view_step [of m x] Cons.prems
    by (cases x) (auto elim!: safety_step_UpdateE simp: safety_initial_state_def live_def
        live_state_def split: Status.splits)
  with Cons show ?case by simp
qed simp

lemma run_triggered:
  "(sm_estop_triggered m \<longrightarrow> sm_state m = ESTOP) \<Longrightarrow>
     sm_estop_triggered (safety_run cs m) \<longrightarrow> sm_state (safety_run cs m) = ESTOP"
proof (induction cs arbitrary: m)
  case (Cons x cs)
  have "sm_estop_triggered (safety_call x m) \<longrightarrow> sm_state (safety_call x m) = ESTOP"
    using safety_call_view_step [of m x] by (cases x) (auto elim!: safety_step_UpdateE)
  with Cons.IH [of "safety_call x m"] show ?case by simp
qed simp

lemma waiting_enabling_live:
  assumes "sm_state m = WAITING_FOR_ENABLE" and "\<not> sm_estop_triggered m"
    and "enabling (sm_config m) a"
  shows "live (sm_state (safety_call a m))"
proof (cases a)
  case (Update p t)
  with assms safety_call_view_step [of m a] show ?thesis
    by (auto elim!: safety_step_UpdateE simp: live_def [of WAITING_FOR_ENABLE])
qed (use assms in simp_all)

text \<open>
  C28: what a waiting arm does. With the enable signal required, an arm waiting for it becomes
  live with the very packet that grants it on a fresh stream, without passing through an
  observable READY, and no run from the constructor ever shows READY or DISABLED.
\<close>

theorem enable_is_immediate:
  assumes "sc_require_enable c"
  shows "sm_state (safety_run cs (safety_new c)) \<notin> {READY, DISABLED}
    \<and> (sm_state (safety_run cs (safety_new c)) = WAITING_FOR_ENABLE \<longrightarrow>
        enabling c a \<longrightarrow> live (sm_state (safety_call a (safety_run cs (safety_new c)))))"
  using assms run_not_ready [of "safety_new c" cs] run_triggered [of "safety_new c" cs]
    waiting_enabling_live [of "safety_run cs (safety_new c)" a]
  by (auto simp: safety_new_def safety_initial_state_def)

theorem enable_is_immediate_witness:
  "live (sm_state (safety_call (Update (teleop_zero (0 :: u64)\<lparr>tp_enable := 1\<rparr>) (Fin 3))
     (safety_run [] (safety_new safety_config_default))))"
  using enable_is_immediate [of safety_config_default "[]"
      "Update (teleop_zero (0 :: u64)\<lparr>tp_enable := 1\<rparr>) (Fin 3)"]
  by (simp add: safety_eval)

end
