(* ===== verification/Rate_Limiter.thy ===== *)
theory Rate_Limiter
  imports Cpp_Double
begin

text \<open>
  \<open>src/safety/rate_limiter.cpp\<close>: the bound on how far a target may lie from the current
  position in one control cycle.
\<close>

section \<open>The code\<close>

record RateLimiter =
  rl_max_delta_per_cycle :: dbl
  rl_max_velocity_rad_s :: dbl
  rl_cycle_time_s :: dbl

definition rl_effective :: "RateLimiter \<Rightarrow> dbl" where
  "rl_effective r = std_min (rl_max_delta_per_cycle r) (rl_max_velocity_rad_s r * rl_cycle_time_s r)"

text \<open>One pass of the loop body.\<close>

definition rl_limit1 :: "dbl \<Rightarrow> dbl \<Rightarrow> dbl \<Rightarrow> dbl" where
  "rl_limit1 effective_max_delta current target =
     (let delta = target - current
      in if delta > effective_max_delta then current + effective_max_delta
         else if delta < - effective_max_delta then current - effective_max_delta
         else target)"

text \<open>\<open>target_pos\<close> is a reference in the source: the result is its new value.\<close>

definition rl_limit :: "RateLimiter \<Rightarrow> dbl list \<Rightarrow> dbl list \<Rightarrow> dbl list" where
  "rl_limit r current_pos target_pos =
     (if length current_pos \<noteq> length target_pos then target_pos
      else map2 (rl_limit1 (rl_effective r)) current_pos target_pos)"

section \<open>One joint\<close>

lemma rl_limit1_Fin:
  "rl_limit1 (Fin e) (Fin c) (Fin t) =
     Fin (if t - c > e then c + e else if t - c < - e then c - e else t)"
  by (simp add: rl_limit1_def Let_def)

lemma rl_limit1_step:
  assumes "0 \<le> e" and "t \<noteq> NaN"
  shows "\<exists>x. rl_limit1 (Fin e) (Fin c) t = Fin x \<and> \<bar>x - c\<bar> \<le> e"
  using assms by (cases t) (auto simp: rl_limit1_def Let_def)

lemma rl_limit1_within:
  "\<bar>t - c\<bar> \<le> e \<Longrightarrow> rl_limit1 (Fin e) (Fin c) (Fin t) = Fin t"
  by (auto simp: rl_limit1_Fin)

lemma rl_limit1_gap:
  assumes "0 \<le> e" and "rl_limit1 (Fin e) (Fin c) (Fin t) = Fin x"
  shows "\<bar>t - x\<bar> = max 0 (\<bar>t - c\<bar> - e)"
  using assms by (auto simp: rl_limit1_Fin split: if_splits)

section \<open>Repeated application\<close>

text \<open>The position after \<open>n\<close> cycles towards a fixed target, each from where the last one ended.\<close>

primrec rl_iterate :: "RateLimiter \<Rightarrow> dbl list \<Rightarrow> nat \<Rightarrow> dbl list \<Rightarrow> dbl list" where
  "rl_iterate r target 0 pos = pos"
| "rl_iterate r target (Suc n) pos = rl_iterate r target n (rl_limit r pos target)"

lemma rl_limit_length [simp]: "length (rl_limit r c t) = length t"
  by (simp add: rl_limit_def)

lemma rl_limit_nth:
  "length c = length t \<Longrightarrow> i < length t \<Longrightarrow> rl_limit r c t ! i = rl_limit1 (rl_effective r) (c ! i) (t ! i)"
  by (simp add: rl_limit_def)

lemma rl_iterate_reaches:
  assumes eff: "rl_effective r = Fin e" "0 < e"
    and "length pos = length ts" and "\<forall>i < length ts. pos ! i = Fin (p i) \<and> ts ! i = Fin (q i)"
    and "\<forall>i < length ts. \<bar>q i - p i\<bar> \<le> real n * e"
  shows "rl_iterate r ts n pos = ts"
  using assms(3-5)
proof (induction n arbitrary: pos p)
  case 0
  then show ?case by (auto intro!: nth_equalityI)
next
  case (Suc n)
  define x where "x i = (if q i - p i > e then p i + e else if q i - p i < - e then p i - e else q i)" for i
  have "rl_limit r pos ts ! i = Fin (x i) \<and> ts ! i = Fin (q i)" if "i < length ts" for i
    using that Suc.prems by (simp add: rl_limit_nth eff rl_limit1_Fin x_def)
  moreover have "\<bar>q i - x i\<bar> \<le> real n * e" if "i < length ts" for i
  proof -
    have "\<bar>q i - p i\<bar> \<le> real n * e + e"
      using Suc.prems(3) that by (auto simp: algebra_simps)
    moreover have "0 \<le> real n * e" using eff by simp
    ultimately show ?thesis by (auto simp: x_def)
  qed
  ultimately have "rl_iterate r ts n (rl_limit r pos ts) = ts"
    using Suc.prems by (intro Suc.IH [of _ x]) auto
  then show ?case by simp
qed

section \<open>Properties\<close>

text \<open>
  The bound per cycle. For finite positions of equal number, whatever the target is short
  of NaN (an infinite one included), every joint's limited target is finite and no farther than
  the effective bound from its current position, and a target within the bound is untouched.
\<close>

theorem rate_limit_bound:
  assumes "rl_effective r = Fin e" and "0 \<le> e"
    and "length current = length target" and "i < length target"
    and "current ! i = Fin c" and "target ! i \<noteq> NaN"
  shows "\<exists>x. rl_limit r current target ! i = Fin x \<and> \<bar>x - c\<bar> \<le> e
    \<and> (\<forall>t. target ! i = Fin t \<longrightarrow> \<bar>t - c\<bar> \<le> e \<longrightarrow> x = t)"
proof -
  have eq: "rl_limit r current target ! i = rl_limit1 (Fin e) (Fin c) (target ! i)"
    using assms by (simp add: rl_limit_nth)
  obtain x where "rl_limit1 (Fin e) (Fin c) (target ! i) = Fin x" "\<bar>x - c\<bar> \<le> e"
    using rl_limit1_step [OF assms(2,6)] by blast
  then show ?thesis
    unfolding eq by (auto simp: rl_limit1_within)
qed

theorem rate_limit_bound_witness:
  "\<exists>x. rl_limit \<lparr> rl_max_delta_per_cycle = Fin (2 / 100), rl_max_velocity_rad_s = Fin 6,
      rl_cycle_time_s = Fin (1 / 500) \<rparr> [Fin 0, Fin 1] [PInf, Fin 2] ! 0 = Fin x
    \<and> \<bar>x - 0\<bar> \<le> 12 / 1000"
  using rate_limit_bound [of "\<lparr> rl_max_delta_per_cycle = Fin (2 / 100),
      rl_max_velocity_rad_s = Fin 6, rl_cycle_time_s = Fin (1 / 500) \<rparr>" "12 / 1000"
      "[Fin 0, Fin 1]" "[PInf, Fin 2]" 0 0]
  by (auto simp: rl_effective_def)

text \<open>
  Where the bound does not hold. When the two vectors have different lengths the target is
  passed on as it is, and a NaN target passes in any case.
\<close>

theorem rate_limit_gaps:
  "(length current \<noteq> length target \<longrightarrow> rl_limit r current target = target)
    \<and> (\<forall>i < length target. length current = length target \<longrightarrow> target ! i = NaN \<longrightarrow>
        rl_limit r current target ! i = NaN)"
  by (auto simp: rl_limit_nth rl_limit1_def Let_def) (simp add: rl_limit_def)

theorem rate_limit_gaps_witness:
  "(let r = \<lparr> rl_max_delta_per_cycle = Fin 1, rl_max_velocity_rad_s = Fin 500,
      rl_cycle_time_s = Fin (1 / 500) \<rparr>
    in rl_limit r [Fin 0] [Fin 5, Fin 6] = [Fin 5, Fin 6] \<and> rl_limit r [Fin 0] [NaN] ! 0 = NaN)"
  unfolding Let_def
  using rate_limit_gaps [of "[Fin 0]" "[Fin 5, Fin 6]"] rate_limit_gaps [of "[Fin 0]" "[NaN]"]
  by simp

text \<open>
  The limiter does not stop short. A joint that is at most \<open>n\<close> times the bound away from
  a finite target is exactly on the target after \<open>n\<close> cycles.
\<close>

theorem rate_limit_converges:
  assumes "rl_effective r = Fin e" and "0 < e"
    and "length pos = length ts"
    and "\<forall>i < length ts. pos ! i = Fin (p i) \<and> ts ! i = Fin (q i) \<and> \<bar>q i - p i\<bar> \<le> real n * e"
  shows "rl_iterate r ts n pos = ts"
  using assms by (intro rl_iterate_reaches) auto

theorem rate_limit_converges_witness:
  "rl_iterate \<lparr> rl_max_delta_per_cycle = Fin 1, rl_max_velocity_rad_s = Fin 500,
      rl_cycle_time_s = Fin (1 / 500) \<rparr> [Fin 5, Fin (- 2)] 5 [Fin 0, Fin 0] = [Fin 5, Fin (- 2)]"
  by (rule rate_limit_converges [where e = 1 and p = "\<lambda>_. 0" and q = "\<lambda>i. if i = 0 then 5 else - 2"])
    (auto simp: rl_effective_def less_Suc_eq numeral_2_eq_2)

end
