(* ===== verification/Telemetry_Publisher.thy ===== *)
theory Telemetry_Publisher
  imports Packet_Codec Robot_State Cpp_Bits
begin

text \<open>
  \<open>src/telemetry/openarm_telemetry_publisher.cpp\<close>: the numbered, checksummed telemetry
  packets, and the way the bimanual applications lay joint states out in them. The publisher's
  framing is a third instance of the interface \<open>framed_packet\<close>.
\<close>

section \<open>The publisher\<close>

record TelemetryPublisher =
  pu_socket_open :: bool
  pu_seq :: u32

definition publisher_new :: TelemetryPublisher where
  "publisher_new = \<lparr> pu_socket_open = False, pu_seq = 0 \<rparr>"

text \<open>\<open>socket_ok\<close>: the answer of \<open>socket\<close>.\<close>

definition publisher_start :: "bool \<Rightarrow> TelemetryPublisher \<Rightarrow> TelemetryPublisher \<times> bool" where
  "publisher_start socket_ok p = (p\<lparr>pu_socket_open := socket_ok\<rparr>, socket_ok)"

definition publisher_stop :: "TelemetryPublisher \<Rightarrow> TelemetryPublisher" where
  "publisher_stop p = (if pu_socket_open p then p\<lparr>pu_socket_open := False\<rparr> else p)"

definition telemetry_frame :: "u32 \<Rightarrow> u32 TelemetryPacket \<Rightarrow> u32 TelemetryPacket" where
  "telemetry_frame seq packet =
     (let to_send = packet\<lparr>te_magic := TELEMETRY_MAGIC, te_version := 1,
            te_packet_size := word_of_nat telemetry_size, te_seq := seq, te_crc32 := 0\<rparr>
      in to_send\<lparr>te_crc32 := tele_calculate_crc32 (telemetry_bytes to_send) (telemetry_size - 4)\<rparr>)"

text \<open>What is handed to \<open>sendto\<close>; its answer is ignored.\<close>

definition publish ::
    "u32 TelemetryPacket \<Rightarrow> TelemetryPublisher \<Rightarrow> TelemetryPublisher \<times> u8 list option" where
  "publish packet p =
     (if \<not> pu_socket_open p then (p, None)
      else (p\<lparr>pu_seq := pu_seq p + 1\<rparr>, Some (telemetry_bytes (telemetry_frame (pu_seq p) packet))))"

section \<open>Joint states in a packet\<close>

text \<open>
  One of the loops of \<open>wifi_bimanual_follower.cpp\<close> that share the index \<open>idx\<close>: measured
  positions and velocities, and the references as actions. A reference list that is shorter
  than the measurements is read past its end.
\<close>

fun telemetry_block ::
    "JointState list \<Rightarrow> JointState list \<Rightarrow> nat \<times> u32 TelemetryPacket \<Rightarrow>
     (nat \<times> u32 TelemetryPacket) result" where
  "telemetry_block [] refs s = Inr s"
| "telemetry_block (x # xs) refs (idx, pkt) =
     (if idx < 16 then
        (case refs of
           [] \<Rightarrow> Inl Undefined_Behaviour
         | r # rs \<Rightarrow> telemetry_block xs rs (idx + 1, pkt\<lparr>
             te_observation_state :=
               (te_observation_state pkt)[idx := bits32_of_dbl (js_position x)],
             te_observation_velocity :=
               (te_observation_velocity pkt)[idx := bits32_of_dbl (js_velocity x)],
             te_action := (te_action pkt)[idx := bits32_of_dbl (js_position r)]\<rparr>))
      else Inr (idx, pkt))"

definition telemetry_joints ::
    "RobotSystemState \<Rightarrow> RobotSystemState \<Rightarrow> u32 TelemetryPacket \<Rightarrow> u32 TelemetryPacket result" where
  "telemetry_joints r l pkt =
     res_bind (telemetry_block (rs_response (ss_arm r)) (rs_reference (ss_arm r)) (0, pkt)) (\<lambda>s.
     res_bind (telemetry_block (rs_response (ss_hand r)) (rs_reference (ss_hand r)) s) (\<lambda>s.
     res_bind (telemetry_block (rs_response (ss_arm l)) (rs_reference (ss_arm l)) s) (\<lambda>s.
     res_bind (telemetry_block (rs_response (ss_hand l)) (rs_reference (ss_hand l)) s) (\<lambda>s.
       Inr (snd s)))))"

section \<open>The layout, in closed form\<close>

text \<open>\<open>vs\<close> written over \<open>xs\<close> from position \<open>k\<close>, as far as there is room.\<close>

definition overwrite :: "nat \<Rightarrow> 'a list \<Rightarrow> 'a list \<Rightarrow> 'a list" where
  "overwrite k vs xs = take k xs @ copy_prefix vs (drop k xs)"

lemma overwrite_Nil [simp]: "overwrite k [] xs = xs"
  by (simp add: overwrite_def copy_prefix_def)

lemma length_overwrite [simp]: "length (overwrite k vs xs) = length xs"
  by (simp add: overwrite_def)

lemma overwrite_full [simp]: "length xs \<le> k \<Longrightarrow> overwrite k vs xs = xs"
  by (simp add: overwrite_def copy_prefix_def)

lemma overwrite_nth:
  "i < length xs \<Longrightarrow> overwrite k vs xs ! i = (if k \<le> i \<and> i < k + length vs then vs ! (i - k) else xs ! i)"
  by (auto simp: overwrite_def nth_append copy_prefix_nth)

lemma overwrite_Cons:
  "k < length xs \<Longrightarrow> overwrite (Suc k) vs (xs[k := v]) = overwrite k (v # vs) xs"
  by (rule nth_equalityI) (auto simp: overwrite_nth nth_list_update nth_Cons')

lemma overwrite_overwrite:
  "k' = k + length us \<Longrightarrow> overwrite k' vs (overwrite k us xs) = overwrite k (us @ vs) xs"
  by (rule nth_equalityI) (auto simp: overwrite_nth nth_append)

definition joints_written ::
    "nat \<Rightarrow> JointState list \<Rightarrow> JointState list \<Rightarrow> u32 TelemetryPacket \<Rightarrow> u32 TelemetryPacket" where
  "joints_written k xs rs pkt = pkt\<lparr>
     te_observation_state :=
       overwrite k (map (bits32_of_dbl \<circ> js_position) xs) (te_observation_state pkt),
     te_observation_velocity :=
       overwrite k (map (bits32_of_dbl \<circ> js_velocity) xs) (te_observation_velocity pkt),
     te_action := overwrite k (map (bits32_of_dbl \<circ> js_position) rs) (te_action pkt)\<rparr>"

lemma joints_written_wf [simp]: "telemetry_wf (joints_written k xs rs pkt) = telemetry_wf pkt"
  by (simp add: joints_written_def telemetry_wf_def)

lemma joints_written_append:
  "length rs = length xs \<Longrightarrow> k' = k + length xs \<Longrightarrow>
     joints_written k' ys qs (joints_written k xs rs pkt)
       = joints_written k (xs @ ys) (rs @ qs) pkt"
  by (simp add: joints_written_def overwrite_overwrite)

lemma telemetry_block_written:
  assumes "telemetry_wf pkt" and "length rs = length xs" and "k \<le> 16"
  shows "telemetry_block xs rs (k, pkt) = Inr (min 16 (k + length xs), joints_written k xs rs pkt)"
  using assms
proof (induction xs arbitrary: rs k pkt)
  case Nil
  then show ?case by (simp add: joints_written_def)
next
  case (Cons x xs)
  then obtain r rs' where rs: "rs = r # rs'" "length rs' = length xs"
    by (cases rs) auto
  show ?case
  proof (cases "k < 16")
    case True
    let ?pkt = "pkt\<lparr>
             te_observation_state := (te_observation_state pkt)[k := bits32_of_dbl (js_position x)],
             te_observation_velocity :=
               (te_observation_velocity pkt)[k := bits32_of_dbl (js_velocity x)],
             te_action := (te_action pkt)[k := bits32_of_dbl (js_position r)]\<rparr>"
    have wf: "telemetry_wf ?pkt" using Cons.prems(1) by (simp add: telemetry_wf_def)
    have "joints_written (Suc k) xs rs' ?pkt = joints_written k (x # xs) rs pkt"
      using True Cons.prems(1) by (simp add: joints_written_def overwrite_Cons telemetry_wf_def rs)
    with Cons.IH [OF wf rs(2), of "Suc k"] True show ?thesis
      by (simp add: rs)
  next
    case False
    with Cons.prems have "k = 16" by simp
    with Cons.prems(1) show ?thesis
      by (simp add: joints_written_def telemetry_wf_def)
  qed
qed

lemma joints_written_beyond:
  "telemetry_wf pkt \<Longrightarrow> 16 \<le> k \<Longrightarrow> joints_written k xs rs pkt = pkt"
  by (simp add: joints_written_def telemetry_wf_def)

lemma joints_written_min:
  "telemetry_wf pkt \<Longrightarrow> joints_written (min 16 k) xs rs pkt = joints_written k xs rs pkt"
  by (cases "k \<le> 16") (simp_all add: joints_written_beyond min_def)

lemma joints_written_min_add:
  "telemetry_wf pkt \<Longrightarrow> joints_written (min 16 k + n) xs rs pkt = joints_written (k + n) xs rs pkt"
  by (cases "k \<le> 16") (simp_all add: joints_written_beyond min_def)

definition refs_match :: "RobotState \<Rightarrow> bool" where
  "refs_match s \<longleftrightarrow> length (rs_reference s) = length (rs_response s)"

lemma telemetry_joints_written:
  assumes "telemetry_wf pkt"
    and "refs_match (ss_arm r)" "refs_match (ss_hand r)" "refs_match (ss_arm l)" "refs_match (ss_hand l)"
  shows "telemetry_joints r l pkt = Inr (joints_written 0
      (sys_get_all_responses r @ sys_get_all_responses l)
      (sys_get_all_references r @ sys_get_all_references l) pkt)"
  using assms
  by (simp add: telemetry_joints_def telemetry_block_written refs_match_def joints_written_min
      joints_written_min_add joints_written_append sys_get_all_responses_def
      sys_get_all_references_def add.assoc)

section \<open>What a consumer can rely on\<close>

definition telemetry_header_ok :: "u32 TelemetryPacket \<Rightarrow> bool" where
  "telemetry_header_ok p \<longleftrightarrow> te_magic p = TELEMETRY_MAGIC \<and> te_version p = 1
     \<and> te_packet_size p = word_of_nat telemetry_size"

text \<open>The check the protocol document asks of a consumer.\<close>

definition telemetry_accepted :: "u32 TelemetryPacket \<Rightarrow> bool" where
  "telemetry_accepted p \<longleftrightarrow> telemetry_header_ok p
     \<and> calculate_crc32 (telemetry_bytes p) (telemetry_size - 4) = te_crc32 p"

interpretation tek: framed_packet telemetry_bytes telemetry_of_bytes telemetry_wf
    telemetry_header_ok te_crc32 telemetry_accepted telemetry_size
  by unfold_locales
    (simp_all add: telemetry_bytes_trailer telemetry_accepted_def, simp add: telemetry_size_def)

lemma telemetry_frame_wf [simp]: "telemetry_wf (telemetry_frame n p) = telemetry_wf p"
  by (simp add: telemetry_frame_def telemetry_wf_def Let_def)

lemma telemetry_frame_fields [simp]:
  "te_seq (telemetry_frame n p) = n"
  "(telemetry_frame n p)\<lparr>te_magic := te_magic p, te_version := te_version p,
     te_packet_size := te_packet_size p, te_seq := te_seq p, te_crc32 := te_crc32 p\<rparr> = p"
  by (simp_all add: telemetry_frame_def Let_def)

lemma telemetry_frame_accepted:
  assumes "telemetry_wf p"
  shows "telemetry_accepted (telemetry_frame n p)"
proof -
  let ?q = "telemetry_frame n p"
  have "te_crc32 ?q = calculate_crc32 (telemetry_bytes (?q\<lparr>te_crc32 := 0\<rparr>)) (telemetry_size - 4)"
    by (simp add: telemetry_frame_def Let_def tele_crc_eq)
  then show ?thesis
    using telemetry_bytes_payload [of ?q 0] assms
    by (simp add: telemetry_accepted_def calculate_crc32_def)
      (simp add: telemetry_frame_def telemetry_header_ok_def Let_def)
qed

text \<open>A sequence of packets through one publisher.\<close>

fun publish_all :: "u32 TelemetryPacket list \<Rightarrow> TelemetryPublisher \<Rightarrow> u8 list option list" where
  "publish_all [] p = []"
| "publish_all (pkt # pkts) p = (let (p', d) = publish pkt p in d # publish_all pkts p')"

lemma publish_all_open:
  "pu_socket_open p \<Longrightarrow> i < length pkts \<Longrightarrow>
     publish_all pkts p ! i
       = Some (telemetry_bytes (telemetry_frame (pu_seq p + word_of_nat i) (pkts ! i)))"
proof (induction pkts arbitrary: p i)
  case (Cons pkt pkts)
  then show ?case
    by (cases i) (simp_all add: publish_def add.assoc)
qed simp

text \<open>
  C32: what is published can be checked. Through an open publisher the \<open>i\<close>-th packet becomes one
  datagram of 228 bytes that passes the header and checksum test, carries the number \<open>i\<close>
  after the first one's, and parses back to the packet that was given in every field the
  publisher does not fill in itself; and a datagram altered inside a window of up to four bytes
  fails the test, whatever the alteration.
\<close>

theorem published_datagrams_checkable:
  assumes "pu_socket_open p" and "i < length pkts" and "telemetry_wf (pkts ! i)"
  shows "\<exists>d q. publish_all pkts p ! i = Some d \<and> length d = 228 \<and> telemetry_of_bytes d = q
    \<and> telemetry_accepted q \<and> te_seq q = pu_seq p + word_of_nat i
    \<and> (let o' = pkts ! i in q\<lparr>te_magic := te_magic o', te_version := te_version o',
         te_packet_size := te_packet_size o', te_seq := te_seq o', te_crc32 := te_crc32 o'\<rparr> = o')
    \<and> (\<forall>pre mid mid' post. d = pre @ mid @ post \<longrightarrow> length mid' = length mid \<longrightarrow>
         length mid \<le> 4 \<longrightarrow> mid' \<noteq> mid \<longrightarrow>
         \<not> telemetry_accepted (telemetry_of_bytes (pre @ mid' @ post)))"
proof -
  let ?q = "telemetry_frame (pu_seq p + word_of_nat i) (pkts ! i)"
  have acc: "telemetry_accepted (telemetry_of_bytes (telemetry_bytes ?q))"
    using assms(3) by (simp add: telemetry_frame_accepted)
  have "\<forall>pre mid mid' post. telemetry_bytes ?q = pre @ mid @ post \<longrightarrow> length mid' = length mid \<longrightarrow>
      length mid \<le> 4 \<longrightarrow> mid' \<noteq> mid \<longrightarrow> \<not> telemetry_accepted (telemetry_of_bytes (pre @ mid' @ post))"
    using tek.burst_detected acc assms(3) by (metis telemetry_bytes_length telemetry_frame_wf)
  with assms show ?thesis
    by (simp add: publish_all_open telemetry_frame_accepted telemetry_size_def Let_def)
qed

theorem published_datagrams_checkable_witness:
  "\<exists>d. publish_all [telemetry_zero 0, telemetry_zero 1] \<lparr> pu_socket_open = True, pu_seq = 7 \<rparr> ! 1
      = Some d \<and> length d = 228 \<and> te_seq (telemetry_of_bytes d) = 8"
  using published_datagrams_checkable [of "\<lparr> pu_socket_open = True, pu_seq = 7 \<rparr>" 1
      "[telemetry_zero 0, telemetry_zero 1]"]
  by auto

text \<open>
  The layout of the joints. When every part has as many references as measurements, filling
  a packet never fails and writes the measured positions and velocities and the commanded
  positions of right arm, right hand, left arm and left hand one after another from index 0, as
  single precision floats; joints beyond the sixteenth are left out, entries beyond the last
  joint and all other fields keep their values.
\<close>

theorem telemetry_joints_layout:
  assumes "telemetry_wf pkt"
    and "refs_match (ss_arm r)" "refs_match (ss_hand r)" "refs_match (ss_arm l)" "refs_match (ss_hand l)"
  shows "\<exists>q. telemetry_joints r l pkt = Inr q
    \<and> q\<lparr>te_observation_state := te_observation_state pkt,
        te_observation_velocity := te_observation_velocity pkt, te_action := te_action pkt\<rparr> = pkt
    \<and> (let resp = sys_get_all_responses r @ sys_get_all_responses l;
           ref = sys_get_all_references r @ sys_get_all_references l
       in \<forall>i < 16.
         te_observation_state q ! i = (if i < length resp then bits32_of_dbl (js_position (resp ! i))
           else te_observation_state pkt ! i)
         \<and> te_observation_velocity q ! i = (if i < length resp
           then bits32_of_dbl (js_velocity (resp ! i)) else te_observation_velocity pkt ! i)
         \<and> te_action q ! i = (if i < length resp then bits32_of_dbl (js_position (ref ! i))
           else te_action pkt ! i))"
proof -
  have "length (sys_get_all_references s) = length (sys_get_all_responses s)"
    if "refs_match (ss_arm s)" "refs_match (ss_hand s)" for s
    using that by (simp add: sys_get_all_references_def sys_get_all_responses_def refs_match_def)
  with assms show ?thesis
    by (simp add: telemetry_joints_written joints_written_def overwrite_nth telemetry_wf_def Let_def
        del: map_append)
qed

theorem telemetry_joints_layout_witness:
  "\<exists>q. telemetry_joints (system_state_new 7 1) (system_state_new 7 1) (telemetry_zero 5) = Inr q
    \<and> te_action q ! 15 = bits32_of_dbl (Fin 0)"
  using telemetry_joints_layout [of "telemetry_zero 5" "system_state_new 7 1" "system_state_new 7 1"]
  by (auto simp: refs_match_def system_state_new_def robot_state_new_def Let_def
      sys_get_all_references_def sys_get_all_responses_def joint_state_zero_def nth_append)

end
