(* ===== verification/Follower_Arm.thy ===== *)
theory Follower_Arm
  imports Hardware_Setup Safety Rate_Limiter Telemetry_Publisher
begin

text \<open>
  What the bimanual follower (\<open>src/apps/wifi_bimanual_follower.cpp\<close>) does with one arm in one
  cycle: the age of the command stream, the safety update, the motion towards the command, and
  the feedback packet. The source writes these blocks out for the right and the left arm.
\<close>

section \<open>The command stream\<close>

text \<open>\<open>gap_r\<close>: milliseconds since the last packet, 0 when the clock reads earlier than it.\<close>

definition stream_gap_ms :: "u64 \<Rightarrow> u64 \<Rightarrow> dbl" where
  "stream_gap_ms now last_ns =
     (if now \<ge> last_ns then dbl_of_word (now - last_ns) div Fin 1000000 else Fin 0)"

definition follower_safety ::
    "u64 \<Rightarrow> u64 TeleopStateBuffer \<Rightarrow> SafetyManager \<Rightarrow> SafetyManager" where
  "follower_safety now b m =
     (case tb_get_latest b of
        None \<Rightarrow> m
      | Some target \<Rightarrow> safety_update target (stream_gap_ms now (tb_last_receive_time_ns b)) m)"

section \<open>Motion\<close>

text \<open>\<open>a[0], ..., a[n-1]\<close> of a C array\<close>

definition array_prefix :: "nat \<Rightarrow> 'a list \<Rightarrow> 'a list result" where
  "array_prefix n a = (if n \<le> length a then Inr (take n a) else Inl Undefined_Behaviour)"

text \<open>
  \<open>refs[i].position = tar[i + off]; refs[i].velocity = vel[i]\<close> for every reference that has a
  target.
\<close>

definition retarget ::
    "dbl list \<Rightarrow> nat \<Rightarrow> dbl list \<Rightarrow> JointState list \<Rightarrow> JointState list result" where
  "retarget tar off vel refs =
     res_map (\<lambda>i.
       if i + off < length tar
       then res_bind (vec_idx vel i) (\<lambda>v.
              Inr ((refs ! i)\<lparr>js_position := tar ! (i + off), js_velocity := v\<rparr>))
       else Inr (refs ! i)) [0..<length refs]"

definition follower_target ::
    "RateLimiter \<Rightarrow> dbl TeleopPacket \<Rightarrow> RobotSystemState \<Rightarrow> dbl list result" where
  "follower_target rl t rs =
     (let cur_pos = map js_position (sys_get_all_references rs)
      in res_bind (array_prefix (unat (tp_arm_dof t)) (tp_arm_pos t)) (\<lambda>arm.
         res_bind (array_prefix (unat (tp_hand_dof t)) (tp_hand_pos t)) (\<lambda>hand.
           Inr (rl_limit rl cur_pos (arm @ hand)))))"

definition apply_target ::
    "RateLimiter \<Rightarrow> dbl TeleopPacket \<Rightarrow> RobotSystemState \<Rightarrow> RobotSystemState result" where
  "apply_target rl t rs =
     res_bind (follower_target rl t rs) (\<lambda>tar_pos.
       let arm_refs = rs_reference (ss_arm rs); hand_refs = rs_reference (ss_hand rs)
       in res_bind (retarget tar_pos 0 (tp_arm_vel t) arm_refs) (\<lambda>arm_refs'.
          res_bind (retarget tar_pos (length arm_refs) (tp_hand_vel t) hand_refs) (\<lambda>hand_refs'.
            Inr (rs\<lparr>ss_arm := set_all_references arm_refs' (ss_arm rs),
                    ss_hand := set_all_references hand_refs' (ss_hand rs)\<rparr>))))"

text \<open>The settings of the motion: the limiter and the gravity feedforward in bilateral mode.\<close>

record MotionConfig =
  mo_limiter :: RateLimiter
  mo_gravity_ff :: bool
  mo_gravity_ff_scale :: dbl

definition drive_arm ::
    "MotionConfig \<Rightarrow> SafetyState \<Rightarrow> dbl TeleopPacket option \<Rightarrow> Readings \<Rightarrow> Control \<Rightarrow>
     RobotSystemState \<Rightarrow> cycle" where
  "drive_arm mo st target rd ct rs =
     (if st = ACTIVE \<or> st = READY \<or> st = WARNING_TIMEOUT then
        (case target of
           Some t \<Rightarrow>
             res_bind (apply_target (mo_limiter mo) t rs) (\<lambda>rs.
               unilateral_step rd (SetFollowerGravityFeedforward
                 (mo_gravity_ff mo \<and> tp_mode t = control_mode_code BILATERAL)
                 (mo_gravity_ff_scale mo) ct) rs)
         | None \<Rightarrow> unilateral_step rd ct rs)
      else if st = HOLD then unilateral_step rd ct rs
      else if st = ESTOP \<or> st = FAULT \<or> st = DISABLED then Inr (ct, rs, [Disable_All])
      else Inr (ct, rs, []))"

section \<open>Feedback\<close>

text \<open>\<open>cmd\<close>: the command that is echoed, with its receive time and the clock.\<close>

definition fill_feedback ::
    "ArmSide \<Rightarrow> u8 \<Rightarrow> SafetyState \<Rightarrow> bool \<Rightarrow> u64 TeleopPacket option \<Rightarrow> u64 \<Rightarrow> u64 \<Rightarrow>
     JointState list \<Rightarrow> JointState list \<Rightarrow> dbl FeedbackPacket" where
  "fill_feedback side mode st link_ok cmd cmd_recv_time_ns now arm hand =
     (let fb = (feedback_zero (Fin 0))\<lparr>
            fp_arm_side := arm_side_code side, fp_mode := mode,
            fp_enabled := (if st = ACTIVE then 1 else 0),
            fp_estop := (if st = ESTOP then 1 else 0),
            fp_safety_state := safety_state_code st, fp_link_ok := (if link_ok then 1 else 0)\<rparr>;
          fb = (case cmd of
              Some c \<Rightarrow> fb\<lparr>fp_echo_cmd_seq := tp_seq c,
                fp_echo_cmd_send_time_ns := tp_send_time_ns c,
                fp_cmd_hold_ns := (if now \<ge> cmd_recv_time_ns then now - cmd_recv_time_ns else 0)\<rparr>
            | None \<Rightarrow> fb);
          arm = take 8 arm; hand = take 4 hand
      in fb\<lparr>fp_arm_dof := word_of_nat (length arm), fp_hand_dof := word_of_nat (length hand),
            fp_arm_pos := copy_prefix (map js_position arm) (fp_arm_pos fb),
            fp_arm_vel := copy_prefix (map js_velocity arm) (fp_arm_vel fb),
            fp_arm_tau := copy_prefix (map js_effort arm) (fp_arm_tau fb),
            fp_hand_pos := copy_prefix (map js_position hand) (fp_hand_pos fb),
            fp_hand_vel := copy_prefix (map js_velocity hand) (fp_hand_vel fb),
            fp_hand_tau := copy_prefix (map js_effort hand) (fp_hand_tau fb)\<rparr>)"

text \<open>
  Without hardware the command is echoed: as many states as the command claims, those beyond
  the arrays (8 and 4) with zeros.
\<close>

definition echo_states :: "nat \<Rightarrow> nat \<Rightarrow> dbl list \<Rightarrow> dbl list \<Rightarrow> JointState list" where
  "echo_states cap dof pos vel =
     map (\<lambda>i. if i < cap then \<lparr> js_position = pos ! i, js_velocity = vel ! i, js_effort = Fin 0 \<rparr>
              else joint_state_zero) [0..<dof]"

definition echo_command :: "dbl TeleopPacket option \<Rightarrow> JointState list \<times> JointState list" where
  "echo_command target =
     (case target of
        None \<Rightarrow> ([], [])
      | Some t \<Rightarrow>
          (echo_states 8 (unat (tp_arm_dof t)) (tp_arm_pos t) (tp_arm_vel t),
           echo_states 4 (unat (tp_hand_dof t)) (tp_hand_pos t) (tp_hand_vel t)))"

section \<open>Where the new references lie\<close>

lemma retarget_length: "retarget tar off vel refs = Inr refs' \<Longrightarrow> length refs' = length refs"
  by (auto simp: retarget_def dest: res_map_length)

lemma retarget_nth:
  assumes "retarget tar off vel refs = Inr refs'" and "i < length refs"
  shows "js_position (refs' ! i) = (if i + off < length tar then tar ! (i + off) else js_position (refs ! i))"
  using res_map_nth [OF assms(1) [unfolded retarget_def], of i] assms(2)
  by (auto simp: res_bind_eq_Inr split: if_splits dest!: arg_cong [where f = js_position])

lemma retarget_ok:
  assumes "length refs \<le> length vel \<or> length tar \<le> length vel + off"
  shows "\<exists>refs'. retarget tar off vel refs = Inr refs'"
proof -
  let ?g = "\<lambda>i. if i + off < length tar then (refs ! i)\<lparr>js_position := tar ! (i + off), js_velocity := vel ! i\<rparr>
    else refs ! i"
  have "retarget tar off vel refs = Inr (map ?g [0..<length refs])"
    unfolding retarget_def by (rule res_map_ok) (use assms in auto)
  then show ?thesis by blast
qed

definition all_refs :: "RobotSystemState \<Rightarrow> dbl list" where
  "all_refs rs = map js_position (sys_get_all_references rs)"

lemma follower_target_length:
  "follower_target rl t rs = Inr tar \<Longrightarrow> length tar = unat (tp_arm_dof t) + unat (tp_hand_dof t)"
  by (auto simp: follower_target_def array_prefix_def res_bind_eq_Inr Let_def split: if_splits)

lemma apply_target_refs:
  assumes "apply_target rl t rs = Inr rs'" and "follower_target rl t rs = Inr tar"
  shows "length (all_refs rs') = length (all_refs rs)
    \<and> (\<forall>i < length (all_refs rs). all_refs rs' ! i = (if i < length tar then tar ! i else all_refs rs ! i))
    \<and> rs_response (ss_arm rs') = rs_response (ss_arm rs)
    \<and> rs_response (ss_hand rs') = rs_response (ss_hand rs)"
proof -
  let ?A = "rs_reference (ss_arm rs)" and ?H = "rs_reference (ss_hand rs)"
  obtain A H where A: "retarget tar 0 (tp_arm_vel t) ?A = Inr A"
    and H: "retarget tar (length ?A) (tp_hand_vel t) ?H = Inr H"
    and rs': "rs' = rs\<lparr>ss_arm := set_all_references A (ss_arm rs), ss_hand := set_all_references H (ss_hand rs)\<rparr>"
    using assms by (auto simp: apply_target_def res_bind_eq_Inr Let_def)
  have len: "length A = length ?A" "length H = length ?H"
    using A H by (auto dest: retarget_length)
  have "all_refs rs' ! i = (if i < length tar then tar ! i else all_refs rs ! i)"
    if i: "i < length (all_refs rs)" for i
  proof (cases "i < length ?A")
    case True
    with retarget_nth [OF A True] len show ?thesis
      by (simp add: all_refs_def sys_get_all_references_def rs' set_all_references_def nth_append)
  next
    case False
    then have "i - length ?A < length ?H" and eq: "i - length ?A + length ?A = i"
      using i by (auto simp: all_refs_def sys_get_all_references_def)
    with retarget_nth [OF H, of "i - length ?A"] False len show ?thesis
      by (simp add: all_refs_def sys_get_all_references_def rs' set_all_references_def nth_append)
  qed
  with len show ?thesis
    by (simp add: all_refs_def sys_get_all_references_def rs' set_all_references_def)
qed

lemma apply_target_ok:
  assumes "teleop_wf t" and "unat (tp_arm_dof t) \<le> 8" and "unat (tp_hand_dof t) \<le> 4"
    and "length (rs_reference (ss_arm rs)) \<le> 8" and "length (rs_reference (ss_hand rs)) \<le> 4"
  shows "\<exists>rs'. apply_target rl t rs = Inr rs'"
proof -
  obtain tar where tar: "follower_target rl t rs = Inr tar"
    using assms(1-3) by (simp add: follower_target_def array_prefix_def teleop_wf_def Let_def)
  obtain A where "retarget tar 0 (tp_arm_vel t) (rs_reference (ss_arm rs)) = Inr A"
    using retarget_ok [of "rs_reference (ss_arm rs)" "tp_arm_vel t"] assms by (auto simp: teleop_wf_def)
  moreover obtain H where
    "retarget tar (length (rs_reference (ss_arm rs))) (tp_hand_vel t) (rs_reference (ss_hand rs)) = Inr H"
    using retarget_ok [of "rs_reference (ss_hand rs)" "tp_hand_vel t"] assms by (auto simp: teleop_wf_def)
  ultimately show ?thesis
    by (simp add: apply_target_def tar Let_def)
qed

end
