(* ===== verification/Follower_Config.thy ===== *)
theory Follower_Config
  imports Follower_Arm
begin

text \<open>
  How the bimanual follower is configured: command line, \<open>config/follower.yaml\<close>, and the
  bring-up of the hardware with the parameters found there.
\<close>

section \<open>Bilateral feedback settings\<close>

record FeedbackSettings =
  fs_enabled :: bool
  fs_target_ip :: string
  fs_right_port :: u16
  fs_left_port :: u16
  fs_require_wired :: bool
  fs_allow_loopback :: bool
  fs_min_link_speed_mbps :: int
  fs_link_recheck_s :: dbl

definition feedback_settings_default :: FeedbackSettings where
  "feedback_settings_default =
     \<lparr> fs_enabled = False, fs_target_ip = ''127.0.0.1'', fs_right_port = 50400,
       fs_left_port = 50401, fs_require_wired = True, fs_allow_loopback = False,
       fs_min_link_speed_mbps = 100, fs_link_recheck_s = Fin 1 \<rparr>"

text \<open>The assignments of the \<open>try\<close> block, in order.\<close>

definition feedback_settings_steps ::
    "YamlLoader \<Rightarrow> (FeedbackSettings \<Rightarrow> FeedbackSettings result) list" where
  "feedback_settings_steps cfg =
    (let fb = ''BilateralFeedback''; link = ''BilateralLink''
     in [(\<lambda>s. res_bind (yaml_get_or yn_bool cfg fb ''Enabled'' False)
           (\<lambda>v. Inr (s\<lparr>fs_enabled := v\<rparr>))),
         (\<lambda>s. res_bind (yaml_get_or yn_string cfg fb ''TargetIp'' (fs_target_ip s))
           (\<lambda>v. Inr (s\<lparr>fs_target_ip := v\<rparr>))),
         (\<lambda>s. res_bind (yaml_get_or yn_int cfg fb ''RightPort'' (uint (fs_right_port s)))
           (\<lambda>v. Inr (s\<lparr>fs_right_port := word_of_int v\<rparr>))),
         (\<lambda>s. res_bind (yaml_get_or yn_int cfg fb ''LeftPort'' (uint (fs_left_port s)))
           (\<lambda>v. Inr (s\<lparr>fs_left_port := word_of_int v\<rparr>))),
         (\<lambda>s. res_bind (yaml_get_or yn_bool cfg link ''RequireWired'' (fs_require_wired s))
           (\<lambda>v. Inr (s\<lparr>fs_require_wired := v\<rparr>))),
         (\<lambda>s. res_bind (yaml_get_or yn_bool cfg link ''AllowLoopback'' (fs_allow_loopback s))
           (\<lambda>v. Inr (s\<lparr>fs_allow_loopback := v\<rparr>))),
         (\<lambda>s. res_bind (yaml_get_or yn_int cfg link ''MinLinkSpeedMbps'' (fs_min_link_speed_mbps s))
           (\<lambda>v. Inr (s\<lparr>fs_min_link_speed_mbps := v\<rparr>))),
         (\<lambda>s. res_bind (yaml_get_or yn_double cfg link ''RecheckIntervalS'' (fs_link_recheck_s s))
           (\<lambda>v. Inr (s\<lparr>fs_link_recheck_s := v\<rparr>)))])"

definition load_feedback_settings :: "string \<Rightarrow> string + YamlLoader \<Rightarrow> FeedbackSettings" where
  "load_feedback_settings path file =
     (case yaml_load path file of
        Inl e \<Rightarrow> feedback_settings_default\<lparr>fs_enabled := False\<rparr>
      | Inr cfg \<Rightarrow>
          (if \<not> yaml_has_node cfg ''BilateralFeedback'' then feedback_settings_default
           else case try_steps (feedback_settings_steps cfg) feedback_settings_default of
                  (s, None) \<Rightarrow> s
                | (s, Some e) \<Rightarrow> s\<lparr>fs_enabled := False\<rparr>))"

text \<open>The second component is what the call leaves in \<open>info\<close>.\<close>

definition follower_link_ok :: "LinkEnv \<Rightarrow> FeedbackSettings \<Rightarrow> bool \<times> LinkInfo" where
  "follower_link_ok env fs =
     (let info = query_link_to env (fs_target_ip fs)
      in (if \<not> li_resolved info then False
          else if li_is_loopback info then fs_allow_loopback fs
          else if \<not> fs_require_wired fs then True
          else \<not> li_is_wireless info \<and> li_has_device info \<and> li_carrier info
               \<and> li_speed_mbps info \<ge> fs_min_link_speed_mbps fs, info))"

section \<open>The command line\<close>

record FollowerArgs =
  fa_right_can :: string
  fa_left_can :: string
  fa_right_port :: u16
  fa_left_port :: u16
  fa_rate_hz :: dbl
  fa_mock :: bool
  fa_bind_ip :: string
  fa_interface_name :: string
  fa_right_urdf :: string
  fa_left_urdf :: string
  fa_publish_telemetry :: bool
  fa_telemetry_ip :: string
  fa_telemetry_port :: u16
  fa_telemetry_rate_hz :: dbl
  fa_telemetry_log_stats :: bool
  fa_control_bind_ip :: string
  fa_control_port :: u16
  fa_safety_config :: SafetyConfig

definition follower_args_default :: FollowerArgs where
  "follower_args_default =
     \<lparr> fa_right_can = ''can2'', fa_left_can = ''can3'', fa_right_port = 50000,
       fa_left_port = 50001, fa_rate_hz = Fin 500, fa_mock = False, fa_bind_ip = ''0.0.0.0'',
       fa_interface_name = [], fa_right_urdf = ''urdf/openarm_right.urdf'',
       fa_left_urdf = ''urdf/openarm_left.urdf'', fa_publish_telemetry = False,
       fa_telemetry_ip = ''127.0.0.1'', fa_telemetry_port = 51000,
       fa_telemetry_rate_hz = Fin 100, fa_telemetry_log_stats = False,
       fa_control_bind_ip = ''0.0.0.0'', fa_control_port = 0,
       fa_safety_config = safety_config_default \<rparr>"

definition follower_option :: "string \<Rightarrow> string \<Rightarrow> FollowerArgs \<Rightarrow> FollowerArgs result option" where
  "follower_option x v a =
     (if x = ''--right-can'' then Some (Inr (a\<lparr>fa_right_can := v\<rparr>))
      else if x = ''--left-can'' then Some (Inr (a\<lparr>fa_left_can := v\<rparr>))
      else if x = ''--right-port'' then arg_u16 v (\<lambda>p. a\<lparr>fa_right_port := p\<rparr>)
      else if x = ''--left-port'' then arg_u16 v (\<lambda>p. a\<lparr>fa_left_port := p\<rparr>)
      else if x = ''--control-rate-hz'' then arg_double v (\<lambda>d. a\<lparr>fa_rate_hz := d\<rparr>)
      else if x = ''--right-urdf'' then Some (Inr (a\<lparr>fa_right_urdf := v\<rparr>))
      else if x = ''--left-urdf'' then Some (Inr (a\<lparr>fa_left_urdf := v\<rparr>))
      else if x = ''--bind-ip'' then Some (Inr (a\<lparr>fa_bind_ip := v\<rparr>))
      else if x = ''--interface'' then Some (Inr (a\<lparr>fa_interface_name := v\<rparr>))
      else if x = ''--watchdog-hold-ms'' then arg_double v
        (\<lambda>d. a\<lparr>fa_safety_config := (fa_safety_config a)\<lparr>sc_watchdog_hold_ms := d\<rparr>\<rparr>)
      else if x = ''--watchdog-disable-ms'' then arg_double v
        (\<lambda>d. a\<lparr>fa_safety_config := (fa_safety_config a)\<lparr>sc_watchdog_disable_ms := d\<rparr>\<rparr>)
      else if x = ''--telemetry-ip'' then Some (Inr (a\<lparr>fa_telemetry_ip := v\<rparr>))
      else if x = ''--telemetry-port'' then arg_u16 v (\<lambda>p. a\<lparr>fa_telemetry_port := p\<rparr>)
      else if x = ''--telemetry-rate-hz'' then arg_double v (\<lambda>d. a\<lparr>fa_telemetry_rate_hz := d\<rparr>)
      else if x = ''--control-bind-ip'' then Some (Inr (a\<lparr>fa_control_bind_ip := v\<rparr>))
      else if x = ''--control-port'' then arg_u16 v (\<lambda>p. a\<lparr>fa_control_port := p\<rparr>)
      else None)"

definition follower_flag :: "string \<Rightarrow> FollowerArgs \<Rightarrow> FollowerArgs option" where
  "follower_flag x a =
     (if x = ''--publish-telemetry'' then Some (a\<lparr>fa_publish_telemetry := True\<rparr>)
      else if x = ''--telemetry-log-stats'' then Some (a\<lparr>fa_telemetry_log_stats := True\<rparr>)
      else if x = ''--mock'' then Some (a\<lparr>fa_mock := True\<rparr>)
      else None)"

definition follower_args :: "string list \<Rightarrow> FollowerArgs result" where
  "follower_args argv = parse_args follower_option follower_flag argv follower_args_default"

section \<open>Bring-up\<close>

record FollowerParams =
  fq_kp :: "dbl list"
  fq_kd :: "dbl list"
  fq_Fc :: "dbl list"
  fq_k :: "dbl list"
  fq_Fv :: "dbl list"
  fq_Fo :: "dbl list"
  fq_gravity_ff :: bool
  fq_gravity_ff_scale :: dbl

definition follower_params :: "YamlLoader \<Rightarrow> FollowerParams result" where
  "follower_params cfg =
    (let node = ''FollowerArmParam'' in
     res_bind (yaml_get yn_vector cfg node ''Kp'') (\<lambda>kp.
     res_bind (yaml_get yn_vector cfg node ''Kd'') (\<lambda>kd.
     res_bind (yaml_get yn_vector cfg node ''Fc'') (\<lambda>Fc.
     res_bind (yaml_get yn_vector cfg node ''k'') (\<lambda>k.
     res_bind (yaml_get yn_vector cfg node ''Fv'') (\<lambda>Fv.
     res_bind (yaml_get yn_vector cfg node ''Fo'') (\<lambda>Fo.
     res_bind (yaml_get_or yn_bool cfg node ''GravityFeedforward'' False) (\<lambda>ff.
     res_bind (yaml_get_or yn_double cfg node ''GravityFeedforwardScale'' (Fin 1)) (\<lambda>scale.
       Inr \<lparr> fq_kp = kp, fq_kd = kd, fq_Fc = Fc, fq_k = k, fq_Fv = Fv, fq_Fo = Fo,
             fq_gravity_ff = ff, fq_gravity_ff_scale = scale \<rparr>)))))))))"

definition follower_control :: "FollowerParams \<Rightarrow> Dynamics \<Rightarrow> string \<Rightarrow> Control" where
  "follower_control p dyn arm_type =
     SetParameter (fq_kp p) (fq_kd p) (fq_Fc p) (fq_k p) (fq_Fv p) (fq_Fo p)
       (control_new None (Some dyn) ROLE_FOLLOWER arm_type)"

definition follower_hardware ::
    "FollowerArgs \<Rightarrow> string + YamlLoader \<Rightarrow> ArmEnv \<Rightarrow> ArmEnv \<Rightarrow>
     ((can_command list \<times> can_command list) \<times> ((arm \<times> arm) \<times> FollowerParams) option) result" where
  "follower_hardware a file er el =
     (if fa_right_urdf a = [] \<or> fa_left_urdf a = [] then Inr (([], []), None)
      else
        res_bind (yaml_load ''config/follower.yaml'' file) (\<lambda>cfg.
        res_bind (follower_params cfg) (\<lambda>p.
        res_bind (bring_up (follower_control p) er el) (\<lambda>(cmds, arms).
          Inr (cmds, map_option (\<lambda>a. (a, p)) arms)))))"

definition follower_motion_config :: "FollowerArgs \<Rightarrow> bool \<Rightarrow> dbl \<Rightarrow> MotionConfig" where
  "follower_motion_config a ff scale =
     (let c = fa_safety_config a
      in \<lparr> mo_limiter = \<lparr> rl_max_delta_per_cycle = sc_max_target_delta_rad_per_cycle c,
             rl_max_velocity_rad_s = sc_max_joint_velocity_rad_s c,
             rl_cycle_time_s = Fin 1 div fa_rate_hz a \<rparr>,
           mo_gravity_ff = ff, mo_gravity_ff_scale = scale \<rparr>)"

lemma follower_link_ok_cases:
  "fst (follower_link_ok env fs) \<longleftrightarrow>
     (let i = query_link_to env (fs_target_ip fs)
      in li_resolved i \<and> (if li_is_loopback i then fs_allow_loopback fs
        else fs_require_wired fs \<longrightarrow> \<not> li_is_wireless i \<and> li_has_device i \<and> li_carrier i
          \<and> li_speed_mbps i \<ge> fs_min_link_speed_mbps fs))"
  by (auto simp: follower_link_ok_def Let_def)

text \<open>
  Misconfiguration never turns feedback on. Feedback is enabled only when the file parses,
  has the feedback section, that section says so explicitly and every other setting read has
  its type; any exception on the way leaves it off.
\<close>

theorem feedback_only_when_configured:
  assumes "fs_enabled (load_feedback_settings path yaml)"
  shows "\<exists>cfg keys node. yaml = Inr cfg \<and> cfg ''BilateralFeedback'' = Some keys
    \<and> keys ''Enabled'' = Some node \<and> yn_bool node = Inr True
    \<and> try_steps (feedback_settings_steps cfg) feedback_settings_default
        = (load_feedback_settings path yaml, None)"
proof -
  obtain cfg where yaml: "yaml = Inr cfg"
    using assms by (cases yaml) (simp_all add: load_feedback_settings_def yaml_load_def)
  have node: "yaml_has_node cfg ''BilateralFeedback''"
    using assms by (auto simp: load_feedback_settings_def yaml_load_def yaml feedback_settings_default_def
        split: if_splits)
  let ?steps = "feedback_settings_steps cfg"
  obtain s e where se: "try_steps ?steps feedback_settings_default = (s, e)" by fastforce
  have e: "e = None"
    using assms node by (cases e) (simp_all add: load_feedback_settings_def yaml_load_def yaml se)
  have s: "load_feedback_settings path yaml = s"
    using node e by (simp add: load_feedback_settings_def yaml_load_def yaml se)
  have keep: "fs_enabled t = fs_enabled s0"
    if "try_steps (tl ?steps) s0 = (t, None)" for s0 t
    using that
    by (auto simp: feedback_settings_steps_def Let_def res_bind_def split: sum.splits)
  obtain s1 where s1: "hd ?steps feedback_settings_default = Inr s1" and "try_steps (tl ?steps) s1 = (s, None)"
    using se e by (auto simp: feedback_settings_steps_def Let_def split: sum.splits)
  then have "fs_enabled s1" using keep assms s by simp
  with s1 have "yaml_get_or yn_bool cfg ''BilateralFeedback'' ''Enabled'' False = Inr True"
    by (auto simp: feedback_settings_steps_def Let_def res_bind_eq_Inr)
  then show ?thesis
    using yaml se e s by (auto simp: yaml_get_or_cases split: option.splits)
qed

theorem feedback_only_when_configured_witness:
  "try_steps (feedback_settings_steps [''BilateralFeedback'' \<mapsto> [''Enabled'' \<mapsto>
       \<lparr> yn_double = Inl Out_Of_Range, yn_vector = Inl Out_Of_Range, yn_string = Inr ''true'',
         yn_bool = Inr True, yn_int = Inl Out_Of_Range \<rparr>]]) feedback_settings_default
   = (feedback_settings_default\<lparr>fs_enabled := True\<rparr>, None)"
proof -
  let ?cfg = "[''BilateralFeedback'' \<mapsto> [''Enabled'' \<mapsto>
       \<lparr> yn_double = Inl Out_Of_Range, yn_vector = Inl Out_Of_Range, yn_string = Inr ''true'',
         yn_bool = Inr True, yn_int = Inl Out_Of_Range \<rparr>]] :: YamlLoader"
  have "load_feedback_settings ''f'' (Inr ?cfg) = feedback_settings_default\<lparr>fs_enabled := True\<rparr>"
    by (simp add: load_feedback_settings_def yaml_load_def yaml_has_node_def feedback_settings_steps_def
        yaml_get_or_cases Let_def feedback_settings_default_def)
  then show ?thesis
    using feedback_only_when_configured [of "''f''" "Inr ?cfg"] by auto
qed

end
