(* ===== verification/Follower_App.thy ===== *)
theory Follower_App
  imports Follower_Config
begin

text \<open>
  The bimanual follower as a whole, \<open>src/apps/wifi_bimanual_follower.cpp\<close>: its state, the
  operator's commands, the requests it works off, and the control loop. A run is a sequence of
  events: packets delivered by the receive threads, lines on the control port, the signal, loop
  iterations, and the completion of the detached threads that move the arms. Each event is
  atomic; a detached thread's motion takes effect when it completes.
\<close>

section \<open>State\<close>

record FollowerConfig =
  fc_motion :: MotionConfig
  fc_feedback :: FeedbackSettings
  fc_publish_telemetry :: bool
  fc_telemetry_period_s :: dbl
  fc_period_s :: dbl

datatype background =
    Recover_Thread
  | Init_Thread
  | Goto_Thread "dbl list" "dbl list" "dbl list" "dbl list"

text \<open>\<open>fo_arms\<close> are controllers and joint states; \<open>None\<close> with \<open>--mock\<close>.\<close>

record FollowerState =
  fo_exited :: bool
  fo_keep_running :: bool
  fo_init_requested :: bool
  fo_init_in_progress :: bool
  fo_recover_requested :: bool
  fo_recover_in_progress :: bool
  fo_goto_requested :: bool
  fo_goto_in_progress :: bool
  fo_goto_target :: "dbl list"
  fo_threads :: "background list"
  fo_buffer_r :: "u64 TeleopStateBuffer"
  fo_buffer_l :: "u64 TeleopStateBuffer"
  fo_safety_r :: SafetyManager
  fo_safety_l :: SafetyManager
  fo_arms :: "(arm \<times> arm) option"
  fo_sender_r :: UdpSender
  fo_sender_l :: UdpSender
  fo_link :: LinkInfo
  fo_link_ok :: bool
  fo_fb_seq :: u32
  fo_next_link_check :: int
  fo_publisher :: TelemetryPublisher
  fo_next_telemetry :: int

datatype follower_output =
    Can ArmSide can_command
  | Background_Can ArmSide can_command
  | Feedback_Datagram ArmSide "u8 list"
  | Telemetry_Datagram "u8 list"
  | Response string

section \<open>Operator commands\<close>

definition safety_state_to_str :: "SafetyState \<Rightarrow> string" where
  "safety_state_to_str s =
     (case s of DISABLED \<Rightarrow> ''DISABLED'' | WAITING_FOR_ENABLE \<Rightarrow> ''WAIT_EN'' | READY \<Rightarrow> ''READY''
      | ACTIVE \<Rightarrow> ''ACTIVE'' | WARNING_TIMEOUT \<Rightarrow> ''WARN'' | HOLD \<Rightarrow> ''HOLD''
      | ESTOP \<Rightarrow> ''ESTOP'' | FAULT \<Rightarrow> ''FAULT'')"

definition feedback_status_json :: "FollowerConfig \<Rightarrow> FollowerState \<Rightarrow> string" where
  "feedback_status_json cfg s =
    (let fs = fc_feedback cfg
     in json_field ''feedback'' (''{'' @ json_join
       [json_field ''enabled'' (show_bool (fs_enabled fs)),
        json_field ''target_ip'' (json_string (json_escape (fs_target_ip fs))),
        json_field ''right_port'' (show_word (fs_right_port fs)),
        json_field ''left_port'' (show_word (fs_left_port fs)),
        json_field ''link_ok'' (show_bool (fo_link_ok s)),
        json_field ''link'' (json_string (json_escape (link_describe (fo_link s)))),
        json_field ''sent'' (show_word (fo_fb_seq s))] @ ''}''))"

definition follower_status :: "FollowerConfig \<Rightarrow> FollowerState \<Rightarrow> string" where
  "follower_status cfg s =
     json_ok (json_join
       [json_field ''role'' (json_string ''follower''),
        json_field ''right_state'' (json_string (safety_state_to_str (sm_state (fo_safety_r s)))),
        json_field ''left_state'' (json_string (safety_state_to_str (sm_state (fo_safety_l s)))),
        json_field ''init_requested'' (show_bool (fo_init_requested s)),
        json_field ''init_in_progress'' (show_bool (fo_init_in_progress s)),
        json_field ''goto_in_progress'' (show_bool (fo_goto_in_progress s)),
        json_field ''recover_requested'' (show_bool (fo_recover_requested s)),
        json_field ''recover_in_progress'' (show_bool (fo_recover_in_progress s)),
        json_field ''running'' (show_bool (fo_keep_running s)),
        feedback_status_json cfg s])"

definition reset_both :: "FollowerState \<Rightarrow> FollowerState" where
  "reset_both s = s\<lparr>fo_safety_r := safety_reset (fo_safety_r s),
                    fo_safety_l := safety_reset (fo_safety_l s)\<rparr>"

definition estop_both :: "FollowerState \<Rightarrow> FollowerState" where
  "estop_both s = s\<lparr>fo_safety_r := safety_trigger_estop (fo_safety_r s),
                    fo_safety_l := safety_trigger_estop (fo_safety_l s)\<rparr>"

definition handle_goto_pose :: "FollowerState handler" where
  "handle_goto_pose args s =
     (let (ok, vals) = parse_pose16 args
      in if \<not> ok then (s, json_error ''goto_pose expects 16 whitespace-separated values'')
         else (s\<lparr>fo_goto_target := vals, fo_goto_requested := True\<rparr>,
               json_message ''follower goto_pose requested''))"

definition follower_server :: "FollowerConfig \<Rightarrow> FollowerState RuntimeControlServer" where
  "follower_server cfg =
    (let
       srv = register_handler ''status'' (\<lambda>_ s. (s, follower_status cfg s)) rc_new;
       srv = register_handler ''init_position'' (\<lambda>_ s. (s\<lparr>fo_init_requested := True\<rparr>,
         json_message ''follower init_position requested'')) srv;
       srv = register_handler ''goto_pose'' handle_goto_pose srv;
       srv = register_handler ''reset_safety''
         (\<lambda>_ s. (reset_both s, json_message ''follower safety reset'')) srv;
       srv = register_handler ''estop''
         (\<lambda>_ s. (estop_both s, json_message ''follower estop triggered'')) srv;
       srv = register_handler ''recover_estop'' (\<lambda>_ s. (s\<lparr>fo_recover_requested := True\<rparr>,
         json_message ''follower estop recovery requested'')) srv;
       srv = register_handler ''shutdown'' (\<lambda>_ s. (s\<lparr>fo_keep_running := False\<rparr>,
         json_message ''follower shutdown requested'')) srv
     in srv)"

section \<open>Requests\<close>

definition recover_request :: "FollowerState \<Rightarrow> FollowerState \<times> follower_output list" where
  "recover_request s =
     (if \<not> fo_recover_requested s then (s, [])
      else
        let s = s\<lparr>fo_recover_requested := False, fo_recover_in_progress := True\<rparr>
        in if fo_arms s \<noteq> None
           then (s\<lparr>fo_threads := fo_threads s @ [Recover_Thread]\<rparr>,
                 [Can RIGHT Enable_All, Can LEFT Enable_All])
           else ((reset_both s)\<lparr>fo_recover_in_progress := False\<rparr>, []))"

definition init_request :: "FollowerState \<Rightarrow> FollowerState" where
  "init_request s =
     (if \<not> fo_init_requested s then s
      else
        let s = s\<lparr>fo_init_requested := False, fo_init_in_progress := True\<rparr>
        in if fo_arms s \<noteq> None then s\<lparr>fo_threads := fo_threads s @ [Init_Thread]\<rparr>
           else (reset_both s)\<lparr>fo_init_in_progress := False\<rparr>)"

definition goto_request :: "FollowerState \<Rightarrow> FollowerState" where
  "goto_request s =
     (if \<not> fo_goto_requested s then s
      else
        let s = s\<lparr>fo_goto_requested := False, fo_goto_in_progress := True\<rparr>; t = fo_goto_target s
        in if fo_arms s \<noteq> None \<and> length t = 16
           then s\<lparr>fo_threads := fo_threads s
                  @ [Goto_Thread (take 7 t) [t ! 7] (take 7 (drop 8 t)) [t ! 15]]\<rparr>
           else s\<lparr>fo_goto_in_progress := False\<rparr>)"

text \<open>A thread runs to its end: motion, then reset of both managers, then its flag.\<close>

definition complete_thread ::
    "background \<Rightarrow> ThreadEnv \<Rightarrow> FollowerState \<Rightarrow> (FollowerState \<times> follower_output list) result" where
  "complete_thread b env s =
     (case fo_arms s of
        None \<Rightarrow> Inr (s, [])
      | Some arms \<Rightarrow>
         (let (pr, gr, pl, gl) = (case b of
              Goto_Thread pr gr pl gl \<Rightarrow> (pr, gr, pl, gl)
            | _ \<Rightarrow> (home_pose, [Fin 0], home_pose, [Fin 0]));
            pre = (if b = Recover_Thread then [Sleep_Us 100000, Recv_All None] else [])
          in res_bind (move_arms pr gr pl gl env arms) (\<lambda>(arms, cr, cl).
               let s = reset_both (s\<lparr>fo_arms := Some arms, fo_threads := remove1 b (fo_threads s)\<rparr>)
               in Inr (case b of
                    Recover_Thread \<Rightarrow> s\<lparr>fo_recover_in_progress := False\<rparr>
                  | Init_Thread \<Rightarrow> s\<lparr>fo_init_in_progress := False\<rparr>
                  | Goto_Thread _ _ _ _ \<Rightarrow> s\<lparr>fo_goto_in_progress := False\<rparr>,
                  map (Background_Can RIGHT) (pre @ cr) @ map (Background_Can LEFT) (pre @ cl)))))"

section \<open>The loop body\<close>

text \<open>
  What one iteration reads: the clocks (\<open>cy_steady\<close> in nanoseconds), the kernel's answers to a
  link check, the motor readings, and the answers of \<open>sendto\<close>.
\<close>

record CycleEnv =
  cy_now_r :: u64
  cy_now_l :: u64
  cy_readings_r :: Readings
  cy_readings_l :: Readings
  cy_steady :: int
  cy_link :: LinkEnv
  cy_fb_now_r :: u64
  cy_fb_now_l :: u64
  cy_send_time_r :: u64
  cy_send_time_l :: u64
  cy_sent_r :: int
  cy_sent_l :: int
  cy_telemetry_now :: u64

definition cycle_safety :: "CycleEnv \<Rightarrow> FollowerState \<Rightarrow> FollowerState" where
  "cycle_safety env s =
     s\<lparr>fo_safety_r := follower_safety (cy_now_r env) (fo_buffer_r s) (fo_safety_r s),
       fo_safety_l := follower_safety (cy_now_l env) (fo_buffer_l s) (fo_safety_l s)\<rparr>"

definition latest_target :: "u64 TeleopStateBuffer \<Rightarrow> dbl TeleopPacket option" where
  "latest_target b = map_option teleop_doubles (tb_get_latest b)"

definition cycle_drive ::
    "FollowerConfig \<Rightarrow> CycleEnv \<Rightarrow> FollowerState \<Rightarrow> (FollowerState \<times> follower_output list) result" where
  "cycle_drive cfg env s =
     (case fo_arms s of
        Some ((cr, rr), (cl, rl)) \<Rightarrow>
          (if \<not> fo_init_in_progress s \<and> \<not> fo_recover_in_progress s then
             res_bind (drive_arm (fc_motion cfg) (sm_state (fo_safety_r s))
               (latest_target (fo_buffer_r s)) (cy_readings_r env) cr rr) (\<lambda>(cr, rr, out_r).
             res_bind (drive_arm (fc_motion cfg) (sm_state (fo_safety_l s))
               (latest_target (fo_buffer_l s)) (cy_readings_l env) cl rl) (\<lambda>(cl, rl, out_l).
               Inr (s\<lparr>fo_arms := Some ((cr, rr), (cl, rl))\<rparr>,
                    map (Can RIGHT) out_r @ map (Can LEFT) out_l)))
           else Inr (s, []))
      | None \<Rightarrow> Inr (s, []))"

definition refresh_follower_link ::
    "FollowerConfig \<Rightarrow> CycleEnv \<Rightarrow> FollowerState \<Rightarrow> FollowerState result" where
  "refresh_follower_link cfg env s =
     (if cy_steady env \<ge> fo_next_link_check s then
        (let (ok, info) = follower_link_ok (cy_link env) (fc_feedback cfg)
         in res_bind (ns_of_seconds (fs_link_recheck_s (fc_feedback cfg))) (\<lambda>dt.
              Inr (s\<lparr>fo_link := info, fo_link_ok := ok, fo_next_link_check := cy_steady env + dt\<rparr>)))
      else Inr s)"

text \<open>The packet of one side, before \<open>encode\<close>.\<close>

definition feedback_packet ::
    "ArmSide \<Rightarrow> SafetyState \<Rightarrow> bool \<Rightarrow> u64 TeleopStateBuffer \<Rightarrow> u64 \<Rightarrow> arm option \<Rightarrow> u32 \<Rightarrow>
     dbl FeedbackPacket" where
  "feedback_packet side st link_ok b now a seq =
     (let (arm, hand) = (case a of
            Some (ct, rs) \<Rightarrow> (rs_response (ss_arm rs), rs_response (ss_hand rs))
          | None \<Rightarrow> echo_command (latest_target b));
          mode = (case tb_get_latest b of Some t \<Rightarrow> tp_mode t | None \<Rightarrow> 0)
      in (fill_feedback side mode st link_ok (tb_get_latest b) (tb_last_receive_time_ns b) now
            arm hand)\<lparr>fp_seq := seq\<rparr>)"

definition send_feedback ::
    "ArmSide \<Rightarrow> u64 \<Rightarrow> int \<Rightarrow> dbl FeedbackPacket \<Rightarrow> UdpSender \<Rightarrow> UdpSender \<times> follower_output list" where
  "send_feedback side send_time sent fb sender =
     (let (sender, ok, d) = udp_send_raw sent
            (feedback_bytes (feedback_encode send_time (feedback_bits fb))) sender
      in (sender, case d of Some d \<Rightarrow> [Feedback_Datagram side d] | None \<Rightarrow> []))"

definition cycle_feedback ::
    "FollowerConfig \<Rightarrow> CycleEnv \<Rightarrow> FollowerState \<Rightarrow> (FollowerState \<times> follower_output list) result" where
  "cycle_feedback cfg env s =
     (if \<not> fs_enabled (fc_feedback cfg) then Inr (s, [])
      else
        res_bind (refresh_follower_link cfg env s) (\<lambda>s.
          let fb_r = feedback_packet RIGHT (sm_state (fo_safety_r s)) (fo_link_ok s) (fo_buffer_r s)
                (cy_fb_now_r env) (map_option fst (fo_arms s)) (fo_fb_seq s);
              fb_l = feedback_packet LEFT (sm_state (fo_safety_l s)) (fo_link_ok s) (fo_buffer_l s)
                (cy_fb_now_l env) (map_option snd (fo_arms s)) (fo_fb_seq s);
              (sr, out_r) = send_feedback RIGHT (cy_send_time_r env) (cy_sent_r env) fb_r (fo_sender_r s);
              (sl, out_l) = send_feedback LEFT (cy_send_time_l env) (cy_sent_l env) fb_l (fo_sender_l s)
          in Inr (s\<lparr>fo_fb_seq := fo_fb_seq s + 1, fo_sender_r := sr, fo_sender_l := sl\<rparr>,
                  out_r @ out_l)))"

definition follower_telemetry :: "CycleEnv \<Rightarrow> FollowerState \<Rightarrow> u32 TelemetryPacket result" where
  "follower_telemetry env s =
     (let r = sm_state (fo_safety_r s); l = sm_state (fo_safety_l s);
          pkt = (telemetry_zero 0)\<lparr>te_monotonic_time_ns := cy_telemetry_now env,
            te_robot_type := 1, te_control_mode := 1,
            te_enabled := (if fo_arms s \<noteq> None \<and> (r = ACTIVE \<or> l = ACTIVE) then 1 else 0),
            te_estop := (if r = ESTOP \<or> l = ESTOP then 1 else 0),
            te_state_dim := 16, te_action_dim := 16, te_velocity_dim := 16,
            te_watchdog_state := safety_state_code r, te_safety_state := safety_state_code l\<rparr>
      in case fo_arms s of
           Some (ar, al) \<Rightarrow> telemetry_joints (snd ar) (snd al) pkt
         | None \<Rightarrow> Inr pkt)"

definition cycle_telemetry ::
    "FollowerConfig \<Rightarrow> CycleEnv \<Rightarrow> FollowerState \<Rightarrow> (FollowerState \<times> follower_output list) result" where
  "cycle_telemetry cfg env s =
     (if fc_publish_telemetry cfg \<and> cy_steady env \<ge> fo_next_telemetry s then
        res_bind (follower_telemetry env s) (\<lambda>pkt.
        res_bind (ns_of_seconds (fc_telemetry_period_s cfg)) (\<lambda>dt.
          let (p, d) = publish pkt (fo_publisher s)
          in Inr (s\<lparr>fo_publisher := p, fo_next_telemetry := fo_next_telemetry s + dt\<rparr>,
                  case d of Some d \<Rightarrow> [Telemetry_Datagram d] | None \<Rightarrow> [])))
      else Inr (s, []))"

definition follower_cycle ::
    "FollowerConfig \<Rightarrow> CycleEnv \<Rightarrow> FollowerState \<Rightarrow> (FollowerState \<times> follower_output list) result" where
  "follower_cycle cfg env s =
     (let (s, out0) = recover_request s; s = goto_request (init_request s); s = cycle_safety env s
      in res_bind (cycle_drive cfg env s) (\<lambda>(s, out1).
         res_bind (cycle_feedback cfg env s) (\<lambda>(s, out2).
         res_bind (cycle_telemetry cfg env s) (\<lambda>(s, out3).
         res_bind (ns_of_seconds (fc_period_s cfg)) (\<lambda>_.
           Inr (s, out0 @ out1 @ out2 @ out3))))))"

definition follower_shutdown :: "FollowerState \<Rightarrow> follower_output list" where
  "follower_shutdown s =
     (if fo_arms s \<noteq> None then [Can RIGHT Disable_All, Can LEFT Disable_All] else [])"

section \<open>Runs\<close>

datatype follower_event =
    Packet ArmSide u64 "u64 TeleopPacket"
  | Signal
  | Line "string option"
  | Cycle CycleEnv
  | Thread_Done background ThreadEnv

text \<open>
  The test of \<open>keep_running\<close> comes first in an iteration; when it fails, \<open>main\<close> switches the
  motors off and returns, and nothing happens any more.
\<close>

fun follower_react ::
    "FollowerConfig \<Rightarrow> follower_event \<Rightarrow> FollowerState \<Rightarrow>
     (FollowerState \<times> follower_output list) result" where
  "follower_react cfg (Packet RIGHT now p) s =
     Inr (s\<lparr>fo_buffer_r := tb_update now p (fo_buffer_r s)\<rparr>, [])"
| "follower_react cfg (Packet LEFT now p) s =
     Inr (s\<lparr>fo_buffer_l := tb_update now p (fo_buffer_l s)\<rparr>, [])"
| "follower_react cfg Signal s = Inr ((estop_both s)\<lparr>fo_keep_running := False\<rparr>, [])"
| "follower_react cfg (Line received) s =
     (let (s, r) = serve_client (rc_handlers (follower_server cfg)) received s in Inr (s, [Response r]))"
| "follower_react cfg (Thread_Done b env) s =
     (if b \<in> set (fo_threads s) then complete_thread b env s else Inr (s, []))"
| "follower_react cfg (Cycle env) s =
     (if fo_keep_running s then follower_cycle cfg env s
      else Inr (s\<lparr>fo_exited := True\<rparr>, follower_shutdown s))"

definition follower_run ::
    "FollowerConfig \<Rightarrow> follower_event list \<Rightarrow> FollowerState \<Rightarrow>
     (FollowerState \<times> follower_output list) result" where
  "follower_run cfg = app_run (follower_react cfg) fo_exited"

section \<open>From the command line to the first iteration\<close>

text \<open>
  The environment's answers during start-up: interfaces, the control port's socket calls, the
  two receive sockets, the telemetry socket, the configuration file, the link to the feedback
  target, the sockets and addresses of the feedback senders, the clock, the two arms.
\<close>

record FollowerStartEnv =
  se_interfaces :: LinkEnv
  se_listen :: ListenEnv
  se_receiver_sockets :: "bool \<times> bool"
  se_telemetry_socket :: bool
  se_yaml :: "string + YamlLoader"
  se_link :: LinkEnv
  se_sender_r :: UdpSender
  se_sender_l :: UdpSender
  se_steady :: int
  se_arm_r :: ArmEnv
  se_arm_l :: ArmEnv

definition follower_initial ::
    "FollowerArgs \<Rightarrow> FollowerStartEnv \<Rightarrow> FeedbackSettings \<Rightarrow> (arm \<times> arm) option \<Rightarrow> FollowerState" where
  "follower_initial a env fs arms =
     (let (ok, info) = (if fs_enabled fs then follower_link_ok (se_link env) fs
                        else (False, link_info_new))
      in \<lparr> fo_exited = False, fo_keep_running = True, fo_init_requested = False,
           fo_init_in_progress = False, fo_recover_requested = False,
           fo_recover_in_progress = False, fo_goto_requested = False,
           fo_goto_in_progress = False, fo_goto_target = [], fo_threads = [],
           fo_buffer_r = tb_new, fo_buffer_l = tb_new,
           fo_safety_r = safety_new (fa_safety_config a),
           fo_safety_l = safety_new (fa_safety_config a), fo_arms = arms,
           fo_sender_r = se_sender_r env, fo_sender_l = se_sender_l env, fo_link = info,
           fo_link_ok = ok, fo_fb_seq = 0, fo_next_link_check = se_steady env,
           fo_publisher = fst (publisher_start (se_telemetry_socket env) publisher_new),
           fo_next_telemetry = se_steady env \<rparr>)"

definition follower_config ::
    "FollowerArgs \<Rightarrow> FeedbackSettings \<Rightarrow> bool \<Rightarrow> dbl \<Rightarrow> FollowerConfig" where
  "follower_config a fs ff scale =
     \<lparr> fc_motion = follower_motion_config a ff scale, fc_feedback = fs,
       fc_publish_telemetry = fa_publish_telemetry a,
       fc_telemetry_period_s = Fin 1 div fa_telemetry_rate_hz a,
       fc_period_s = Fin 1 div fa_rate_hz a \<rparr>"

text \<open>\<open>None\<close>: \<open>main\<close> returned 1. The first component: what was sent to the two buses.\<close>

definition follower_start ::
    "FollowerArgs \<Rightarrow> FollowerStartEnv \<Rightarrow>
     ((can_command list \<times> can_command list) \<times> (FollowerConfig \<times> FollowerState) option) result" where
  "follower_start a env =
     (if bind_address (se_interfaces env) (fa_interface_name a) (fa_bind_ip a) = None
      then Inr (([], []), None)
      else if fa_control_port a > 0
           \<and> \<not> snd (rc_start (se_listen env) (rc_new :: FollowerState RuntimeControlServer))
      then Inr (([], []), None)
      else if \<not> fst (udp_start (udp_receiver_new (fst (se_receiver_sockets env))))
           \<or> \<not> fst (udp_start (udp_receiver_new (snd (se_receiver_sockets env))))
      then Inr (([], []), None)
      else if fa_publish_telemetry a \<and> \<not> snd (publisher_start (se_telemetry_socket env) publisher_new)
      then Inr (([], []), None)
      else
        let fs = load_feedback_settings ''config/follower.yaml'' (se_yaml env)
        in if fa_mock a
           then Inr (([], []), Some (follower_config a fs False (Fin 1),
                                     follower_initial a env fs None))
           else res_bind (follower_hardware a (se_yaml env) (se_arm_r env) (se_arm_l env))
             (\<lambda>(cmds, r). Inr (cmds, map_option (\<lambda>(arms, p).
                (follower_config a fs (fq_gravity_ff p) (fq_gravity_ff_scale p),
                 follower_initial a env fs (Some arms))) r)))"

end
