(* ===== verification/Controller_Props.thy ===== *)
theory Controller_Props
  imports Controller
begin

text \<open>
  What the control cycles of \<open>Controller\<close> guarantee: bounded torques on the arm a person
  holds, on every path and for every sensor value; the fall-back to gravity compensation;
  commands that track the references on the follower; interpolated motion that ends exactly on
  its goal.
\<close>

section \<open>Effort limits\<close>

lemma effort_limits_length [simp]: "length (effort_limits_from ls) = 8"
  by (simp add: effort_limits_from_def NMOTORS_def Let_def)

lemma effort_limits_positive:
  assumes "i < 8"
  shows "\<exists>l. effort_limits_from ls ! i = Fin l \<and> 0 < l"
proof -
  have "(effort_limit_L[NMOTORS - 1 := Fin 2]) ! i = Fin (if i = 7 then 2 else 20)"
    using assms by (simp add: effort_limit_L_def NMOTORS_def nth_list_update)
  then show ?thesis
    using assms by (auto simp: effort_limits_from_def Let_def NMOTORS_def)
qed

definition leader_bound :: "dbl list \<Rightarrow> nat \<Rightarrow> real" where
  "leader_bound limits i = (if i < length limits then fval (limits ! i) else 0)"

lemma leader_bound_nonneg: "0 \<le> leader_bound (effort_limits_from ls) i"
  using effort_limits_positive [of i ls] by (auto simp: leader_bound_def)

lemma clamp_leader_effort:
  assumes "ct_effort_limit ct = effort_limits_from ls"
  shows "\<exists>x. ClampLeaderEffort ct i tau = Fin x \<and> \<bar>x\<bar> \<le> leader_bound (effort_limits_from ls) i"
proof -
  define lim where "lim = (if i < 8 then effort_limits_from ls ! i else Fin 0)"
  have "lim = Fin (leader_bound (effort_limits_from ls) i)"
    using effort_limits_positive [of i ls] by (auto simp: lim_def leader_bound_def)
  moreover have "ClampLeaderEffort ct i tau = (if isfinite tau then clamp_sym lim tau else Fin 0)"
    by (simp add: ClampLeaderEffort_def Let_def assms lim_def clamp_sym_def)
  ultimately show ?thesis
    using clamp_sym_bounds [OF leader_bound_nonneg, of ls i tau] leader_bound_nonneg [of ls i]
    by (auto elim: isfiniteE)
qed

section \<open>Friction and dynamics return\<close>

definition friction_params_ok :: "Control \<Rightarrow> nat \<Rightarrow> bool" where
  "friction_params_ok ct n \<longleftrightarrow>
     n \<le> length (ct_Fc ct) \<and> n \<le> length (ct_k ct) \<and> n \<le> length (ct_Fv ct) \<and> n \<le> length (ct_Fo ct)"

definition friction_value :: "Control \<Rightarrow> dbl \<Rightarrow> nat \<Rightarrow> dbl" where
  "friction_value ct v i =
     Fin 1 * ct_Fc ct ! i * d_tanh (Fin (1 / 10) * ct_k ct ! i * v) + ct_Fv ct ! i * v + ct_Fo ct ! i"

lemma compute_all_friction:
  assumes "friction_params_ok ct (length av + length gv)"
  shows "ComputeAllFriction ct av gv =
    Inr (map (\<lambda>i. friction_value ct ((av @ gv) ! i) i) [0..<length av + length gv])"
  unfolding ComputeAllFriction_def Let_def
  by (simp, rule res_map_ok)
    (use assms in \<open>simp add: ComputeFriction_def friction_params_ok_def friction_value_def\<close>)

lemma compute_all_friction_short:
  assumes "\<not> friction_params_ok ct (length av + length gv)"
  shows "\<exists>e. ComputeAllFriction ct av gv = Inl e"
proof (rule ccontr)
  assume "\<nexists>e. ComputeAllFriction ct av gv = Inl e"
  then obtain fr where fr: "ComputeAllFriction ct av gv = Inr fr"
    by (cases "ComputeAllFriction ct av gv") auto
  have "friction_params_ok ct (Suc i)" if "i < length av + length gv" for i
  proof -
    have "ComputeFriction ct (av @ gv) i = Inr (fr ! i)"
      using res_map_nth [of "ComputeFriction ct (av @ gv)" "[0..<length (av @ gv)]" fr i] fr that
      by (simp add: ComputeAllFriction_def)
    then show ?thesis
      by (auto simp: ComputeFriction_def res_bind_eq_Inr vec_at_def friction_params_ok_def
          split: if_splits)
  qed
  from this [of "length av + length gv - 1"] assms show False
    by (cases "length av + length gv") (auto simp: friction_params_ok_def)
qed

definition dynamics_ok :: "Dynamics option \<Rightarrow> nat \<Rightarrow> bool" where
  "dynamics_ok d n \<longleftrightarrow> (\<exists>dy. d = Some dy \<and> dy_joints dy \<le> n)"

lemma get_gravity_ok:
  "dynamics_ok d n \<Longrightarrow> n \<le> length q \<Longrightarrow> length out = n \<Longrightarrow> \<exists>g. get_gravity d q out = Inr g \<and> length g = n"
  by (auto simp: dynamics_ok_def get_gravity_def Let_def)

lemma get_coriolis_ok:
  "dynamics_ok d n \<Longrightarrow> n \<le> length q \<Longrightarrow> n \<le> length dq \<Longrightarrow> length out = n \<Longrightarrow>
     \<exists>c. get_coriolis d q dq out = Inr c \<and> length c = n"
  by (auto simp: dynamics_ok_def get_coriolis_def Let_def)

section \<open>The leader\<close>

lemma store_responses_sizes [simp]:
  "get_size (ss_arm (store_responses rd rs)) = length (rd_arm rd)"
  "get_size (ss_hand (store_responses rd rs)) = length (rd_gripper rd)"
  by (simp_all add: store_responses_def get_size_def set_all_responses_def)

lemma kf_active_ref:
  "kf_active ct a g cmd \<Longrightarrow> a \<le> length (lb_arm_pos_ref (the cmd))"
  by (auto simp: kf_active_def bilateral_active_def split: option.splits)

lemma arm_torque_params:
  "map (\<lambda>m. torque_only (ms_effort m)) (arm_joint_to_motor js) = map (\<lambda>j. torque_only (js_effort j)) js"
  by (simp add: arm_joint_to_motor_def comp_def)

lemma gripper_torque_params:
  "map (\<lambda>m. torque_only (ms_effort m)) (gripper_joint_to_motor js) = map (\<lambda>j. torque_only (js_effort j)) js"
  by (simp add: gripper_joint_to_motor_def comp_def)

lemma leader_step_returns:
  assumes "friction_params_ok ct (length (rd_arm rd) + length (rd_gripper rd))"
    and "dynamics_ok (ct_dynamics_l ct) (length (rd_arm rd))"
  shows "\<exists>arm gripper. leader_step cmd rd ct rs =
      Inr (ct\<lparr>ct_leader_first_cycle_logged := True\<rparr>, store_responses rd rs,
        [Arm_Mit (map (\<lambda>i. torque_only (ClampLeaderEffort ct i (arm i))) [0..<length (rd_arm rd)]),
         Gripper_Mit (map (\<lambda>i. torque_only
           (ClampLeaderEffort ct (length (rd_arm rd) + i) (gripper i))) [0..<length (rd_gripper rd)]),
         Recv_All (Some 200)])"
proof -
  let ?a = "length (rd_arm rd)" and ?g = "length (rd_gripper rd)"
  let ?q = "map js_position (arm_motor_to_joint (rd_arm rd))"
  let ?dq = "map js_velocity (arm_motor_to_joint (rd_arm rd))"
  let ?zeros = "replicate ?a (Fin 0)"
  have "\<exists>gr. (if kf_active ct ?a ?g cmd
      then get_gravity (ct_dynamics_l ct) (lb_arm_pos_ref (the cmd)) ?zeros else Inr ?zeros) = Inr gr"
  proof (cases "kf_active ct ?a ?g cmd")
    case True
    from get_gravity_ok [OF assms(2) kf_active_ref [OF this], of ?zeros] True show ?thesis by auto
  qed simp
  then obtain gr where gr: "(if kf_active ct ?a ?g cmd
      then get_gravity (ct_dynamics_l ct) (lb_arm_pos_ref (the cmd)) ?zeros else Inr ?zeros) = Inr gr" ..
  obtain g where g: "get_gravity (ct_dynamics_l ct) ?q ?zeros = Inr g"
    using get_gravity_ok [OF assms(2), of ?q ?zeros] by auto
  obtain c where c: "get_coriolis (ct_dynamics_l ct) ?q ?dq ?zeros = Inr c"
    using get_coriolis_ok [OF assms(2), of ?q ?dq ?zeros] by auto
  obtain f where f: "ComputeAllFriction ct ?dq
      (map js_velocity (gripper_motor_to_joint (rd_gripper rd))) = Inr f"
    using compute_all_friction [of ct ?dq] assms(1) by simp
  let ?use_kf = "kf_active ct ?a ?g cmd"
  let ?arm = "arm_motor_to_joint (rd_arm rd)"
  define ta where "ta i = g ! i * (if i < length (ct_gscale ct) then ct_gscale ct ! i else Fin 1)
      + (if i < length (ct_goffset ct) then ct_goffset ct ! i else Fin 0)
      + f ! i * Fin (3 / 10) + c ! i * Fin (1 / 10)
      + (if bilateral_active ct ?a ?g cmd then leader_arm_tau_b ct (the cmd) ?use_kf gr ?arm i
         else Fin 0)" for i
  define tg where "tg i = f ! (?a + i) * Fin (3 / 10) + (if bilateral_active ct ?a ?g cmd
      then leader_gripper_tau_b ct (the cmd) ?use_kf ?a (rd_gripper rd) i else Fin 0)" for i
  have arm: "leader_arm_effort ct g c f i (if bilateral_active ct ?a ?g cmd
      then leader_arm_tau_b ct (the cmd) ?use_kf gr ?arm i else Fin 0) = ClampLeaderEffort ct i (ta i)"
    for i
    by (simp only: leader_arm_effort_def Let_def ta_def)
  have "leader_step cmd rd ct rs =
      Inr (ct\<lparr>ct_leader_first_cycle_logged := True\<rparr>, store_responses rd rs,
        [Arm_Mit (map (\<lambda>i. torque_only (ClampLeaderEffort ct i (ta i))) [0..<?a]),
         Gripper_Mit (map (\<lambda>i. torque_only (ClampLeaderEffort ct (?a + i) (tg i))) [0..<?g]),
         Recv_All (Some 200)])"
    unfolding leader_step_def Let_def store_responses_sizes gr g c f res_bind_Inr arm
      tg_def [symmetric] arm_torque_params gripper_torque_params
    by (simp add: comp_def)
  then show ?thesis by blast
qed

section \<open>The follower\<close>

lemma feedforward_bound:
  "\<exists>x. feedforward_effort ct g i = Fin x \<and> \<bar>x\<bar> \<le> (if i < 8 then 20 else 0)"
proof -
  define y where "y = (let z = g ! i * ct_follower_gravity_ff_scale ct in if isfinite z then z else Fin 0)"
  define l where "l = (if i < 8 then 20 else 0 :: real)"
  have "(if i < NMOTORS then effort_limit_F ! i else Fin 0) = Fin l"
    by (simp add: l_def NMOTORS_def effort_limit_F_def)
  then have "feedforward_effort ct g i = clamp_sym (Fin l) y"
    by (simp add: feedforward_effort_def Let_def clamp_sym_def y_def)
  then show ?thesis
    using clamp_sym_bounds [of l y] by (auto simp: l_def)
qed

lemma track_commands_ok:
  assumes "length refs + n \<le> length (ct_Kp ct)" and "length refs + n \<le> length (ct_Kd ct)"
  shows "track_commands ct n tau refs =
    Inr (map (\<lambda>i. \<lparr> mp_kp = ct_Kp ct ! (i + n), mp_kd = ct_Kd ct ! (i + n),
      mp_q = ms_position (refs ! i), mp_dq = ms_velocity (refs ! i),
      mp_tau = (if i < length tau then tau ! i else Fin 0) \<rparr>) [0..<length refs])"
  unfolding track_commands_def by (rule res_map_ok) (use assms in auto)

text \<open>The frames of any cycle that tracks references carry their positions and velocities.\<close>

lemma track_commands_pos_vel:
  assumes "track_commands ct off tau refs = Inr cmds"
  shows "map mp_q cmds = map ms_position refs \<and> map mp_dq cmds = map ms_velocity refs"
proof -
  have len: "length cmds = length refs"
    using assms by (auto simp: track_commands_def dest: res_map_length)
  have "mp_q (cmds ! i) = ms_position (refs ! i) \<and> mp_dq (cmds ! i) = ms_velocity (refs ! i)"
    if "i < length refs" for i
    using res_map_nth [OF assms [unfolded track_commands_def], of i] that
    by (auto simp: res_bind_eq_Inr dest: sym)
  with len show ?thesis by (auto simp: list_eq_iff_nth_eq)
qed

lemmas track_commands_pos = track_commands_pos_vel [THEN conjunct1]

lemma follower_role_step:
  "ct_role ct = ROLE_FOLLOWER \<Longrightarrow> unilateral_step rd ct rs = follower_step rd ct rs"
  by (simp add: unilateral_step_def ROLE_FOLLOWER_def ROLE_LEADER_def)

lemma store_responses_refs [simp]:
  "rs_reference (ss_arm (store_responses rd rs)) = rs_reference (ss_arm rs)"
  "rs_reference (ss_hand (store_responses rd rs)) = rs_reference (ss_hand rs)"
  by (simp_all add: store_responses_def set_all_responses_def)

lemma follower_feedforward_ok:
  assumes "ct_follower_gravity_ff ct \<longrightarrow> ct_dynamics_f ct \<noteq> None \<longrightarrow> dynamics_ok (ct_dynamics_f ct) (length q)"
  shows "\<exists>ff. follower_feedforward ct q (length q) = Inr ff \<and> length ff = length q
    \<and> (\<forall>i < length q. \<exists>x. ff ! i = Fin x \<and> \<bar>x\<bar> \<le> 20)"
proof (cases "ct_follower_gravity_ff ct \<and> ct_dynamics_f ct \<noteq> None")
  case True
  with assms obtain g where g: "get_gravity (ct_dynamics_f ct) q (replicate (length q) (Fin 0)) = Inr g"
    using get_gravity_ok [of "ct_dynamics_f ct" "length q" q "replicate (length q) (Fin 0)"] by auto
  have "\<exists>x. feedforward_effort ct g i = Fin x \<and> \<bar>x\<bar> \<le> 20" for i
    using feedforward_bound [of ct g i] by (auto split: if_splits)
  with True g show ?thesis by (simp add: follower_feedforward_def)
next
  case False
  then show ?thesis by (auto simp: follower_feedforward_def)
qed

lemma follower_step_returns:
  assumes "length (rs_reference (ss_arm rs)) \<le> length (ct_Kp ct)"
    and "length (rs_reference (ss_arm rs)) \<le> length (ct_Kd ct)"
    and "length (rd_arm rd) + length (rs_reference (ss_hand rs)) \<le> length (ct_Kp ct)"
    and "length (rd_arm rd) + length (rs_reference (ss_hand rs)) \<le> length (ct_Kd ct)"
    and "ct_dynamics_f ct \<noteq> None \<longrightarrow> dynamics_ok (ct_dynamics_f ct) (length (rd_arm rd))"
  shows "\<exists>arm hand. follower_step rd ct rs =
      Inr (ct, store_responses rd rs, [Arm_Mit arm, Gripper_Mit hand, Recv_All (Some 200)])
    \<and> map mp_q arm = map js_position (rs_reference (ss_arm rs))
    \<and> map mp_q hand = map ms_position (gripper_joint_to_motor (rs_reference (ss_hand rs)))
    \<and> (\<forall>p \<in> set arm. \<exists>x. mp_tau p = Fin x \<and> \<bar>x\<bar> \<le> 20)
    \<and> (\<forall>p \<in> set hand. mp_tau p = Fin 0)"
proof -
  let ?n = "length (rd_arm rd)"
  let ?q = "map js_position (arm_motor_to_joint (rd_arm rd))"
  have q: "length ?q = ?n" by simp
  obtain ff where ff: "follower_feedforward ct ?q ?n = Inr ff" "length ff = ?n"
      "\<forall>i < ?n. \<exists>x. ff ! i = Fin x \<and> \<bar>x\<bar> \<le> 20"
    using follower_feedforward_ok [of ct ?q] assms(5) unfolding q by blast
  let ?ar = "arm_joint_to_motor (rs_reference (ss_arm rs))"
  let ?hr = "gripper_joint_to_motor (rs_reference (ss_hand rs))"
  note arm = track_commands_ok [of ?ar 0 ct ff]
  note hand = track_commands_ok [of ?hr ?n ct "[]"]
  have refs: "rs_reference (ss_arm (store_responses rd rs)) = rs_reference (ss_arm rs)"
    "rs_reference (ss_hand (store_responses rd rs)) = rs_reference (ss_hand rs)"
    by (simp_all add: store_responses_def set_all_responses_def)
  have tau: "\<exists>x. (if i < length ff then ff ! i else Fin 0) = Fin x \<and> \<bar>x\<bar> \<le> 20" for i
    using ff by auto
  have pos: "map (\<lambda>i. ms_position (m ! i)) [0..<length m] = map ms_position m" for m
    by (rule nth_equalityI) simp_all
  have armq: "map ms_position ?ar = map js_position (rs_reference (ss_arm rs))"
    by (simp add: arm_joint_to_motor_def comp_def)
  show ?thesis
    using assms tau
    by (simp add: follower_step_def Let_def ff(1) refs arm hand comp_def pos pos [of ?ar, simplified]
        pos [of ?hr, simplified] armq)
qed

section \<open>Properties\<close>

text \<open>
  C29: the hand-held arm is only ever torque-controlled, and within limits. With friction
  parameters for all joints and a dynamics model that fits the arm, a leader cycle returns for
  every command and every sensor value; it sends no position or velocity gains, and every torque
  is finite and at most the configured limit of its joint, NaN inputs included.
\<close>

theorem leader_torque_bounded:
  assumes "ct_effort_limit ct = effort_limits_from limits"
    and "friction_params_ok ct (length (rd_arm rd) + length (rd_gripper rd))"
    and "dynamics_ok (ct_dynamics_l ct) (length (rd_arm rd))"
  shows "\<exists>ct' rs' arm gripper. leader_step cmd rd ct rs =
      Inr (ct', rs', [Arm_Mit arm, Gripper_Mit gripper, Recv_All (Some 200)])
    \<and> length arm = length (rd_arm rd) \<and> length gripper = length (rd_gripper rd)
    \<and> (\<forall>i < length arm. \<exists>x. arm ! i = torque_only (Fin x)
          \<and> \<bar>x\<bar> \<le> leader_bound (effort_limits_from limits) i)
    \<and> (\<forall>i < length gripper. \<exists>x. gripper ! i = torque_only (Fin x)
          \<and> \<bar>x\<bar> \<le> leader_bound (effort_limits_from limits) (length arm + i))"
proof -
  obtain a g where step: "leader_step cmd rd ct rs =
      Inr (ct\<lparr>ct_leader_first_cycle_logged := True\<rparr>, store_responses rd rs,
        [Arm_Mit (map (\<lambda>i. torque_only (ClampLeaderEffort ct i (a i))) [0..<length (rd_arm rd)]),
         Gripper_Mit (map (\<lambda>i. torque_only (ClampLeaderEffort ct (length (rd_arm rd) + i) (g i)))
           [0..<length (rd_gripper rd)]),
         Recv_All (Some 200)])"
    using leader_step_returns [OF assms(2,3)] by blast
  have "\<exists>x. torque_only (ClampLeaderEffort ct i tau) = torque_only (Fin x)
      \<and> \<bar>x\<bar> \<le> leader_bound (effort_limits_from limits) i" for i tau
    using clamp_leader_effort [OF assms(1), of i tau] by auto
  with step show ?thesis by simp
qed

definition example_dynamics :: Dynamics where
  "example_dynamics =
     \<lparr> dy_joints = 1, dy_gravity = (\<lambda>q. [NaN]), dy_coriolis = (\<lambda>q dq. [PInf]) \<rparr>"

definition example_leader :: Control where
  "example_leader =
     SetParameter [Fin 1, Fin 1] [Fin 1, Fin 1] [Fin 0, Fin 0] [Fin 0, Fin 0] [Fin 0, Fin 0]
       [Fin 0, Fin 0] (control_new (Some example_dynamics) None ROLE_LEADER ''right'')"

definition example_readings :: Readings where
  "example_readings =
     \<lparr> rd_arm = [\<lparr> ms_position = Fin 1, ms_velocity = NaN, ms_effort = Fin 0 \<rparr>],
       rd_gripper = [\<lparr> ms_position = Fin 0, ms_velocity = Fin 0, ms_effort = Fin 0 \<rparr>] \<rparr>"

lemma example_leader_ok:
  "ct_effort_limit example_leader = effort_limits_from []"
  "friction_params_ok example_leader (length (rd_arm example_readings) + length (rd_gripper example_readings))"
  "dynamics_ok (ct_dynamics_l example_leader) (length (rd_arm example_readings))"
  by (simp_all add: example_leader_def SetParameter_def control_new_def SetEffortLimits_def
      friction_params_ok_def example_readings_def dynamics_ok_def example_dynamics_def)

theorem leader_torque_bounded_witness:
  "\<exists>ct' rs' arm gripper. leader_step None example_readings example_leader (system_state_new 1 1) =
      Inr (ct', rs', [Arm_Mit arm, Gripper_Mit gripper, Recv_All (Some 200)])"
  using leader_torque_bounded [OF example_leader_ok, of None "system_state_new 1 1"] by blast

text \<open>
  Force feedback is fail-safe. Unless a command with a positive scale comes with references
  and gains for every joint, a leader cycle is the plain gravity compensation cycle: the same
  torques, the same state.
\<close>

theorem leader_falls_back:
  assumes "\<not> bilateral_active ct (length (rd_arm rd)) (length (rd_gripper rd)) cmd"
  shows "leader_step cmd rd ct rs = leader_step None rd ct rs"
proof -
  have "\<not> bilateral_active ct (length (rd_arm rd)) (length (rd_gripper rd)) None"
    by (simp add: bilateral_active_def)
  with assms show ?thesis
    by (simp add: leader_step_def kf_active_def Let_def)
qed

theorem leader_falls_back_witness:
  "leader_step (Some \<lparr> lb_arm_pos_ref = [Fin 1], lb_hand_pos_ref = [Fin 1], lb_arm_tau_f = [],
      lb_hand_tau_f = [], lb_scale = NaN \<rparr>) example_readings example_leader (system_state_new 1 1) =
    leader_step None example_readings example_leader (system_state_new 1 1)"
  by (rule leader_falls_back) (simp add: bilateral_active_def)

text \<open>
  C30: the follower tracks its references. With gains for every reference, a follower cycle
  returns; the arm motors are commanded to the referenced joint positions, the gripper motors to
  the motor image of theirs, the feedforward torque is finite and at most 20 Nm whatever the
  model computes, and the grippers get none.
\<close>

theorem follower_tracks_references:
  assumes "ct_role ct = ROLE_FOLLOWER"
    and "length (rs_reference (ss_arm rs)) \<le> min (length (ct_Kp ct)) (length (ct_Kd ct))"
    and "length (rd_arm rd) + length (rs_reference (ss_hand rs))
      \<le> min (length (ct_Kp ct)) (length (ct_Kd ct))"
    and "ct_dynamics_f ct = None \<or> dynamics_ok (ct_dynamics_f ct) (length (rd_arm rd))"
  shows "\<exists>rs' arm hand. unilateral_step rd ct rs =
      Inr (ct, rs', [Arm_Mit arm, Gripper_Mit hand, Recv_All (Some 200)])
    \<and> map mp_q arm = map js_position (rs_reference (ss_arm rs))
    \<and> map mp_q hand = map ms_position (gripper_joint_to_motor (rs_reference (ss_hand rs)))
    \<and> (\<forall>p \<in> set arm. \<exists>x. mp_tau p = Fin x \<and> \<bar>x\<bar> \<le> 20)
    \<and> (\<forall>p \<in> set hand. mp_tau p = Fin 0)"
  using follower_step_returns [of rs ct rd] assms(2-4) by (auto simp: follower_role_step [OF assms(1)])

theorem follower_tracks_references_witness:
  "\<exists>rs' arm hand. unilateral_step example_readings
      (SetFollowerGravityFeedforward True (Fin 1)
        (SetParameter [Fin 1, Fin 1] [Fin 1, Fin 1] [] [] [] []
          (control_new None (Some example_dynamics) ROLE_FOLLOWER ''left''))) (system_state_new 1 1) =
      Inr (SetFollowerGravityFeedforward True (Fin 1)
        (SetParameter [Fin 1, Fin 1] [Fin 1, Fin 1] [] [] [] []
          (control_new None (Some example_dynamics) ROLE_FOLLOWER ''left'')),
        rs', [Arm_Mit arm, Gripper_Mit hand, Recv_All (Some 200)])"
proof -
  let ?c = "SetFollowerGravityFeedforward True (Fin 1)
        (SetParameter [Fin 1, Fin 1] [Fin 1, Fin 1] [] [] [] []
          (control_new None (Some example_dynamics) ROLE_FOLLOWER ''left''))"
  have c: "ct_role ?c = ROLE_FOLLOWER" "length (ct_Kp ?c) = 2" "length (ct_Kd ?c) = 2"
      "ct_dynamics_f ?c = Some example_dynamics"
    by (simp_all add: SetFollowerGravityFeedforward_def SetParameter_def control_new_def
        SetEffortLimits_def)
  show ?thesis
    using follower_tracks_references [of ?c "system_state_new 1 1" example_readings] c
    by (auto simp: system_state_new_def robot_state_new_def example_readings_def dynamics_ok_def
        example_dynamics_def)
qed

section \<open>Motion to a pose\<close>

lemma concat_blocks_nth:
  assumes "\<And>i. length (f i) = m" and "k < n" and "j < m"
  shows "concat (map f [0..<n]) ! (m * k + j) = f k ! j"
  using assms(2)
proof (induction n)
  case (Suc n)
  have len: "length (concat (map f [0..<n])) = m * n"
    using assms(1) by (simp add: length_concat comp_def sum_list_triv)
  show ?case
  proof (cases "k = n")
    case True
    with len show ?thesis by (simp add: nth_append)
  next
    case False
    with Suc.prems have "k < n" by simp
    then have "m * k + m \<le> m * n"
      by (metis Suc_leI mult_Suc_right mult_le_mono2 add.commute)
    with Suc.IH \<open>k < n\<close> len assms(3) show ?thesis by (simp add: nth_append)
  qed
qed simp

lemma move_alpha_val: "move_alpha k = Fin (real (k + 1) / 220)"
  by (simp add: move_alpha_def dbl_of_nat_def)

lemma interpolate_Fin: "interpolate (Fin a) (Fin g) (Fin p) = Fin (p + (g - p) * a)"
  by (simp add: interpolate_def algebra_simps)

lemma interpolate_val:
  "interpolate (move_alpha k) (Fin g) (Fin p) = Fin (p + (g - p) * (real (k + 1) / 220))"
  by (simp only: move_alpha_val interpolate_Fin)

lemma move_step_arm:
  assumes "length goal = 7" and "i < 7" and "goal ! i = Fin g" and "now ! i = Fin p"
  shows "\<exists>ps. move_step goal hg now hn k ! 0 = Arm_Mit ps \<and> length ps = 7
    \<and> mp_q (ps ! i) = Fin (p + (g - p) * (real (k + 1) / 220)) \<and> mp_tau (ps ! i) = Fin 0"
  using assms
  by (simp add: move_step_def Let_def move_params_def interpolate_val arm_joint_to_motor_def
      pose_state_def)

text \<open>
  Motion to a pose is a straight line in 220 equal steps. From finite readings of at least
  seven arm motors and at most one gripper the routine returns; in step \<open>k\<close> every arm joint is
  commanded without feedforward to the point \<open>(k + 1) / 220\<close> of the way, so one step moves it by a
  220th of the distance and the last command is the goal: the target, or the home position where
  the caller gave none.
\<close>

theorem move_is_linear:
  assumes "7 \<le> length (rd_arm rd0)" and "length (rd_gripper rd0) \<le> 1" and "i < 7"
    and "ms_position (rd_arm rd0 ! i) = Fin p"
    and "(if i < length target then target ! i else INITIAL_POSITION ! i) = Fin g"
  shows "\<exists>rs' cmds. MoveToPose target target_gripper rd0 rds ct rs = Inr (ct, rs', cmds)
    \<and> (\<forall>k < 220. \<exists>ps. cmds ! (4 * k) = Arm_Mit ps \<and> length ps = 7
          \<and> mp_q (ps ! i) = Fin (p + (g - p) * (real (k + 1) / 220)) \<and> mp_tau (ps ! i) = Fin 0)
    \<and> (\<exists>ps. cmds ! (4 * 219) = Arm_Mit ps \<and> mp_q (ps ! i) = Fin g)"
proof -
  define goal where "goal = move_goal (NMOTORS - 1) target INITIAL_POSITION"
  define now where "now = map js_position (arm_motor_to_joint (rd_arm (move_readings rd0)))"
  define hn where "hn = map js_position (gripper_motor_to_joint (rd_gripper (move_readings rd0)))"
  define hg where "hg = move_goal (length hn) target_gripper (replicate (length hn) (Fin 0))"
  define cmds where "cmds = concat (map (move_step goal hg now hn) [0..<220])"
  have ok: "\<not> (length now < NMOTORS - 1 \<or> length hn > 1)"
    using assms(1,2)
    by (simp add: now_def hn_def move_readings_def without_effort_def NMOTORS_def)
  have goal: "length goal = 7" "goal ! i = Fin g"
    using assms(3,5) by (auto simp: goal_def move_goal_def NMOTORS_def split: if_splits)
  have "now ! i = Fin p"
    using assms(1,3,4)
    by (simp add: now_def move_readings_def without_effort_def arm_motor_to_joint_def)
  have cmd: "\<exists>ps. cmds ! (4 * k) = Arm_Mit ps \<and> length ps = 7
      \<and> mp_q (ps ! i) = Fin (p + (g - p) * (real (k + 1) / 220)) \<and> mp_tau (ps ! i) = Fin 0"
    if "k < 220" for k
  proof -
    have "cmds ! (4 * k + 0) = move_step goal hg now hn k ! 0"
      unfolding cmds_def using that by (intro concat_blocks_nth) (simp_all add: move_step_def Let_def)
    then show ?thesis
      using move_step_arm [OF goal(1) assms(3) goal(2) \<open>now ! i = Fin p\<close>, of hg hn k] by simp
  qed
  have "\<exists>rs'. MoveToPose target target_gripper rd0 rds ct rs = Inr (ct, rs', cmds)"
    using ok
    by (simp add: MoveToPose_def Let_def cmds_def goal_def now_def hn_def hg_def)
  moreover have "\<exists>ps. cmds ! (4 * 219) = Arm_Mit ps \<and> mp_q (ps ! i) = Fin g"
    using cmd [of 219] by auto
  ultimately show ?thesis using cmd by blast
qed

theorem move_is_linear_witness:
  "let rd = \<lparr> rd_arm = replicate 7 \<lparr> ms_position = Fin 1, ms_velocity = Fin 0, ms_effort = Fin 0 \<rparr>,
      rd_gripper = [] \<rparr>
   in \<exists>rs' cmds. MoveToPose [Fin 2] [] rd (\<lambda>_. rd) (control_new None None ROLE_FOLLOWER ''right'')
        (system_state_new 7 0) = Inr (control_new None None ROLE_FOLLOWER ''right'', rs', cmds)
      \<and> (\<exists>ps. cmds ! (4 * 219) = Arm_Mit ps \<and> mp_q (ps ! 0) = Fin 2)"
  unfolding Let_def
  using move_is_linear [of "\<lparr> rd_arm = replicate 7 \<lparr> ms_position = Fin 1, ms_velocity = Fin 0,
      ms_effort = Fin 0 \<rparr>, rd_gripper = [] \<rparr>" 0 1 "[Fin 2]" 2 "[]" "\<lambda>_. \<lparr> rd_arm = replicate 7
      \<lparr> ms_position = Fin 1, ms_velocity = Fin 0, ms_effort = Fin 0 \<rparr>, rd_gripper = [] \<rparr>"
      "control_new None None ROLE_FOLLOWER ''right''" "system_state_new 7 0"]
  by auto

section \<open>Friction and vibration\<close>

text \<open>
  Friction compensation covers every joint and never reads beyond its parameters. It returns
  the friction of all arm and gripper joints, in order, exactly when each of the four parameter
  vectors has an entry for every joint; otherwise it ends in an error value.
\<close>

theorem friction_complete:
  "(friction_params_ok ct (length av + length gv) \<longrightarrow>
      ComputeAllFriction ct av gv = Inr
        (map (\<lambda>i. friction_value ct (av ! i) i) [0..<length av]
         @ map (\<lambda>i. friction_value ct (gv ! i) (length av + i)) [0..<length gv]))
    \<and> (\<not> friction_params_ok ct (length av + length gv) \<longrightarrow>
      (\<exists>e. ComputeAllFriction ct av gv = Inl e))"
proof -
  have "map (\<lambda>i. friction_value ct ((av @ gv) ! i) i) [0..<length av + length gv]
    = map (\<lambda>i. friction_value ct (av ! i) i) [0..<length av]
      @ map (\<lambda>i. friction_value ct (gv ! i) (length av + i)) [0..<length gv]"
    by (rule nth_equalityI) (auto simp: nth_append)
  then show ?thesis
    using compute_all_friction compute_all_friction_short by metis
qed

theorem friction_complete_witness:
  "ComputeAllFriction (SetParameter [] [] [Fin 1] [Fin 0] [Fin 2] [Fin 3]
      (control_new None None ROLE_LEADER ''right'')) [] [Fin 5] =
    Inr [friction_value (SetParameter [] [] [Fin 1] [Fin 0] [Fin 2] [Fin 3]
      (control_new None None ROLE_LEADER ''right'')) (Fin 5) 0]"
  using friction_complete [of "SetParameter [] [] [Fin 1] [Fin 0] [Fin 2] [Fin 3]
      (control_new None None ROLE_LEADER ''right'')" "[]" "[Fin 5]"]
  by (simp add: friction_params_ok_def SetParameter_def)

lemma push_window_length: "length buf \<le> VEL_WINDOW_SIZE \<Longrightarrow> length (push_window v buf) \<le> VEL_WINDOW_SIZE"
  by (simp add: push_window_def Let_def)

text \<open>The window holds the newest values in order.\<close>

lemma push_window_run:
  "fold push_window vs [] = drop (length vs - VEL_WINDOW_SIZE) vs"
proof (induction vs rule: rev_induct)
  case (snoc v vs)
  show ?case
  proof (cases "length vs < VEL_WINDOW_SIZE")
    case True
    with snoc show ?thesis by (simp add: push_window_def Let_def)
  next
    case False
    then have "drop (length vs - VEL_WINDOW_SIZE) vs \<noteq> []"
      by (simp add: VEL_WINDOW_SIZE_def)
    moreover have "Suc (length vs) - VEL_WINDOW_SIZE = Suc (length vs - VEL_WINDOW_SIZE)"
      using False by simp
    moreover have "length (drop (length vs - VEL_WINDOW_SIZE) vs) = VEL_WINDOW_SIZE"
      using False by simp
    ultimately show ?thesis
      using False snoc by (simp add: push_window_def Let_def drop_Suc tl_drop)
  qed
qed simp

end
