(* ===== verification/Arm_Safety.thy ===== *)
theory Arm_Safety
  imports Follower_Arm Controller_Props
begin

text \<open>
  One follower arm, as the bimanual and the single-arm follower share it: what a drive step does
  in each safety state, and the invariant of a command stream with its safety manager.
\<close>

section \<open>One arm: what its references and commands can be\<close>

lemma store_responses_all_refs [simp]: "all_refs (store_responses rd rs) = all_refs rs"
  by (simp add: all_refs_def sys_get_all_references_def)

definition arm_positions :: "RobotSystemState \<Rightarrow> dbl list" where
  "arm_positions rs = map js_position (rs_reference (ss_arm rs))"

lemma follower_step_shape:
  assumes "follower_step rd ct rs = Inr (ct', rs', cmds)"
  shows "ct' = ct \<and> rs' = store_responses rd rs
    \<and> (\<exists>arm hand. cmds = [Arm_Mit arm, Gripper_Mit hand, Recv_All (Some 200)]
         \<and> map mp_q arm = arm_positions rs)"
  using assms
  by (auto simp: follower_step_def Let_def res_bind_eq_Inr arm_positions_def
      arm_joint_to_motor_def comp_def dest!: track_commands_pos)

text \<open>States in which the arm is driven by the loop.\<close>

definition driven :: "SafetyState \<Rightarrow> bool" where
  "driven st \<longleftrightarrow> live st \<or> st = READY"

lemma drive_arm_idle:
  "\<not> driven st \<Longrightarrow> drive_arm mo st target rd ct rs =
     Inr (ct, rs, if st = WAITING_FOR_ENABLE then [] else [Disable_All])"
  by (cases st) (simp_all add: driven_def live_def drive_arm_def)

lemma drive_arm_driven:
  assumes "drive_arm mo st target rd ct rs = Inr (ct', rs', cmds)" and "driven st"
    and "ct_role ct = ROLE_FOLLOWER"
  shows "\<exists>rs1. (rs1 = rs \<and> (target = None \<or> st = HOLD)
        \<or> st \<noteq> HOLD \<and> (\<exists>t. target = Some t \<and> apply_target (mo_limiter mo) t rs = Inr rs1))
    \<and> rs' = store_responses rd rs1
    \<and> (\<exists>arm hand. cmds = [Arm_Mit arm, Gripper_Mit hand, Recv_All (Some 200)]
        \<and> map mp_q arm = arm_positions rs1)"
proof (cases "st = HOLD")
  case True
  with assms show ?thesis
    by (auto simp: drive_arm_def follower_role_step dest!: follower_step_shape)
next
  case False
  then have st: "st = ACTIVE \<or> st = READY \<or> st = WARNING_TIMEOUT"
    using assms(2) by (auto simp: driven_def live_def)
  have role: "ct_role (SetFollowerGravityFeedforward b c ct) = ROLE_FOLLOWER" for b c
    using assms(3) by (simp add: SetFollowerGravityFeedforward_def)
  show ?thesis
  proof (cases target)
    case None
    with assms st show ?thesis
      by (auto simp: drive_arm_def follower_role_step dest!: follower_step_shape)
  next
    case (Some t)
    with assms(1) st obtain rs1 where a: "apply_target (mo_limiter mo) t rs = Inr rs1"
      and u: "unilateral_step rd (SetFollowerGravityFeedforward
          (mo_gravity_ff mo \<and> tp_mode t = control_mode_code BILATERAL) (mo_gravity_ff_scale mo) ct) rs1
        = Inr (ct', rs', cmds)"
      by (auto simp: drive_arm_def res_bind_eq_Inr)
    from follower_step_shape [OF u [unfolded follower_role_step [OF role]]] a Some False
    show ?thesis by blast
  qed
qed

lemma drive_arm_idle_frames:
  "drive_arm mo st t rd ct rs = Inr (ct', rs', cmds) \<Longrightarrow> \<not> driven st \<Longrightarrow>
     set cmds = (if st = WAITING_FOR_ENABLE then {} else {Disable_All})"
  by (simp add: drive_arm_idle split: if_splits) auto

section \<open>The invariant of one side\<close>

text \<open>
  The enable signal is required; READY and DISABLED do not occur; a latched stop shows; a driven
  arm has received a command.
\<close>

definition side_inv :: "'d TeleopStateBuffer \<Rightarrow> SafetyManager \<Rightarrow> bool" where
  "side_inv b m \<longleftrightarrow> sc_require_enable (sm_config m) \<and> sm_state m \<notin> {READY, DISABLED}
     \<and> (sm_estop_triggered m \<longrightarrow> sm_state m = ESTOP)
     \<and> (live (sm_state m) \<longrightarrow> tb_get_latest b \<noteq> None)"

lemma side_inv_new: "sc_require_enable c \<Longrightarrow> side_inv b (safety_new c)"
  by (simp add: side_inv_def safety_new_def safety_initial_state_def live_def)

lemma side_inv_packet [intro]: "side_inv b m \<Longrightarrow> side_inv (tb_update now p b) m"
  by (simp add: side_inv_def)

lemma side_inv_reset [intro]: "side_inv b m \<Longrightarrow> side_inv b (safety_reset m)"
  by (simp add: side_inv_def safety_reset_def safety_initial_state_def live_def)

lemma side_inv_estop [intro]: "side_inv b m \<Longrightarrow> side_inv b (safety_trigger_estop m)"
  by (simp add: side_inv_def safety_trigger_estop_def live_def)

lemma side_inv_update:
  assumes "side_inv b m" and "tb_get_latest b \<noteq> None"
  shows "side_inv b (safety_update p t m)"
  using safety_call_view_step [of m "Update p t"] safety_call_config [of "Update p t" m] assms
  by (auto elim!: safety_step_UpdateE simp: side_inv_def live_def live_state_def
      split: Status.splits)

lemma side_inv_safety [intro]: "side_inv b m \<Longrightarrow> side_inv b (follower_safety now b m)"
  by (auto simp: follower_safety_def intro: side_inv_update split: option.splits)

end
