(* ===== verification/Follower_Props.thy ===== *)
theory Follower_Props
  imports Follower_App Arm_Safety
begin

text \<open>
  Properties of the bimanual follower, from the single arm to whole runs of the application.
\<close>

section \<open>One arm\<close>

text \<open>
  C15: an arm cannot jump. When a drive step returns and the command has the arm's number of
  joints and no NaN among them, then in every safety state every joint reference stays finite
  and moves by at most the limiter's bound, and motion frames, if any are sent, carry exactly
  the new references.
\<close>

theorem follower_motion_bounded:
  assumes "drive_arm mo st target rd ct rs = Inr (ct', rs', cmds)"
    and "ct_role ct = ROLE_FOLLOWER"
    and "rl_effective (mo_limiter mo) = Fin e" and "0 \<le> e"
    and "\<forall>i < length (all_refs rs). all_refs rs ! i = Fin (p i)"
    and "\<forall>t. target = Some t \<longrightarrow> NaN \<notin> set (tp_arm_pos t) \<union> set (tp_hand_pos t)
      \<and> unat (tp_arm_dof t) + unat (tp_hand_dof t) = length (all_refs rs)"
  shows "length (all_refs rs') = length (all_refs rs)
    \<and> (\<forall>i < length (all_refs rs). \<exists>x. all_refs rs' ! i = Fin x \<and> \<bar>x - p i\<bar> \<le> e)
    \<and> (\<forall>ps. Arm_Mit ps \<in> set cmds \<longrightarrow> map mp_q ps = arm_positions rs')"
proof (cases "driven st")
  case False
  with assms(1,4,5) show ?thesis
    by (auto simp: drive_arm_idle split: if_splits)
next
  case True
  obtain rs1 where rs1: "rs1 = rs \<or> (\<exists>t. target = Some t \<and> apply_target (mo_limiter mo) t rs = Inr rs1)"
    and rs': "rs' = store_responses rd rs1"
    and cmds: "\<exists>arm hand. cmds = [Arm_Mit arm, Gripper_Mit hand, Recv_All (Some 200)]
        \<and> map mp_q arm = arm_positions rs1"
    using drive_arm_driven [OF assms(1) True assms(2)] by blast
  have "length (all_refs rs1) = length (all_refs rs)
    \<and> (\<forall>i < length (all_refs rs). \<exists>x. all_refs rs1 ! i = Fin x \<and> \<bar>x - p i\<bar> \<le> e)"
    using rs1
  proof
    assume "rs1 = rs"
    then show ?thesis using assms(4,5) by auto
  next
    assume "\<exists>t. target = Some t \<and> apply_target (mo_limiter mo) t rs = Inr rs1"
    then obtain t where t: "target = Some t" "apply_target (mo_limiter mo) t rs = Inr rs1" by blast
    then obtain tar where tar: "follower_target (mo_limiter mo) t rs = Inr tar"
      by (auto simp: apply_target_def res_bind_eq_Inr)
    let ?raw = "take (unat (tp_arm_dof t)) (tp_arm_pos t) @ take (unat (tp_hand_dof t)) (tp_hand_pos t)"
    have raw: "tar = rl_limit (mo_limiter mo) (all_refs rs) ?raw"
      using tar by (auto simp: follower_target_def array_prefix_def res_bind_eq_Inr Let_def all_refs_def
          split: if_splits)
    have len: "length tar = length (all_refs rs)" "length ?raw = length (all_refs rs)"
      using follower_target_length [OF tar] assms(6) t(1) raw by simp_all
    have "\<exists>x. tar ! i = Fin x \<and> \<bar>x - p i\<bar> \<le> e" if i: "i < length (all_refs rs)" for i
    proof -
      have "?raw ! i \<in> set ?raw" using i len by (metis nth_mem)
      then have "?raw ! i \<noteq> NaN"
        using assms(6) t(1) set_take_subset by fastforce
      then show ?thesis
        using rl_limit1_step [OF assms(4), of "?raw ! i" "p i"] i len(2) assms(3,5)
        by (simp add: raw rl_limit_nth)
    qed
    then show ?thesis
      using apply_target_refs [OF t(2) tar] len by simp
  qed
  then show ?thesis
    using cmds by (auto simp: rs' arm_positions_def)
qed

definition example_motion :: MotionConfig where
  "example_motion =
     \<lparr> mo_limiter = \<lparr> rl_max_delta_per_cycle = Fin (2 / 100), rl_max_velocity_rad_s = Fin 2,
         rl_cycle_time_s = Fin (1 / 500) \<rparr>, mo_gravity_ff = True, mo_gravity_ff_scale = Fin 1 \<rparr>"

definition example_control :: Control where
  "example_control = SetParameter [Fin 1] [Fin 1] [] [] [] []
     (control_new None None ROLE_FOLLOWER ''right_arm'')"

definition example_target :: "dbl TeleopPacket" where
  "example_target = (teleop_zero (Fin 5))\<lparr>tp_arm_dof := 1\<rparr>"

definition example_arm_readings :: Readings where
  "example_arm_readings =
     \<lparr> rd_arm = [\<lparr> ms_position = Fin 0, ms_velocity = Fin 0, ms_effort = Fin 0 \<rparr>], rd_gripper = [] \<rparr>"

lemma example_control_simps [simp]:
  "ct_role example_control = ROLE_FOLLOWER" "ct_Kp example_control = [Fin 1]"
  "ct_Kd example_control = [Fin 1]" "ct_dynamics_f example_control = None"
  by (simp_all add: example_control_def SetParameter_def control_new_def SetEffortLimits_def)

lemma example_drive:
  "\<exists>ct' rs' cmds. drive_arm example_motion ACTIVE (Some example_target) example_arm_readings
     example_control (system_state_new 1 0) = Inr (ct', rs', cmds)"
proof -
  have role: "ct_role (SetFollowerGravityFeedforward b c ct) = ct_role ct"
    "ct_Kp (SetFollowerGravityFeedforward b c ct) = ct_Kp ct"
    "ct_Kd (SetFollowerGravityFeedforward b c ct) = ct_Kd ct"
    "ct_dynamics_f (SetFollowerGravityFeedforward b c ct) = ct_dynamics_f ct" for b c ct
    by (simp_all add: SetFollowerGravityFeedforward_def)
  show ?thesis
    by (simp add: drive_arm_def apply_target_def follower_target_def array_prefix_def example_target_def
        teleop_zero_def system_state_new_def robot_state_new_def sys_get_all_references_def retarget_def
        set_all_references_def role follower_role_step follower_step_def follower_feedforward_def
        track_commands_def arm_joint_to_motor_def gripper_joint_to_motor_def Let_def
        store_responses_def set_all_responses_def)
qed

theorem follower_motion_bounded_witness:
  "\<exists>ct' rs' cmds. drive_arm example_motion ACTIVE (Some example_target) example_arm_readings
     example_control (system_state_new 1 0) = Inr (ct', rs', cmds)
    \<and> (\<exists>x. all_refs rs' ! 0 = Fin x \<and> \<bar>x - 0\<bar> \<le> 4 / 1000)"
proof -
  obtain ct' rs' cmds where d: "drive_arm example_motion ACTIVE (Some example_target)
      example_arm_readings example_control (system_state_new 1 0) = Inr (ct', rs', cmds)"
    using example_drive by blast
  have "rl_effective (mo_limiter example_motion) = Fin (4 / 1000)"
    by (simp add: example_motion_def rl_effective_def)
  moreover have "all_refs (system_state_new 1 0) = [Fin 0]"
    by (simp add: all_refs_def sys_get_all_references_def system_state_new_def robot_state_new_def
        joint_state_zero_def)
  moreover have "NaN \<notin> set (tp_arm_pos example_target) \<union> set (tp_hand_pos example_target)
      \<and> unat (tp_arm_dof example_target) + unat (tp_hand_dof example_target) = 1"
    by (simp add: example_target_def teleop_zero_def)
  ultimately have "\<exists>x. all_refs rs' ! 0 = Fin x \<and> \<bar>x - 0\<bar> \<le> 4 / 1000"
    using follower_motion_bounded [OF d, of "4 / 1000" "\<lambda>_. 0"] by simp
  with d show ?thesis by blast
qed

text \<open>
  C16: where an arm can jump. While the arm is ACTIVE, a command whose joint counts do not add up
  to the arm's is not limited at all: every reference it reaches is set to the raw position in
  the packet.
\<close>

theorem follower_mismatch_unlimited:
  assumes "drive_arm mo ACTIVE (Some t) rd ct rs = Inr (ct', rs', cmds)"
    and "ct_role ct = ROLE_FOLLOWER"
    and "unat (tp_arm_dof t) + unat (tp_hand_dof t) \<noteq> length (all_refs rs)"
    and "i < length (all_refs rs)" and "i < unat (tp_arm_dof t)"
  shows "all_refs rs' ! i = tp_arm_pos t ! i"
proof -
  obtain rs1 where t: "apply_target (mo_limiter mo) t rs = Inr rs1" and rs': "rs' = store_responses rd rs1"
    using drive_arm_driven [OF assms(1) _ assms(2)] by (auto simp: driven_def live_def)
  then obtain tar where tar: "follower_target (mo_limiter mo) t rs = Inr tar"
    by (auto simp: apply_target_def res_bind_eq_Inr)
  have "length tar \<noteq> length (all_refs rs)"
    using follower_target_length [OF tar] assms(3) by simp
  then have "tar = take (unat (tp_arm_dof t)) (tp_arm_pos t) @ take (unat (tp_hand_dof t)) (tp_hand_pos t)"
    and "unat (tp_arm_dof t) \<le> length (tp_arm_pos t)"
    using tar by (auto simp: follower_target_def array_prefix_def res_bind_eq_Inr Let_def all_refs_def
        rl_limit_def split: if_splits)
  then have "i < length tar" and "tar ! i = tp_arm_pos t ! i"
    using assms(5) by (simp_all add: nth_append)
  then show ?thesis
    using apply_target_refs [OF t tar] assms(4) by (simp add: rs')
qed

theorem follower_mismatch_unlimited_witness:
  "\<exists>ct' rs' cmds. drive_arm example_motion ACTIVE (Some (example_target\<lparr>tp_hand_dof := 1\<rparr>))
     example_arm_readings example_control (system_state_new 1 0) = Inr (ct', rs', cmds)
    \<and> all_refs rs' ! 0 = Fin 5"
proof -
  have role: "ct_role (SetFollowerGravityFeedforward b c ct) = ct_role ct"
    "ct_Kp (SetFollowerGravityFeedforward b c ct) = ct_Kp ct"
    "ct_Kd (SetFollowerGravityFeedforward b c ct) = ct_Kd ct"
    "ct_dynamics_f (SetFollowerGravityFeedforward b c ct) = ct_dynamics_f ct" for b c ct
    by (simp_all add: SetFollowerGravityFeedforward_def)
  obtain ct' rs' cmds where d: "drive_arm example_motion ACTIVE (Some (example_target\<lparr>tp_hand_dof := 1\<rparr>))
      example_arm_readings example_control (system_state_new 1 0) = Inr (ct', rs', cmds)"
    by (simp add: rl_limit_def drive_arm_def apply_target_def follower_target_def array_prefix_def example_target_def
        teleop_zero_def system_state_new_def robot_state_new_def sys_get_all_references_def retarget_def
        set_all_references_def role follower_role_step follower_step_def follower_feedforward_def
        track_commands_def arm_joint_to_motor_def gripper_joint_to_motor_def Let_def
        store_responses_def set_all_responses_def)
  have "all_refs rs' ! 0 = tp_arm_pos (example_target\<lparr>tp_hand_dof := 1\<rparr>) ! 0"
    by (rule follower_mismatch_unlimited [OF d])
      (simp_all add: example_target_def teleop_zero_def all_refs_def sys_get_all_references_def
        system_state_new_def robot_state_new_def)
  with d show ?thesis by (auto simp: example_target_def teleop_zero_def)
qed

end
