(* ===== verification/Bilateral_Gate.thy ===== *)
theory Bilateral_Gate
  imports Link_Check Feedback_State_Buffer
begin

text \<open>
  \<open>src/safety/bilateral_gate.cpp\<close>: the conditions under which measured follower forces may
  be applied to the leader arms. The results carry the reasons of a refusal as text; the
  lemmas show that the flag and the text agree and say exactly when the gate is open.
\<close>

section \<open>The code\<close>

record BilateralGateConfig =
  bg_require_wired :: bool
  bg_allow_loopback :: bool
  bg_min_link_speed_mbps :: int
  bg_min_feedback_rate_hz :: dbl
  bg_max_feedback_age_ms :: dbl
  bg_max_rtt_p95_ms :: dbl
  bg_max_loss_percent :: dbl
  bg_require_follower_link_ok :: bool

definition gate_config_default :: BilateralGateConfig where
  "gate_config_default =
     \<lparr> bg_require_wired = True, bg_allow_loopback = False, bg_min_link_speed_mbps = 100,
       bg_min_feedback_rate_hz = Fin 400, bg_max_feedback_age_ms = Fin 20,
       bg_max_rtt_p95_ms = Fin 8, bg_max_loss_percent = Fin 1,
       bg_require_follower_link_ok = True \<rparr>"

record BilateralGateResult =
  br_ok :: bool
  br_reasons :: "string list"

fun reasons_joined :: "string \<Rightarrow> string list \<Rightarrow> string" where
  "reasons_joined sep [] = []"
| "reasons_joined sep [r] = r"
| "reasons_joined sep (r # rs) = r @ sep @ reasons_joined sep rs"

definition gate_result :: "string list \<Rightarrow> BilateralGateResult" where
  "gate_result reasons = \<lparr> br_ok = (reasons = []), br_reasons = reasons \<rparr>"

definition check_link :: "BilateralGateConfig \<Rightarrow> LinkInfo \<Rightarrow> BilateralGateResult" where
  "check_link c link =
     (if \<not> li_resolved link
      then \<lparr> br_ok = False, br_reasons = [''link unresolved: '' @ li_error link] \<rparr>
      else gate_result
        (if li_is_loopback link then
           (if \<not> bg_allow_loopback c
            then [''peer is reached over loopback (set AllowLoopback for tests)''] else [])
         else if bg_require_wired c then
           (if li_is_wireless link then [''interface '' @ li_ifname link @ '' is wireless''] else [])
           @ (if \<not> li_has_device link
              then [''interface '' @ li_ifname link @ '' is virtual (no physical device)''] else [])
           @ (if \<not> li_carrier link
              then [''interface '' @ li_ifname link @ '' has no carrier''] else [])
           @ (if li_speed_mbps link < bg_min_link_speed_mbps c
              then [''interface '' @ li_ifname link @ '' speed '' @ show_int (li_speed_mbps link)
                     @ '' Mbps < '' @ show_int (bg_min_link_speed_mbps c) @ '' Mbps''] else [])
         else []))"

definition check_feedback ::
    "BilateralGateConfig \<Rightarrow> string \<Rightarrow> Stats \<Rightarrow> 'd FeedbackPacket option \<Rightarrow> BilateralGateResult" where
  "check_feedback c arm_name s latest =
     (case (if st_has_data s then latest else None) of
        None \<Rightarrow> \<lparr> br_ok = False, br_reasons = [arm_name @ '': no feedback received''] \<rparr>
      | Some fb \<Rightarrow> gate_result
         ((if st_age_ms s > bg_max_feedback_age_ms c
           then [arm_name @ '': feedback age '' @ show_fixed2 (st_age_ms s) @ '' ms > ''
                  @ show_fixed2 (bg_max_feedback_age_ms c)] else [])
          @ (if st_rate_hz s < bg_min_feedback_rate_hz c
             then [arm_name @ '': feedback rate '' @ show_fixed2 (st_rate_hz s) @ '' Hz < ''
                    @ show_fixed2 (bg_min_feedback_rate_hz c)] else [])
          @ (if st_rtt_p95_ms s < Fin 0
             then [arm_name @ '': no round-trip samples (follower not echoing commands)'']
             else if st_rtt_p95_ms s > bg_max_rtt_p95_ms c
             then [arm_name @ '': rtt p95 '' @ show_fixed2 (st_rtt_p95_ms s) @ '' ms > ''
                    @ show_fixed2 (bg_max_rtt_p95_ms c)] else [])
          @ (if st_loss_percent s > bg_max_loss_percent c
             then [arm_name @ '': loss '' @ show_fixed2 (st_loss_percent s) @ '' % > ''
                    @ show_fixed2 (bg_max_loss_percent c)] else [])
          @ (if bg_require_follower_link_ok c \<and> fp_link_ok fb = 0
             then [arm_name @ '': follower reports its own link is not wired/fast enough''] else [])
          @ (if fp_estop fb \<noteq> 0 then [arm_name @ '': follower in ESTOP''] else [])))"

section \<open>When the gate is open\<close>

lemma gate_result_ok [simp]: "br_ok (gate_result rs) \<longleftrightarrow> rs = []"
  by (simp add: gate_result_def)

lemma check_link_ok_iff:
  "br_ok (check_link c link) \<longleftrightarrow>
     li_resolved link
     \<and> (if li_is_loopback link then bg_allow_loopback c
        else bg_require_wired c \<longrightarrow>
          \<not> li_is_wireless link \<and> li_has_device link \<and> li_carrier link
          \<and> bg_min_link_speed_mbps c \<le> li_speed_mbps link)"
  by (auto simp: check_link_def)

lemma check_feedback_ok_iff:
  "br_ok (check_feedback c arm s latest) \<longleftrightarrow>
     st_has_data s \<and> (\<exists>fb. latest = Some fb
       \<and> (bg_require_follower_link_ok c \<longrightarrow> fp_link_ok fb \<noteq> 0) \<and> fp_estop fb = 0)
     \<and> \<not> st_age_ms s > bg_max_feedback_age_ms c
     \<and> \<not> st_rate_hz s < bg_min_feedback_rate_hz c
     \<and> \<not> st_rtt_p95_ms s < Fin 0 \<and> \<not> st_rtt_p95_ms s > bg_max_rtt_p95_ms c
     \<and> \<not> st_loss_percent s > bg_max_loss_percent c"
  by (auto simp: check_feedback_def split: option.splits)

lemma check_ok_iff_no_reasons:
  "br_ok (check_link c link) \<longleftrightarrow> br_reasons (check_link c link) = []"
  "br_ok (check_feedback c arm s latest) \<longleftrightarrow> br_reasons (check_feedback c arm s latest) = []"
  by (simp_all add: check_link_def check_feedback_def gate_result_def split: option.splits)

section \<open>Properties\<close>

text \<open>
  What the link gate proves about the machine. If bilateral control requires a wired link
  and does not admit loopback, and the gate accepts the link towards a peer, then the interface
  that owns the source address has no wireless marks, is a physical device, reports a carrier
  and at least the configured speed.
\<close>

theorem link_gate_sound:
  assumes "bg_require_wired c" and "\<not> bg_allow_loopback c"
    and "br_ok (check_link c (query_link_to env peer))"
  shows "\<exists>local ifs a sys. le_getsockname env = Inr local \<and> le_getifaddrs env = Inr ifs
    \<and> a \<in> set ifs \<and> ia_addr a = Some local \<and> sys = ''/sys/class/net/'' @ ia_name a
    \<and> \<not> le_path_exists env (sys @ ''/wireless'') \<and> \<not> le_path_exists env (sys @ ''/phy80211'')
    \<and> \<not> le_siocgiwname env (ia_name a) \<and> le_path_exists env (sys @ ''/device'')
    \<and> read_sysfs_int env (sys @ ''/carrier'') = Some 1
    \<and> bg_min_link_speed_mbps c \<le> (case read_sysfs_int env (sys @ ''/speed'') of
          Some v \<Rightarrow> int_of_long v | None \<Rightarrow> - 1)"
proof -
  let ?l = "query_link_to env peer"
  have res: "li_resolved ?l" and nl: "\<not> li_is_loopback ?l" and ok: "\<not> li_is_wireless ?l"
    "li_has_device ?l" "li_carrier ?l" "bg_min_link_speed_mbps c \<le> li_speed_mbps ?l"
    using assms by (auto simp: check_link_ok_iff split: if_splits)
  from query_link_resolved [OF res] nl ok show ?thesis by fastforce
qed

definition wired_env :: LinkEnv where
  "wired_env =
     \<lparr> le_inet_pton = (\<lambda>_. True), le_socket = None, le_connect = None,
       le_getsockname = Inr 7, le_inet_ntop = (\<lambda>_. ''10.0.0.2''),
       le_getifaddrs = Inr [\<lparr> ia_name = ''lo'', ia_addr = Some 1, ia_loopback = True \<rparr>,
         \<lparr> ia_name = ''eth0'', ia_addr = Some 7, ia_loopback = False \<rparr>],
       le_path_exists = (\<lambda>p. p = ''/sys/class/net/eth0/device''),
       le_first_line = (\<lambda>p. if p = ''/sys/class/net/eth0/carrier'' then Some ''1''
         else if p = ''/sys/class/net/eth0/speed'' then Some ''1000'' else None),
       le_siocgiwname = (\<lambda>_. False) \<rparr>"

lemma read_wired_env:
  "read_sysfs_int wired_env ''/sys/class/net/eth0/carrier'' = Some 1"
  "read_sysfs_int wired_env ''/sys/class/net/eth0/speed'' = Some 1000"
  by code_simp+

theorem link_gate_sound_witness:
  "\<exists>local ifs a sys. le_getsockname wired_env = Inr local \<and> le_getifaddrs wired_env = Inr ifs
    \<and> a \<in> set ifs \<and> ia_addr a = Some local \<and> sys = ''/sys/class/net/'' @ ia_name a
    \<and> le_path_exists wired_env (sys @ ''/device'')"
proof -
  have "br_ok (check_link gate_config_default (query_link_to wired_env ''10.0.0.1''))"
    using read_wired_env
    by (simp add: check_link_ok_iff gate_config_default_def query_link_to_def link_info_new_def
        wired_env_def Let_def int_of_long_def signed_take_bit_int_eq_self)
  then show ?thesis
    using link_gate_sound [of gate_config_default wired_env "''10.0.0.1''"]
    by (auto simp: gate_config_default_def)
qed

text \<open>
  What the feedback gate proves about the stream. When it is open for the statistics of a
  buffer, the newest packet is no older than the limit and reports no stop, the window holds
  at least the required number of packets per second and a measured round trip, and the loss
  is within its limit.
\<close>

theorem feedback_gate_sound:
  assumes "br_ok (check_feedback c arm (fb_snapshot now b) (fb_get_latest b))"
    and "bg_max_feedback_age_ms c = Fin age" and "bg_min_feedback_rate_hz c = Fin rate"
    and "fb_window_ns b \<noteq> 0"
  shows "(\<exists>fb. fb_get_latest b = Some fb \<and> fp_estop fb = 0
        \<and> (bg_require_follower_link_ok c \<longrightarrow> fp_link_ok fb \<noteq> 0))
    \<and> real (unat (now - fb_last_receive_time_ns b)) \<le> age * 1000000
    \<and> rate * (real (unat (fb_window_ns b)) / 1000000000)
        \<le> real (unat (word_of_nat (length (window_samples now b)) :: u32))
    \<and> window_rtts now b \<noteq> []
    \<and> \<not> st_loss_percent (fb_snapshot now b) > bg_max_loss_percent c"
proof -
  let ?s = "fb_snapshot now b" and ?n = "word_of_nat (length (window_samples now b)) :: u32"
  have ok: "st_has_data ?s" "\<not> st_age_ms ?s > Fin age" "\<not> st_rate_hz ?s < Fin rate"
    "\<not> st_rtt_p95_ms ?s < Fin 0" "\<not> st_loss_percent ?s > bg_max_loss_percent c"
    "\<exists>fb. fb_get_latest b = Some fb \<and> (bg_require_follower_link_ok c \<longrightarrow> fp_link_ok fb \<noteq> 0)
        \<and> fp_estop fb = 0"
    using assms(1-3) by (simp_all add: check_feedback_ok_iff)
  have data: "fb_has_data b"
    using ok(1) by (cases "fb_has_data b") (simp_all add: fb_snapshot_def stats_new_def)
  have age: "st_age_ms ?s = Fin (real (unat (now - fb_last_receive_time_ns b)) / 1000000)"
    using data by (auto simp: fb_snapshot_def Let_def ms_of_ns_def dbl_of_word_def)
  have rate: "st_rate_hz ?s = Fin (real (unat ?n) / (real (unat (fb_window_ns b)) / 1000000000))"
    using data assms(4)
    by (auto simp: fb_snapshot_def Let_def dbl_of_word_def window_samples_def unat_eq_0)
  have rtt: "window_rtts now b \<noteq> []"
  proof
    assume "window_rtts now b = []"
    then have "st_rtt_p95_ms ?s = Fin (- 1)"
      using data
      by (auto simp: fb_snapshot_def Let_def window_rtts_def window_samples_def stats_new_def
          simp del: filter_filter)
    with ok(4) show False by simp
  qed
  have w: "0 < real (unat (fb_window_ns b)) / 1000000000"
    using assms(4) by (simp add: unat_gt_0)
  have "rate * (real (unat (fb_window_ns b)) / 1000000000) \<le> real (unat ?n)"
    using ok(3) w by (simp add: rate pos_le_divide_eq not_less)
  moreover have "real (unat (now - fb_last_receive_time_ns b)) \<le> age * 1000000"
    using ok(2) by (simp add: age not_less)
  ultimately show ?thesis
    using ok(5,6) rtt by blast
qed

text \<open>One feedback packet in a window of 1 ms is 1000 packets per second.\<close>

theorem feedback_gate_sound_witness:
  "window_rtts 9 (fb_update 5 (feedback_zero (0 :: u64)\<lparr>fp_link_ok := 1\<rparr>, 2) (fb_init 1000000)) \<noteq> []"
proof -
  let ?b = "fb_update 5 (feedback_zero (0 :: u64)\<lparr>fp_link_ok := 1\<rparr>, 2) (fb_init 1000000)"
  have b: "fb_has_data ?b" "fb_window_ns ?b = 1000000" "fb_last_receive_time_ns ?b = 5"
    "fb_latest ?b = Some (feedback_zero 0\<lparr>fp_link_ok := 1\<rparr>)"
    "fb_samples ?b = [\<lparr> sm_recv_time_ns = 5, sm_lost_before = 0, sm_rtt_ns = 2, sm_cmd_hold_ns = 0 \<rparr>]"
    by (simp_all add: fb_update_def fb_update_with_def fb_store_def fb_trim_locked_def fb_init_def
        feedback_zero_def)
  have "br_ok (check_feedback gate_config_default ''R'' (fb_snapshot 9 ?b) (fb_get_latest ?b))"
    using b
    by (simp add: check_feedback_ok_iff gate_config_default_def fb_snapshot_def fb_get_latest_def
        in_window_def Let_def stats_new_def ms_of_ns_def dbl_of_word_def percentile_def
        percentile_index_def feedback_zero_def)
  then show ?thesis
    using feedback_gate_sound [of gate_config_default "''R''" 9 ?b 20 400] b(2)
    by (simp add: gate_config_default_def)
qed

end
