(* ===== verification/Bilateral_Engager.thy ===== *)
theory Bilateral_Engager
  imports Cpp_Double
begin

text \<open>
  Two small header-only components of \<open>include/openarm_wifi_teleop/control\<close>: the state
  machine that fades force feedback in and out on a leader arm (\<open>bilateral_engager.hpp\<close>), and
  the rate-limited elbow estimate of the VR leader (\<open>temporal_swivel_estimator.hpp\<close>).
\<close>

section \<open>The engager\<close>

datatype EngageState = ENG_OFF | WAIT_ALIGN | RAMP_UP | ENGAGED | RAMP_DOWN

record EngagerConfig =
  ec_ramp_up_s :: dbl
  ec_ramp_down_s :: dbl

record BilateralEngager =
  be_config :: EngagerConfig
  be_state :: EngageState
  be_scale :: dbl

definition engager_new :: "EngagerConfig \<Rightarrow> BilateralEngager" where
  "engager_new c = \<lparr> be_config = c, be_state = ENG_OFF, be_scale = Fin 0 \<rparr>"

definition engager_update :: "bool \<Rightarrow> bool \<Rightarrow> dbl \<Rightarrow> BilateralEngager \<Rightarrow> BilateralEngager" where
  "engager_update want aligned dt_s e =
     (case be_state e of
        ENG_OFF \<Rightarrow>
          (let e = e\<lparr>be_scale := Fin 0\<rparr> in if want then e\<lparr>be_state := WAIT_ALIGN\<rparr> else e)
      | WAIT_ALIGN \<Rightarrow>
          (let e = e\<lparr>be_scale := Fin 0\<rparr>
           in if \<not> want then e\<lparr>be_state := ENG_OFF\<rparr>
              else if aligned then e\<lparr>be_state := RAMP_UP\<rparr> else e)
      | RAMP_UP \<Rightarrow>
          (if \<not> want then e\<lparr>be_state := RAMP_DOWN\<rparr>
           else
             (let e = e\<lparr>be_scale := std_min (Fin 1) (be_scale e
                        + dt_s div std_max (ec_ramp_up_s (be_config e)) (Fin (1 / 1000)))\<rparr>
              in if be_scale e \<ge> Fin 1 then e\<lparr>be_state := ENGAGED\<rparr> else e))
      | ENGAGED \<Rightarrow>
          (let e = e\<lparr>be_scale := Fin 1\<rparr> in if \<not> want then e\<lparr>be_state := RAMP_DOWN\<rparr> else e)
      | RAMP_DOWN \<Rightarrow>
          (let e = e\<lparr>be_scale := std_max (Fin 0) (be_scale e
                     - dt_s div std_max (ec_ramp_down_s (be_config e)) (Fin (1 / 1000)))\<rparr>
           in if be_scale e \<le> Fin 0
              then e\<lparr>be_state := (if want then WAIT_ALIGN else ENG_OFF)\<rparr> else e))"

definition engager_reset :: "BilateralEngager \<Rightarrow> BilateralEngager" where
  "engager_reset e = e\<lparr>be_state := ENG_OFF, be_scale := Fin 0\<rparr>"

definition engager_active :: "BilateralEngager \<Rightarrow> bool" where
  "engager_active e \<longleftrightarrow> be_scale e > Fin 0"

definition engager_engaged :: "BilateralEngager \<Rightarrow> bool" where
  "engager_engaged e \<longleftrightarrow> be_state e = ENGAGED"

definition engager_state_name :: "BilateralEngager \<Rightarrow> string" where
  "engager_state_name e =
     (case be_state e of ENG_OFF \<Rightarrow> ''off'' | WAIT_ALIGN \<Rightarrow> ''wait_align'' | RAMP_UP \<Rightarrow> ''ramp_up''
      | ENGAGED \<Rightarrow> ''engaged'' | RAMP_DOWN \<Rightarrow> ''ramp_down'')"

section \<open>The documented diagram\<close>

text \<open>The edges of the state diagram, with the input that takes them.\<close>

inductive engager_edge :: "bool \<Rightarrow> bool \<Rightarrow> EngageState \<Rightarrow> EngageState \<Rightarrow> bool"
  for want aligned where
  request: "want \<Longrightarrow> engager_edge want aligned ENG_OFF WAIT_ALIGN"
| align: "want \<Longrightarrow> aligned \<Longrightarrow> engager_edge want aligned WAIT_ALIGN RAMP_UP"
| give_up: "\<not> want \<Longrightarrow> engager_edge want aligned WAIT_ALIGN ENG_OFF"
| full: "want \<Longrightarrow> engager_edge want aligned RAMP_UP ENGAGED"
| release: "\<not> want \<Longrightarrow> s = RAMP_UP \<or> s = ENGAGED \<Longrightarrow> engager_edge want aligned s RAMP_DOWN"
| released: "\<not> want \<Longrightarrow> engager_edge want aligned RAMP_DOWN ENG_OFF"
| again: "want \<Longrightarrow> engager_edge want aligned RAMP_DOWN WAIT_ALIGN"
| stay: "engager_edge want aligned s s"

inductive_cases engager_edgeE: "engager_edge want aligned s s'"

lemma engager_update_edge:
  "engager_edge want aligned (be_state e) (be_state (engager_update want aligned dt e))"
  by (cases "be_state e")
    (auto simp: engager_update_def Let_def intro: engager_edge.intros)

section \<open>The invariant\<close>

text \<open>The gain is in the unit interval, zero when the machine is off or waiting, one when engaged.\<close>

definition engager_inv :: "BilateralEngager \<Rightarrow> bool" where
  "engager_inv e \<longleftrightarrow>
     (\<exists>x. be_scale e = Fin x \<and> 0 \<le> x \<and> x \<le> 1
        \<and> (be_state e = ENG_OFF \<or> be_state e = WAIT_ALIGN \<longrightarrow> x = 0)
        \<and> (be_state e = ENGAGED \<longrightarrow> x = 1))
     \<and> isfinite (ec_ramp_up_s (be_config e)) \<and> isfinite (ec_ramp_down_s (be_config e))"

definition ramp_rate :: "dbl \<Rightarrow> real" where
  "ramp_rate t = 1 / max (fval t) (1 / 1000)"

lemma ramp_rate_pos: "0 < ramp_rate t"
  by (simp add: ramp_rate_def max_def)

lemma ramp_step:
  "isfinite t \<Longrightarrow> Fin d div std_max t (Fin (1 / 1000)) = Fin (d * ramp_rate t)"
  by (auto simp: ramp_rate_def max_def)

lemma engager_new_inv:
  "isfinite (ec_ramp_up_s c) \<Longrightarrow> isfinite (ec_ramp_down_s c) \<Longrightarrow> engager_inv (engager_new c)"
  by (simp add: engager_inv_def engager_new_def)

lemma engager_config [simp]: "be_config (engager_update want aligned dt e) = be_config e"
  by (cases "be_state e") (simp_all add: engager_update_def Let_def)

lemma engager_update_inv:
  assumes "engager_inv e" and "0 \<le> d"
  shows "engager_inv (engager_update want aligned (Fin d) e)"
proof -
  obtain x where x: "be_scale e = Fin x" "0 \<le> x" "x \<le> 1"
    using assms(1) by (auto simp: engager_inv_def)
  have cfg: "isfinite (ec_ramp_up_s (be_config e))" "isfinite (ec_ramp_down_s (be_config e))"
    using assms(1) by (auto simp: engager_inv_def)
  have "0 \<le> d * ramp_rate (ec_ramp_up_s (be_config e))"
    and "0 \<le> d * ramp_rate (ec_ramp_down_s (be_config e))"
    using assms(2) by (simp_all add: ramp_rate_pos less_imp_le)
  with x cfg show ?thesis
    by (cases "be_state e")
      (auto simp: engager_inv_def engager_update_def Let_def ramp_step min_def max_def)
qed

lemma engager_slew:
  assumes "engager_inv e" and "0 \<le> d"
  shows "\<exists>x y. be_scale e = Fin x \<and> be_scale (engager_update want aligned (Fin d) e) = Fin y
    \<and> y - x \<le> d * ramp_rate (ec_ramp_up_s (be_config e))
    \<and> x - y \<le> d * ramp_rate (ec_ramp_down_s (be_config e))"
proof -
  obtain x where x: "be_scale e = Fin x" "0 \<le> x" "x \<le> 1"
    and off: "be_state e = ENG_OFF \<or> be_state e = WAIT_ALIGN \<longrightarrow> x = 0"
    and on: "be_state e = ENGAGED \<longrightarrow> x = 1"
    using assms(1) by (auto simp: engager_inv_def)
  have cfg: "isfinite (ec_ramp_up_s (be_config e))" "isfinite (ec_ramp_down_s (be_config e))"
    using assms(1) by (auto simp: engager_inv_def)
  have "0 \<le> d * ramp_rate (ec_ramp_up_s (be_config e))"
    and "0 \<le> d * ramp_rate (ec_ramp_down_s (be_config e))"
    using assms(2) by (simp_all add: ramp_rate_pos less_imp_le)
  with x off on cfg show ?thesis
    by (cases "be_state e") (auto simp: engager_update_def Let_def ramp_step min_def max_def)
qed

section \<open>Runs\<close>

definition engager_run :: "(bool \<times> bool \<times> dbl) list \<Rightarrow> BilateralEngager \<Rightarrow> BilateralEngager" where
  "engager_run is e = fold (\<lambda>(want, aligned, dt). engager_update want aligned dt) is e"

lemma engager_run_simps [simp]:
  "engager_run [] e = e"
  "engager_run ((w, a, dt) # is) e = engager_run is (engager_update w a dt e)"
  by (simp_all add: engager_run_def)

lemma engager_run_inv:
  "engager_inv e \<Longrightarrow> \<forall>(w, a, dt) \<in> set is. isfinite dt \<and> 0 \<le> fval dt \<Longrightarrow> engager_inv (engager_run is e)"
  by (induction "is" arbitrary: e) (auto simp: engager_update_inv)

lemma engager_run_edge_align:
  assumes "be_state e = ENG_OFF \<or> be_state e = WAIT_ALIGN"
    and "be_state (engager_run is e) \<noteq> ENG_OFF" and "be_state (engager_run is e) \<noteq> WAIT_ALIGN"
  shows "\<exists>as dt bs. is = as @ (True, True, dt) # bs"
  using assms
proof (induction "is" arbitrary: e)
  case (Cons i "is")
  obtain w a dt where i: "i = (w, a, dt)" by (cases i)
  let ?e = "engager_update w a dt e"
  have edge: "engager_edge w a (be_state e) (be_state ?e)" by (rule engager_update_edge)
  show ?case
  proof (cases "be_state ?e = ENG_OFF \<or> be_state ?e = WAIT_ALIGN")
    case True
    with Cons i obtain as dt' bs where "is = as @ (True, True, dt') # bs" by fastforce
    then show ?thesis by (metis append_Cons)
  next
    case False
    with edge Cons.prems(1) have "w \<and> a" by (auto elim: engager_edgeE)
    with i have "i # is = [] @ (True, True, dt) # is" by simp
    then show ?thesis by blast
  qed
qed auto

text \<open>\<open>n\<close> cycles of equal length without a request.\<close>

lemma engager_off_stays:
  "be_state e = ENG_OFF \<Longrightarrow> be_scale e = Fin 0 \<Longrightarrow>
     engager_run (replicate n (False, a, dt)) e = e"
  by (induction n) (cases e; simp add: engager_update_def)+

lemma engager_release_down:
  assumes "engager_inv e" and "be_state e = RAMP_DOWN" and "0 < d"
    and "fval (be_scale e) < real n * (d * ramp_rate (ec_ramp_down_s (be_config e)))"
  shows "be_state (engager_run (replicate n (False, a, Fin d)) e) = ENG_OFF
    \<and> be_scale (engager_run (replicate n (False, a, Fin d)) e) = Fin 0"
  using assms
proof (induction n arbitrary: e)
  case 0
  then show ?case by (auto simp: engager_inv_def)
next
  case (Suc n)
  let ?k = "d * ramp_rate (ec_ramp_down_s (be_config e))"
  let ?e = "engager_update False a (Fin d) e"
  obtain x where x: "be_scale e = Fin x" "0 \<le> x" and
    cfg: "isfinite (ec_ramp_down_s (be_config e))"
    using Suc.prems(1) by (auto simp: engager_inv_def)
  have sc: "be_scale ?e = Fin (max 0 (x - ?k))"
    using Suc.prems(2) x cfg by (auto simp: engager_update_def Let_def ramp_step)
  have st: "be_state ?e = (if x - ?k \<le> 0 then ENG_OFF else RAMP_DOWN)"
    using Suc.prems(2) x cfg by (auto simp: engager_update_def Let_def ramp_step max_def)
  show ?case
  proof (cases "x - ?k \<le> 0")
    case True
    with sc st show ?thesis by (simp add: engager_off_stays)
  next
    case False
    have "engager_inv ?e" using Suc.prems by (intro engager_update_inv) auto
    with False sc st show ?thesis
      using Suc.IH [of ?e] Suc.prems x by (simp add: algebra_simps max_def)
  qed
qed

section \<open>The swivel estimator\<close>

record SwivelConfig =
  sw_enabled :: bool
  sw_neutral_gain :: dbl
  sw_continuity_gain :: dbl
  sw_wrist_orientation_gain :: dbl
  sw_max_swivel_rate_rad_s :: dbl
  sw_neutral_swivel_rad :: dbl

record SwivelInput =
  si_shoulder_pos :: "dbl list"
  si_wrist_pos :: "dbl list"
  si_wrist_orientation :: "dbl list"
  si_previous_swivel :: dbl
  si_dt :: dbl
  si_right_arm :: bool

record TemporalSwivelEstimator =
  ts_cfg :: SwivelConfig
  ts_current_swivel :: dbl

definition swivel_config_default :: SwivelConfig where
  "swivel_config_default =
     \<lparr> sw_enabled = True, sw_neutral_gain = Fin (2 / 10), sw_continuity_gain = Fin (7 / 10),
       sw_wrist_orientation_gain = Fin (1 / 10), sw_max_swivel_rate_rad_s = Fin 1,
       sw_neutral_swivel_rad = Fin 0 \<rparr>"

definition swivel_new :: "SwivelConfig \<Rightarrow> TemporalSwivelEstimator" where
  "swivel_new c = \<lparr> ts_cfg = c, ts_current_swivel = sw_neutral_swivel_rad c \<rparr>"

definition swivel_reset :: "dbl \<Rightarrow> TemporalSwivelEstimator \<Rightarrow> TemporalSwivelEstimator" where
  "swivel_reset neutral e = e\<lparr>ts_current_swivel := neutral\<rparr>"

definition swivel_update ::
    "SwivelInput \<Rightarrow> TemporalSwivelEstimator \<Rightarrow> TemporalSwivelEstimator \<times> dbl" where
  "swivel_update input e =
     (let cfg = ts_cfg e
      in if \<not> sw_enabled cfg then (e, sw_neutral_swivel_rad cfg)
         else
           let swivel_desired = sw_neutral_gain cfg * sw_neutral_swivel_rad cfg
                 + sw_continuity_gain cfg * ts_current_swivel e;
               max_delta = sw_max_swivel_rate_rad_s cfg * si_dt input;
               delta = clamp_sym max_delta (swivel_desired - ts_current_swivel e);
               e' = e\<lparr>ts_current_swivel := ts_current_swivel e + delta\<rparr>
           in (e', ts_current_swivel e'))"

section \<open>Properties\<close>

text \<open>
  C38: force feedback only after alignment. Along any run from a new engager with non-negative
  time steps the gain stays in the unit interval, it is 1 when the machine reports engaged, and
  if it is positive then there was a cycle with both a request and aligned arms.
\<close>

theorem engager_gain_safe:
  assumes "isfinite (ec_ramp_up_s c)" and "isfinite (ec_ramp_down_s c)"
    and "\<forall>(want, aligned, dt) \<in> set is. isfinite dt \<and> 0 \<le> fval dt"
  shows "\<exists>x. be_scale (engager_run is (engager_new c)) = Fin x \<and> 0 \<le> x \<and> x \<le> 1
    \<and> (be_state (engager_run is (engager_new c)) = ENGAGED \<longrightarrow> x = 1)
    \<and> (0 < x \<longrightarrow> (\<exists>as dt bs. is = as @ (True, True, dt) # bs))"
proof -
  let ?e = "engager_run is (engager_new c)"
  have "engager_inv ?e"
    using assms by (intro engager_run_inv engager_new_inv)
  then obtain x where x: "be_scale ?e = Fin x" "0 \<le> x" "x \<le> 1"
      "be_state ?e = ENG_OFF \<or> be_state ?e = WAIT_ALIGN \<longrightarrow> x = 0" "be_state ?e = ENGAGED \<longrightarrow> x = 1"
    by (auto simp: engager_inv_def)
  then have "0 < x \<longrightarrow> (\<exists>as dt bs. is = as @ (True, True, dt) # bs)"
    using engager_run_edge_align [of "engager_new c" "is"] by (auto simp: engager_new_def)
  with x show ?thesis by blast
qed

theorem engager_gain_safe_witness:
  "\<exists>x. be_scale (engager_run [(True, False, Fin 1), (True, True, Fin 1), (True, True, Fin (1 / 4))]
      (engager_new \<lparr> ec_ramp_up_s = Fin (1 / 2), ec_ramp_down_s = Fin (1 / 10) \<rparr>)) = Fin x
    \<and> 0 \<le> x \<and> x \<le> 1"
  using engager_gain_safe [of "\<lparr> ec_ramp_up_s = Fin (1 / 2), ec_ramp_down_s = Fin (1 / 10) \<rparr>"
      "[(True, False, Fin 1), (True, True, Fin 1), (True, True, Fin (1 / 4))]"]
  by auto

text \<open>
  The gain never steps. In every state reachable from a new engager one cycle changes it
  upwards by at most the share of the rise time the cycle takes, downwards by at most that of
  the fall time, except for \<open>reset\<close>.
\<close>

theorem engager_gain_slew:
  assumes "isfinite (ec_ramp_up_s c)" and "isfinite (ec_ramp_down_s c)"
    and "\<forall>(want, aligned, dt) \<in> set is. isfinite dt \<and> 0 \<le> fval dt" and "0 \<le> d"
  shows "\<exists>x y. be_scale (engager_run is (engager_new c)) = Fin x
    \<and> be_scale (engager_update want aligned (Fin d) (engager_run is (engager_new c))) = Fin y
    \<and> y - x \<le> d * ramp_rate (ec_ramp_up_s c) \<and> x - y \<le> d * ramp_rate (ec_ramp_down_s c)"
proof -
  have cfg: "be_config (engager_run is e) = be_config e" for e
    by (induction "is" arbitrary: e) auto
  have "engager_inv (engager_run is (engager_new c))"
    using assms by (intro engager_run_inv engager_new_inv)
  from engager_slew [OF this assms(4)] show ?thesis
    by (simp add: cfg) (simp add: engager_new_def)
qed

theorem engager_gain_slew_witness:
  "\<exists>x y. be_scale (engager_new \<lparr> ec_ramp_up_s = Fin (1 / 2), ec_ramp_down_s = Fin 1 \<rparr>) = Fin x
    \<and> be_scale (engager_update True True (Fin (1 / 500))
        (engager_new \<lparr> ec_ramp_up_s = Fin (1 / 2), ec_ramp_down_s = Fin 1 \<rparr>)) = Fin y
    \<and> y - x \<le> 1 / 500 * 2"
  using engager_gain_slew [of "\<lparr> ec_ramp_up_s = Fin (1 / 2), ec_ramp_down_s = Fin 1 \<rparr>" "[]"
      "1 / 500" True True]
  by (auto simp: ramp_rate_def)

text \<open>
  C39: release terminates. When the request is withdrawn, one cycle and then as many as the
  fall time holds bring the machine to OFF with gain 0, from whatever state it was in.
\<close>

theorem engager_release_terminates:
  assumes "engager_inv e" and "0 < d"
    and "1 < real n * (d * ramp_rate (ec_ramp_down_s (be_config e)))"
  shows "be_state (engager_run (replicate (Suc n) (False, a, Fin d)) e) = ENG_OFF
    \<and> be_scale (engager_run (replicate (Suc n) (False, a, Fin d)) e) = Fin 0"
proof -
  let ?e = "engager_update False a (Fin d) e"
  have inv: "engager_inv ?e" using assms by (intro engager_update_inv) auto
  have st: "be_state ?e = ENG_OFF \<or> be_state ?e = RAMP_DOWN"
    using engager_update_edge [of False a e "Fin d"]
    by (cases "be_state e") (auto elim: engager_edgeE simp: engager_update_def Let_def)
  then show ?thesis
  proof
    assume off: "be_state ?e = ENG_OFF"
    then have "be_scale ?e = Fin 0" using inv by (auto simp: engager_inv_def)
    with off show ?thesis by (simp add: engager_off_stays)
  next
    assume down: "be_state ?e = RAMP_DOWN"
    have "fval (be_scale ?e) < real n * (d * ramp_rate (ec_ramp_down_s (be_config ?e)))"
      using inv assms(3) by (auto simp: engager_inv_def)
    from engager_release_down [OF inv down assms(2) this, of a] show ?thesis by simp
  qed
qed

theorem engager_release_terminates_witness:
  "be_state (engager_run (replicate (Suc 3) (False, True, Fin (1 / 2)))
     \<lparr> be_config = \<lparr> ec_ramp_up_s = Fin 1, ec_ramp_down_s = Fin 1 \<rparr>, be_state = ENGAGED,
       be_scale = Fin 1 \<rparr>) = ENG_OFF"
  using engager_release_terminates [of "\<lparr> be_config = \<lparr> ec_ramp_up_s = Fin 1,
      ec_ramp_down_s = Fin 1 \<rparr>, be_state = ENGAGED, be_scale = Fin 1 \<rparr>" "1 / 2" 3 True]
  by (simp add: engager_inv_def ramp_rate_def)

text \<open>
  The elbow estimate moves at its configured rate at most. Whatever the gains, one update
  with a positive rate and time step changes the estimate by at most their product.
\<close>

theorem swivel_rate_limited:
  assumes "sw_enabled (ts_cfg e)" and "ts_current_swivel e = Fin x"
    and "sw_max_swivel_rate_rad_s (ts_cfg e) = Fin r" and "si_dt i = Fin dt" and "0 \<le> r * dt"
  shows "\<exists>y. snd (swivel_update i e) = Fin y \<and> ts_current_swivel (fst (swivel_update i e)) = Fin y
    \<and> \<bar>y - x\<bar> \<le> r * dt"
proof -
  define des where "des = sw_neutral_gain (ts_cfg e) * sw_neutral_swivel_rad (ts_cfg e)
    + sw_continuity_gain (ts_cfg e) * Fin x - Fin x"
  obtain z where z: "clamp_sym (Fin (r * dt)) des = Fin z" "\<bar>z\<bar> \<le> r * dt"
    using clamp_sym_bounds [OF assms(5), of des] by auto
  then show ?thesis
    using assms by (simp add: swivel_update_def Let_def des_def)
qed

theorem swivel_rate_limited_witness:
  "\<exists>y. snd (swivel_update \<lparr> si_shoulder_pos = [], si_wrist_pos = [], si_wrist_orientation = [],
      si_previous_swivel = Fin 0, si_dt = Fin (1 / 100), si_right_arm = True \<rparr>
      (swivel_new swivel_config_default)) = Fin y \<and> \<bar>y - 0\<bar> \<le> 1 / 100"
  using swivel_rate_limited [of "swivel_new swivel_config_default" 0 1
      "\<lparr> si_shoulder_pos = [], si_wrist_pos = [], si_wrist_orientation = [],
         si_previous_swivel = Fin 0, si_dt = Fin (1 / 100), si_right_arm = True \<rparr>" "1 / 100"]
  by (auto simp: swivel_new_def swivel_config_default_def)

end
