(* ===== verification/Leader_Config.thy ===== *)
theory Leader_Config
  imports Hardware_Setup Bilateral_Gate Bilateral_Engager
begin

text \<open>
  How the bimanual leader (\<open>src/apps/wifi_bimanual_leader.cpp\<close>) is configured: command line,
  the bilateral settings of \<open>config/leader.yaml\<close>, and the controllers built from it.
\<close>

section \<open>Bilateral settings\<close>

record BilateralSettings =
  bs_feedback_enabled :: bool
  bs_bind_ip :: string
  bs_right_port :: u16
  bs_left_port :: u16
  bs_peer_ip :: string
  bs_eval_window_s :: dbl
  bs_link_recheck_s :: dbl
  bs_gate :: BilateralGateConfig
  bs_render_enabled :: bool
  bs_kp :: "dbl list"
  bs_kd :: "dbl list"
  bs_kf :: "dbl list"
  bs_engage_max_error_rad :: dbl
  bs_engage_max_error_gripper :: dbl
  bs_engager :: EngagerConfig

definition bilateral_settings_default :: BilateralSettings where
  "bilateral_settings_default =
     \<lparr> bs_feedback_enabled = False, bs_bind_ip = ''0.0.0.0'', bs_right_port = 50500,
       bs_left_port = 50501, bs_peer_ip = [], bs_eval_window_s = Fin 1,
       bs_link_recheck_s = Fin 1, bs_gate = gate_config_default, bs_render_enabled = False,
       bs_kp = [], bs_kd = [], bs_kf = [], bs_engage_max_error_rad = Fin (1 / 10),
       bs_engage_max_error_gripper = Fin (1 / 100),
       bs_engager = \<lparr> ec_ramp_up_s = Fin (1 / 2), ec_ramp_down_s = Fin (1 / 10) \<rparr> \<rparr>"

text \<open>One assignment \<open>b.field = cfg.get_..._or(node, key, b.field)\<close>.\<close>

definition set_or ::
    "(YamlNode \<Rightarrow> 'v result) \<Rightarrow> YamlLoader \<Rightarrow> string \<Rightarrow> string \<Rightarrow> ('s \<Rightarrow> 'v) \<Rightarrow> ('v \<Rightarrow> 's \<Rightarrow> 's) \<Rightarrow>
     's \<Rightarrow> 's result" where
  "set_or as_type cfg node key get upd s =
     res_bind (yaml_get_or as_type cfg node key (get s)) (\<lambda>v. Inr (upd v s))"

text \<open>\<open>if (cfg.has(node, key)) b.field = cfg.get_vector(node, key)\<close>\<close>

definition set_vector_if ::
    "YamlLoader \<Rightarrow> string \<Rightarrow> string \<Rightarrow> (dbl list \<Rightarrow> 's \<Rightarrow> 's) \<Rightarrow> 's \<Rightarrow> 's result" where
  "set_vector_if cfg node key upd s =
     (if yaml_has cfg node key then res_bind (yaml_get yn_vector cfg node key) (\<lambda>v. Inr (upd v s))
      else Inr s)"

definition feedback_and_link_steps ::
    "YamlLoader \<Rightarrow> (BilateralSettings \<Rightarrow> BilateralSettings result) list" where
  "feedback_and_link_steps cfg =
    (let fb = ''BilateralFeedback''; link = ''BilateralLink'';
         gate = (\<lambda>f b. b\<lparr>bs_gate := f (bs_gate b)\<rparr>)
     in [set_or yn_bool cfg fb ''Enabled'' (\<lambda>_. False) (\<lambda>v b. b\<lparr>bs_feedback_enabled := v\<rparr>),
         set_or yn_string cfg fb ''BindIp'' bs_bind_ip (\<lambda>v b. b\<lparr>bs_bind_ip := v\<rparr>),
         set_or yn_int cfg fb ''RightPort'' (\<lambda>b. uint (bs_right_port b))
           (\<lambda>v b. b\<lparr>bs_right_port := word_of_int v\<rparr>),
         set_or yn_int cfg fb ''LeftPort'' (\<lambda>b. uint (bs_left_port b))
           (\<lambda>v b. b\<lparr>bs_left_port := word_of_int v\<rparr>),
         set_or yn_double cfg link ''EvalWindowS'' bs_eval_window_s
           (\<lambda>v b. b\<lparr>bs_eval_window_s := v\<rparr>),
         set_or yn_double cfg link ''RecheckIntervalS'' bs_link_recheck_s
           (\<lambda>v b. b\<lparr>bs_link_recheck_s := v\<rparr>),
         set_or yn_string cfg link ''PeerIp'' bs_peer_ip (\<lambda>v b. b\<lparr>bs_peer_ip := v\<rparr>),
         set_or yn_bool cfg link ''RequireWired'' (\<lambda>b. bg_require_wired (bs_gate b))
           (\<lambda>v. gate (\<lambda>g. g\<lparr>bg_require_wired := v\<rparr>)),
         set_or yn_bool cfg link ''AllowLoopback'' (\<lambda>b. bg_allow_loopback (bs_gate b))
           (\<lambda>v. gate (\<lambda>g. g\<lparr>bg_allow_loopback := v\<rparr>)),
         set_or yn_int cfg link ''MinLinkSpeedMbps'' (\<lambda>b. bg_min_link_speed_mbps (bs_gate b))
           (\<lambda>v. gate (\<lambda>g. g\<lparr>bg_min_link_speed_mbps := v\<rparr>)),
         set_or yn_double cfg link ''MinFeedbackRateHz'' (\<lambda>b. bg_min_feedback_rate_hz (bs_gate b))
           (\<lambda>v. gate (\<lambda>g. g\<lparr>bg_min_feedback_rate_hz := v\<rparr>)),
         set_or yn_double cfg link ''MaxFeedbackAgeMs'' (\<lambda>b. bg_max_feedback_age_ms (bs_gate b))
           (\<lambda>v. gate (\<lambda>g. g\<lparr>bg_max_feedback_age_ms := v\<rparr>)),
         set_or yn_double cfg link ''MaxRttP95Ms'' (\<lambda>b. bg_max_rtt_p95_ms (bs_gate b))
           (\<lambda>v. gate (\<lambda>g. g\<lparr>bg_max_rtt_p95_ms := v\<rparr>)),
         set_or yn_double cfg link ''MaxLossPercent'' (\<lambda>b. bg_max_loss_percent (bs_gate b))
           (\<lambda>v. gate (\<lambda>g. g\<lparr>bg_max_loss_percent := v\<rparr>)),
         set_or yn_bool cfg link ''RequireFollowerLinkOk'' (\<lambda>b. bg_require_follower_link_ok (bs_gate b))
           (\<lambda>v. gate (\<lambda>g. g\<lparr>bg_require_follower_link_ok := v\<rparr>))])"

text \<open>The last step: force rendering needs eight gains of either kind.\<close>

definition render_guard :: "BilateralSettings \<Rightarrow> BilateralSettings" where
  "render_guard b =
     (if bs_render_enabled b \<and> (length (bs_kp b) < 8 \<or> length (bs_kd b) < 8)
      then b\<lparr>bs_render_enabled := False\<rparr> else b)"

definition render_steps :: "YamlLoader \<Rightarrow> (BilateralSettings \<Rightarrow> BilateralSettings result) list" where
  "render_steps cfg =
    (let bi = ''Bilateral'';
         engager = (\<lambda>f b. b\<lparr>bs_engager := f (bs_engager b)\<rparr>)
     in [set_or yn_bool cfg bi ''Enabled'' (\<lambda>_. False) (\<lambda>v b. b\<lparr>bs_render_enabled := v\<rparr>),
         set_vector_if cfg bi ''Kp'' (\<lambda>v b. b\<lparr>bs_kp := v\<rparr>),
         set_vector_if cfg bi ''Kd'' (\<lambda>v b. b\<lparr>bs_kd := v\<rparr>),
         set_vector_if cfg bi ''Kf'' (\<lambda>v b. b\<lparr>bs_kf := v\<rparr>),
         set_or yn_double cfg bi ''EngageMaxErrorRad'' bs_engage_max_error_rad
           (\<lambda>v b. b\<lparr>bs_engage_max_error_rad := v\<rparr>),
         set_or yn_double cfg bi ''EngageMaxErrorGripper'' bs_engage_max_error_gripper
           (\<lambda>v b. b\<lparr>bs_engage_max_error_gripper := v\<rparr>),
         set_or yn_double cfg bi ''RampUpS'' (\<lambda>b. ec_ramp_up_s (bs_engager b))
           (\<lambda>v. engager (\<lambda>e. e\<lparr>ec_ramp_up_s := v\<rparr>)),
         set_or yn_double cfg bi ''RampDownS'' (\<lambda>b. ec_ramp_down_s (bs_engager b))
           (\<lambda>v. engager (\<lambda>e. e\<lparr>ec_ramp_down_s := v\<rparr>)),
         (\<lambda>b. Inr (render_guard b))])"

definition load_bilateral_settings :: "string \<Rightarrow> string + YamlLoader \<Rightarrow> BilateralSettings" where
  "load_bilateral_settings path yaml =
     (case yaml_load path yaml of
        Inl e \<Rightarrow> bilateral_settings_default\<lparr>bs_feedback_enabled := False\<rparr>
      | Inr cfg \<Rightarrow>
          (if \<not> yaml_has_node cfg ''BilateralFeedback'' then bilateral_settings_default
           else
             case try_steps (feedback_and_link_steps cfg
                    @ (if yaml_has_node cfg ''Bilateral'' then render_steps cfg else []))
                  bilateral_settings_default of
               (b, None) \<Rightarrow> b
             | (b, Some e) \<Rightarrow> b\<lparr>bs_feedback_enabled := False\<rparr>))"

section \<open>The command line\<close>

record LeaderArgs =
  la_follower_ip :: string
  la_right_can :: string
  la_left_can :: string
  la_right_port :: u16
  la_left_port :: u16
  la_rate_hz :: dbl
  la_initial_enable :: bool
  la_mock :: bool
  la_bind_ip :: string
  la_interface_name :: string
  la_local_port_r :: u16
  la_local_port_l :: u16
  la_right_urdf :: string
  la_left_urdf :: string
  la_publish_telemetry :: bool
  la_telemetry_ip :: string
  la_telemetry_port :: u16
  la_telemetry_rate_hz :: dbl
  la_control_bind_ip :: string
  la_control_port :: u16

definition leader_args_default :: LeaderArgs where
  "leader_args_default =
     \<lparr> la_follower_ip = ''172.30.21.146'', la_right_can = ''can0'', la_left_can = ''can1'',
       la_right_port = 50000, la_left_port = 50001, la_rate_hz = Fin 500,
       la_initial_enable = False, la_mock = False, la_bind_ip = ''0.0.0.0'',
       la_interface_name = [], la_local_port_r = 0, la_local_port_l = 0,
       la_right_urdf = ''urdf/openarm_right.urdf'', la_left_urdf = ''urdf/openarm_left.urdf'',
       la_publish_telemetry = False, la_telemetry_ip = ''127.0.0.1'', la_telemetry_port = 51000,
       la_telemetry_rate_hz = Fin 100, la_control_bind_ip = ''0.0.0.0'', la_control_port = 0 \<rparr>"

definition leader_option :: "string \<Rightarrow> string \<Rightarrow> LeaderArgs \<Rightarrow> LeaderArgs result option" where
  "leader_option x v a =
     (if x = ''--follower-ip'' then Some (Inr (a\<lparr>la_follower_ip := v\<rparr>))
      else if x = ''--right-can'' then Some (Inr (a\<lparr>la_right_can := v\<rparr>))
      else if x = ''--left-can'' then Some (Inr (a\<lparr>la_left_can := v\<rparr>))
      else if x = ''--right-port'' then arg_u16 v (\<lambda>p. a\<lparr>la_right_port := p\<rparr>)
      else if x = ''--left-port'' then arg_u16 v (\<lambda>p. a\<lparr>la_left_port := p\<rparr>)
      else if x = ''--rate-hz'' then arg_double v (\<lambda>d. a\<lparr>la_rate_hz := d\<rparr>)
      else if x = ''--right-urdf'' then Some (Inr (a\<lparr>la_right_urdf := v\<rparr>))
      else if x = ''--left-urdf'' then Some (Inr (a\<lparr>la_left_urdf := v\<rparr>))
      else if x = ''--bind-ip'' then Some (Inr (a\<lparr>la_bind_ip := v\<rparr>))
      else if x = ''--interface'' then Some (Inr (a\<lparr>la_interface_name := v\<rparr>))
      else if x = ''--local-port-r'' then arg_u16 v (\<lambda>p. a\<lparr>la_local_port_r := p\<rparr>)
      else if x = ''--local-port-l'' then arg_u16 v (\<lambda>p. a\<lparr>la_local_port_l := p\<rparr>)
      else if x = ''--telemetry-ip'' then Some (Inr (a\<lparr>la_telemetry_ip := v\<rparr>))
      else if x = ''--telemetry-port'' then arg_u16 v (\<lambda>p. a\<lparr>la_telemetry_port := p\<rparr>)
      else if x = ''--telemetry-rate-hz'' then arg_double v (\<lambda>d. a\<lparr>la_telemetry_rate_hz := d\<rparr>)
      else if x = ''--control-bind-ip'' then Some (Inr (a\<lparr>la_control_bind_ip := v\<rparr>))
      else if x = ''--control-port'' then arg_u16 v (\<lambda>p. a\<lparr>la_control_port := p\<rparr>)
      else None)"

definition leader_flag :: "string \<Rightarrow> LeaderArgs \<Rightarrow> LeaderArgs option" where
  "leader_flag x a =
     (if x = ''--enable'' then Some (a\<lparr>la_initial_enable := True\<rparr>)
      else if x = ''--mock'' then Some (a\<lparr>la_mock := True\<rparr>)
      else if x = ''--publish-telemetry'' then Some (a\<lparr>la_publish_telemetry := True\<rparr>)
      else None)"

definition leader_args :: "string list \<Rightarrow> LeaderArgs result" where
  "leader_args argv = parse_args leader_option leader_flag argv leader_args_default"

section \<open>The controllers\<close>

record LeaderParams =
  lp_kp :: "dbl list"
  lp_kd :: "dbl list"
  lp_Fc :: "dbl list"
  lp_k :: "dbl list"
  lp_Fv :: "dbl list"
  lp_Fo :: "dbl list"
  lp_gscale :: "dbl list"
  lp_goffset :: "dbl list"
  lp_effort_limit :: "dbl list"

definition vector_or :: "YamlLoader \<Rightarrow> string \<Rightarrow> string \<Rightarrow> dbl list \<Rightarrow> dbl list result" where
  "vector_or cfg node key def =
     (if yaml_has cfg node key then yaml_get yn_vector cfg node key else Inr def)"

definition leader_params :: "YamlLoader \<Rightarrow> LeaderParams result" where
  "leader_params cfg =
    (let node = ''LeaderArmParam'' in
     res_bind (yaml_get yn_vector cfg node ''Kp'') (\<lambda>kp.
     res_bind (yaml_get yn_vector cfg node ''Kd'') (\<lambda>kd.
     res_bind (yaml_get yn_vector cfg node ''Fc'') (\<lambda>Fc.
     res_bind (yaml_get yn_vector cfg node ''k'') (\<lambda>k.
     res_bind (yaml_get yn_vector cfg node ''Fv'') (\<lambda>Fv.
     res_bind (yaml_get yn_vector cfg node ''Fo'') (\<lambda>Fo.
     res_bind (vector_or cfg node ''GravityScale'' (replicate (length kp) (Fin 1))) (\<lambda>gscale.
     res_bind (vector_or cfg node ''GravityOffset'' (replicate (length kp) (Fin 0))) (\<lambda>goffset.
     res_bind (vector_or cfg node ''EffortLimit'' []) (\<lambda>limit.
       Inr \<lparr> lp_kp = kp, lp_kd = kd, lp_Fc = Fc, lp_k = k, lp_Fv = Fv, lp_Fo = Fo,
             lp_gscale = gscale, lp_goffset = goffset, lp_effort_limit = limit \<rparr>))))))))))"

definition leader_control :: "LeaderParams \<Rightarrow> BilateralSettings \<Rightarrow> Dynamics \<Rightarrow> string \<Rightarrow> Control" where
  "leader_control p b dyn arm_type =
    (let ct = control_new (Some dyn) None ROLE_LEADER arm_type;
         ct = SetParameter (lp_kp p) (lp_kd p) (lp_Fc p) (lp_k p) (lp_Fv p) (lp_Fo p) ct;
         ct = SetEffortLimits (lp_effort_limit p) (SetGravityTrim (lp_gscale p) (lp_goffset p) ct)
     in if bs_render_enabled b then SetBilateralGains (bs_kp b) (bs_kd b) (bs_kf b) ct else ct)"

text \<open>
  The leader has a copy of \<open>verify_arm_hardware\<close> of its own; it does what the follower's does, which
  \<open>bring_up\<close> uses.
\<close>

definition leader_verify_arm_hardware :: "Readings \<Rightarrow> can_command list \<times> bool" where
  "leader_verify_arm_hardware rd =
     (let arm_responding = responding (rd_arm rd); grip_responding = responding (rd_gripper rd)
      in ([Recv_All (Some 1000), Sleep_Us 50000, Recv_All (Some 1000)],
          if arm_responding = 0 \<and> grip_responding = 0 then False else True))"

lemma leader_verifies_alike: "leader_verify_arm_hardware = verify_arm_hardware"
  by (rule ext) (simp add: leader_verify_arm_hardware_def verify_arm_hardware_def)

definition leader_hardware ::
    "LeaderArgs \<Rightarrow> BilateralSettings \<Rightarrow> string + YamlLoader \<Rightarrow> ArmEnv \<Rightarrow> ArmEnv \<Rightarrow>
     ((can_command list \<times> can_command list) \<times> (arm \<times> arm) option) result" where
  "leader_hardware a b yaml er el =
     (if la_right_urdf a = [] \<or> la_left_urdf a = [] then Inr (([], []), None)
      else
        res_bind (yaml_load ''config/leader.yaml'' yaml) (\<lambda>cfg.
        res_bind (leader_params cfg) (\<lambda>p. bring_up (leader_control p b) er el)))"

end
