(* ===== verification/Leader_Side.thy ===== *)
theory Leader_Side
  imports Leader_Config Follower_Arm
begin

text \<open>
  What the bimanual leader (\<open>src/apps/wifi_bimanual_leader.cpp\<close>) does with one arm: taking in
  feedback, deciding on and rendering forces (\<open>step_side\<close>), filling in the command packet, and
  evaluating the bilateral gate over both arms.
\<close>

section \<open>Taking in feedback\<close>

text \<open>
  The callback of the raw receiver: \<open>sys_now\<close> is the system clock the round trip is measured
  with, \<open>now\<close> the clock of the buffer.
\<close>

definition feedback_callback ::
    "u64 \<Rightarrow> u64 \<Rightarrow> u8 list \<Rightarrow> u64 FeedbackStateBuffer \<Rightarrow> u64 FeedbackStateBuffer" where
  "feedback_callback sys_now now data buf =
     (if length data \<noteq> feedback_size then buf
      else
        let (ok, fb) = feedback_decode_and_validate (feedback_of_bytes data)
        in if \<not> ok then buf
           else
             let rtt_ns = (if fp_echo_cmd_send_time_ns fb \<noteq> 0 \<and> sys_now > fp_echo_cmd_send_time_ns fb
                           then sys_now - fp_echo_cmd_send_time_ns fb else 0)
             in fb_update now (fb, rtt_ns) buf)"

section \<open>Force rendering on one arm\<close>

record LeaderSide =
  ls_buffer :: "u64 FeedbackStateBuffer"
  ls_engager :: BilateralEngager
  ls_cmd :: LeaderBilateralCommand

definition leader_cmd_new :: LeaderBilateralCommand where
  "leader_cmd_new = \<lparr> lb_arm_pos_ref = [], lb_hand_pos_ref = [], lb_arm_tau_f = [],
     lb_hand_tau_f = [], lb_scale = Fin 0 \<rparr>"

text \<open>One of the loops that clear \<open>aligned\<close>: it stops at the first joint out of tolerance.\<close>

fun align_loop :: "dbl \<Rightarrow> JointState list \<Rightarrow> dbl list \<Rightarrow> bool result" where
  "align_loop tol [] refs = Inr True"
| "align_loop tol (j # js) [] = Inl Undefined_Behaviour"
| "align_loop tol (j # js) (r # rs) =
     (if fabs (js_position j - r) \<le> tol then align_loop tol js rs else Inr False)"

definition side_aligned ::
    "BilateralSettings \<Rightarrow> JointState list \<Rightarrow> JointState list \<Rightarrow> dbl FeedbackPacket \<Rightarrow> bool result" where
  "side_aligned b arm hand fb =
     (if length arm \<le> unat (fp_arm_dof fb) \<and> length hand \<le> unat (fp_hand_dof fb) then
        res_bind (align_loop (bs_engage_max_error_rad b) arm (fp_arm_pos fb)) (\<lambda>ok.
          if ok then align_loop (bs_engage_max_error_gripper b) hand (fp_hand_pos fb) else Inr False)
      else Inr False)"

text \<open>The four \<open>assign\<close> calls.\<close>

definition command_from ::
    "dbl FeedbackPacket \<Rightarrow> LeaderBilateralCommand \<Rightarrow> LeaderBilateralCommand result" where
  "command_from fb c =
     (let a = unat (fp_arm_dof fb); h = unat (fp_hand_dof fb)
      in res_bind (array_prefix a (fp_arm_pos fb)) (\<lambda>ap.
         res_bind (array_prefix h (fp_hand_pos fb)) (\<lambda>hp.
         res_bind (array_prefix a (fp_arm_tau fb)) (\<lambda>atau.
         res_bind (array_prefix h (fp_hand_tau fb)) (\<lambda>htau.
           Inr (c\<lparr>lb_arm_pos_ref := ap, lb_hand_pos_ref := hp, lb_arm_tau_f := atau,
                  lb_hand_tau_f := htau\<rparr>))))))"

text \<open>The feedback that counts as fresh at time \<open>now\<close>.\<close>

definition fresh_feedback ::
    "BilateralSettings \<Rightarrow> u64 \<Rightarrow> u64 FeedbackStateBuffer \<Rightarrow> dbl FeedbackPacket option" where
  "fresh_feedback b now buf =
     (let st = fb_snapshot now buf
      in case fb_get_latest buf of
           Some fb \<Rightarrow> (if st_age_ms st \<ge> Fin 0 \<and> st_age_ms st \<le> bg_max_feedback_age_ms (bs_gate b)
                       then Some (feedback_doubles fb) else None)
         | None \<Rightarrow> None)"

definition side_wants ::
    "BilateralSettings \<Rightarrow> bool \<Rightarrow> dbl FeedbackPacket option \<Rightarrow> bool" where
  "side_wants b requested fresh =
     (case fresh of
        Some fb \<Rightarrow> bs_render_enabled b \<and> requested \<and> fp_enabled fb \<noteq> 0 \<and> fp_estop fb = 0
      | None \<Rightarrow> False)"

definition step_side ::
    "BilateralSettings \<Rightarrow> dbl \<Rightarrow> bool \<Rightarrow> u64 \<Rightarrow> Readings \<Rightarrow> LeaderSide \<times> arm \<Rightarrow>
     ((LeaderSide \<times> arm) \<times> can_command list) result" where
  "step_side b rate_hz requested now rd x =
     (let (side, ct, rs) = x;
          fresh = fresh_feedback b now (ls_buffer side);
          want = side_wants b requested fresh
      in res_bind (case fresh of
             None \<Rightarrow> Inr (False, ls_cmd side)
           | Some fb \<Rightarrow>
               res_bind (side_aligned b (rs_response (ss_arm rs)) (rs_response (ss_hand rs)) fb) (\<lambda>ok.
               res_bind (command_from fb (ls_cmd side)) (\<lambda>c. Inr (ok, c)))) (\<lambda>(aligned, c).
         let eng = engager_update want aligned (Fin 1 div rate_hz) (ls_engager side);
             c = c\<lparr>lb_scale := be_scale eng\<rparr>
         in res_bind (leader_step (if engager_active eng then Some c else None) rd ct rs)
              (\<lambda>(ct, rs, out).
                Inr ((side\<lparr>ls_engager := eng, ls_cmd := c\<rparr>, ct, rs), out))))"

section \<open>The command packet\<close>

text \<open>Joint states into the arrays: the counts are cut to a byte, the values to the arrays.\<close>

definition fill_command ::
    "JointState list \<Rightarrow> JointState list \<Rightarrow> dbl TeleopPacket \<Rightarrow> dbl TeleopPacket" where
  "fill_command arm hand p =
     (let a = word_of_nat (length arm) :: u8; h = word_of_nat (length hand) :: u8;
          arm = take (min (unat a) 8) arm; hand = take (min (unat h) 4) hand
      in p\<lparr>tp_arm_dof := a, tp_hand_dof := h,
           tp_arm_pos := copy_prefix (map js_position arm) (tp_arm_pos p),
           tp_arm_vel := copy_prefix (map js_velocity arm) (tp_arm_vel p),
           tp_hand_pos := copy_prefix (map js_position hand) (tp_hand_pos p),
           tp_hand_vel := copy_prefix (map js_velocity hand) (tp_hand_vel p)\<rparr>)"

text \<open>Without hardware: seven joints on a sine, one gripper at 0.\<close>

definition mock_command :: "(real \<Rightarrow> real) \<Rightarrow> u64 \<Rightarrow> dbl TeleopPacket \<Rightarrow> dbl TeleopPacket" where
  "mock_command wave now p =
     (let t = real (unat now) / 10 ^ 9
      in p\<lparr>tp_arm_dof := 7, tp_hand_dof := 1,
           tp_arm_pos := copy_prefix (map (\<lambda>i. Fin (wave (t * 2 + real i))) [0..<7]) (tp_arm_pos p)\<rparr>)"

definition address_command ::
    "u32 \<Rightarrow> ArmSide \<Rightarrow> ControlMode \<Rightarrow> bool \<Rightarrow> dbl TeleopPacket \<Rightarrow> dbl TeleopPacket" where
  "address_command seq side mode enabled p =
     p\<lparr>tp_seq := seq, tp_arm_side := arm_side_code side, tp_mode := control_mode_code mode,
       tp_enable := (if enabled then 1 else 0), tp_estop := 0\<rparr>"

section \<open>The gate over both arms\<close>

definition gate_result_new :: BilateralGateResult where
  "gate_result_new = \<lparr> br_ok = False, br_reasons = [] \<rparr>"

definition refresh_link :: "BilateralSettings \<Rightarrow> LinkEnv \<Rightarrow> LinkInfo \<times> BilateralGateResult" where
  "refresh_link b env =
     (let link = (if bs_peer_ip b = []
            then link_info_new\<lparr>li_error := ''BilateralLink.PeerIp is not set''\<rparr>
            else query_link_to env (bs_peer_ip b))
      in (link, check_link (bs_gate b) link))"

text \<open>The clocks are those of the two \<open>snapshot\<close> calls.\<close>

definition evaluate_gate ::
    "BilateralSettings \<Rightarrow> BilateralGateResult \<Rightarrow> u64 FeedbackStateBuffer \<Rightarrow> u64 FeedbackStateBuffer \<Rightarrow>
     u64 \<Rightarrow> u64 \<Rightarrow> BilateralGateResult" where
  "evaluate_gate b link_result buf_r buf_l now_r now_l =
     (if \<not> bs_feedback_enabled b
      then gate_result_new\<lparr>br_reasons := [''BilateralFeedback.Enabled is false in config/leader.yaml'']\<rparr>
      else
        let rr = check_feedback (bs_gate b) ''right'' (fb_snapshot now_r buf_r) (fb_get_latest buf_r);
            rl = check_feedback (bs_gate b) ''left'' (fb_snapshot now_l buf_l) (fb_get_latest buf_l)
        in gate_result (br_reasons link_result @ br_reasons rr @ br_reasons rl))"

section \<open>Facts about the parts\<close>

lemma align_loop_True:
  "align_loop tol js refs = Inr True \<longleftrightarrow>
     length js \<le> length refs \<and> (\<forall>i < length js. fabs (js_position (js ! i) - refs ! i) \<le> tol)"
  by (induction tol js refs rule: align_loop.induct) (auto simp: nth_Cons' less_Suc_eq_0_disj)

lemma evaluate_gate_ok:
  "br_ok (evaluate_gate b lr buf_r buf_l now_r now_l) \<longleftrightarrow>
     bs_feedback_enabled b \<and> br_reasons lr = []
     \<and> br_ok (check_feedback (bs_gate b) ''right'' (fb_snapshot now_r buf_r) (fb_get_latest buf_r))
     \<and> br_ok (check_feedback (bs_gate b) ''left'' (fb_snapshot now_l buf_l) (fb_get_latest buf_l))"
  by (auto simp: evaluate_gate_def gate_result_new_def check_ok_iff_no_reasons Let_def)

lemma refresh_link_ok:
  "br_reasons (snd (refresh_link b env)) = [] \<longleftrightarrow> br_ok (snd (refresh_link b env))"
  by (simp add: refresh_link_def Let_def check_ok_iff_no_reasons)

section \<open>What a command packet says\<close>

lemma fill_command_wf [simp]: "teleop_wf (fill_command arm hand p) \<longleftrightarrow> teleop_wf p"
  by (simp add: fill_command_def teleop_wf_def Let_def)

lemma mock_command_wf [simp]: "teleop_wf (mock_command w now p) \<longleftrightarrow> teleop_wf p"
  by (simp add: mock_command_def teleop_wf_def Let_def)

lemma address_command_wf [simp]: "teleop_wf (address_command seq sd mode en p) \<longleftrightarrow> teleop_wf p"
  by (simp add: address_command_def teleop_wf_def)

text \<open>The packet a datagram of an iteration carries.\<close>

definition says ::
    "u32 \<Rightarrow> ArmSide \<Rightarrow> bool \<Rightarrow> bool \<Rightarrow> u64 TeleopPacket \<Rightarrow> bool" where
  "says seq side bilateral enabled p \<longleftrightarrow> tp_seq p = seq \<and> tp_arm_side p = arm_side_code side
     \<and> tp_mode p = control_mode_code (if bilateral then BILATERAL else UNILATERAL)
     \<and> tp_enable p = (if enabled then 1 else 0) \<and> tp_estop p = 0"

lemma address_command_says:
  assumes "teleop_wf p" and "mode \<in> {BILATERAL, UNILATERAL}"
  shows "teleop_acceptable (teleop_bytes (teleop_encode t (teleop_bits (address_command seq side mode en p))))
    \<and> says seq side (mode = BILATERAL) en
        (teleop_of_bytes (teleop_bytes (teleop_encode t (teleop_bits (address_command seq side mode en p)))))"
proof -
  let ?q = "teleop_bits (address_command seq side mode en p)"
  have "teleop_wf ?q" using assms(1) by simp
  moreover have "says seq side (mode = BILATERAL) en (teleop_encode t ?q)"
    using assms(2) by (auto simp: says_def teleop_encode_def Let_def teleop_bits_def address_command_def)
  ultimately show ?thesis by simp
qed

end
