(* ===== verification/Command_Tracking.thy ===== *)
theory Command_Tracking
  imports Network_Link Follower_Props Leader_Side
begin

text \<open>
  The posture a command packet carries: how a leader's joint positions get into it, and what a
  follower arm does with it. The applications share both halves; the systems of a leader and a
  follower put them together.
\<close>

lemma tb_latest_new [simp]: "tb_get_latest tb_new = None"
  by (simp add: tb_get_latest_def tb_new_def)

section \<open>The posture in a packet\<close>

text \<open>The joint and hand positions that the counts of the packet announce.\<close>

definition posture :: "u64 TeleopPacket \<Rightarrow> dbl list" where
  "posture p = map dbl_of_bits
     (take (unat (tp_arm_dof p)) (tp_arm_pos p) @ take (unat (tp_hand_dof p)) (tp_hand_pos p))"

text \<open>A number after its trip through the packet; a value read from a packet arrives unchanged.\<close>

definition over_wire :: "dbl \<Rightarrow> dbl" where
  "over_wire x = dbl_of_bits (bits_of_dbl x)"

lemma over_wire_of_bits: "dbl_of_bits w \<noteq> NaN \<Longrightarrow> w \<noteq> 2 ^ 63 \<Longrightarrow> over_wire (dbl_of_bits w) = dbl_of_bits w"
  by (simp add: over_wire_def bits_of_dbl_of_bits)

text \<open>The counts are bytes, the arrays have 8 and 4 places.\<close>

definition sent_positions :: "nat \<Rightarrow> JointState list \<Rightarrow> dbl list" where
  "sent_positions cap js = map js_position (take (min (length js mod 256) cap) js)"

lemma sent_positions_all: "length js \<le> cap \<Longrightarrow> cap < 256 \<Longrightarrow> sent_positions cap js = map js_position js"
  by (simp add: sent_positions_def min_def)

definition measured :: "RobotSystemState \<Rightarrow> dbl list" where
  "measured rs = sent_positions 8 (rs_response (ss_arm rs)) @ sent_positions 4 (rs_response (ss_hand rs))"

lemma take_copy_prefix:
  assumes "n \<le> length xs"
  shows "take n (copy_prefix (map f (take (min n cap) xs)) (replicate cap z)) = map f (take (min n cap) xs)"
  using assms by (auto simp: copy_prefix_def min_def take_map)

lemma posture_of_command:
  "posture (teleop_encode t (teleop_bits
      (address_command seq side mode en (fill_command arm hand (teleop_zero (Fin 0))))))
   = map over_wire (sent_positions 8 arm @ sent_positions 4 hand)"
proof -
  let ?p = "address_command seq side mode en (fill_command arm hand (teleop_zero (Fin 0)))"
  have n: "length js mod 256 \<le> length js" for js :: "JointState list" by simp
  have "posture (teleop_encode t (teleop_bits ?p)) =
      map over_wire (take (unat (tp_arm_dof ?p)) (tp_arm_pos ?p) @ take (unat (tp_hand_dof ?p)) (tp_hand_pos ?p))"
    by (simp add: posture_def teleop_encode_def teleop_bits_def Let_def over_wire_def take_map)
  also have "\<dots> = map over_wire (sent_positions 8 arm @ sent_positions 4 hand)"
    using take_copy_prefix [OF n, of arm js_position 8 "Fin 0"] take_copy_prefix [OF n, of hand js_position 4 "Fin 0"]
    by (simp add: address_command_def fill_command_def Let_def teleop_zero_def unat_of_nat sent_positions_def)
  finally show ?thesis .
qed

section \<open>What a follower arm does with it\<close>

text \<open>The references after one cycle towards a posture; references without a target stay.\<close>

definition tracked :: "RateLimiter \<Rightarrow> dbl list \<Rightarrow> dbl list \<Rightarrow> dbl list" where
  "tracked rl tgt refs =
     (let tar = rl_limit rl refs tgt
      in map (\<lambda>i. if i < length tar then tar ! i else refs ! i) [0..<length refs])"

lemma tracked_limit: "length refs = length tgt \<Longrightarrow> tracked rl tgt refs = rl_limit rl refs tgt"
  by (rule nth_equalityI) (simp_all add: tracked_def Let_def)

lemma apply_target_tracks:
  assumes "apply_target rl (teleop_doubles p) rs = Inr rs'"
  shows "all_refs rs' = tracked rl (posture p) (all_refs rs)"
proof -
  obtain tar where tar: "follower_target rl (teleop_doubles p) rs = Inr tar"
    using assms by (auto simp: apply_target_def res_bind_eq_Inr)
  then have "tar = rl_limit rl (all_refs rs) (posture p)"
    by (auto simp: follower_target_def array_prefix_def res_bind_eq_Inr Let_def all_refs_def posture_def
        teleop_doubles_def take_map split: if_splits)
  with apply_target_refs [OF assms tar] show ?thesis
    by (intro nth_equalityI) (simp_all add: tracked_def Let_def)
qed

text \<open>Motion frames carry the new references, which HOLD leaves alone and the other states track.\<close>

lemma drive_arm_tracks:
  assumes "drive_arm mo st (map_option teleop_doubles b) rd ct rs = Inr (ct', rs', cmds)"
    and "ct_role ct = ROLE_FOLLOWER" and "Arm_Mit ps \<in> set cmds" and "b = Some p"
  shows "map mp_q ps = arm_positions rs'
    \<and> all_refs rs' = (if st = HOLD then all_refs rs else tracked (mo_limiter mo) (posture p) (all_refs rs))"
proof -
  have "driven st"
    using drive_arm_idle_frames [OF assms(1)] assms(3) by (cases "driven st") (auto split: if_splits)
  then obtain rs1 where rs1: "rs1 = rs \<and> st = HOLD
        \<or> st \<noteq> HOLD \<and> apply_target (mo_limiter mo) (teleop_doubles p) rs = Inr rs1"
      and rs': "rs' = store_responses rd rs1" and ps: "map mp_q ps = arm_positions rs1"
    using drive_arm_driven [OF assms(1) _ assms(2)] assms(3,4) by fastforce
  have "all_refs rs' = all_refs rs1" "arm_positions rs' = arm_positions rs1"
    by (simp_all add: rs' arm_positions_def)
  with rs1 ps apply_target_tracks show ?thesis by auto
qed

text \<open>The step returns when the gains cover the joints.\<close>

lemma apply_target_sizes:
  "apply_target rl t rs = Inr rs' \<Longrightarrow>
     length (rs_reference (ss_arm rs')) = length (rs_reference (ss_arm rs))
     \<and> length (rs_reference (ss_hand rs')) = length (rs_reference (ss_hand rs))"
  by (auto simp: apply_target_def res_bind_eq_Inr Let_def set_all_references_def dest!: retarget_length)

lemma drive_arm_returns:
  assumes "driven st" and "st \<noteq> HOLD" and "ct_role ct = ROLE_FOLLOWER"
    and "ct_dynamics_f ct \<noteq> None \<longrightarrow> dynamics_ok (ct_dynamics_f ct) (length (rd_arm rd))"
    and "teleop_wf t" and "unat (tp_arm_dof t) \<le> 8" and "unat (tp_hand_dof t) \<le> 4"
    and "length (rs_reference (ss_arm rs)) \<le> 7" and "length (rs_reference (ss_hand rs)) \<le> 1"
    and "length (rd_arm rd) \<le> 7" and "length (ct_Kp ct) = 8" and "length (ct_Kd ct) = 8"
  shows "\<exists>ct' rs' arm hand. drive_arm mo st (Some t) rd ct rs
    = Inr (ct', rs', [Arm_Mit arm, Gripper_Mit hand, Recv_All (Some 200)])"
proof -
  let ?ct = "SetFollowerGravityFeedforward (mo_gravity_ff mo \<and> tp_mode t = control_mode_code BILATERAL)
    (mo_gravity_ff_scale mo) ct"
  have ct: "ct_role ?ct = ROLE_FOLLOWER" "ct_dynamics_f ?ct = ct_dynamics_f ct" "length (ct_Kp ?ct) = 8" "length (ct_Kd ?ct) = 8"
    using assms(3,11,12) by (simp_all add: SetFollowerGravityFeedforward_def)
  obtain rs1 where rs1: "apply_target (mo_limiter mo) t rs = Inr rs1"
    using apply_target_ok [OF assms(5-7), of rs] assms(8,9) by auto
  then obtain arm hand where "follower_step rd ?ct rs1
      = Inr (?ct, store_responses rd rs1, [Arm_Mit arm, Gripper_Mit hand, Recv_All (Some 200)])"
    using follower_step_returns [of rs1 ?ct rd] apply_target_sizes [OF rs1] ct assms(4,8-10) by auto
  with rs1 assms(1,2) show ?thesis
    by (auto simp: drive_arm_def driven_def live_def follower_role_step [OF ct(1)])
qed

lemma command_counts:
  "tp_arm_dof (teleop_encode t (teleop_bits (address_command seq side mode en (fill_command arm hand p))))
     = word_of_nat (length arm)"
  "tp_hand_dof (teleop_encode t (teleop_bits (address_command seq side mode en (fill_command arm hand p))))
     = word_of_nat (length hand)"
  by (simp_all add: teleop_encode_def teleop_bits_def address_command_def fill_command_def Let_def)

lemma over_wire_one: "over_wire (Fin 1) = Fin 1"
proof -
  have "dbl_of_bits 0x3FF0000000000000 = Fin 1"
    by (simp add: dbl_of_bits_def ieee_decode_def ieee_bias_def Let_def)
  with over_wire_of_bits [of "0x3FF0000000000000"] show ?thesis by simp
qed

end
