(* ===== verification/Leader_App.thy ===== *)
theory Leader_App
  imports Leader_Side
begin

text \<open>
  The bimanual leader as a whole, \<open>src/apps/wifi_bimanual_leader.cpp\<close>: its state, the
  operator's commands, the control loop with the continuous gate, and runs as sequences of
  events. Motion to a pose happens inside an iteration here, so no thread is left running.
\<close>

section \<open>State\<close>

record LeaderConfig =
  lc_args :: LeaderArgs
  lc_bi :: BilateralSettings

record LeaderState =
  ld_exited :: bool
  ld_keep_running :: bool
  ld_command_enabled :: bool
  ld_bilateral_requested :: bool
  ld_init_requested :: bool
  ld_goto_requested :: bool
  ld_goto_target :: "dbl list"
  ld_side_r :: LeaderSide
  ld_side_l :: LeaderSide
  ld_arms :: "(arm \<times> arm) option"
  ld_link :: LinkInfo
  ld_link_result :: BilateralGateResult
  ld_next_link_check :: int
  ld_next_gate_check :: int
  ld_seq :: u32
  ld_sender_r :: UdpSender
  ld_sender_l :: UdpSender
  ld_publisher :: TelemetryPublisher
  ld_next_telemetry :: int

datatype leader_output =
    Leader_Can ArmSide can_command
  | Command_Datagram ArmSide "u8 list"
  | Leader_Telemetry "u8 list"
  | Leader_Response string

text \<open>
  What a status or gate evaluation reads: the clocks of the snapshots, the kernel, and the two
  flags that are set while the main thread is inside a motion to a pose.
\<close>

record GateEnv =
  ge_now_r :: u64
  ge_now_l :: u64
  ge_link :: LinkEnv
  ge_init_in_progress :: bool
  ge_goto_in_progress :: bool

section \<open>Operator commands\<close>

definition gate_now :: "BilateralSettings \<Rightarrow> GateEnv \<Rightarrow> LeaderState \<Rightarrow> BilateralGateResult" where
  "gate_now b env s =
     evaluate_gate b (ld_link_result s) (ls_buffer (ld_side_r s)) (ls_buffer (ld_side_l s))
       (ge_now_r env) (ge_now_l env)"

definition refresh_leader_link :: "BilateralSettings \<Rightarrow> LinkEnv \<Rightarrow> LeaderState \<Rightarrow> LeaderState" where
  "refresh_leader_link b env s =
     (let (link, result) = refresh_link b env in s\<lparr>ld_link := link, ld_link_result := result\<rparr>)"

definition feedback_stats_json :: "Stats \<Rightarrow> 'd FeedbackPacket option \<Rightarrow> string" where
  "feedback_stats_json s latest =
     ''{'' @ json_join
       [json_field ''has_data'' (show_bool (st_has_data s)),
        json_field ''age_ms'' (show_fixed2 (st_age_ms s)),
        json_field ''rate_hz'' (show_fixed2 (st_rate_hz s)),
        json_field ''loss_percent'' (show_fixed2 (st_loss_percent s)),
        json_field ''rtt_p50_ms'' (show_fixed2 (st_rtt_p50_ms s)),
        json_field ''rtt_p95_ms'' (show_fixed2 (st_rtt_p95_ms s)),
        json_field ''rtt_max_ms'' (show_fixed2 (st_rtt_max_ms s)),
        json_field ''cmd_hold_p95_ms'' (show_fixed2 (st_cmd_hold_p95_ms s)),
        json_field ''received_total'' (show_word (st_received_total s)),
        json_field ''lost_total'' (show_word (st_lost_total s)),
        json_field ''follower_link_ok''
          (show_bool (case latest of Some p \<Rightarrow> fp_link_ok p \<noteq> 0 | None \<Rightarrow> False)),
        json_field ''follower_enabled''
          (show_bool (case latest of Some p \<Rightarrow> fp_enabled p \<noteq> 0 | None \<Rightarrow> False)),
        json_field ''follower_safety_state''
          (show_word (case latest of Some p \<Rightarrow> fp_safety_state p | None \<Rightarrow> 0)),
        json_field ''follower_mode'' (show_word (case latest of Some p \<Rightarrow> fp_mode p | None \<Rightarrow> 0))]
     @ ''}''"

definition engager_fields :: "LeaderState \<Rightarrow> string list" where
  "engager_fields s =
    (let er = ls_engager (ld_side_r s); el = ls_engager (ld_side_l s)
     in [json_field ''engaged'' (show_bool (engager_engaged er \<and> engager_engaged el)),
         json_field ''state_right'' (json_string (engager_state_name er)),
         json_field ''state_left'' (json_string (engager_state_name el))])"

definition gate_fields :: "BilateralGateResult \<Rightarrow> string list" where
  "gate_fields g =
     [json_field ''gate_ok'' (show_bool (br_ok g)),
      json_field ''gate_reasons'' (json_string (json_escape (reasons_joined ''; '' (br_reasons g))))]"

definition bilateral_status_json :: "BilateralSettings \<Rightarrow> GateEnv \<Rightarrow> LeaderState \<Rightarrow> string" where
  "bilateral_status_json b env s =
    (let br = ls_buffer (ld_side_r s); bl = ls_buffer (ld_side_l s)
     in json_field ''bilateral'' (''{'' @ json_join
       ([json_field ''feedback_enabled'' (show_bool (bs_feedback_enabled b)),
         json_field ''requested'' (show_bool (ld_bilateral_requested s)),
         json_field ''render_enabled'' (show_bool (bs_render_enabled b))]
        @ engager_fields s
        @ [json_field ''scale_right'' (show_fixed2 (be_scale (ls_engager (ld_side_r s)))),
           json_field ''scale_left'' (show_fixed2 (be_scale (ls_engager (ld_side_l s))))]
        @ gate_fields (gate_now b env s)
        @ [json_field ''peer_ip'' (json_string (json_escape (bs_peer_ip b))),
           json_field ''link'' (json_string (json_escape (link_describe (ld_link s)))),
           json_field ''link_reasons'' (json_string (json_escape
             (reasons_joined ''; '' (br_reasons (ld_link_result s))))),
           json_field ''right'' (feedback_stats_json (fb_snapshot (ge_now_r env) br) (fb_get_latest br)),
           json_field ''left'' (feedback_stats_json (fb_snapshot (ge_now_l env) bl) (fb_get_latest bl))])
       @ ''}''))"

definition bilateral_summary_json :: "BilateralSettings \<Rightarrow> GateEnv \<Rightarrow> LeaderState \<Rightarrow> string" where
  "bilateral_summary_json b env s =
    (let sr = fb_snapshot (ge_now_r env) (ls_buffer (ld_side_r s));
         sl = fb_snapshot (ge_now_l env) (ls_buffer (ld_side_l s))
     in json_field ''bilateral'' (''{'' @ json_join
       ([json_field ''feedback_enabled'' (show_bool (bs_feedback_enabled b)),
         json_field ''render_enabled'' (show_bool (bs_render_enabled b)),
         json_field ''requested'' (show_bool (ld_bilateral_requested s))]
        @ engager_fields s @ gate_fields (gate_now b env s)
        @ [json_field ''rtt_p95_ms'' (show_fixed2 (std_max (st_rtt_p95_ms sr) (st_rtt_p95_ms sl))),
           json_field ''rate_hz'' (show_fixed2 (std_min (st_rate_hz sr) (st_rate_hz sl))),
           json_field ''loss_percent'' (show_fixed2 (std_max (st_loss_percent sr) (st_loss_percent sl)))])
       @ ''}''))"

definition leader_status :: "LeaderConfig \<Rightarrow> GateEnv \<Rightarrow> LeaderState \<Rightarrow> string" where
  "leader_status cfg env s =
    (let a = lc_args cfg
     in json_ok (json_join
       [json_field ''role'' (json_string ''leader''),
        json_field ''follower_ip'' (json_string (json_escape (la_follower_ip a))),
        json_field ''right_port'' (show_word (la_right_port a)),
        json_field ''left_port'' (show_word (la_left_port a)),
        json_field ''enabled'' (show_bool (ld_command_enabled s)),
        json_field ''init_requested'' (show_bool (ld_init_requested s)),
        json_field ''init_in_progress'' (show_bool (ge_init_in_progress env)),
        json_field ''goto_in_progress'' (show_bool (ge_goto_in_progress env)),
        json_field ''running'' (show_bool (ld_keep_running s)),
        json_field ''bilateral_requested'' (show_bool (ld_bilateral_requested s)),
        bilateral_summary_json (lc_bi cfg) env s]))"

definition handle_bilateral_enable :: "LeaderConfig \<Rightarrow> GateEnv \<Rightarrow> LeaderState handler" where
  "handle_bilateral_enable cfg env args s =
     (if \<not> ld_command_enabled s
      then (s, json_error ''leader is not enabled; switch mode to leader first'')
      else
        let s = refresh_leader_link (lc_bi cfg) (ge_link env) s; g = gate_now (lc_bi cfg) env s
        in if \<not> br_ok g
           then (s, json_error (''bilateral refused: '' @ reasons_joined ''; '' (br_reasons g)))
           else
             let s = s\<lparr>ld_bilateral_requested := True\<rparr>
             in (s, json_ok (json_join [json_field ''message'' (json_string ''bilateral requested''),
                      bilateral_status_json (lc_bi cfg) env s])))"

definition handle_leader_goto :: "LeaderState handler" where
  "handle_leader_goto args s =
     (let (ok, vals) = parse_pose16 args
      in if \<not> ok then (s, json_error ''goto_pose expects 16 whitespace-separated values'')
         else (s\<lparr>ld_goto_target := vals, ld_goto_requested := True\<rparr>,
               json_message ''leader goto_pose requested''))"

definition leader_server :: "LeaderConfig \<Rightarrow> GateEnv \<Rightarrow> LeaderState RuntimeControlServer" where
  "leader_server cfg env =
    (let
       srv = register_handler ''bilateral_enable'' (handle_bilateral_enable cfg env) rc_new;
       srv = register_handler ''bilateral_disable'' (\<lambda>_ s. (s\<lparr>ld_bilateral_requested := False\<rparr>,
         json_message ''bilateral disabled'')) srv;
       srv = register_handler ''bilateral_status''
         (\<lambda>_ s. (s, json_ok (bilateral_status_json (lc_bi cfg) env s))) srv;
       srv = register_handler ''status'' (\<lambda>_ s. (s, leader_status cfg env s)) srv;
       srv = register_handler ''disable''
         (\<lambda>_ s. (s\<lparr>ld_command_enabled := False, ld_bilateral_requested := False\<rparr>,
           json_message ''leader disabled'')) srv;
       srv = register_handler ''enable'' (\<lambda>_ s. (s\<lparr>ld_command_enabled := True\<rparr>,
         json_message ''leader enabled'')) srv;
       srv = register_handler ''init_position'' (\<lambda>_ s. (s\<lparr>ld_init_requested := True\<rparr>,
         json_message ''leader init_position requested'')) srv;
       srv = register_handler ''goto_pose'' handle_leader_goto srv;
       srv = register_handler ''estop''
         (\<lambda>_ s. (s\<lparr>ld_command_enabled := False, ld_bilateral_requested := False,
             ld_keep_running := False\<rparr>, json_message ''leader estop requested'')) srv;
       srv = register_handler ''shutdown''
         (\<lambda>_ s. (s\<lparr>ld_command_enabled := False, ld_keep_running := False\<rparr>,
           json_message ''leader shutdown requested'')) srv
     in srv)"

section \<open>The loop body\<close>

record LeaderCycleEnv =
  lv_init :: ThreadEnv
  lv_goto :: ThreadEnv
  lv_now_r :: u64
  lv_now_l :: u64
  lv_readings_r :: Readings
  lv_readings_l :: Readings
  lv_mock_now :: u64
  lv_gate_time :: int
  lv_gate :: GateEnv
  lv_send_time_r :: u64
  lv_send_time_l :: u64
  lv_sent_r :: int
  lv_sent_l :: int
  lv_steady :: int
  lv_telemetry_now :: u64

definition leader_frames ::
    "can_command list \<Rightarrow> can_command list \<Rightarrow> leader_output list" where
  "leader_frames cr cl = map (Leader_Can RIGHT) cr @ map (Leader_Can LEFT) cl"

definition leader_move ::
    "dbl list \<Rightarrow> dbl list \<Rightarrow> dbl list \<Rightarrow> dbl list \<Rightarrow> ThreadEnv \<Rightarrow> LeaderState \<Rightarrow>
     (LeaderState \<times> leader_output list) result" where
  "leader_move pr gr pl gl env s =
     (case ld_arms s of
        None \<Rightarrow> Inr (s, [])
      | Some arms \<Rightarrow> res_bind (move_arms pr gr pl gl env arms) (\<lambda>(arms, cr, cl).
          Inr (s\<lparr>ld_arms := Some arms\<rparr>, leader_frames cr cl)))"

definition leader_init_request ::
    "LeaderCycleEnv \<Rightarrow> LeaderState \<Rightarrow> (LeaderState \<times> leader_output list) result" where
  "leader_init_request env s =
     (if \<not> ld_init_requested s then Inr (s, [])
      else leader_move home_pose [Fin 0] home_pose [Fin 0] (lv_init env)
        (s\<lparr>ld_init_requested := False\<rparr>))"

definition leader_goto_request ::
    "LeaderCycleEnv \<Rightarrow> LeaderState \<Rightarrow> (LeaderState \<times> leader_output list) result" where
  "leader_goto_request env s =
     (if \<not> ld_goto_requested s then Inr (s, [])
      else
        let s = s\<lparr>ld_goto_requested := False\<rparr>; t = ld_goto_target s
        in if length t = 16
           then leader_move (take 7 t) [t ! 7] (take 7 (drop 8 t)) [t ! 15] (lv_goto env) s
           else Inr (s, []))"

text \<open>Both arms in turn, and the two packets with the joints filled in.\<close>

definition leader_joints ::
    "LeaderConfig \<Rightarrow> LeaderCycleEnv \<Rightarrow> LeaderState \<Rightarrow>
     (LeaderState \<times> (dbl TeleopPacket \<times> dbl TeleopPacket) \<times> leader_output list) result" where
  "leader_joints cfg env s =
     (let zero = teleop_zero (Fin 0); rate = la_rate_hz (lc_args cfg); req = ld_bilateral_requested s
      in case ld_arms s of
           Some (ar, al) \<Rightarrow>
             res_bind (step_side (lc_bi cfg) rate req (lv_now_r env) (lv_readings_r env)
               (ld_side_r s, ar)) (\<lambda>((sr, ar), cr).
             res_bind (step_side (lc_bi cfg) rate req (lv_now_l env) (lv_readings_l env)
               (ld_side_l s, al)) (\<lambda>((sl, al), cl).
               Inr (s\<lparr>ld_side_r := sr, ld_side_l := sl, ld_arms := Some (ar, al)\<rparr>,
                    (fill_command (rs_response (ss_arm (snd ar))) (rs_response (ss_hand (snd ar))) zero,
                     fill_command (rs_response (ss_arm (snd al))) (rs_response (ss_hand (snd al))) zero),
                    leader_frames cr cl)))
         | None \<Rightarrow>
             Inr (s, (mock_command sin (lv_mock_now env) zero, mock_command cos (lv_mock_now env) zero), []))"

text \<open>The continuous gate: the link every recheck interval, the feedback every 100 ms.\<close>

definition leader_gate :: "LeaderConfig \<Rightarrow> LeaderCycleEnv \<Rightarrow> LeaderState \<Rightarrow> LeaderState result" where
  "leader_gate cfg env s =
     (if \<not> ld_bilateral_requested s then Inr s
      else
        let t = lv_gate_time env; b = lc_bi cfg
        in res_bind (if t \<ge> ld_next_link_check s then
               res_bind (ns_of_seconds (bs_link_recheck_s b)) (\<lambda>dt.
                 Inr ((refresh_leader_link b (ge_link (lv_gate env)) s)\<lparr>ld_next_link_check := t + dt\<rparr>))
             else Inr s) (\<lambda>s.
           Inr (if t \<ge> ld_next_gate_check s then
                  s\<lparr>ld_bilateral_requested := br_ok (gate_now b (lv_gate env) s),
                    ld_next_gate_check := t + 100000000\<rparr>
                else s)))"

definition send_command ::
    "ArmSide \<Rightarrow> u64 \<Rightarrow> int \<Rightarrow> dbl TeleopPacket \<Rightarrow> UdpSender \<Rightarrow> UdpSender \<times> leader_output list" where
  "send_command side send_time sent p sender =
     (let (sender, ok, d) = udp_send sent (teleop_encode send_time (teleop_bits p)) sender
      in (sender, case d of Some d \<Rightarrow> [Command_Datagram side d] | None \<Rightarrow> []))"

definition leader_send ::
    "LeaderCycleEnv \<Rightarrow> dbl TeleopPacket \<times> dbl TeleopPacket \<Rightarrow> LeaderState \<Rightarrow>
     LeaderState \<times> (dbl TeleopPacket \<times> dbl TeleopPacket) \<times> leader_output list" where
  "leader_send env pkts s =
     (let mode = (if ld_bilateral_requested s then BILATERAL else UNILATERAL);
          pr = address_command (ld_seq s) RIGHT mode (ld_command_enabled s) (fst pkts);
          pl = address_command (ld_seq s) LEFT mode (ld_command_enabled s) (snd pkts);
          (sr, out_r) = send_command RIGHT (lv_send_time_r env) (lv_sent_r env) pr (ld_sender_r s);
          (sl, out_l) = send_command LEFT (lv_send_time_l env) (lv_sent_l env) pl (ld_sender_l s)
      in (s\<lparr>ld_seq := ld_seq s + 1, ld_sender_r := sr, ld_sender_l := sl\<rparr>, (pr, pl), out_r @ out_l))"

text \<open>One arm of the telemetry: up to seven joints from \<open>base\<close>, the gripper at \<open>base + 7\<close>.\<close>

definition telemetry_arm :: "nat \<Rightarrow> dbl TeleopPacket \<Rightarrow> u32 TelemetryPacket \<Rightarrow> u32 TelemetryPacket" where
  "telemetry_arm base p t =
     (let n = min (unat (tp_arm_dof p)) 7;
          t = t\<lparr>te_observation_state := overwrite base (map bits32_of_dbl (take n (tp_arm_pos p)))
                  (te_observation_state t),
                te_observation_velocity := overwrite base (map bits32_of_dbl (take n (tp_arm_vel p)))
                  (te_observation_velocity t)\<rparr>
      in if tp_hand_dof p > 0 then
           t\<lparr>te_observation_state :=
               (te_observation_state t)[base + 7 := bits32_of_dbl (tp_hand_pos p ! 0)],
             te_observation_velocity :=
               (te_observation_velocity t)[base + 7 := bits32_of_dbl (tp_hand_vel p ! 0)]\<rparr>
         else t)"

definition leader_telemetry ::
    "u64 \<Rightarrow> bool \<Rightarrow> dbl TeleopPacket \<times> dbl TeleopPacket \<Rightarrow> u32 TelemetryPacket" where
  "leader_telemetry now enabled pkts =
     (let t = (telemetry_zero 0)\<lparr>te_monotonic_time_ns := now, te_robot_type := 1,
            te_control_mode := 1, te_enabled := (if enabled then 1 else 0), te_estop := 0,
            te_state_dim := 16, te_action_dim := 16, te_velocity_dim := 16,
            te_watchdog_state := 3, te_safety_state := 3\<rparr>
      in telemetry_arm 8 (snd pkts) (telemetry_arm 0 (fst pkts) t))"

definition leader_publish ::
    "LeaderConfig \<Rightarrow> LeaderCycleEnv \<Rightarrow> dbl TeleopPacket \<times> dbl TeleopPacket \<Rightarrow> LeaderState \<Rightarrow>
     (LeaderState \<times> leader_output list) result" where
  "leader_publish cfg env pkts s =
     (if la_publish_telemetry (lc_args cfg) \<and> lv_steady env \<ge> ld_next_telemetry s then
        res_bind (ns_of_seconds (Fin 1 div la_telemetry_rate_hz (lc_args cfg))) (\<lambda>dt.
          let (p, d) = publish (leader_telemetry (lv_telemetry_now env) (ld_command_enabled s) pkts)
                (ld_publisher s)
          in Inr (s\<lparr>ld_publisher := p, ld_next_telemetry := lv_steady env + dt\<rparr>,
                  case d of Some d \<Rightarrow> [Leader_Telemetry d] | None \<Rightarrow> []))
      else Inr (s, []))"

definition leader_cycle ::
    "LeaderConfig \<Rightarrow> LeaderCycleEnv \<Rightarrow> LeaderState \<Rightarrow> (LeaderState \<times> leader_output list) result" where
  "leader_cycle cfg env s =
     res_bind (leader_init_request env s) (\<lambda>(s, out0).
     res_bind (leader_goto_request env s) (\<lambda>(s, out1).
     res_bind (leader_joints cfg env s) (\<lambda>(s, pkts, out2).
     res_bind (leader_gate cfg env s) (\<lambda>s.
       let (s, pkts, out3) = leader_send env pkts s
       in res_bind (leader_publish cfg env pkts s) (\<lambda>(s, out4).
          res_bind (ns_of_seconds (Fin 1 div la_rate_hz (lc_args cfg))) (\<lambda>_.
            Inr (s, out0 @ out1 @ out2 @ out3 @ out4)))))))"

definition leader_shutdown :: "LeaderState \<Rightarrow> leader_output list" where
  "leader_shutdown s =
     (if ld_arms s \<noteq> None then leader_frames [Disable_All] [Disable_All] else [])"

section \<open>Runs\<close>

text \<open>\<open>Feedback\<close>: a datagram on the receiver of a side, with the two clocks of the callback.\<close>

datatype leader_event =
    Feedback ArmSide u64 u64 "u8 list"
  | Leader_Signal
  | Leader_Line GateEnv "string option"
  | Leader_Cycle LeaderCycleEnv

definition take_feedback :: "u64 \<Rightarrow> u64 \<Rightarrow> u8 list \<Rightarrow> LeaderSide \<Rightarrow> LeaderSide" where
  "take_feedback sys_now now d side = side\<lparr>ls_buffer := feedback_callback sys_now now d (ls_buffer side)\<rparr>"

fun leader_react ::
    "LeaderConfig \<Rightarrow> leader_event \<Rightarrow> LeaderState \<Rightarrow> (LeaderState \<times> leader_output list) result" where
  "leader_react cfg (Feedback side sys_now now d) s =
     Inr (if bs_feedback_enabled (lc_bi cfg) then
            (case side of
               RIGHT \<Rightarrow> s\<lparr>ld_side_r := take_feedback sys_now now d (ld_side_r s)\<rparr>
             | LEFT \<Rightarrow> s\<lparr>ld_side_l := take_feedback sys_now now d (ld_side_l s)\<rparr>)
          else s, [])"
| "leader_react cfg Leader_Signal s = Inr (s\<lparr>ld_keep_running := False\<rparr>, [])"
| "leader_react cfg (Leader_Line env received) s =
     (let (s, r) = serve_client (rc_handlers (leader_server cfg env)) received s
      in Inr (s, [Leader_Response r]))"
| "leader_react cfg (Leader_Cycle env) s =
     (if ld_keep_running s then leader_cycle cfg env s
      else Inr (s\<lparr>ld_exited := True\<rparr>, leader_shutdown s))"

definition leader_run ::
    "LeaderConfig \<Rightarrow> leader_event list \<Rightarrow> LeaderState \<Rightarrow> (LeaderState \<times> leader_output list) result" where
  "leader_run cfg = app_run (leader_react cfg) ld_exited"

section \<open>From the command line to the first iteration\<close>

text \<open>
  The environment's answers during start-up, as for the follower; the feedback buffers, the
  bilateral settings and both arms come before the sockets are opened.
\<close>

record LeaderStartEnv =
  lt_interfaces :: LinkEnv
  lt_yaml :: "string + YamlLoader"
  lt_sender_r :: UdpSender
  lt_sender_l :: UdpSender
  lt_arm_r :: ArmEnv
  lt_arm_l :: ArmEnv
  lt_telemetry_socket :: bool
  lt_link :: LinkEnv
  lt_receiver_sockets :: "bool \<times> bool"
  lt_listen :: ListenEnv
  lt_telemetry_time :: int
  lt_link_time :: int
  lt_gate_time :: int

definition leader_initial ::
    "LeaderArgs \<Rightarrow> LeaderStartEnv \<Rightarrow> BilateralSettings \<Rightarrow> (arm \<times> arm) option \<Rightarrow> LeaderState result" where
  "leader_initial a env b arms =
     res_bind (fb_new (bs_eval_window_s b)) (\<lambda>buf.
       let side = \<lparr> ls_buffer = buf, ls_engager = engager_new (bs_engager b), ls_cmd = leader_cmd_new \<rparr>;
           (link, result) = (if bs_feedback_enabled b then refresh_link b (lt_link env)
                             else (link_info_new, gate_result_new))
       in Inr \<lparr> ld_exited = False, ld_keep_running = True,
            ld_command_enabled = la_initial_enable a, ld_bilateral_requested = False,
            ld_init_requested = False, ld_goto_requested = False, ld_goto_target = [],
            ld_side_r = side, ld_side_l = side, ld_arms = arms, ld_link = link,
            ld_link_result = result, ld_next_link_check = lt_link_time env,
            ld_next_gate_check = lt_gate_time env, ld_seq = 0,
            ld_sender_r = lt_sender_r env, ld_sender_l = lt_sender_l env,
            ld_publisher = fst (publisher_start (lt_telemetry_socket env) publisher_new),
            ld_next_telemetry = lt_telemetry_time env \<rparr>)"

text \<open>The sockets that are opened after the arms: telemetry, then feedback and the control port.\<close>

definition leader_telemetry_ok :: "LeaderArgs \<Rightarrow> LeaderStartEnv \<Rightarrow> bool" where
  "leader_telemetry_ok a env \<longleftrightarrow>
     la_publish_telemetry a \<longrightarrow> snd (publisher_start (lt_telemetry_socket env) publisher_new)"

definition leader_sockets_ok :: "LeaderArgs \<Rightarrow> BilateralSettings \<Rightarrow> LeaderStartEnv \<Rightarrow> bool" where
  "leader_sockets_ok a b env \<longleftrightarrow>
     leader_telemetry_ok a env
     \<and> (bs_feedback_enabled b \<longrightarrow>
          fst (udp_start_raw (udp_receiver_new (fst (lt_receiver_sockets env))))
          \<and> fst (udp_start_raw (udp_receiver_new (snd (lt_receiver_sockets env)))))
     \<and> (la_control_port a > 0 \<longrightarrow>
          snd (rc_start (lt_listen env) (rc_new :: LeaderState RuntimeControlServer)))"

lemma leader_sockets_telemetry: "leader_sockets_ok a b env \<Longrightarrow> leader_telemetry_ok a env"
  by (simp add: leader_sockets_ok_def)

text \<open>\<open>None\<close>: \<open>main\<close> returned 1. The first component: what was sent to the two buses.\<close>

definition leader_start ::
    "LeaderArgs \<Rightarrow> LeaderStartEnv \<Rightarrow>
     ((can_command list \<times> can_command list) \<times> (LeaderConfig \<times> LeaderState) option) result" where
  "leader_start a env =
     (if bind_address (lt_interfaces env) (la_interface_name a) (la_bind_ip a) = None
      then Inr (([], []), None)
      else
        let b = load_bilateral_settings ''config/leader.yaml'' (lt_yaml env);
            go = (\<lambda>cmds arms.
              if \<not> leader_telemetry_ok a env then Inr (cmds, None)
              else res_bind (leader_initial a env b arms) (\<lambda>s.
                Inr (cmds, if leader_sockets_ok a b env
                           then Some (\<lparr> lc_args = a, lc_bi = b \<rparr>, s) else None)))
        in if la_mock a then go ([], []) None
           else res_bind (leader_hardware a b (lt_yaml env) (lt_arm_r env) (lt_arm_l env))
             (\<lambda>(cmds, r). case r of None \<Rightarrow> Inr (cmds, None) | Some arms \<Rightarrow> go cmds (Some arms)))"

end
