(* ===== verification/Leader_Runs.thy ===== *)
theory Leader_Runs
  imports Leader_App
begin

text \<open>
  Whole runs of the bimanual leader: when the bilateral mode can be on, when force can be rendered
  on a leader arm, what the packets say, and what a failed start leaves behind.
\<close>

section \<open>The parts of an iteration\<close>

definition leader_side :: "ArmSide \<Rightarrow> LeaderState \<Rightarrow> LeaderSide" where
  "leader_side side s = (case side of RIGHT \<Rightarrow> ld_side_r s | LEFT \<Rightarrow> ld_side_l s)"

definition leader_arm :: "ArmSide \<Rightarrow> LeaderState \<Rightarrow> arm option" where
  "leader_arm side s = map_option (\<lambda>(r, l). case side of RIGHT \<Rightarrow> r | LEFT \<Rightarrow> l) (ld_arms s)"

definition leader_now :: "ArmSide \<Rightarrow> LeaderCycleEnv \<Rightarrow> u64" where
  "leader_now side env = (case side of RIGHT \<Rightarrow> lv_now_r env | LEFT \<Rightarrow> lv_now_l env)"

text \<open>The two blocks of requests at the top of the loop.\<close>

definition leader_requests ::
    "LeaderCycleEnv \<Rightarrow> LeaderState \<Rightarrow> (LeaderState \<times> leader_output list) result" where
  "leader_requests env s =
     res_bind (leader_init_request env s) (\<lambda>(s, out0).
     res_bind (leader_goto_request env s) (\<lambda>(s, out1). Inr (s, out0 @ out1)))"

lemma leader_cycle_eq:
  "leader_cycle cfg env s =
     res_bind (leader_requests env s) (\<lambda>(s1, out1).
     res_bind (leader_joints cfg env s1) (\<lambda>(s2, pkts, out2).
     res_bind (leader_gate cfg env s2) (\<lambda>s3.
     res_bind (leader_publish cfg env (fst (snd (leader_send env pkts s3))) (fst (leader_send env pkts s3)))
       (\<lambda>(s4, out4).
     res_bind (ns_of_seconds (Fin 1 div la_rate_hz (lc_args cfg))) (\<lambda>_.
       Inr (s4, out1 @ out2 @ snd (snd (leader_send env pkts s3)) @ out4))))))"
  by (auto simp: leader_cycle_def leader_requests_def res_bind_def split_beta Let_def split: sum.splits)

lemma leader_cycle_parts:
  assumes "leader_cycle cfg env s = Inr (s', out)"
  obtains s1 s2 s3 s4 pkts pkts' out1 out2 out3 out4 where
    "leader_requests env s = Inr (s1, out1)" "leader_joints cfg env s1 = Inr (s2, pkts, out2)"
    "leader_gate cfg env s2 = Inr s3" "leader_send env pkts s3 = (s4, pkts', out3)"
    "leader_publish cfg env pkts' s4 = Inr (s', out4)" "out = out1 @ out2 @ out3 @ out4"
  using assms
  by (clarsimp simp: leader_cycle_eq res_bind_eq_Inr) (rule that, auto simp: prod_eq_iff)

text \<open>What a block leaves alone: the bilateral request, the sequence number and the two sides.\<close>

definition same_core :: "LeaderState \<Rightarrow> LeaderState \<Rightarrow> bool" where
  "same_core s s' \<longleftrightarrow> ld_bilateral_requested s' = ld_bilateral_requested s
     \<and> ld_command_enabled s' = ld_command_enabled s \<and> ld_seq s' = ld_seq s
     \<and> ld_sender_r s' = ld_sender_r s \<and> ld_sender_l s' = ld_sender_l s
     \<and> ld_link_result s' = ld_link_result s \<and> ld_next_link_check s' = ld_next_link_check s
     \<and> ld_next_gate_check s' = ld_next_gate_check s"

lemma leader_move_core:
  "leader_move pr gr pl gl env s = Inr (s', out) \<Longrightarrow>
     same_core s s' \<and> ld_side_r s' = ld_side_r s \<and> ld_side_l s' = ld_side_l s"
  by (auto simp: leader_move_def same_core_def res_bind_eq_Inr split: option.splits)

lemma leader_init_core:
  "leader_init_request env s = Inr (s', out) \<Longrightarrow>
     same_core s s' \<and> ld_side_r s' = ld_side_r s \<and> ld_side_l s' = ld_side_l s"
  by (auto simp: leader_init_request_def same_core_def dest!: leader_move_core split: if_splits)

lemma leader_goto_core:
  "leader_goto_request env s = Inr (s', out) \<Longrightarrow>
     same_core s s' \<and> ld_side_r s' = ld_side_r s \<and> ld_side_l s' = ld_side_l s"
  by (auto simp: leader_goto_request_def Let_def same_core_def dest!: leader_move_core split: if_splits)

lemma leader_requests_core:
  assumes "leader_requests env s = Inr (s', out)"
  shows "same_core s s'" "leader_side side s' = leader_side side s"
  using assms
  by (auto simp: leader_requests_def res_bind_eq_Inr same_core_def leader_side_def
      dest!: leader_init_core leader_goto_core split: ArmSide.splits)

lemma leader_joints_core: "leader_joints cfg env s = Inr (s', pkts, out) \<Longrightarrow> same_core s s'"
  by (auto simp: leader_joints_def same_core_def res_bind_eq_Inr Let_def split: option.splits)

lemma leader_gate_sides: "leader_gate cfg env s = Inr s' \<Longrightarrow> leader_side side s' = leader_side side s"
  by (cases side)
    (auto simp: leader_gate_def leader_side_def refresh_leader_link_def res_bind_eq_Inr Let_def split_beta
      split: if_splits)

lemma leader_send_sides:
  "leader_side side (fst (leader_send env pkts s)) = leader_side side s"
  by (cases side) (simp_all add: leader_send_def leader_side_def Let_def split_beta)

lemma leader_publish_sides:
  "leader_publish cfg env pkts s = Inr (s', out) \<Longrightarrow>
     leader_side side s' = leader_side side s
     \<and> ld_bilateral_requested s' = ld_bilateral_requested s \<and> ld_seq s' = ld_seq s
     \<and> ld_command_enabled s' = ld_command_enabled s"
  by (cases side)
    (auto simp: leader_publish_def leader_side_def res_bind_eq_Inr Let_def split_beta split: if_splits)

section \<open>Force on one arm\<close>

text \<open>An engager that renders nothing and has not left its waiting states.\<close>

definition released :: "BilateralEngager \<Rightarrow> bool" where
  "released e \<longleftrightarrow> be_state e \<in> {ENG_OFF, WAIT_ALIGN} \<and> \<not> engager_active e"

lemma released_left:
  assumes "released e" and "\<not> released (engager_update want aligned dt e)"
  shows "want \<and> aligned"
  using assms
  by (auto simp: released_def engager_active_def engager_update_def Let_def split: if_splits)

text \<open>What the step of one arm does to the buffer and the engager of its side.\<close>

lemma step_side_engager:
  assumes "step_side b rate req now rd (sd, a) = Inr ((sd', a'), cmds)"
  shows "ls_buffer sd' = ls_buffer sd \<and> (\<exists>aligned.
    ls_engager sd' = engager_update (side_wants b req (fresh_feedback b now (ls_buffer sd))) aligned
      (Fin 1 div rate) (ls_engager sd)
    \<and> (aligned \<longrightarrow> (\<exists>fb. fresh_feedback b now (ls_buffer sd) = Some fb
         \<and> side_aligned b (rs_response (ss_arm (snd a))) (rs_response (ss_hand (snd a))) fb = Inr True)))"
  using assms
  by (cases a)
    (auto simp: step_side_def res_bind_eq_Inr Let_def split: option.splits)

text \<open>\<open>aligned_with\<close>: the follower has every joint of the arm, within its tolerance.\<close>

definition aligned_with :: "BilateralSettings \<Rightarrow> RobotSystemState \<Rightarrow> dbl FeedbackPacket \<Rightarrow> bool" where
  "aligned_with b rs fb \<longleftrightarrow>
     length (rs_response (ss_arm rs)) \<le> unat (fp_arm_dof fb)
     \<and> length (rs_response (ss_hand rs)) \<le> unat (fp_hand_dof fb)
     \<and> (\<forall>i < length (rs_response (ss_arm rs)).
        fabs (js_position (rs_response (ss_arm rs) ! i) - fp_arm_pos fb ! i) \<le> bs_engage_max_error_rad b)
     \<and> (\<forall>i < length (rs_response (ss_hand rs)).
        fabs (js_position (rs_response (ss_hand rs) ! i) - fp_hand_pos fb ! i)
          \<le> bs_engage_max_error_gripper b)"

lemma side_aligned_with:
  "side_aligned b (rs_response (ss_arm rs)) (rs_response (ss_hand rs)) fb = Inr True \<Longrightarrow> aligned_with b rs fb"
  by (auto simp: side_aligned_def aligned_with_def res_bind_eq_Inr align_loop_True split: if_splits)

text \<open>The feedback that lets an arm engage: fresh, from a follower that is enabled and not stopped.\<close>

definition usable_feedback ::
    "BilateralSettings \<Rightarrow> u64 \<Rightarrow> u64 FeedbackStateBuffer \<Rightarrow> dbl FeedbackPacket \<Rightarrow> bool" where
  "usable_feedback b now buf fb \<longleftrightarrow>
     (\<exists>p. fb_get_latest buf = Some p \<and> fb = feedback_doubles p)
     \<and> st_age_ms (fb_snapshot now buf) \<ge> Fin 0
     \<and> st_age_ms (fb_snapshot now buf) \<le> bg_max_feedback_age_ms (bs_gate b)
     \<and> fp_enabled fb \<noteq> 0 \<and> fp_estop fb = 0"

lemma side_wants_usable:
  "side_wants b req (fresh_feedback b now buf) \<Longrightarrow>
     bs_render_enabled b \<and> req \<and> (\<exists>fb. fresh_feedback b now buf = Some fb \<and> usable_feedback b now buf fb)"
  by (auto simp: side_wants_def fresh_feedback_def usable_feedback_def Let_def
      split: option.splits if_splits)

lemma step_side_leaves_release:
  assumes "step_side b rate req now rd (sd, a) = Inr ((sd', a'), cmds)"
    and "released (ls_engager sd)" and "\<not> released (ls_engager sd')"
  shows "bs_render_enabled b \<and> req
    \<and> (\<exists>fb. usable_feedback b now (ls_buffer sd) fb \<and> aligned_with b (snd a) fb)"
proof -
  obtain aligned where e: "ls_engager sd' = engager_update (side_wants b req (fresh_feedback b now (ls_buffer sd)))
      aligned (Fin 1 div rate) (ls_engager sd)"
    and al: "aligned \<longrightarrow> (\<exists>fb. fresh_feedback b now (ls_buffer sd) = Some fb
         \<and> side_aligned b (rs_response (ss_arm (snd a))) (rs_response (ss_hand (snd a))) fb = Inr True)"
    using step_side_engager [OF assms(1)] by blast
  have "side_wants b req (fresh_feedback b now (ls_buffer sd))" and aligned
    using released_left [OF assms(2), of _ aligned] assms(3) by (auto simp: e)
  with al show ?thesis
    by (fastforce dest!: side_wants_usable side_aligned_with)
qed

lemma leader_joints_side:
  assumes "leader_joints cfg env s = Inr (s', pkts, out)"
  shows "ld_arms s = None \<and> leader_side side s' = leader_side side s
    \<or> (\<exists>a a' rd cmds. leader_arm side s = Some a
        \<and> step_side (lc_bi cfg) (la_rate_hz (lc_args cfg)) (ld_bilateral_requested s)
            (leader_now side env) rd (leader_side side s, a) = Inr ((leader_side side s', a'), cmds))"
  using assms
  by (cases side)
    (auto simp: leader_joints_def leader_side_def leader_arm_def leader_now_def res_bind_eq_Inr Let_def
      split: option.splits, blast+)

lemma leader_cycle_side:
  assumes "leader_cycle cfg env s = Inr (s', out)"
  shows "leader_side side s' = leader_side side s
    \<or> (\<exists>s1 out1 a a' rd cmds. leader_requests env s = Inr (s1, out1) \<and> leader_arm side s1 = Some a
        \<and> step_side (lc_bi cfg) (la_rate_hz (lc_args cfg)) (ld_bilateral_requested s)
            (leader_now side env) rd (leader_side side s, a) = Inr ((leader_side side s', a'), cmds))"
proof -
  obtain s1 s2 s3 s4 pkts pkts' out1 out2 out3 out4 where
    c: "leader_requests env s = Inr (s1, out1)" "leader_joints cfg env s1 = Inr (s2, pkts, out2)"
    "leader_gate cfg env s2 = Inr s3" "leader_send env pkts s3 = (s4, pkts', out3)"
    "leader_publish cfg env pkts' s4 = Inr (s', out4)"
    by (rule leader_cycle_parts [OF assms]) (rule that)
  have "leader_side side s' = leader_side side s2"
    using leader_publish_sides [OF c(5)] leader_send_sides [of side env pkts s3] leader_gate_sides [OF c(3)]
    by (simp add: c(4))
  then show ?thesis
    using leader_joints_side [OF c(2), of side] leader_requests_core [OF c(1)] c(1)
    by (auto simp: same_core_def)
qed

lemma leader_line_sides:
  assumes "rc_handlers (leader_server cfg env) c = Some h"
  shows "leader_side side (fst (h args s)) = leader_side side s"
  using assms
  by (cases side)
    (auto simp: leader_server_def register_handler_def rc_new_def Let_def handle_leader_goto_def
      handle_bilateral_enable_def refresh_leader_link_def leader_side_def split_beta split: if_splits)

text \<open>Only an iteration can start to render force on an arm.\<close>

lemma leader_react_release:
  assumes "leader_react cfg e s = Inr (s', out)"
    and "released (ls_engager (leader_side side s))" and "\<not> released (ls_engager (leader_side side s'))"
  shows "\<exists>env. e = Leader_Cycle env \<and> leader_cycle cfg env s = Inr (s', out)"
proof (cases e)
  case (Feedback sd sys now d)
  have "ls_engager (leader_side side s') = ls_engager (leader_side side s)"
    using assms(1)
    by (cases sd; cases side) (auto simp: Feedback leader_side_def take_feedback_def split: if_splits)
  with assms(2,3) show ?thesis by simp
next
  case Leader_Signal
  with assms show ?thesis by (auto simp: leader_side_def split: ArmSide.splits)
next
  case (Leader_Line env received)
  have "leader_side side s' = leader_side side s"
    using assms(1)
    by (auto simp: Leader_Line serve_client_def handle_command_def split_beta Let_def leader_line_sides
        split: option.splits)
  with assms(2,3) show ?thesis by simp
next
  case (Leader_Cycle env)
  with assms show ?thesis
    by (auto simp: leader_side_def split: if_splits ArmSide.splits)
qed

text \<open>
  C8: force needs alignment. If a run of the leader begins with the engager of an arm released and
  ends with it past its waiting states, as it is whenever force is rendered on that arm, then the
  run contains an iteration in which the bilateral mode was requested, force rendering configured, the newest feedback of that side
  fresh and from a follower that is enabled and not stopped, and every joint and the gripper of
  the leader arm within the configured tolerance of the follower's.
\<close>

theorem leader_force_needs_alignment:
  assumes "leader_run cfg es s0 = Inr (s, out)"
    and "released (ls_engager (leader_side side s0))"
    and "\<not> released (ls_engager (leader_side side s))"
  shows "\<exists>as env bs s1 out1 s2 out2 a fb. es = as @ Leader_Cycle env # bs
    \<and> leader_run cfg as s0 = Inr (s1, out1) \<and> leader_requests env s1 = Inr (s2, out2)
    \<and> leader_arm side s2 = Some a
    \<and> ld_bilateral_requested s1 \<and> bs_render_enabled (lc_bi cfg)
    \<and> usable_feedback (lc_bi cfg) (leader_now side env) (ls_buffer (leader_side side s1)) fb
    \<and> aligned_with (lc_bi cfg) (snd a) fb"
proof -
  let ?P = "\<lambda>s. \<not> released (ls_engager (leader_side side s))"
  obtain as e bs s1 out1 s2 out2 where run: "es = as @ e # bs" "leader_run cfg as s0 = Inr (s1, out1)"
    and step: "\<not> ?P s1" "leader_react cfg e s1 = Inr (s2, out2)" "?P s2"
    using app_run_switch [of "leader_react cfg" ld_exited es s0 s out ?P] assms
    by (auto simp: leader_run_def)
  obtain env where env: "e = Leader_Cycle env" "leader_cycle cfg env s1 = Inr (s2, out2)"
    using leader_react_release [OF step(2)] step(1,3) by blast
  have "leader_side side s2 \<noteq> leader_side side s1" using step(1,3) by auto
  then obtain s1' out1' a a' rd cmds where
    "leader_requests env s1 = Inr (s1', out1')" "leader_arm side s1' = Some a" and
    st: "step_side (lc_bi cfg) (la_rate_hz (lc_args cfg)) (ld_bilateral_requested s1)
       (leader_now side env) rd (leader_side side s1, a) = Inr ((leader_side side s2, a'), cmds)"
    using leader_cycle_side [OF env(2), of side] by blast
  with step_side_leaves_release [OF st] step(1,3) run env(1) show ?thesis
    by blast
qed

section \<open>The bilateral request\<close>

text \<open>The feedback of both arms passes the gate, with the clocks of \<open>genv\<close>.\<close>

definition feedback_gate_open :: "BilateralSettings \<Rightarrow> GateEnv \<Rightarrow> LeaderState \<Rightarrow> bool" where
  "feedback_gate_open b genv s \<longleftrightarrow> bs_feedback_enabled b
     \<and> br_ok (check_feedback (bs_gate b) ''right'' (fb_snapshot (ge_now_r genv) (ls_buffer (ld_side_r s)))
         (fb_get_latest (ls_buffer (ld_side_r s))))
     \<and> br_ok (check_feedback (bs_gate b) ''left'' (fb_snapshot (ge_now_l genv) (ls_buffer (ld_side_l s)))
         (fb_get_latest (ls_buffer (ld_side_l s))))"

lemma gate_now_ok:
  "br_ok (gate_now b genv s) \<longleftrightarrow> br_reasons (ld_link_result s) = [] \<and> feedback_gate_open b genv s"
  by (auto simp: gate_now_def evaluate_gate_ok feedback_gate_open_def)

lemma feedback_gate_open_cong:
  assumes "\<And>side. ls_buffer (leader_side side s') = ls_buffer (leader_side side s)"
  shows "feedback_gate_open b genv s' = feedback_gate_open b genv s"
  using assms [of RIGHT] assms [of LEFT] by (simp add: feedback_gate_open_def leader_side_def)

lemma leader_joints_buffers:
  "leader_joints cfg env s = Inr (s', pkts, out) \<Longrightarrow>
     ls_buffer (leader_side side s') = ls_buffer (leader_side side s)"
  using leader_joints_side [of cfg env s s' pkts out side] by (auto dest!: step_side_engager)

lemma feedback_gate_open_updates [simp]:
  "feedback_gate_open b genv (s\<lparr>ld_link := x, ld_link_result := y\<rparr>) = feedback_gate_open b genv s"
  "feedback_gate_open b genv (s\<lparr>ld_next_link_check := t\<rparr>) = feedback_gate_open b genv s"
  by (simp_all add: feedback_gate_open_def)

lemma leader_gate_keeps:
  "leader_gate cfg env s = Inr s' \<Longrightarrow>
     ld_seq s' = ld_seq s \<and> ld_command_enabled s' = ld_command_enabled s
     \<and> ld_sender_r s' = ld_sender_r s \<and> ld_sender_l s' = ld_sender_l s"
  by (auto simp: leader_gate_def refresh_leader_link_def res_bind_eq_Inr Let_def split_beta split: if_splits)

lemma leader_gate_requested:
  assumes "leader_gate cfg env s = Inr s'"
  shows "ld_bilateral_requested s' \<longleftrightarrow> ld_bilateral_requested s
    \<and> (ld_next_gate_check s \<le> lv_gate_time env \<longrightarrow> feedback_gate_open (lc_bi cfg) (lv_gate env) s
        \<and> (if ld_next_link_check s \<le> lv_gate_time env
           then br_ok (snd (refresh_link (lc_bi cfg) (ge_link (lv_gate env))))
           else br_reasons (ld_link_result s) = []))"
proof (cases "ld_bilateral_requested s")
  case True
  let ?check = "\<lambda>s. if ld_next_gate_check s \<le> lv_gate_time env
    then s\<lparr>ld_bilateral_requested := br_ok (gate_now (lc_bi cfg) (lv_gate env) s),
           ld_next_gate_check := lv_gate_time env + 100000000\<rparr> else s"
  show ?thesis
  proof (cases "ld_next_link_check s \<le> lv_gate_time env")
    case link: True
    with assms True obtain dt where "s' = ?check ((refresh_leader_link (lc_bi cfg) (ge_link (lv_gate env)) s)
        \<lparr>ld_next_link_check := lv_gate_time env + dt\<rparr>)"
      by (auto simp: leader_gate_def Let_def res_bind_eq_Inr)
    then show ?thesis
      using True link
      by (simp add: refresh_leader_link_def split_beta gate_now_ok refresh_link_ok conj_commute)
  next
    case False
    with assms True have "s' = ?check s"
      by (simp add: leader_gate_def Let_def)
    then show ?thesis
      using True False by (simp add: gate_now_ok conj_commute)
  qed
next
  case False
  with assms show ?thesis by (simp add: leader_gate_def)
qed

lemma leader_cycle_requested:
  assumes "leader_cycle cfg env s = Inr (s', out)" and "ld_bilateral_requested s'"
  shows "ld_bilateral_requested s"
proof -
  obtain s1 s2 s3 s4 pkts pkts' out1 out2 out3 out4 where
    c: "leader_requests env s = Inr (s1, out1)" "leader_joints cfg env s1 = Inr (s2, pkts, out2)"
    "leader_gate cfg env s2 = Inr s3" "leader_send env pkts s3 = (s4, pkts', out3)"
    "leader_publish cfg env pkts' s4 = Inr (s', out4)"
    by (rule leader_cycle_parts [OF assms(1)]) (rule that)
  have "ld_bilateral_requested s4 = ld_bilateral_requested s3"
    using arg_cong [OF c(4), of fst] by (auto simp: leader_send_def Let_def split_beta)
  then show ?thesis
    using assms(2) leader_publish_sides [OF c(5)] leader_gate_requested [OF c(3)]
      leader_joints_core [OF c(2)] leader_requests_core(1) [OF c(1)]
    by (simp add: same_core_def)
qed

lemma leader_handler_keeps:
  assumes "rc_handlers (leader_server cfg env) c = Some h"
  shows "c = ''bilateral_enable'' \<and> h = handle_bilateral_enable cfg env
    \<or> (ld_bilateral_requested (fst (h args s)) \<longrightarrow> ld_bilateral_requested s)"
proof (cases "c = ''bilateral_enable''")
  case True
  with assms show ?thesis
    by (simp add: leader_server_def register_handler_def rc_new_def)
next
  case False
  with assms show ?thesis
    by (simp add: leader_server_def register_handler_def rc_new_def split: if_split_asm)
      (auto simp: handle_leader_goto_def split_beta)
qed

lemma leader_handler_requested:
  assumes "rc_handlers (leader_server cfg env) c = Some h"
    and "\<not> ld_bilateral_requested s" and "ld_bilateral_requested (fst (h args s))"
  shows "c = ''bilateral_enable'' \<and> ld_command_enabled s
    \<and> br_ok (snd (refresh_link (lc_bi cfg) (ge_link env))) \<and> feedback_gate_open (lc_bi cfg) env s"
proof -
  have "c = ''bilateral_enable'' \<and> h = handle_bilateral_enable cfg env"
    using leader_handler_keeps [OF assms(1), of args s] assms(2,3) by blast
  then show ?thesis
    using assms(2,3)
    by (auto simp: handle_bilateral_enable_def refresh_leader_link_def Let_def split_beta gate_now_ok
        refresh_link_ok split: if_splits)
qed

lemma leader_react_requested:
  assumes "leader_react cfg e s = Inr (s', out)"
    and "\<not> ld_bilateral_requested s" and "ld_bilateral_requested s'"
  shows "\<exists>genv line args. e = Leader_Line genv (Some line) \<and> ld_command_enabled s
    \<and> split_command (takeWhile (\<lambda>c. c \<noteq> CHR 0x00) (take 1023 line)) = (''bilateral_enable'', args)
    \<and> br_ok (snd (refresh_link (lc_bi cfg) (ge_link genv))) \<and> feedback_gate_open (lc_bi cfg) genv s"
proof (cases e)
  case (Feedback sd sys now d)
  with assms show ?thesis by (cases sd) (auto split: if_splits)
next
  case Leader_Signal
  with assms show ?thesis by auto
next
  case (Leader_Line genv received)
  then obtain line where line: "received = Some line" "line \<noteq> []"
    using assms by (cases received) (auto simp: serve_client_def Let_def split: if_splits)
  let ?cmd = "split_command (takeWhile (\<lambda>c. c \<noteq> CHR 0x00) (take 1023 line))"
  obtain h where "rc_handlers (leader_server cfg genv) (fst ?cmd) = Some h"
      "s' = fst (h (snd ?cmd) s)"
    using assms line
    by (auto simp: Leader_Line serve_client_def handle_command_def Let_def split_beta split: option.splits)
  then show ?thesis
    using leader_handler_requested [of cfg genv "fst ?cmd" h s "snd ?cmd"] assms(2,3) line
    by (auto simp: Leader_Line prod_eq_iff)
next
  case (Leader_Cycle env)
  with assms show ?thesis
    by (auto split: if_splits dest: leader_cycle_requested)
qed

text \<open>
  C9: the bilateral mode is gated. If a run of the leader begins without the bilateral request and
  ends with it, then the run contains a \<open>bilateral_enable\<close> command that arrived while the leader was
  enabled, the link to the follower passed a check made for that command, and the
  feedback of both arms passed the gate at that moment.
\<close>

theorem leader_bilateral_needs_gate:
  assumes "leader_run cfg es s0 = Inr (s, out)"
    and "\<not> ld_bilateral_requested s0" and "ld_bilateral_requested s"
  shows "\<exists>as genv line args bs s1 out1. es = as @ Leader_Line genv (Some line) # bs
    \<and> leader_run cfg as s0 = Inr (s1, out1) \<and> ld_command_enabled s1
    \<and> split_command (takeWhile (\<lambda>c. c \<noteq> CHR 0x00) (take 1023 line)) = (''bilateral_enable'', args)
    \<and> br_ok (snd (refresh_link (lc_bi cfg) (ge_link genv))) \<and> feedback_gate_open (lc_bi cfg) genv s1"
proof -
  obtain as e bs s1 out1 s2 out2 where "es = as @ e # bs" "leader_run cfg as s0 = Inr (s1, out1)"
    "\<not> ld_bilateral_requested s1" "leader_react cfg e s1 = Inr (s2, out2)" "ld_bilateral_requested s2"
    using app_run_switch [of "leader_react cfg" ld_exited es s0 s out ld_bilateral_requested] assms
    by (auto simp: leader_run_def)
  with leader_react_requested [of cfg e s1 s2 out2] show ?thesis by blast
qed

section \<open>What the command packets say\<close>

lemma leader_joints_wf:
  "leader_joints cfg env s = Inr (s', pkts, out) \<Longrightarrow> teleop_wf (fst pkts) \<and> teleop_wf (snd pkts)"
  by (auto simp: leader_joints_def res_bind_eq_Inr Let_def split: option.splits)

definition command_datagrams :: "leader_output list \<Rightarrow> (ArmSide \<times> u8 list) set" where
  "command_datagrams out = {(side, d). Command_Datagram side d \<in> set out}"

lemma command_datagrams_simps [simp]:
  "command_datagrams (xs @ ys) = command_datagrams xs \<union> command_datagrams ys"
  "command_datagrams [] = {}" "command_datagrams (leader_frames cr cl) = {}"
  by (auto simp: command_datagrams_def leader_frames_def)

lemma leader_requests_datagrams:
  "leader_requests env s = Inr (s', out) \<Longrightarrow> command_datagrams out = {}"
  by (auto simp: leader_requests_def leader_init_request_def leader_goto_request_def leader_move_def
      res_bind_eq_Inr Let_def split: if_splits option.splits)

lemma leader_joints_datagrams:
  "leader_joints cfg env s = Inr (s', pkts, out) \<Longrightarrow> command_datagrams out = {}"
  by (auto simp: leader_joints_def res_bind_eq_Inr Let_def split: option.splits)

lemma leader_publish_datagrams:
  "leader_publish cfg env pkts s = Inr (s', out) \<Longrightarrow> command_datagrams out = {}"
  by (auto simp: leader_publish_def res_bind_eq_Inr split_beta Let_def command_datagrams_def
      split: if_splits option.splits)

lemma send_command_datagram:
  assumes "send_command side t sent (address_command seq side mode en p) sender = (sender', out)"
    and "teleop_wf p" and "(sd, d) \<in> command_datagrams out" and "mode \<in> {BILATERAL, UNILATERAL}"
  shows "sd = side \<and> teleop_acceptable d \<and> says seq side (mode = BILATERAL) en (teleop_of_bytes d)"
proof -
  have "sd = side \<and> d = teleop_bytes (teleop_encode t (teleop_bits (address_command seq side mode en p)))"
    using assms(1,3)
    by (auto simp: send_command_def udp_send_def udp_send_raw_def command_datagrams_def split_beta Let_def
        split: if_splits)
  with address_command_says [OF assms(2,4)] show ?thesis by simp
qed

lemma leader_send_datagrams:
  assumes "leader_send env pkts s = (s', pkts', out)" and "teleop_wf (fst pkts)" "teleop_wf (snd pkts)"
    and "(side, d) \<in> command_datagrams out"
  shows "teleop_acceptable d
    \<and> says (ld_seq s) side (ld_bilateral_requested s) (ld_command_enabled s) (teleop_of_bytes d)"
proof -
  let ?mode = "if ld_bilateral_requested s then BILATERAL else UNILATERAL"
  let ?pkt = "\<lambda>side p. address_command (ld_seq s) side ?mode (ld_command_enabled s) p"
  obtain sr outr where r: "send_command RIGHT (lv_send_time_r env) (lv_sent_r env) (?pkt RIGHT (fst pkts))
      (ld_sender_r s) = (sr, outr)" by fastforce
  obtain sl outl where l: "send_command LEFT (lv_send_time_l env) (lv_sent_l env) (?pkt LEFT (snd pkts))
      (ld_sender_l s) = (sl, outl)" by fastforce
  have mode: "?mode \<in> {BILATERAL, UNILATERAL}" by simp
  have bi: "(?mode = BILATERAL) = ld_bilateral_requested s" by simp
  have "out = outr @ outl"
    using assms(1) r l by (simp add: leader_send_def Let_def)
  then show ?thesis
    using send_command_datagram [OF r assms(2) _ mode, of side d]
      send_command_datagram [OF l assms(3) _ mode, of side d] assms(4) bi
    by auto
qed

text \<open>
  C10: the command packets of an iteration. Every datagram passes the follower's validation and
  carries the current sequence number, its side, the operator's enable and no stop. It asks for
  the bilateral mode only if that was requested before and, when a check of the gate is due, the
  feedback of both arms and the link passed it.
\<close>

theorem leader_commands_follow_gate:
  assumes "leader_cycle cfg env s = Inr (s', out)" and "Command_Datagram side d \<in> set out"
  shows "\<exists>bilateral. teleop_acceptable d
    \<and> says (ld_seq s) side bilateral (ld_command_enabled s) (teleop_of_bytes d)
    \<and> (bilateral \<longleftrightarrow> ld_bilateral_requested s
        \<and> (ld_next_gate_check s \<le> lv_gate_time env \<longrightarrow> feedback_gate_open (lc_bi cfg) (lv_gate env) s
            \<and> (if ld_next_link_check s \<le> lv_gate_time env
               then br_ok (snd (refresh_link (lc_bi cfg) (ge_link (lv_gate env))))
               else br_reasons (ld_link_result s) = [])))"
proof -
  obtain s1 s2 s3 s4 pkts pkts' out1 out2 out3 out4 where
    c: "leader_requests env s = Inr (s1, out1)" "leader_joints cfg env s1 = Inr (s2, pkts, out2)"
    "leader_gate cfg env s2 = Inr s3" "leader_send env pkts s3 = (s4, pkts', out3)"
    "leader_publish cfg env pkts' s4 = Inr (s', out4)" and out: "out = out1 @ out2 @ out3 @ out4"
    by (rule leader_cycle_parts [OF assms(1)]) (rule that)
  have "(side, d) \<in> command_datagrams out" using assms(2) by (simp add: command_datagrams_def)
  then have "(side, d) \<in> command_datagrams out3"
    using leader_requests_datagrams [OF c(1)] leader_joints_datagrams [OF c(2)]
      leader_publish_datagrams [OF c(5)] by (simp add: out)
  then have "teleop_acceptable d
      \<and> says (ld_seq s3) side (ld_bilateral_requested s3) (ld_command_enabled s3) (teleop_of_bytes d)"
    using leader_send_datagrams [OF c(4)] leader_joints_wf [OF c(2)] by simp
  moreover have core: "same_core s s2"
    using leader_requests_core(1) [OF c(1)] leader_joints_core [OF c(2)] by (simp add: same_core_def)
  moreover have "ld_seq s3 = ld_seq s2 \<and> ld_command_enabled s3 = ld_command_enabled s2"
    using leader_gate_keeps [OF c(3)] by simp
  moreover have "feedback_gate_open (lc_bi cfg) (lv_gate env) s2 = feedback_gate_open (lc_bi cfg) (lv_gate env) s"
    using leader_joints_buffers [OF c(2)] leader_requests_core(2) [OF c(1)]
    by (intro feedback_gate_open_cong) simp
  ultimately show ?thesis
    using leader_gate_requested [OF c(3)]
    by (intro exI [of _ "ld_bilateral_requested s3"]) (simp add: same_core_def)
qed

section \<open>Example\<close>

text \<open>
  A leader whose arms have no joints, about to engage the right arm: the follower's newest
  feedback, received at time 5, reports it enabled.
\<close>

definition example_leader_arm :: arm where
  "example_leader_arm =
     (SetParameter [] [] [] [] [] [] (control_new (Some \<lparr> dy_joints = 0, dy_gravity = (\<lambda>q. q),
        dy_coriolis = (\<lambda>q dq. q) \<rparr>) None ROLE_LEADER ''right_arm''), system_state_new 0 0)"

definition example_feedback :: "u64 FeedbackPacket" where
  "example_feedback = (feedback_zero 0)\<lparr>fp_enabled := 1, fp_link_ok := 1\<rparr>"

definition example_side :: LeaderSide where
  "example_side =
     \<lparr> ls_buffer = fb_update 5 (example_feedback, 2) (fb_init 1000000),
       ls_engager = \<lparr> be_config = \<lparr> ec_ramp_up_s = Fin 1, ec_ramp_down_s = Fin 1 \<rparr>,
         be_state = WAIT_ALIGN, be_scale = Fin 0 \<rparr>,
       ls_cmd = leader_cmd_new \<rparr>"

definition example_leader_state :: LeaderState where
  "example_leader_state =
     \<lparr> ld_exited = False, ld_keep_running = True, ld_command_enabled = True,
       ld_bilateral_requested = True, ld_init_requested = False, ld_goto_requested = False,
       ld_goto_target = [], ld_side_r = example_side, ld_side_l = example_side,
       ld_arms = Some (example_leader_arm, example_leader_arm), ld_link = link_info_new,
       ld_link_result = gate_result_new, ld_next_link_check = 100, ld_next_gate_check = 100,
       ld_seq = 7, ld_sender_r = \<lparr> us_socket_ok = True, us_target_ok = True, us_sent_count = 0 \<rparr>,
       ld_sender_l = \<lparr> us_socket_ok = True, us_target_ok = True, us_sent_count = 0 \<rparr>,
       ld_publisher = publisher_new, ld_next_telemetry = 0 \<rparr>"

definition example_leader_config :: LeaderConfig where
  "example_leader_config =
     \<lparr> lc_args = leader_args_default,
       lc_bi = bilateral_settings_default\<lparr>bs_feedback_enabled := True, bs_render_enabled := True,
         bs_peer_ip := ''10.0.0.1''\<rparr> \<rparr>"

definition example_leader_cycle :: LeaderCycleEnv where
  "example_leader_cycle =
    (let th = \<lparr> th_start_r = no_motors, th_steps_r = (\<lambda>_. no_motors), th_start_l = no_motors,
                th_steps_l = (\<lambda>_. no_motors) \<rparr>
     in \<lparr> lv_init = th, lv_goto = th, lv_now_r = 9, lv_now_l = 9, lv_readings_r = no_motors,
       lv_readings_l = no_motors, lv_mock_now = 0, lv_gate_time = 0,
       lv_gate = \<lparr> ge_now_r = 9, ge_now_l = 9, ge_link = example_link_env,
         ge_init_in_progress = False, ge_goto_in_progress = False \<rparr>,
       lv_send_time_r = 0, lv_send_time_l = 0, lv_sent_r = 224, lv_sent_l = 224, lv_steady = 0,
       lv_telemetry_now = 0 \<rparr>)"

lemma example_leader_fields [simp]:
  "ld_arms example_leader_state = Some (example_leader_arm, example_leader_arm)"
  "ld_side_r example_leader_state = example_side" "ld_side_l example_leader_state = example_side"
  "\<not> ld_init_requested example_leader_state" "\<not> ld_goto_requested example_leader_state"
  "ld_bilateral_requested example_leader_state" "ld_keep_running example_leader_state"
  "\<not> ld_exited example_leader_state" "ld_next_link_check example_leader_state = 100"
  "ld_next_gate_check example_leader_state = 100"
  by (simp_all add: example_leader_state_def)

lemma example_leader_env [simp]:
  "lv_now_r example_leader_cycle = 9" "lv_now_l example_leader_cycle = 9"
  "lv_readings_r example_leader_cycle = no_motors" "lv_readings_l example_leader_cycle = no_motors"
  "lv_gate_time example_leader_cycle = 0"
  "la_rate_hz (lc_args example_leader_config) = Fin 500"
  "\<not> la_publish_telemetry (lc_args example_leader_config)"
  by (simp_all add: example_leader_cycle_def example_leader_config_def leader_args_default_def Let_def)

lemma example_fresh:
  "fresh_feedback (lc_bi example_leader_config) 9 (ls_buffer example_side) = Some (feedback_doubles example_feedback)"
proof -
  let ?b = "ls_buffer example_side"
  have b: "fb_has_data ?b" "fb_window_ns ?b = 1000000" "fb_last_receive_time_ns ?b = 5"
    "fb_latest ?b = Some example_feedback"
    by (simp_all add: example_side_def fb_update_def fb_update_with_def fb_store_def fb_trim_locked_def
        fb_init_def)
  then show ?thesis
    by (simp add: fresh_feedback_def fb_get_latest_def fb_snapshot_def Let_def ms_of_ns_def dbl_of_word_def
        example_leader_config_def bilateral_settings_default_def gate_config_default_def)
qed

lemma example_alignment:
  "side_aligned b [] [] fb = Inr True"
  by (simp add: side_aligned_def)

lemma example_step_side:
  "\<exists>sd a cmds. step_side (lc_bi example_leader_config) (Fin 500) True 9 no_motors
      (example_side, example_leader_arm) = Inr ((sd, a), cmds) \<and> be_state (ls_engager sd) = RAMP_UP"
proof -
  have arm: "rs_response (ss_arm (snd example_leader_arm)) = []"
    "rs_response (ss_hand (snd example_leader_arm)) = []"
    by (simp_all add: example_leader_arm_def system_state_new_def robot_state_new_def)
  have wants: "side_wants (lc_bi example_leader_config) True (Some (feedback_doubles example_feedback))"
    by (simp add: side_wants_def example_leader_config_def feedback_doubles_def example_feedback_def
        feedback_zero_def)
  have cmd: "command_from (feedback_doubles example_feedback) (ls_cmd example_side)
      = Inr (ls_cmd example_side)"
    by (simp add: command_from_def array_prefix_def feedback_doubles_def example_feedback_def
        feedback_zero_def example_side_def leader_cmd_new_def)
  have eng: "engager_update True True d (ls_engager example_side)
      = (ls_engager example_side)\<lparr>be_state := RAMP_UP\<rparr>" for d
    by (simp add: engager_update_def example_side_def)
  have step: "\<exists>x. leader_step None no_motors (fst example_leader_arm) (snd example_leader_arm) = Inr x"
    by (simp add: leader_step_def example_leader_arm_def no_motors_def store_responses_def
        set_all_responses_def Let_def get_gravity_def get_coriolis_def kf_active_def bilateral_active_def
        SetParameter_def control_new_def SetEffortLimits_def system_state_new_def robot_state_new_def
        get_size_def ComputeAllFriction_def)
  have off: "\<not> engager_active ((ls_engager example_side)\<lparr>be_state := RAMP_UP\<rparr>)"
    by (simp add: engager_active_def example_side_def)
  obtain ct rs cmds where st: "leader_step None no_motors (fst example_leader_arm) (snd example_leader_arm)
      = Inr (ct, rs, cmds)"
    using step by (metis surj_pair)
  show ?thesis
    by (simp add: step_side_def split_beta example_fresh wants arm example_alignment cmd eng off st)
qed

lemma example_leader_period: "ns_of_seconds (Fin (1 / 500)) = Inr 2000000"
  by (simp add: ns_of_seconds_def)

lemma example_leader_cycle_engages:
  "\<exists>s' out. leader_cycle example_leader_config example_leader_cycle example_leader_state = Inr (s', out)
    \<and> be_state (ls_engager (leader_side RIGHT s')) = RAMP_UP"
proof -
  obtain sd a cmds where step: "step_side (lc_bi example_leader_config) (Fin 500) True 9 no_motors
      (example_side, example_leader_arm) = Inr ((sd, a), cmds)" "be_state (ls_engager sd) = RAMP_UP"
    using example_step_side by blast
  have req: "leader_requests example_leader_cycle example_leader_state = Inr (example_leader_state, [])"
    by (simp add: leader_requests_def leader_init_request_def leader_goto_request_def)
  obtain s2 pkts out2 where j: "leader_joints example_leader_config example_leader_cycle example_leader_state
      = Inr (s2, pkts, out2)" "leader_side RIGHT s2 = sd"
      "ld_next_link_check s2 = 100" "ld_next_gate_check s2 = 100"
    by (cases a) (simp add: leader_joints_def step leader_side_def Let_def)
  have g: "leader_gate example_leader_config example_leader_cycle s2 = Inr s2"
    using j by (simp add: leader_gate_def)
  show ?thesis
    using step(2) j(2) leader_send_sides [of RIGHT example_leader_cycle pkts s2]
    by (simp add: leader_cycle_eq req j(1) g leader_publish_def example_leader_period)
qed

theorem leader_force_needs_alignment_witness:
  "\<exists>s out fb. leader_run example_leader_config [Leader_Cycle example_leader_cycle] example_leader_state
      = Inr (s, out)
    \<and> usable_feedback (lc_bi example_leader_config) 9 (ls_buffer (leader_side RIGHT example_leader_state)) fb"
proof -
  let ?es = "[Leader_Cycle example_leader_cycle]"
  obtain s out where c: "leader_cycle example_leader_config example_leader_cycle example_leader_state
      = Inr (s, out)" "be_state (ls_engager (leader_side RIGHT s)) = RAMP_UP"
    using example_leader_cycle_engages by blast
  have run: "leader_run example_leader_config ?es example_leader_state = Inr (s, out)"
    using c(1) by (simp add: leader_run_def)
  have "released (ls_engager (leader_side RIGHT example_leader_state))"
    by (simp add: leader_side_def released_def engager_active_def example_side_def)
  then obtain as env bs s1 out1 fb where "?es = as @ Leader_Cycle env # bs"
      "leader_run example_leader_config as example_leader_state = Inr (s1, out1)"
      "usable_feedback (lc_bi example_leader_config) (leader_now RIGHT env) (ls_buffer (leader_side RIGHT s1)) fb"
    using leader_force_needs_alignment [OF run, of RIGHT] c(2) by (auto simp: released_def)
  then have "usable_feedback (lc_bi example_leader_config) 9 (ls_buffer (leader_side RIGHT example_leader_state)) fb"
    by (cases as) (simp_all add: leader_run_def leader_now_def)
  with run show ?thesis by blast
qed

definition example_gate_env :: GateEnv where
  "example_gate_env = \<lparr> ge_now_r = 9, ge_now_l = 9, ge_link = wired_env,
     ge_init_in_progress = False, ge_goto_in_progress = False \<rparr>"

lemma example_split_enable:
  "split_command (takeWhile (\<lambda>c. c \<noteq> CHR 0x00) (take 1023 ''bilateral_enable'')) = (''bilateral_enable'', [])"
  by (simp add: split_command_def trim_def trim_char_def is_blank_def)

lemma example_link_open:
  "br_ok (snd (refresh_link (lc_bi example_leader_config) wired_env))"
  using read_wired_env
  by (simp add: refresh_link_def example_leader_config_def bilateral_settings_default_def check_link_ok_iff
      gate_config_default_def query_link_to_def link_info_new_def wired_env_def Let_def int_of_long_def
      signed_take_bit_int_eq_self)

lemma example_gate_open:
  "feedback_gate_open (lc_bi example_leader_config) example_gate_env example_leader_state"
proof -
  let ?b = "ls_buffer example_side"
  have b: "fb_has_data ?b" "fb_window_ns ?b = 1000000" "fb_last_receive_time_ns ?b = 5"
    "fb_latest ?b = Some example_feedback"
    "fb_samples ?b = [\<lparr> sm_recv_time_ns = 5, sm_lost_before = 0, sm_rtt_ns = 2, sm_cmd_hold_ns = 0 \<rparr>]"
    by (simp_all add: example_side_def fb_update_def fb_update_with_def fb_store_def fb_trim_locked_def
        fb_init_def example_feedback_def feedback_zero_def)
  have "br_ok (check_feedback (bs_gate (lc_bi example_leader_config)) name (fb_snapshot 9 ?b) (fb_get_latest ?b))"
    for name
    using b
    by (simp add: check_feedback_ok_iff example_leader_config_def bilateral_settings_default_def
        gate_config_default_def fb_snapshot_def fb_get_latest_def in_window_def Let_def stats_new_def
        ms_of_ns_def dbl_of_word_def percentile_def percentile_index_def example_feedback_def feedback_zero_def)
  then show ?thesis
    by (simp add: feedback_gate_open_def example_gate_env_def)
      (simp add: example_leader_config_def)
qed

theorem leader_bilateral_needs_gate_witness:
  "\<exists>s out. leader_run example_leader_config [Leader_Line example_gate_env (Some ''bilateral_enable'')]
      (example_leader_state\<lparr>ld_bilateral_requested := False\<rparr>) = Inr (s, out)
    \<and> br_ok (snd (refresh_link (lc_bi example_leader_config) wired_env))"
proof -
  let ?s0 = "example_leader_state\<lparr>ld_bilateral_requested := False\<rparr>"
  let ?es = "[Leader_Line example_gate_env (Some ''bilateral_enable'')]"
  have h: "rc_handlers (leader_server example_leader_config example_gate_env) ''bilateral_enable''
      = Some (handle_bilateral_enable example_leader_config example_gate_env)"
    by (simp add: leader_server_def register_handler_def rc_new_def)
  have "ld_bilateral_requested (fst (handle_bilateral_enable example_leader_config example_gate_env args ?s0))"
    for args
  proof -
    have "feedback_gate_open (lc_bi example_leader_config) example_gate_env
        (refresh_leader_link (lc_bi example_leader_config) wired_env ?s0)"
      using example_gate_open
      by (simp add: refresh_leader_link_def split_beta feedback_gate_open_def)
    moreover have "ld_command_enabled ?s0" "ge_link example_gate_env = wired_env"
      by (simp_all add: example_leader_state_def example_gate_env_def)
    ultimately show ?thesis
      using example_link_open
      by (simp add: handle_bilateral_enable_def gate_now_ok Let_def)
        (simp add: refresh_leader_link_def split_beta refresh_link_ok)
  qed
  then obtain s out where run: "leader_run example_leader_config ?es ?s0 = Inr (s, out)"
      "ld_bilateral_requested s"
    using example_split_enable h
    by (simp add: leader_run_def serve_client_def handle_command_def Let_def split_beta)
  then obtain as genv bs where "?es = as @ Leader_Line genv (Some ''bilateral_enable'') # bs"
      "br_ok (snd (refresh_link (lc_bi example_leader_config) (ge_link genv)))"
    using leader_bilateral_needs_gate [OF run(1) _ run(2)] by (auto simp: Cons_eq_append_conv)
  with run(1) show ?thesis
    by (auto simp: Cons_eq_append_conv example_gate_env_def)
qed

text \<open>A mock leader with the bilateral request whose gate is due and closed.\<close>

theorem leader_commands_follow_gate_witness:
  "\<exists>s' out d. leader_cycle example_leader_config (example_leader_cycle\<lparr>lv_gate_time := 100\<rparr>)
      (example_leader_state\<lparr>ld_arms := None\<rparr>) = Inr (s', out)
    \<and> Command_Datagram RIGHT d \<in> set out \<and> tp_mode (teleop_of_bytes d) = 0 \<and> tp_seq (teleop_of_bytes d) = 7"
proof -
  let ?s = "example_leader_state\<lparr>ld_arms := None\<rparr>" and ?e = "example_leader_cycle\<lparr>lv_gate_time := 100\<rparr>"
  have req: "leader_requests ?e ?s = Inr (?s, [])"
    by (simp add: leader_requests_def leader_init_request_def leader_goto_request_def)
  obtain pkts where j: "leader_joints example_leader_config ?e ?s = Inr (?s, pkts, [])"
    by (simp add: leader_joints_def Let_def)
  have closed: "\<not> br_ok (snd (refresh_link (lc_bi example_leader_config) (ge_link (lv_gate ?e))))"
    by (simp add: refresh_link_def example_leader_config_def bilateral_settings_default_def check_link_ok_iff
        example_leader_cycle_def example_link_env_def query_link_to_def link_info_new_def Let_def)
  obtain s3 where g: "leader_gate example_leader_config ?e ?s = Inr s3"
    by (simp add: leader_gate_def Let_def example_leader_config_def bilateral_settings_default_def
        ns_of_seconds_def)
  have "us_socket_ok (ld_sender_r s3)" "us_target_ok (ld_sender_r s3)"
    using leader_gate_keeps [OF g] by (simp_all add: example_leader_state_def)
  then obtain d where d: "Command_Datagram RIGHT d \<in> set (snd (snd (leader_send ?e pkts s3)))"
    by (simp add: leader_send_def send_command_def udp_send_def udp_send_raw_def split_beta Let_def)
  obtain s' out where c: "leader_cycle example_leader_config ?e ?s = Inr (s', out)"
      "Command_Datagram RIGHT d \<in> set out"
    using d by (simp add: leader_cycle_eq req j g leader_publish_def example_leader_period)
  show ?thesis
    using leader_commands_follow_gate [OF c] c closed
    by (auto simp: says_def example_leader_state_def control_mode_code_def)
qed

section \<open>Settings and start-up\<close>

lemma feedback_steps_keep_render:
  "f \<in> set (feedback_and_link_steps cfg) \<Longrightarrow> f b = Inr b' \<Longrightarrow> bs_render_enabled b' = bs_render_enabled b"
  by (auto simp: feedback_and_link_steps_def Let_def set_or_def res_bind_eq_Inr)

text \<open>
  C12: gains of a force-rendering leader. However the settings file looks, when the loaded
  settings enable both feedback and force rendering, the file could be read and has a section for
  each of them (neither is on by default), and there are at least eight proportional and eight
  derivative gains, one for each motor of an arm.
\<close>

theorem bilateral_gains_complete:
  assumes "b = load_bilateral_settings path yaml" and "bs_feedback_enabled b" and "bs_render_enabled b"
  shows "8 \<le> length (bs_kp b) \<and> 8 \<le> length (bs_kd b)
    \<and> (\<exists>cfg. yaml = Inr cfg \<and> yaml_has_node cfg ''BilateralFeedback'' \<and> yaml_has_node cfg ''Bilateral'')"
proof -
  obtain cfg where cfg: "yaml = Inr cfg" "yaml_has_node cfg ''BilateralFeedback''"
    using assms by (auto simp: load_bilateral_settings_def yaml_load_def bilateral_settings_default_def
        split: sum.splits if_splits)
  let ?steps = "feedback_and_link_steps cfg @ (if yaml_has_node cfg ''Bilateral'' then render_steps cfg else [])"
  obtain b' e where t: "try_steps ?steps bilateral_settings_default = (b', e)" by fastforce
  with assms(1,2) cfg have b: "e = None" "b = b'"
    by (cases e; simp add: load_bilateral_settings_def yaml_load_def)+
  have node: "yaml_has_node cfg ''Bilateral''"
  proof (rule ccontr)
    assume "\<not> yaml_has_node cfg ''Bilateral''"
    with t have "b' = fst (try_steps (feedback_and_link_steps cfg) bilateral_settings_default)" by simp
    moreover have "\<not> bs_render_enabled (fst (try_steps (feedback_and_link_steps cfg) bilateral_settings_default))"
      by (rule try_steps_inv) (simp_all add: feedback_steps_keep_render bilateral_settings_default_def)
    ultimately show False using assms(3) b by simp
  qed
  obtain gs where gs: "render_steps cfg = gs @ [\<lambda>b. Inr (render_guard b)]"
    by (simp add: render_steps_def Let_def)
  with t node b(1) obtain b1 where "b' = render_guard b1"
    by (auto simp: try_steps_append split: prod.splits option.splits)
  with b assms(3) have "8 \<le> length (bs_kp b) \<and> 8 \<le> length (bs_kd b)"
    by (auto simp: render_guard_def split: if_splits)
  with cfg node show ?thesis by blast
qed

definition example_settings :: YamlLoader where
  "example_settings =
    (let bad = \<lparr> yn_double = Inl Out_Of_Range, yn_vector = Inl Out_Of_Range,
           yn_string = Inl Out_Of_Range, yn_bool = Inl Out_Of_Range, yn_int = Inl Out_Of_Range \<rparr>;
         on = bad\<lparr>yn_bool := Inr True\<rparr>; gains = bad\<lparr>yn_vector := Inr (replicate 8 (Fin 2))\<rparr>
     in [''BilateralFeedback'' \<mapsto> [''Enabled'' \<mapsto> on],
         ''Bilateral'' \<mapsto> [''Enabled'' \<mapsto> on, ''Kp'' \<mapsto> gains, ''Kd'' \<mapsto> gains]])"

theorem bilateral_gains_complete_witness:
  "bs_render_enabled (load_bilateral_settings ''leader.yaml'' (Inr example_settings))
    \<and> 8 \<le> length (bs_kp (load_bilateral_settings ''leader.yaml'' (Inr example_settings)))"
proof -
  let ?b = "load_bilateral_settings ''leader.yaml'' (Inr example_settings)"
  have "bs_feedback_enabled ?b \<and> bs_render_enabled ?b"
    by (simp add: load_bilateral_settings_def yaml_load_def yaml_has_node_def feedback_and_link_steps_def
        render_steps_def set_or_def set_vector_if_def yaml_get_or_cases yaml_has_def yaml_get_def
        yaml_get_node_def Let_def bilateral_settings_default_def render_guard_def example_settings_def)
  then show ?thesis
    using bilateral_gains_complete [OF refl, of "''leader.yaml''" "Inr example_settings"] by simp
qed

text \<open>
  C11: what a failed start leaves behind. When \<open>main\<close> gives up before the first iteration,
  the left arm is left switched on exactly if both arms had been brought up; then the right
  arm is on as well, and the cause is a socket: telemetry, feedback or control port.
\<close>

theorem leader_failed_start:
  assumes "leader_start a env = Inr ((cr, cl), None)" and "b = load_bilateral_settings ''config/leader.yaml'' (lt_yaml env)"
  shows "(motors_on cl \<longleftrightarrow> \<not> la_mock a \<and> bind_address (lt_interfaces env) (la_interface_name a) (la_bind_ip a) \<noteq> None
      \<and> (\<exists>cmds arms. leader_hardware a b (lt_yaml env) (lt_arm_r env) (lt_arm_l env) = Inr (cmds, Some arms)))
    \<and> (motors_on cl \<longrightarrow> motors_on cr \<and> \<not> leader_sockets_ok a b env)"
proof (cases "la_mock a \<or> bind_address (lt_interfaces env) (la_interface_name a) (la_bind_ip a) = None")
  case True
  then have "cl = []"
    using assms by (auto simp: leader_start_def Let_def res_bind_eq_Inr split: if_splits)
  with True show ?thesis by (auto simp: motors_on_started)
next
  case False
  let ?hw = "leader_hardware a b (lt_yaml env) (lt_arm_r env) (lt_arm_l env)"
  have start: "res_bind ?hw (\<lambda>(cmds, r). case r of None \<Rightarrow> Inr (cmds, None)
      | Some arms \<Rightarrow> if \<not> leader_telemetry_ok a env then Inr (cmds, None)
          else res_bind (leader_initial a env b (Some arms)) (\<lambda>s.
            Inr (cmds, if leader_sockets_ok a b env
                       then Some (\<lparr> lc_args = a, lc_bi = b \<rparr>, s) else None)))
      = Inr ((cr, cl), None)"
    using False assms(1) unfolding assms(2) leader_start_def Let_def by (simp del: not_None_eq)
  then obtain r where h: "?hw = Inr ((cr, cl), r)"
    by (cases ?hw) (auto simp: res_bind_eq_Inr split: if_splits option.splits)
  with start have r: "r \<noteq> None \<longrightarrow> \<not> leader_sockets_ok a b env"
    by (cases r; cases "leader_telemetry_ok a env")
      (auto simp: res_bind_eq_Inr dest: leader_sockets_telemetry split: if_splits)
  have "(motors_on cl \<longleftrightarrow> r \<noteq> None) \<and> (r \<noteq> None \<longrightarrow> motors_on cr)"
    using h
    by (auto simp: leader_hardware_def res_bind_eq_Inr motors_on_started split: if_splits
        dest: bring_up_leaves_on)
  with h r False show ?thesis by auto
qed

lemma adjust_arm_returns:
  assumes "7 \<le> length (rd_arm (ae_start e))" and "length (rd_gripper (ae_start e)) \<le> 1"
  shows "\<exists>a' cmds. adjust_arm e a = Inr (a', cmds)"
  using assms
  by (simp add: adjust_arm_def AdjustPosition_def MoveToPose_def Let_def NMOTORS_def move_readings_def
      arm_motor_to_joint_def gripper_motor_to_joint_def without_effort_def)

text \<open>Two arms of eight motors come up; the telemetry socket cannot be opened.\<close>

definition example_bus :: Readings where
  "example_bus = \<lparr> rd_arm = replicate 7 \<lparr> ms_position = Fin 1, ms_velocity = Fin 0, ms_effort = Fin 0 \<rparr>,
     rd_gripper = [\<lparr> ms_position = Fin 1, ms_velocity = Fin 0, ms_effort = Fin 0 \<rparr>] \<rparr>"

definition example_arm_env :: ArmEnv where
  "example_arm_env =
     \<lparr> ae_dynamics = Some \<lparr> dy_joints = 7, dy_gravity = (\<lambda>q. q), dy_coriolis = (\<lambda>q dq. q) \<rparr>,
       ae_verify = example_bus, ae_start = example_bus, ae_steps = (\<lambda>_. example_bus) \<rparr>"

definition example_arm_params :: YamlLoader where
  "example_arm_params = [''LeaderArmParam'' \<mapsto> (\<lambda>_. Some
     \<lparr> yn_double = Inl Out_Of_Range, yn_vector = Inr (replicate 8 (Fin 2)),
       yn_string = Inl Out_Of_Range, yn_bool = Inl Out_Of_Range, yn_int = Inl Out_Of_Range \<rparr>)]"

definition example_leader_start :: LeaderStartEnv where
  "example_leader_start =
    (let sender = \<lparr> us_socket_ok = True, us_target_ok = True, us_sent_count = 0 \<rparr>
     in \<lparr> lt_interfaces = example_link_env, lt_yaml = Inr example_arm_params,
       lt_sender_r = sender, lt_sender_l = sender, lt_arm_r = example_arm_env,
       lt_arm_l = example_arm_env, lt_telemetry_socket = False, lt_link = example_link_env,
       lt_receiver_sockets = (True, True),
       lt_listen = \<lparr> ln_socket = True, ln_inet_pton = True, ln_bind = True, ln_listen = True \<rparr>,
       lt_telemetry_time = 0, lt_link_time = 0, lt_gate_time = 0 \<rparr>)"

lemma example_bring_up:
  "\<exists>cr cl arms. bring_up mk example_arm_env example_arm_env = Inr ((cr, cl), Some arms)"
proof -
  have adj: "\<exists>a' cmds. adjust_arm example_arm_env a = Inr (a', cmds)" for a
    by (rule adjust_arm_returns) (simp_all add: example_arm_env_def example_bus_def)
  have ok: "snd (verify_arm_hardware (ae_verify example_arm_env))" "ae_dynamics example_arm_env \<noteq> None"
    by (simp_all add: example_arm_env_def example_bus_def verify_arm_hardware_def responding_def
        motor_has_data_def dbl_eq_def)
  then obtain d where d: "ae_dynamics example_arm_env = Some d" by blast
  let ?arm = "\<lambda>name. (mk d name, system_state_new (length (rd_arm (ae_verify example_arm_env)))
    (length (rd_gripper (ae_verify example_arm_env))))"
  obtain r cr where "adjust_arm example_arm_env (?arm ''right_arm'') = Inr (r, cr)" using adj by blast
  moreover obtain l cl where "adjust_arm example_arm_env (?arm ''left_arm'') = Inr (l, cl)" using adj by blast
  ultimately show ?thesis
    using ok d by (simp add: bring_up_def Let_def split_beta)
qed

lemma example_leader_params: "\<exists>p. leader_params example_arm_params = Inr p"
  by (simp add: leader_params_def vector_or_def yaml_get_def yaml_get_node_def yaml_has_def Let_def
      example_arm_params_def)

theorem leader_failed_start_witness:
  "\<exists>cr cl. leader_start (leader_args_default\<lparr>la_publish_telemetry := True\<rparr>) example_leader_start
      = Inr ((cr, cl), None) \<and> motors_on cr \<and> motors_on cl"
proof -
  let ?a = "leader_args_default\<lparr>la_publish_telemetry := True\<rparr>" and ?env = example_leader_start
  let ?b = "load_bilateral_settings ''config/leader.yaml'' (lt_yaml ?env)"
  have bind: "\<not> la_mock ?a" "bind_address (lt_interfaces ?env) (la_interface_name ?a) (la_bind_ip ?a) \<noteq> None"
    by (simp_all add: bind_address_def leader_args_default_def)
  have env: "lt_yaml ?env = Inr example_arm_params" "lt_arm_r ?env = example_arm_env"
    "lt_arm_l ?env = example_arm_env" "\<not> lt_telemetry_socket ?env"
    by (simp_all add: example_leader_start_def Let_def)
  have settings: "?b = bilateral_settings_default"
    by (simp add: load_bilateral_settings_def yaml_load_def yaml_has_node_def env example_arm_params_def)
  obtain p where p: "leader_params example_arm_params = Inr p" using example_leader_params by blast
  obtain cr cl arms where "bring_up (leader_control p ?b) example_arm_env example_arm_env
      = Inr ((cr, cl), Some arms)"
    using example_bring_up by blast
  then have hw: "leader_hardware ?a ?b (lt_yaml ?env) (lt_arm_r ?env) (lt_arm_l ?env)
      = Inr ((cr, cl), Some arms)"
    by (simp add: leader_hardware_def env p yaml_load_def leader_args_default_def)
  obtain s0 where init: "leader_initial ?a ?env ?b (Some arms) = Inr s0"
    unfolding settings by (simp add: leader_initial_def fb_new_def bilateral_settings_default_def Let_def)
  have none: "leader_start ?a ?env = Inr ((cr, cl), None)"
    using bind(2) hw env(4)
    by (auto simp: leader_start_def Let_def init leader_telemetry_ok_def publisher_start_def bind(1)
        leader_args_default_def [THEN arg_cong [of _ _ la_mock]])
  show ?thesis
    using leader_failed_start [OF none refl] none bind hw by blast
qed

end
