(* ===== verification/Leader_Link.thy ===== *)
theory Leader_Link
  imports Command_Tracking Leader_Runs
begin

text \<open>
  The bimanual leader as an end of a link: the commands an iteration sends and the posture in them,
  and the feedback its receive threads store.
\<close>

section \<open>Commands out\<close>

definition leader_commands :: "leader_output list \<Rightarrow> (ArmSide \<times> u8 list) list" where
  "leader_commands out = concat (map (\<lambda>x. case x of Command_Datagram side d \<Rightarrow> [(side, d)] | _ \<Rightarrow> []) out)"

lemma leader_commands_iff: "(side, d) \<in> set (leader_commands out) \<longleftrightarrow> Command_Datagram side d \<in> set out"
  by (induction out) (auto simp: leader_commands_def split: leader_output.splits)

text \<open>A datagram that an iteration of the leader, reached from its start, has sent.\<close>

definition leader_sent ::
    "LeaderConfig \<Rightarrow> LeaderState \<Rightarrow> LeaderState \<Rightarrow> LeaderCycleEnv \<Rightarrow> LeaderState \<Rightarrow> ArmSide \<Rightarrow> u8 list \<Rightarrow> bool" where
  "leader_sent cfg s0 s env s' side d \<longleftrightarrow> reached (leader_react cfg) ld_exited s0 s \<and> \<not> ld_exited s
     \<and> (\<exists>out. leader_cycle cfg env s = Inr (s', out) \<and> Command_Datagram side d \<in> set out)"

lemma leader_react_sent:
  assumes "leader_react cfg e s = Inr (s', out)" and "Command_Datagram side d \<in> set out"
  shows "\<exists>env. leader_cycle cfg env s = Inr (s', out)"
  using assms
  by (cases e) (auto simp: split_beta leader_shutdown_def leader_frames_def split: if_splits)

text \<open>The packet an iteration sends to a side, in terms of the arm it leaves behind.\<close>

lemma leader_joints_arm:
  assumes "leader_joints cfg env s = Inr (s', pkts, out)" and "leader_arm side s' = Some (ct, rs)"
  shows "(case side of RIGHT \<Rightarrow> fst pkts | LEFT \<Rightarrow> snd pkts)
    = fill_command (rs_response (ss_arm rs)) (rs_response (ss_hand rs)) (teleop_zero (Fin 0))"
  using assms
  by (cases side) (auto simp: leader_joints_def leader_arm_def res_bind_eq_Inr Let_def split: option.splits)

lemma leader_arms_kept:
  "leader_gate cfg env s = Inr s' \<Longrightarrow> ld_arms s' = ld_arms s"
  "ld_arms (fst (leader_send env pkts s)) = ld_arms s"
  "leader_publish cfg env pkts s = Inr (s', out) \<Longrightarrow> ld_arms s' = ld_arms s"
  by (auto simp: leader_gate_def refresh_leader_link_def leader_send_def leader_publish_def res_bind_eq_Inr Let_def
      split_beta split: if_splits)

lemma leader_send_packet:
  assumes "leader_send env pkts s = (s', pkts', out)" and "Command_Datagram side d \<in> set out"
  shows "\<exists>t mode en. d = teleop_bytes (teleop_encode t (teleop_bits (address_command (ld_seq s) side mode en
    (case side of RIGHT \<Rightarrow> fst pkts | LEFT \<Rightarrow> snd pkts))))"
proof -
  have one: "side1 = side2 \<and> x = teleop_bytes (teleop_encode t (teleop_bits p))"
    if "Command_Datagram side1 x \<in> set (snd (send_command side2 t n p sender))" for side1 side2 x t n p sender
    using that by (auto simp: send_command_def udp_send_def udp_send_raw_def split_beta Let_def split: if_splits)
  let ?mode = "if ld_bilateral_requested s then BILATERAL else UNILATERAL"
  let ?out = "\<lambda>side t n p sender. snd (send_command side t n
      (address_command (ld_seq s) side ?mode (ld_command_enabled s) p) sender)"
  have "out = ?out RIGHT (lv_send_time_r env) (lv_sent_r env) (fst pkts) (ld_sender_r s)
      @ ?out LEFT (lv_send_time_l env) (lv_sent_l env) (snd pkts) (ld_sender_l s)"
    using assms(1) by (auto simp: leader_send_def Let_def split_beta)
  with assms(2) consider
      "Command_Datagram side d \<in> set (?out RIGHT (lv_send_time_r env) (lv_sent_r env) (fst pkts) (ld_sender_r s))"
    | "Command_Datagram side d \<in> set (?out LEFT (lv_send_time_l env) (lv_sent_l env) (snd pkts) (ld_sender_l s))"
    by auto
  then show ?thesis
  proof cases
    case 1
    from one [OF this] show ?thesis by (intro exI) simp
  next
    case 2
    from one [OF this] show ?thesis by (intro exI) simp
  qed
qed

lemma leader_sent_says:
  assumes "leader_sent cfg s0 s env s' side d"
  shows "teleop_acceptable d"
    and "tp_enable (teleop_of_bytes d) = (if ld_command_enabled s then 1 else 0) \<and> tp_estop (teleop_of_bytes d) = 0"
    and "leader_arm side s' = Some (ct, rs) \<Longrightarrow> posture (teleop_of_bytes d) = map over_wire (measured rs)"
proof -
  obtain out where c: "leader_cycle cfg env s = Inr (s', out)" "Command_Datagram side d \<in> set out"
    using assms by (auto simp: leader_sent_def)
  obtain s1 s2 s3 s4 pkts pkts' out1 out2 out3 out4 where
    p: "leader_requests env s = Inr (s1, out1)" "leader_joints cfg env s1 = Inr (s2, pkts, out2)"
    "leader_gate cfg env s2 = Inr s3" "leader_send env pkts s3 = (s4, pkts', out3)"
    "leader_publish cfg env pkts' s4 = Inr (s', out4)" and out: "out = out1 @ out2 @ out3 @ out4"
    by (rule leader_cycle_parts [OF c(1)]) (rule that)
  have d: "(side, d) \<in> command_datagrams out3"
    using c(2) leader_requests_datagrams [OF p(1)] leader_joints_datagrams [OF p(2)]
      leader_publish_datagrams [OF p(5)] by (auto simp: out command_datagrams_def)
  have "ld_command_enabled s3 = ld_command_enabled s"
    using leader_gate_keeps [OF p(3)] leader_joints_core [OF p(2)] leader_requests_core(1) [OF p(1)]
    by (simp add: same_core_def)
  moreover note leader_send_datagrams [OF p(4) leader_joints_wf [OF p(2), THEN conjunct1]
    leader_joints_wf [OF p(2), THEN conjunct2] d]
  ultimately show "teleop_acceptable d"
    and "tp_enable (teleop_of_bytes d) = (if ld_command_enabled s then 1 else 0) \<and> tp_estop (teleop_of_bytes d) = 0"
    by (simp_all add: says_def)
  assume arm: "leader_arm side s' = Some (ct, rs)"
  have "ld_arms s' = ld_arms s2"
    using leader_arms_kept(3) [OF p(5)] leader_arms_kept(2) [of env pkts s3] leader_arms_kept(1) [OF p(3)]
    by (simp add: p(4))
  with arm have "leader_arm side s2 = Some (ct, rs)" by (simp add: leader_arm_def)
  note pkt = leader_joints_arm [OF p(2) this]
  obtain t mode en where "d = teleop_bytes (teleop_encode t (teleop_bits (address_command (ld_seq s3) side mode en
      (fill_command (rs_response (ss_arm rs)) (rs_response (ss_hand rs)) (teleop_zero (Fin 0))))))"
    using leader_send_packet [OF p(4), of side d] d unfolding pkt by (auto simp: command_datagrams_def)
  then show "posture (teleop_of_bytes d) = map over_wire (measured rs)"
    by (simp add: posture_of_command measured_def)
qed

section \<open>Feedback in\<close>

text \<open>What a datagram on a feedback port brings, if the callback takes it.\<close>

fun leader_packets :: "leader_event \<Rightarrow> (ArmSide \<times> u64 FeedbackPacket) list" where
  "leader_packets (Feedback side sys now d) = (if feedback_acceptable d then [(side, feedback_of_bytes d)] else [])"
| "leader_packets Leader_Signal = []"
| "leader_packets (Leader_Line env received) = []"
| "leader_packets (Leader_Cycle env) = []"

definition leader_stored :: "LeaderState \<Rightarrow> ArmSide \<Rightarrow> u64 FeedbackPacket \<Rightarrow> bool" where
  "leader_stored s side p \<longleftrightarrow> fb_get_latest (ls_buffer (leader_side side s)) = Some p"

lemma fb_get_latest_cases:
  "fb_get_latest (fb_update now (p, rtt) b) = Some p \<or> fb_get_latest (fb_update now (p, rtt) b) = fb_get_latest b"
  by (auto simp: fb_update_def fb_update_with_def Let_def)

lemma feedback_callback_latest:
  "fb_get_latest (feedback_callback sys now d b) = fb_get_latest b
   \<or> feedback_acceptable d \<and> fb_get_latest (feedback_callback sys now d b) = Some (feedback_of_bytes d)"
proof -
  have "snd (feedback_decode_and_validate p) = p" for p by simp
  then show ?thesis
    using fb_get_latest_cases
    by (auto simp: feedback_callback_def feedback_acceptable_def Let_def split_beta)
qed

lemma leader_react_stored:
  assumes "leader_react cfg e s = Inr (s', out)" and "leader_stored s' side p"
  shows "leader_stored s side p \<or> (side, p) \<in> set (leader_packets e)"
proof (cases e)
  case (Feedback sd sys now d)
  with assms feedback_callback_latest [of sys now d "ls_buffer (leader_side side s)"] show ?thesis
    by (cases sd; cases side) (auto simp: leader_stored_def leader_side_def take_feedback_def split: if_splits)
next
  case Leader_Signal
  with assms show ?thesis by (cases side) (auto simp: leader_stored_def leader_side_def)
next
  case (Leader_Line env received)
  have "leader_side side s' = leader_side side s"
    using assms(1)
    by (auto simp: Leader_Line serve_client_def handle_command_def split_beta Let_def leader_line_sides
        split: option.splits)
  with assms(2) show ?thesis by (simp add: leader_stored_def)
next
  case (Leader_Cycle env)
  have "ls_buffer (leader_side side s') = ls_buffer (leader_side side s)"
  proof (cases "ld_keep_running s")
    case True
    then have "leader_cycle cfg env s = Inr (s', out)" using assms(1) Leader_Cycle by simp
    from leader_cycle_side [OF this, of side] show ?thesis by (auto dest!: step_side_engager)
  qed (use assms(1) Leader_Cycle in \<open>cases side; auto simp: leader_side_def\<close>)
  with assms(2) show ?thesis by (simp add: leader_stored_def)
qed

section \<open>Hardware and starts\<close>

lemma leader_line_arms:
  "rc_handlers (leader_server cfg env) c = Some h \<Longrightarrow> ld_arms (fst (h args s)) = ld_arms s"
  by (auto simp: leader_server_def register_handler_def rc_new_def Let_def handle_leader_goto_def
      handle_bilateral_enable_def refresh_leader_link_def split_beta split: if_splits)

lemma leader_move_arms: "leader_move pr gr pl gl env s = Inr (s', out) \<Longrightarrow> ld_arms s' = None \<longleftrightarrow> ld_arms s = None"
  by (auto simp: leader_move_def res_bind_eq_Inr split: option.splits)

lemma leader_init_arms: "leader_init_request env s = Inr (s', out) \<Longrightarrow> ld_arms s' = None \<longleftrightarrow> ld_arms s = None"
  by (auto simp: leader_init_request_def dest!: leader_move_arms split: if_splits)

lemma leader_goto_arms: "leader_goto_request env s = Inr (s', out) \<Longrightarrow> ld_arms s' = None \<longleftrightarrow> ld_arms s = None"
  by (auto simp: leader_goto_request_def Let_def dest!: leader_move_arms split: if_splits)

lemma leader_joints_arms: "leader_joints cfg env s = Inr (s', pkts, out) \<Longrightarrow> ld_arms s' = None \<longleftrightarrow> ld_arms s = None"
  by (auto simp: leader_joints_def res_bind_eq_Inr Let_def split: option.splits)

lemma leader_cycle_arms:
  assumes "leader_cycle cfg env s = Inr (s', out)"
  shows "ld_arms s' = None \<longleftrightarrow> ld_arms s = None"
proof -
  obtain s1 s2 s3 s4 pkts pkts' out1 out2 out3 out4 where
    p: "leader_requests env s = Inr (s1, out1)" "leader_joints cfg env s1 = Inr (s2, pkts, out2)"
    "leader_gate cfg env s2 = Inr s3" "leader_send env pkts s3 = (s4, pkts', out3)"
    "leader_publish cfg env pkts' s4 = Inr (s', out4)"
    by (rule leader_cycle_parts [OF assms]) (rule that)
  have "ld_arms s' = ld_arms s2"
    using leader_arms_kept(3) [OF p(5)] leader_arms_kept(2) [of env pkts s3] leader_arms_kept(1) [OF p(3)]
    by (simp add: p(4))
  moreover have "ld_arms s1 = None \<longleftrightarrow> ld_arms s = None"
    using p(1) by (auto simp: leader_requests_def res_bind_eq_Inr dest!: leader_init_arms leader_goto_arms)
  ultimately show ?thesis using leader_joints_arms [OF p(2)] by simp
qed

lemma leader_react_arms:
  assumes "leader_react cfg e s = Inr (s', out)"
  shows "ld_arms s' = None \<longleftrightarrow> ld_arms s = None"
proof (cases e)
  case (Leader_Line env received)
  then have "ld_arms s' = ld_arms s"
    using assms
    by (auto simp: serve_client_def handle_command_def split_beta Let_def leader_line_arms split: option.splits)
  then show ?thesis by simp
next
  case (Leader_Cycle env)
  with assms leader_cycle_arms [of cfg env s s' out] show ?thesis by (auto split: if_splits)
qed (use assms in \<open>auto split: if_splits ArmSide.splits\<close>)

lemma leader_sent_arm:
  assumes "leader_sent cfg s0 s env s' side d" and "ld_arms s0 \<noteq> None"
  shows "leader_arm side s' \<noteq> None"
proof -
  obtain es out where r: "app_run (leader_react cfg) ld_exited es s0 = Inr (s, out)"
    using assms(1) by (auto simp: leader_sent_def reached_def)
  have "(ld_arms s = None) = (ld_arms s0 = None)"
    by (rule app_run_keeps [OF r]) (rule leader_react_arms)
  moreover obtain out where "leader_cycle cfg env s = Inr (s', out)"
    using assms(1) by (auto simp: leader_sent_def)
  ultimately have "ld_arms s' \<noteq> None"
    using assms(2) leader_cycle_arms by metis
  then show ?thesis by (auto simp: leader_arm_def)
qed

lemma leader_start_fresh:
  assumes "leader_start a env = Inr (cmds, Some (cfg, s0))"
  shows "\<not> leader_stored s0 side p" and "\<not> la_mock a \<Longrightarrow> ld_arms s0 \<noteq> None"
proof -
  have init: "fb_get_latest (ls_buffer (leader_side side s)) = None \<and> ld_arms s = arms"
    if "leader_initial a env b arms = Inr s" for b arms s
    using that
    by (cases side) (auto simp: leader_initial_def res_bind_eq_Inr Let_def split_beta leader_side_def fb_new_def
        fb_init_def fb_get_latest_def split: if_splits)
  then show "\<not> leader_stored s0 side p"
    using assms
    by (fastforce simp: leader_start_def leader_stored_def res_bind_eq_Inr Let_def split: if_splits option.splits)
  assume "\<not> la_mock a"
  with assms init show "ld_arms s0 \<noteq> None"
    by (fastforce simp: leader_start_def res_bind_eq_Inr Let_def split: if_splits option.splits)
qed

end
