(* ===== verification/Follower_Runs.thy ===== *)
theory Follower_Runs
  imports Follower_Props
begin

text \<open>
  Whole runs of the bimanual follower: an invariant that every event keeps, and what it says
  about the frames that reach the motors.
\<close>

section \<open>The invariant of the application\<close>

definition follower_roles :: "(arm \<times> arm) option \<Rightarrow> bool" where
  "follower_roles a = (case a of None \<Rightarrow> True
     | Some (r, l) \<Rightarrow> ct_role (fst r) = ROLE_FOLLOWER \<and> ct_role (fst l) = ROLE_FOLLOWER)"

lemma follower_roles_simps [simp]:
  "follower_roles None"
  "follower_roles (Some (r, l)) \<longleftrightarrow> ct_role (fst r) = ROLE_FOLLOWER \<and> ct_role (fst l) = ROLE_FOLLOWER"
  by (simp_all add: follower_roles_def)

definition follower_inv :: "FollowerState \<Rightarrow> bool" where
  "follower_inv s \<longleftrightarrow> side_inv (fo_buffer_r s) (fo_safety_r s) \<and> side_inv (fo_buffer_l s) (fo_safety_l s)
     \<and> follower_roles (fo_arms s)"

lemma follower_inv_cong:
  "fo_buffer_r s' = fo_buffer_r s \<Longrightarrow> fo_buffer_l s' = fo_buffer_l s \<Longrightarrow>
   fo_safety_r s' = fo_safety_r s \<Longrightarrow> fo_safety_l s' = fo_safety_l s \<Longrightarrow>
   fo_arms s' = fo_arms s \<Longrightarrow> follower_inv s' = follower_inv s"
  by (simp add: follower_inv_def)

lemma follower_inv_reset_both [intro]: "follower_inv s \<Longrightarrow> follower_inv (reset_both s)"
  by (simp add: follower_inv_def reset_both_def side_inv_reset)

lemma follower_inv_estop_both [intro]: "follower_inv s \<Longrightarrow> follower_inv (estop_both s)"
  by (simp add: follower_inv_def estop_both_def side_inv_estop)

lemma follower_handlers_inv:
  assumes "rc_handlers (follower_server cfg) c = Some h" and "follower_inv s"
  shows "follower_inv (fst (h args s))"
  using assms
  by (auto simp: follower_server_def register_handler_def rc_new_def Let_def handle_goto_pose_def
      split_beta follower_inv_reset_both follower_inv_estop_both
      follower_inv_cong [of "s\<lparr>fo_init_requested := True\<rparr>" s]
      follower_inv_cong [of "s\<lparr>fo_recover_requested := True\<rparr>" s]
      follower_inv_cong [of "s\<lparr>fo_keep_running := False\<rparr>" s]
      follower_inv_cong [of "s\<lparr>fo_goto_target := v, fo_goto_requested := True\<rparr>" s for v]
      split: if_splits)

lemma follower_line_inv:
  "follower_inv s \<Longrightarrow> follower_inv (fst (serve_client (rc_handlers (follower_server cfg)) received s))"
  by (auto simp: serve_client_def handle_command_def split_beta Let_def
      dest: follower_handlers_inv split: option.splits)

lemma drive_arm_role:
  assumes "drive_arm mo st target rd ct rs = Inr (ct', rs', cmds)" and "ct_role ct = ROLE_FOLLOWER"
  shows "ct_role ct' = ROLE_FOLLOWER"
proof -
  have role: "ct_role (SetFollowerGravityFeedforward b c ct) = ROLE_FOLLOWER" for b c
    using assms(2) by (simp add: SetFollowerGravityFeedforward_def)
  show ?thesis
    using assms role
    by (auto simp: drive_arm_def res_bind_eq_Inr follower_role_step follower_role_step [OF role]
        dest!: follower_step_shape split: if_splits option.splits)
qed

text \<open>The state of the requests after the three blocks at the top of the loop.\<close>

definition after_requests :: "FollowerState \<Rightarrow> FollowerState" where
  "after_requests s = goto_request (init_request (fst (recover_request s)))"

lemma after_requests_fields [simp]:
  "fo_buffer_r (after_requests s) = fo_buffer_r s" "fo_buffer_l (after_requests s) = fo_buffer_l s"
  "fo_arms (after_requests s) = fo_arms s"
  "fo_arms s \<noteq> None \<Longrightarrow> fo_safety_r (after_requests s) = fo_safety_r s"
  "fo_arms s \<noteq> None \<Longrightarrow> fo_safety_l (after_requests s) = fo_safety_l s"
  by (auto simp: after_requests_def recover_request_def init_request_def goto_request_def
      reset_both_def Let_def)

lemma after_requests_inv [intro]:
  assumes "follower_inv s"
  shows "follower_inv (after_requests s)"
proof -
  have "side_inv b (fo_safety_r (after_requests s))" if "side_inv b (fo_safety_r s)" for b :: "u64 TeleopStateBuffer"
    using that by (simp add: after_requests_def recover_request_def init_request_def goto_request_def
      reset_both_def Let_def side_inv_reset)
  moreover have "side_inv b (fo_safety_l (after_requests s))" if "side_inv b (fo_safety_l s)" for b :: "u64 TeleopStateBuffer"
    using that by (simp add: after_requests_def recover_request_def init_request_def goto_request_def
      reset_both_def Let_def side_inv_reset)
  ultimately show ?thesis
    using assms by (simp add: follower_inv_def)
qed

lemma cycle_safety_inv [intro]: "follower_inv s \<Longrightarrow> follower_inv (cycle_safety env s)"
  by (simp add: follower_inv_def cycle_safety_def side_inv_safety)

lemma cycle_drive_inv:
  "cycle_drive cfg env s = Inr (s', out) \<Longrightarrow> follower_inv s \<Longrightarrow> follower_inv s'"
  by (auto simp: cycle_drive_def res_bind_eq_Inr follower_inv_def split: option.splits if_splits
      dest!: drive_arm_role)

lemma cycle_feedback_inv:
  "cycle_feedback cfg env s = Inr (s', out) \<Longrightarrow> follower_inv s \<Longrightarrow> follower_inv s'"
  by (auto simp: cycle_feedback_def refresh_follower_link_def res_bind_eq_Inr follower_inv_def
      split_beta Let_def split: if_splits)

lemma cycle_telemetry_inv:
  "cycle_telemetry cfg env s = Inr (s', out) \<Longrightarrow> follower_inv s \<Longrightarrow> follower_inv s'"
  by (auto simp: cycle_telemetry_def res_bind_eq_Inr follower_inv_def split_beta Let_def
      split: if_splits)

lemma follower_cycle_eq:
  "follower_cycle cfg env s =
     res_bind (cycle_drive cfg env (cycle_safety env (after_requests s))) (\<lambda>(s1, out1).
     res_bind (cycle_feedback cfg env s1) (\<lambda>(s2, out2).
     res_bind (cycle_telemetry cfg env s2) (\<lambda>(s3, out3).
     res_bind (ns_of_seconds (fc_period_s cfg)) (\<lambda>_.
       Inr (s3, snd (recover_request s) @ out1 @ out2 @ out3)))))"
  by (simp add: follower_cycle_def after_requests_def split_beta Let_def)

lemma follower_cycle_parts:
  assumes "follower_cycle cfg env s = Inr (s', out)"
  obtains s1 s2 out1 out2 out3 where
    "cycle_drive cfg env (cycle_safety env (after_requests s)) = Inr (s1, out1)"
    "cycle_feedback cfg env s1 = Inr (s2, out2)" "cycle_telemetry cfg env s2 = Inr (s', out3)"
    "out = snd (recover_request s) @ out1 @ out2 @ out3"
  using assms
  by (auto simp: follower_cycle_def after_requests_def res_bind_eq_Inr split_beta Let_def)

lemma follower_cycle_inv:
  "follower_cycle cfg env s = Inr (s', out) \<Longrightarrow> follower_inv s \<Longrightarrow> follower_inv s'"
  by (erule follower_cycle_parts)
    (blast intro: cycle_telemetry_inv cycle_feedback_inv cycle_drive_inv)

lemma MoveToPose_control: "MoveToPose a g rd0 rds ct rs = Inr (ct', rs', cmds) \<Longrightarrow> ct' = ct"
  by (auto simp: MoveToPose_def Let_def split: if_splits)

lemma complete_thread_inv:
  assumes "complete_thread b env s = Inr (s', out)" and "follower_inv s"
  shows "follower_inv s'"
proof (cases "fo_arms s")
  case None
  with assms show ?thesis by (simp add: complete_thread_def)
next
  case (Some a)
  obtain r l where a: "a = (r, l)" by (cases a)
  let ?post = "\<lambda>arms. reset_both (s\<lparr>fo_arms := Some arms, fo_threads := remove1 b (fo_threads s)\<rparr>)"
  obtain r' l' where m: "fst r' = fst r" "fst l' = fst l"
    and s': "follower_inv s' = follower_inv (?post (r', l'))"
    using assms(1) Some a
    by (cases b)
      (auto simp: complete_thread_def move_arms_def move_arm_def res_bind_eq_Inr Let_def follower_inv_def
        dest!: MoveToPose_control)
  have "follower_inv (s\<lparr>fo_arms := Some (r', l'), fo_threads := remove1 b (fo_threads s)\<rparr>)"
    using assms(2) Some a m by (simp add: follower_inv_def)
  then show ?thesis using s' by auto
qed

lemma follower_react_inv:
  "follower_react cfg e s = Inr (s', out) \<Longrightarrow> follower_inv s \<Longrightarrow> follower_inv s'"
proof (induction cfg e s rule: follower_react.induct)
  case (3 cfg s)
  then show ?case
    using follower_inv_cong [of "(estop_both s)\<lparr>fo_keep_running := False\<rparr>" "estop_both s"] by auto
next
  case (4 cfg received s)
  then show ?case using follower_line_inv [of s cfg received] by (auto simp: split_beta)
next
  case (5 cfg b env s)
  then show ?case by (auto split: if_splits dest: complete_thread_inv)
next
  case (6 cfg env s)
  then show ?case
    using follower_inv_cong [of "s\<lparr>fo_exited := True\<rparr>" s]
    by (auto split: if_splits dest: follower_cycle_inv)
qed (auto simp: follower_inv_def)

interpretation fo: app_invariant "follower_react cfg" fo_exited follower_inv for cfg
  by unfold_locales (rule follower_react_inv)

section \<open>From the command line\<close>

lemma follower_args_enable:
  assumes "follower_args argv = Inr a"
  shows "sc_require_enable (fa_safety_config a)"
proof (rule parse_args_inv [OF assms [unfolded follower_args_def]])
  show "sc_require_enable (fa_safety_config follower_args_default)"
    by (simp add: follower_args_default_def safety_config_default_def)
next
  fix x v a b
  assume "sc_require_enable (fa_safety_config a)" and "follower_option x v a = Some (Inr b)"
  then show "sc_require_enable (fa_safety_config b)"
    by (auto simp: follower_option_def arg_u16_def arg_double_def res_bind_eq_Inr split: if_splits)
next
  fix x a b
  assume "sc_require_enable (fa_safety_config a)" and "follower_flag x a = Some b"
  then show "sc_require_enable (fa_safety_config b)"
    by (auto simp: follower_flag_def split: if_splits)
qed

lemma adjust_arm_control: "adjust_arm e a = Inr (a', cmds) \<Longrightarrow> fst a' = fst a"
  by (auto simp: adjust_arm_def AdjustPosition_def res_bind_eq_Inr dest!: MoveToPose_control)

lemma bring_up_controls:
  assumes "bring_up mk er el = Inr (cmds, Some (r, l))"
  shows "\<exists>dr dl. fst r = mk dr ''right_arm'' \<and> fst l = mk dl ''left_arm''"
  using assms
  by (auto simp: bring_up_def res_bind_eq_Inr split_beta Let_def split: option.splits if_splits
      dest!: adjust_arm_control)

lemma follower_control_role [simp]: "ct_role (follower_control p d name) = ROLE_FOLLOWER"
  by (simp add: follower_control_def SetParameter_def control_new_def SetEffortLimits_def)

lemma follower_start_inv:
  assumes "sc_require_enable (fa_safety_config a)" and "follower_start a env = Inr (cmds, Some (cfg, s0))"
  shows "follower_inv s0"
proof -
  have init: "follower_inv (follower_initial a env fs arms)" if "follower_roles arms" for fs arms
    using that assms(1)
    by (simp add: follower_initial_def follower_inv_def side_inv_new split_beta Let_def)
  have "follower_roles (Some arms)"
    if "follower_hardware a (se_yaml env) (se_arm_r env) (se_arm_l env) = Inr (cmds, Some (arms, p))"
    for arms p
    using that by (cases arms)
      (auto simp: follower_hardware_def res_bind_eq_Inr split: if_splits dest!: bring_up_controls)
  then show ?thesis
    using assms(2) init
    by (auto simp: follower_start_def res_bind_eq_Inr Let_def split: if_splits)
qed

text \<open>
  C7: the invariant of the follower. From every command line, start-up and sequence of packets,
  operator lines, signals, loop iterations and thread completions: on both sides the enable
  signal stays required, READY and DISABLED are never shown, a latched emergency stop shows as
  ESTOP, and a driven arm has received a command.
\<close>

theorem follower_runs_keep_invariant:
  assumes "follower_args argv = Inr a" and "follower_start a env = Inr (cmds, Some (cfg, s0))"
    and "follower_run cfg es s0 = Inr (s, out)"
    and "(b, m) \<in> {(fo_buffer_r s, fo_safety_r s), (fo_buffer_l s, fo_safety_l s)}"
  shows "sc_require_enable (sm_config m) \<and> sm_state m \<notin> {READY, DISABLED}
    \<and> (sm_estop_triggered m \<longrightarrow> sm_state m = ESTOP)
    \<and> (live (sm_state m) \<longrightarrow> tb_get_latest b \<noteq> None)"
  using fo.run_inv [OF assms(3) [unfolded follower_run_def] follower_start_inv [OF follower_args_enable [OF assms(1)] assms(2)]]
    assms(4)
  by (auto simp: follower_inv_def side_inv_def)

section \<open>Frames that reach the motors\<close>

text \<open>The parts of the state that belong to one side.\<close>

definition side_buffer :: "ArmSide \<Rightarrow> FollowerState \<Rightarrow> u64 TeleopStateBuffer" where
  "side_buffer side s = (case side of RIGHT \<Rightarrow> fo_buffer_r s | LEFT \<Rightarrow> fo_buffer_l s)"

definition side_safety :: "ArmSide \<Rightarrow> FollowerState \<Rightarrow> SafetyManager" where
  "side_safety side s = (case side of RIGHT \<Rightarrow> fo_safety_r s | LEFT \<Rightarrow> fo_safety_l s)"

definition side_now :: "ArmSide \<Rightarrow> CycleEnv \<Rightarrow> u64" where
  "side_now side env = (case side of RIGHT \<Rightarrow> cy_now_r env | LEFT \<Rightarrow> cy_now_l env)"

definition side_after_update :: "ArmSide \<Rightarrow> CycleEnv \<Rightarrow> FollowerState \<Rightarrow> SafetyManager" where
  "side_after_update side env s =
     follower_safety (side_now side env) (side_buffer side s) (side_safety side s)"

definition busy :: "FollowerState \<Rightarrow> bool" where
  "busy s \<longleftrightarrow> fo_arms s = None \<or> fo_init_in_progress s \<or> fo_recover_in_progress s"

definition can_frames :: "ArmSide \<Rightarrow> follower_output list \<Rightarrow> can_command set" where
  "can_frames side out = {c. Can side c \<in> set out}"

lemma can_frames_sides [simp]:
  "can_frames side (xs @ ys) = can_frames side xs \<union> can_frames side ys"
  "can_frames side (map (Can side') cs) = (if side' = side then set cs else {})"
  "can_frames side [] = {}"
  by (auto simp: can_frames_def)

lemma cycle_drive_busy: "busy s \<Longrightarrow> cycle_drive cfg env s = Inr (s, [])"
  by (auto simp: busy_def cycle_drive_def split: option.splits)

lemma cycle_drive_side:
  assumes "cycle_drive cfg env s = Inr (s', out)" and "\<not> busy s"
  shows "\<exists>t rd ct rs ct' rs' cmds.
      drive_arm (fc_motion cfg) (sm_state (side_safety side s)) t rd ct rs = Inr (ct', rs', cmds)
      \<and> can_frames side out = set cmds"
proof -
  obtain cr rr cl rl where arms: "fo_arms s = Some ((cr, rr), (cl, rl))"
    using assms(2) by (cases "fo_arms s") (auto simp: busy_def)
  let ?drive = "\<lambda>m b. drive_arm (fc_motion cfg) (sm_state m) (latest_target b)"
  obtain cr' rr' outr cl' rl' outl where
    r: "?drive (fo_safety_r s) (fo_buffer_r s) (cy_readings_r env) cr rr = Inr (cr', rr', outr)" and
    l: "?drive (fo_safety_l s) (fo_buffer_l s) (cy_readings_l env) cl rl = Inr (cl', rl', outl)" and
    out: "out = map (Can RIGHT) outr @ map (Can LEFT) outl"
    using assms by (auto simp: busy_def cycle_drive_def arms res_bind_eq_Inr)
  show ?thesis
  proof (cases side)
    case RIGHT
    with r out show ?thesis
      by (auto simp: side_safety_def intro!: exI)
  next
    case LEFT
    with l out show ?thesis
      by (auto simp: side_safety_def intro!: exI)
  qed
qed

lemma cycle_drive_keeps:
  "cycle_drive cfg env s = Inr (s', out) \<Longrightarrow>
     fo_init_in_progress s' = fo_init_in_progress s
     \<and> fo_recover_in_progress s' = fo_recover_in_progress s
     \<and> fo_safety_r s' = fo_safety_r s \<and> fo_safety_l s' = fo_safety_l s"
  by (auto simp: cycle_drive_def res_bind_eq_Inr split: if_splits option.splits)

lemma cycle_safety_side:
  "fo_arms s \<noteq> None \<Longrightarrow>
     side_safety side (cycle_safety env (after_requests s)) = side_after_update side env s"
  by (cases side)
    (simp_all add: side_safety_def cycle_safety_def side_after_update_def side_buffer_def side_now_def)

lemma cycle_feedback_frames:
  "cycle_feedback cfg env s = Inr (s', out) \<Longrightarrow> can_frames side out = {}
     \<and> fo_init_in_progress s' = fo_init_in_progress s
     \<and> fo_recover_in_progress s' = fo_recover_in_progress s
     \<and> fo_safety_r s' = fo_safety_r s \<and> fo_safety_l s' = fo_safety_l s"
  by (auto simp: cycle_feedback_def refresh_follower_link_def send_feedback_def res_bind_eq_Inr
      can_frames_def split_beta Let_def split: if_splits option.splits)

lemma cycle_telemetry_frames:
  "cycle_telemetry cfg env s = Inr (s', out) \<Longrightarrow> can_frames side out = {}
     \<and> fo_init_in_progress s' = fo_init_in_progress s
     \<and> fo_recover_in_progress s' = fo_recover_in_progress s
     \<and> fo_safety_r s' = fo_safety_r s \<and> fo_safety_l s' = fo_safety_l s"
  by (auto simp: cycle_telemetry_def res_bind_eq_Inr can_frames_def split_beta Let_def
      split: if_splits option.splits)

lemma recover_request_frames: "can_frames side (snd (recover_request s)) \<subseteq> {Enable_All}"
  by (auto simp: recover_request_def can_frames_def Let_def)

text \<open>What an iteration does to one side: the frames of its drive step, and the flags it leaves.\<close>

lemma follower_cycle_side:
  assumes "follower_cycle cfg env s = Inr (s', out)" and "fo_arms s \<noteq> None"
  shows "busy (after_requests s) \<and> can_frames side out \<subseteq> {Enable_All}
    \<or> \<not> busy (after_requests s) \<and> (\<exists>t rd ct rs ct' rs' cmds.
        drive_arm (fc_motion cfg) (sm_state (side_after_update side env s)) t rd ct rs
          = Inr (ct', rs', cmds)
        \<and> set cmds \<subseteq> can_frames side out \<and> can_frames side out \<subseteq> set cmds \<union> {Enable_All})"
    and "fo_init_in_progress s' = fo_init_in_progress (after_requests s)
      \<and> fo_recover_in_progress s' = fo_recover_in_progress (after_requests s)
      \<and> side_safety side s' = side_after_update side env s"
proof -
  let ?s = "cycle_safety env (after_requests s)"
  obtain s1 s2 out1 out2 out3 where
    d: "cycle_drive cfg env ?s = Inr (s1, out1)" and
    f: "cycle_feedback cfg env s1 = Inr (s2, out2)" and t: "cycle_telemetry cfg env s2 = Inr (s', out3)" and
    out: "out = snd (recover_request s) @ out1 @ out2 @ out3"
    by (rule follower_cycle_parts [OF assms(1)]) (rule that)
  have busy: "busy ?s = busy (after_requests s)"
    by (simp add: busy_def cycle_safety_def)
  have frames: "can_frames side out = can_frames side (snd (recover_request s)) \<union> can_frames side out1"
    using cycle_feedback_frames [OF f] cycle_telemetry_frames [OF t] by (simp add: out)
  show "busy (after_requests s) \<and> can_frames side out \<subseteq> {Enable_All}
    \<or> \<not> busy (after_requests s) \<and> (\<exists>t rd ct rs ct' rs' cmds.
        drive_arm (fc_motion cfg) (sm_state (side_after_update side env s)) t rd ct rs
          = Inr (ct', rs', cmds)
        \<and> set cmds \<subseteq> can_frames side out \<and> can_frames side out \<subseteq> set cmds \<union> {Enable_All})"
  proof (cases "busy (after_requests s)")
    case True
    with d cycle_drive_busy [of ?s cfg env] busy frames recover_request_frames [of side s] show ?thesis
      by simp
  next
    case False
    then obtain t rd ct rs ct' rs' cmds where
      "drive_arm (fc_motion cfg) (sm_state (side_safety side ?s)) t rd ct rs = Inr (ct', rs', cmds)"
      "can_frames side out1 = set cmds"
      using cycle_drive_side [OF d] busy by blast
    with False frames recover_request_frames [of side s] cycle_safety_side [OF assms(2)] show ?thesis
      by (metis sup.commute sup.cobounded2 sup.mono order_refl)
  qed
  have "side_safety side s' = side_safety side ?s"
    using cycle_drive_keeps [OF d] cycle_feedback_frames [OF f] cycle_telemetry_frames [OF t]
    by (cases side) (simp_all add: side_safety_def)
  then show "fo_init_in_progress s' = fo_init_in_progress (after_requests s)
      \<and> fo_recover_in_progress s' = fo_recover_in_progress (after_requests s)
      \<and> side_safety side s' = side_after_update side env s"
    using cycle_drive_keeps [OF d] cycle_feedback_frames [OF f] cycle_telemetry_frames [OF t]
      cycle_safety_side [OF assms(2)]
    by (simp add: cycle_safety_def)
qed

lemma follower_cycle_unarmed:
  assumes "follower_cycle cfg env s = Inr (s', out)" and "fo_arms s = None"
  shows "can_frames side out = {}"
proof -
  let ?s = "cycle_safety env (after_requests s)"
  obtain s1 s2 out1 out2 out3 where
    d: "cycle_drive cfg env ?s = Inr (s1, out1)" and
    f: "cycle_feedback cfg env s1 = Inr (s2, out2)" and t: "cycle_telemetry cfg env s2 = Inr (s', out3)" and
    out: "out = snd (recover_request s) @ out1 @ out2 @ out3"
    by (rule follower_cycle_parts [OF assms(1)]) (rule that)
  have "out1 = []"
    using d assms(2) by (simp add: cycle_drive_def cycle_safety_def)
  moreover have "snd (recover_request s) = []"
    using assms(2) by (simp add: recover_request_def Let_def)
  ultimately show ?thesis
    using cycle_feedback_frames [OF f] cycle_telemetry_frames [OF t] by (simp add: out)
qed

lemma side_inv_side: "follower_inv s \<Longrightarrow> side_inv (side_buffer side s) (side_safety side s)"
  by (cases side) (simp_all add: follower_inv_def side_buffer_def side_safety_def)

lemma follower_cycle_motion:
  assumes "follower_inv s" and "follower_cycle cfg env s = Inr (s', out)"
    and "Can side (Arm_Mit ps) \<in> set out"
  shows "\<exists>p. tb_get_latest (side_buffer side s) = Some p
    \<and> \<not> sm_estop_triggered (side_safety side s) \<and> tp_estop p \<noteq> 1 \<and> tp_enable p \<noteq> 0
    \<and> watchdog_check (safety_watchdog (sm_config (side_safety side s)))
        (stream_gap_ms (side_now side env) (tb_last_receive_time_ns (side_buffer side s))) \<noteq> DISABLE
    \<and> \<not> fo_init_in_progress s' \<and> \<not> fo_recover_in_progress s'"
proof -
  let ?b = "side_buffer side s" and ?m = "side_safety side s"
  have frame: "Arm_Mit ps \<in> can_frames side out" using assms(3) by (simp add: can_frames_def)
  have arms: "fo_arms s \<noteq> None"
    using frame follower_cycle_unarmed [OF assms(2), of side] by blast
  obtain t rd ct rs ct' rs' cmds where free: "\<not> busy (after_requests s)" and
    d: "drive_arm (fc_motion cfg) (sm_state (side_after_update side env s)) t rd ct rs
      = Inr (ct', rs', cmds)" "Arm_Mit ps \<in> set cmds"
    using follower_cycle_side(1) [OF assms(2) arms, of side] frame by blast
  have "driven (sm_state (side_after_update side env s))"
    using drive_arm_idle_frames [OF d(1)] d(2)
    by (cases "driven (sm_state (side_after_update side env s))") (auto split: if_splits)
  moreover have inv: "side_inv ?b ?m" using assms(1) by (rule side_inv_side)
  then have inv': "side_inv ?b (side_after_update side env s)"
    unfolding side_after_update_def by (rule side_inv_safety)
  ultimately have live: "live (sm_state (side_after_update side env s))"
    by (auto simp: driven_def side_inv_def)
  then obtain p where p: "tb_get_latest ?b = Some p"
    using inv' by (auto simp: side_inv_def)
  have "sm_state ?m \<noteq> DISABLED" "sc_require_enable (sm_config ?m)"
    using inv by (auto simp: side_inv_def)
  then show ?thesis
    using update_live [of p _ ?m] live p free follower_cycle_side(2) [OF assms(2) arms, of side]
    by (auto simp: side_after_update_def follower_safety_def busy_def)
qed

text \<open>
  The arms move only when they may. In every state that a run can reach, an iteration sends a
  motion frame to an arm only if no software stop is latched, the newest command on that side
  neither asks for a stop nor withholds the enable, it is younger than the disable threshold of
  the watchdog, and no recovery or initialisation is under way.
\<close>

theorem follower_moves_only_when_allowed:
  assumes "follower_inv s" and "follower_cycle cfg env s = Inr (s', out)"
    and "Can side (Arm_Mit ps) \<in> set out"
  shows "\<exists>p. tb_get_latest (side_buffer side s) = Some p
    \<and> \<not> sm_estop_triggered (side_safety side s) \<and> tp_estop p \<noteq> 1 \<and> tp_enable p \<noteq> 0
    \<and> watchdog_check (safety_watchdog (sm_config (side_safety side s)))
        (stream_gap_ms (side_now side env) (tb_last_receive_time_ns (side_buffer side s))) \<noteq> DISABLE
    \<and> \<not> fo_init_in_progress s' \<and> \<not> fo_recover_in_progress s'"
  by (rule follower_cycle_motion [OF assms])

text \<open>
  C6: a broken link switches the motors off. When the newest command grants the enable but is
  older than the disable threshold, an iteration that is not busy with recovery or
  initialisation leaves the side in FAULT, or in ESTOP when a stop is latched or asked for, and
  sends the arm the frame that disables its motors and no motion.
\<close>

theorem follower_stale_stream_disables:
  assumes "follower_inv s" and "follower_cycle cfg env s = Inr (s', out)"
    and "\<not> busy (after_requests s)"
    and "tb_get_latest (side_buffer side s) = Some p" and "tp_enable p \<noteq> 0"
    and "watchdog_check (safety_watchdog (sm_config (side_safety side s)))
        (stream_gap_ms (side_now side env) (tb_last_receive_time_ns (side_buffer side s))) = DISABLE"
  shows "sm_state (side_safety side s') \<in> {FAULT, ESTOP} \<and> Can side Disable_All \<in> set out
    \<and> (\<forall>c. Can side c \<in> set out \<longrightarrow> c = Disable_All \<or> c = Enable_All)"
proof -
  let ?m = "side_safety side s" and ?m' = "side_after_update side env s"
  have arms: "fo_arms s \<noteq> None" using assms(3) by (simp add: busy_def)
  have "side_inv (side_buffer side s) ?m" using assms(1) by (rule side_inv_side)
  then have st: "sm_state ?m' \<in> {FAULT, ESTOP}"
    using assms(4-6)
    by (auto simp: side_after_update_def follower_safety_def safety_update_def side_inv_def)
  then have "\<not> driven (sm_state ?m')" by (auto simp: driven_def live_def)
  moreover obtain t rd ct rs ct' rs' cmds where
    "drive_arm (fc_motion cfg) (sm_state ?m') t rd ct rs = Inr (ct', rs', cmds)"
    "set cmds \<subseteq> can_frames side out" "can_frames side out \<subseteq> set cmds \<union> {Enable_All}"
    using follower_cycle_side(1) [OF assms(2) arms, of side] assms(3) by blast
  ultimately have "Disable_All \<in> can_frames side out" "can_frames side out \<subseteq> {Disable_All, Enable_All}"
    using drive_arm_idle_frames [of "fc_motion cfg" "sm_state ?m'"] st by (auto split: if_splits)
  then show ?thesis
    using follower_cycle_side(2) [OF assms(2) arms, of side] st by (auto simp: can_frames_def)
qed

section \<open>Example\<close>

text \<open>A follower without joints, enabled, with one command received at time 0.\<close>

definition example_arm :: arm where
  "example_arm = (SetParameter [] [] [] [] [] [] (control_new None None ROLE_FOLLOWER ''arm''),
     system_state_new 0 0)"

definition example_command :: "u64 TeleopPacket" where
  "example_command = (teleop_zero 0)\<lparr>tp_enable := 1\<rparr>"

definition example_follower :: FollowerState where
  "example_follower =
     \<lparr> fo_exited = False, fo_keep_running = True, fo_init_requested = False,
       fo_init_in_progress = False, fo_recover_requested = False, fo_recover_in_progress = False,
       fo_goto_requested = False, fo_goto_in_progress = False, fo_goto_target = [],
       fo_threads = [], fo_buffer_r = tb_update 0 example_command tb_new,
       fo_buffer_l = tb_update 0 example_command tb_new,
       fo_safety_r = safety_new safety_config_default,
       fo_safety_l = safety_new safety_config_default, fo_arms = Some (example_arm, example_arm),
       fo_sender_r = \<lparr> us_socket_ok = True, us_target_ok = True, us_sent_count = 0 \<rparr>,
       fo_sender_l = \<lparr> us_socket_ok = True, us_target_ok = True, us_sent_count = 0 \<rparr>,
       fo_link = link_info_new, fo_link_ok = False, fo_fb_seq = 0, fo_next_link_check = 0,
       fo_publisher = publisher_new, fo_next_telemetry = 0 \<rparr>"

definition example_config :: FollowerConfig where
  "example_config =
     \<lparr> fc_motion = example_motion, fc_feedback = feedback_settings_default,
       fc_publish_telemetry = False, fc_telemetry_period_s = Fin 1, fc_period_s = Fin (1 / 500) \<rparr>"

definition example_cycle :: "u64 \<Rightarrow> CycleEnv" where
  "example_cycle now =
     \<lparr> cy_now_r = now, cy_now_l = now, cy_readings_r = no_motors, cy_readings_l = no_motors,
       cy_steady = 0, cy_link = example_link_env, cy_fb_now_r = now, cy_fb_now_l = now,
       cy_send_time_r = 0, cy_send_time_l = 0, cy_sent_r = 0, cy_sent_l = 0,
       cy_telemetry_now = 0 \<rparr>"

lemma example_inv: "follower_inv example_follower"
  by (simp add: follower_inv_def example_follower_def side_inv_new safety_config_default_def
      example_arm_def SetParameter_def control_new_def SetEffortLimits_def)

lemma example_no_requests: "recover_request example_follower = (example_follower, [])"
  "init_request example_follower = example_follower" "goto_request example_follower = example_follower"
  by (simp_all add: recover_request_def init_request_def goto_request_def example_follower_def)

lemma example_after [simp]: "after_requests example_follower = example_follower"
  by (simp add: after_requests_def example_no_requests)

lemma example_fields [simp]:
  "fo_buffer_r example_follower = tb_update 0 example_command tb_new"
  "fo_buffer_l example_follower = tb_update 0 example_command tb_new"
  "fo_safety_r example_follower = safety_new safety_config_default"
  "fo_safety_l example_follower = safety_new safety_config_default"
  "\<not> fo_init_in_progress example_follower" "\<not> fo_recover_in_progress example_follower"
  "cy_now_r (example_cycle now) = now" "cy_now_l (example_cycle now) = now"
  "cy_readings_r (example_cycle now) = no_motors" "cy_readings_l (example_cycle now) = no_motors"
  "fc_motion example_config = example_motion" "fc_feedback example_config = feedback_settings_default"
  "\<not> fc_publish_telemetry example_config" "fc_period_s example_config = Fin (1 / 500)"
  "\<not> fs_enabled feedback_settings_default"
  by (simp_all add: example_follower_def example_cycle_def example_config_def
      feedback_settings_default_def)

lemma example_parts [simp]:
  "fo_arms example_follower = Some (example_arm, example_arm)"
  "side_buffer side example_follower = tb_update 0 example_command tb_new"
  "side_safety side example_follower = safety_new safety_config_default"
  "side_now side (example_cycle now) = now" "\<not> busy example_follower"
  by (cases side; simp add: example_follower_def side_buffer_def side_safety_def side_now_def
      example_cycle_def busy_def)+

lemma example_updates:
  "follower_safety 0 (tb_update 0 example_command tb_new) (safety_new safety_config_default)
     = (safety_new safety_config_default)\<lparr>sm_state := ACTIVE\<rparr>"
  "follower_safety 100000000 (tb_update 0 example_command tb_new) (safety_new safety_config_default)
     = (safety_new safety_config_default)\<lparr>sm_state := FAULT\<rparr>"
  by (simp_all add: follower_safety_def stream_gap_ms_def dbl_of_word_def safety_eval example_command_def)

lemma example_arm_drive:
  "\<exists>ct rs cmds. drive_arm example_motion ACTIVE (latest_target (tb_update 0 example_command tb_new))
     no_motors (fst example_arm) (snd example_arm) = Inr (ct, rs, cmds) \<and> Arm_Mit [] \<in> set cmds"
proof -
  have role: "ct_role (SetFollowerGravityFeedforward b c (fst example_arm)) = ROLE_FOLLOWER"
    "ct_dynamics_f (SetFollowerGravityFeedforward b c (fst example_arm)) = None" for b c
    by (simp_all add: SetFollowerGravityFeedforward_def example_arm_def SetParameter_def
        control_new_def SetEffortLimits_def)
  show ?thesis
    by (simp add: drive_arm_def latest_target_def example_command_def apply_target_def
        follower_target_def array_prefix_def teleop_zero_def teleop_doubles_def
        example_arm_def [THEN arg_cong [of _ _ snd], simplified] system_state_new_def
        robot_state_new_def sys_get_all_references_def retarget_def set_all_references_def role
        follower_role_step follower_step_def follower_feedforward_def track_commands_def
        arm_joint_to_motor_def gripper_joint_to_motor_def Let_def store_responses_def
        set_all_responses_def rl_limit_def no_motors_def)
qed

lemma example_period: "ns_of_seconds (Fin (1 / 500)) = Inr 2000000"
  by (simp add: ns_of_seconds_def)

lemma example_cycle_drives:
  "\<exists>s' out. follower_cycle example_config (example_cycle 0) example_follower = Inr (s', out)
     \<and> Can RIGHT (Arm_Mit []) \<in> set out"
proof -
  obtain ct rs cmds where d: "drive_arm example_motion ACTIVE
      (latest_target (tb_update 0 example_command tb_new)) no_motors (fst example_arm) (snd example_arm)
      = Inr (ct, rs, cmds)" "Arm_Mit [] \<in> set cmds"
    using example_arm_drive by blast
  show ?thesis
    using d
    by (simp add: split_beta [of _ example_arm] follower_cycle_eq example_no_requests cycle_safety_def cycle_drive_def
        example_updates cycle_feedback_def cycle_telemetry_def example_period)
qed

theorem follower_moves_only_when_allowed_witness:
  "\<exists>s' out. follower_cycle example_config (example_cycle 0) example_follower = Inr (s', out)
    \<and> Can RIGHT (Arm_Mit []) \<in> set out \<and> \<not> fo_init_in_progress s'"
proof -
  obtain s' out where c: "follower_cycle example_config (example_cycle 0) example_follower = Inr (s', out)"
    "Can RIGHT (Arm_Mit []) \<in> set out"
    using example_cycle_drives by blast
  then show ?thesis
    using follower_moves_only_when_allowed [OF example_inv c] by auto
qed

theorem follower_stale_stream_disables_witness:
  "\<exists>s' out. follower_cycle example_config (example_cycle 100000000) example_follower = Inr (s', out)
    \<and> Can LEFT Disable_All \<in> set out"
proof -
  obtain s' out where c: "follower_cycle example_config (example_cycle 100000000) example_follower
      = Inr (s', out)"
    by (simp add: split_beta [of _ example_arm] follower_cycle_eq example_no_requests cycle_safety_def cycle_drive_def drive_arm_def
        example_updates cycle_feedback_def cycle_telemetry_def example_period)
  have "Can LEFT Disable_All \<in> set out"
    using follower_stale_stream_disables [OF example_inv c, of LEFT example_command]
    by (simp add: example_command_def stream_gap_ms_def dbl_of_word_def safety_new_def
        safety_config_default_def watchdog_check_def safety_watchdog_def)
  with c show ?thesis by blast
qed

definition example_start_env :: FollowerStartEnv where
  "example_start_env =
    (let arm = \<lparr> ae_dynamics = None, ae_verify = no_motors, ae_start = no_motors,
                 ae_steps = (\<lambda>_. no_motors) \<rparr>;
         sender = \<lparr> us_socket_ok = True, us_target_ok = True, us_sent_count = 0 \<rparr>
     in \<lparr> se_interfaces = example_link_env,
       se_listen = \<lparr> ln_socket = True, ln_inet_pton = True, ln_bind = True, ln_listen = True \<rparr>,
       se_receiver_sockets = (True, True), se_telemetry_socket = True, se_yaml = Inl ''no file'',
       se_link = example_link_env, se_sender_r = sender, se_sender_l = sender, se_steady = 0,
       se_arm_r = arm, se_arm_l = arm \<rparr>)"

theorem follower_runs_keep_invariant_witness:
  "\<exists>a cmds cfg s0 s out. follower_args [''--mock''] = Inr a
    \<and> follower_start a example_start_env = Inr (cmds, Some (cfg, s0))
    \<and> follower_run cfg [Packet RIGHT 5 example_command, Signal] s0 = Inr (s, out)
    \<and> sm_state (fo_safety_r s) \<notin> {READY, DISABLED}"
proof -
  let ?a = "follower_args_default\<lparr>fa_mock := True\<rparr>"
  have a: "follower_args [''--mock''] = Inr ?a"
    by (simp add: follower_args_def follower_flag_def)
  obtain cmds cfg s0 where s0: "follower_start ?a example_start_env = Inr (cmds, Some (cfg, s0))"
      "\<not> fo_exited s0"
    by (simp add: follower_start_def bind_address_def follower_args_default_def example_start_env_def
        udp_start_def udp_start_internal_def udp_receiver_new_def Let_def follower_initial_def
        load_feedback_settings_def yaml_load_def feedback_settings_default_def)
  obtain s out where r: "follower_run cfg [Packet RIGHT 5 example_command, Signal] s0 = Inr (s, out)"
    using s0(2) by (simp add: estop_both_def follower_run_def)
  have "sm_state (fo_safety_r s) \<notin> {READY, DISABLED}"
    using follower_runs_keep_invariant [OF a s0(1) r, of "fo_buffer_r s" "fo_safety_r s"] by simp
  with a s0(1) r show ?thesis by blast
qed

end
