(* ===== verification/Follower_Link.thy ===== *)
theory Follower_Link
  imports Command_Tracking Follower_Runs
begin

text \<open>
  The bimanual follower as an end of a link: the packets its receive threads store, what a loop
  iteration does with the newest of them, and what the feedback datagrams of an iteration say.
\<close>

section \<open>Packets in, references out\<close>

lemma follower_reach_inv:
  assumes "follower_args argv = Inr a" and "follower_start a env0 = Inr (cmds, Some (cfg, s0))"
    and "follower_run cfg es s0 = Inr (s, out)"
  shows "follower_inv s"
  using fo.run_inv [OF assms(3) [unfolded follower_run_def]]
    follower_start_inv [OF follower_args_enable [OF assms(1)] assms(2)] by simp

definition follower_arm :: "ArmSide \<Rightarrow> FollowerState \<Rightarrow> arm option" where
  "follower_arm side s = map_option (\<lambda>(r, l). case side of RIGHT \<Rightarrow> r | LEFT \<Rightarrow> l) (fo_arms s)"

fun follower_packets :: "follower_event \<Rightarrow> (ArmSide \<times> u64 TeleopPacket) list" where
  "follower_packets (Packet side now p) = [(side, p)]"
| "follower_packets Signal = []"
| "follower_packets (Line received) = []"
| "follower_packets (Cycle env) = []"
| "follower_packets (Thread_Done b env) = []"

definition follower_stored :: "FollowerState \<Rightarrow> ArmSide \<Rightarrow> u64 TeleopPacket \<Rightarrow> bool" where
  "follower_stored s side p \<longleftrightarrow> tb_get_latest (side_buffer side s) = Some p"

text \<open>Nothing but a packet changes a buffer, and nothing takes the arms away.\<close>

lemma follower_handlers_buffers:
  assumes "rc_handlers (follower_server cfg) c = Some h"
  shows "side_buffer side (fst (h args s)) = side_buffer side s \<and> fo_arms (fst (h args s)) = fo_arms s"
  using assms
  by (cases side)
    (auto simp: follower_server_def register_handler_def rc_new_def Let_def handle_goto_pose_def side_buffer_def
      reset_both_def estop_both_def split_beta split: if_splits)

lemma follower_line_buffers:
  "side_buffer side (fst (serve_client (rc_handlers (follower_server cfg)) received s)) = side_buffer side s
     \<and> fo_arms (fst (serve_client (rc_handlers (follower_server cfg)) received s)) = fo_arms s"
  by (auto simp: serve_client_def handle_command_def split_beta Let_def follower_handlers_buffers split: option.splits)

lemma after_requests_side:
  "side_buffer side (cycle_safety env (after_requests s)) = side_buffer side s"
  "follower_arm side (cycle_safety env (after_requests s)) = follower_arm side s"
  by (cases side; simp add: side_buffer_def follower_arm_def cycle_safety_def)+

lemma cycle_drive_buffers:
  "cycle_drive cfg env s = Inr (s', out) \<Longrightarrow> side_buffer side s' = side_buffer side s
     \<and> (fo_arms s' = None \<longleftrightarrow> fo_arms s = None)"
  by (cases side) (auto simp: cycle_drive_def side_buffer_def res_bind_eq_Inr split: if_splits option.splits)

lemma cycle_feedback_buffers:
  "cycle_feedback cfg env s = Inr (s', out) \<Longrightarrow> side_buffer side s' = side_buffer side s
     \<and> side_safety side s' = side_safety side s \<and> fo_arms s' = fo_arms s"
  by (cases side) (auto simp: cycle_feedback_def refresh_follower_link_def res_bind_eq_Inr split_beta Let_def
      side_buffer_def side_safety_def split: if_splits)

lemma cycle_telemetry_buffers:
  "cycle_telemetry cfg env s = Inr (s', out) \<Longrightarrow> side_buffer side s' = side_buffer side s
     \<and> side_safety side s' = side_safety side s \<and> fo_arms s' = fo_arms s"
  by (cases side) (auto simp: cycle_telemetry_def res_bind_eq_Inr split_beta Let_def
      side_buffer_def side_safety_def split: if_splits)

lemma follower_cycle_buffers:
  assumes "follower_cycle cfg env s = Inr (s', out)"
  shows "side_buffer side s' = side_buffer side s \<and> (fo_arms s' = None \<longleftrightarrow> fo_arms s = None)"
proof -
  obtain s1 s2 out1 out2 out3 where
    d: "cycle_drive cfg env (cycle_safety env (after_requests s)) = Inr (s1, out1)"
    and f: "cycle_feedback cfg env s1 = Inr (s2, out2)" and t: "cycle_telemetry cfg env s2 = Inr (s', out3)"
    by (rule follower_cycle_parts [OF assms]) (rule that)
  have "fo_arms (cycle_safety env (after_requests s)) = fo_arms s"
    by (simp add: cycle_safety_def)
  then show ?thesis
    using cycle_drive_buffers [OF d, of side] cycle_feedback_buffers [OF f, of side]
      cycle_telemetry_buffers [OF t, of side] after_requests_side(1) [of side env s] by simp
qed

lemma complete_thread_buffers:
  "complete_thread b env s = Inr (s', out) \<Longrightarrow>
     side_buffer side s' = side_buffer side s \<and> (fo_arms s' = None \<longleftrightarrow> fo_arms s = None)"
  by (cases side; cases b)
    (auto simp: complete_thread_def res_bind_eq_Inr Let_def side_buffer_def reset_both_def split: option.splits)

lemma follower_react_buffers:
  assumes "follower_react cfg f s = Inr (s', out)"
  shows "side_buffer side s' = side_buffer side s
      \<or> (\<exists>now p. f = Packet side now p \<and> side_buffer side s' = tb_update now p (side_buffer side s))"
    and "fo_arms s' = None \<longleftrightarrow> fo_arms s = None"
proof -
  have "(side_buffer side s' = side_buffer side s
      \<or> (\<exists>now p. f = Packet side now p \<and> side_buffer side s' = tb_update now p (side_buffer side s)))
      \<and> (fo_arms s' = None \<longleftrightarrow> fo_arms s = None)"
  proof (cases f)
    case (Packet sd now p)
    with assms show ?thesis by (cases sd; cases side) (auto simp: side_buffer_def)
  next
    case Signal
    with assms show ?thesis by (cases side) (auto simp: side_buffer_def estop_both_def)
  next
    case (Line received)
    with assms follower_line_buffers [of side cfg received s] show ?thesis
      by (auto simp: split_beta)
  next
    case (Cycle env)
    with assms follower_cycle_buffers [of cfg env s s' out side] show ?thesis
      by (cases side) (auto simp: side_buffer_def split: if_splits)
  next
    case (Thread_Done b env)
    with assms complete_thread_buffers [of b env s s' out side] show ?thesis
      by (auto split: if_splits)
  qed
  then show "side_buffer side s' = side_buffer side s
      \<or> (\<exists>now p. f = Packet side now p \<and> side_buffer side s' = tb_update now p (side_buffer side s))"
    "fo_arms s' = None \<longleftrightarrow> fo_arms s = None" by simp_all
qed

lemma follower_react_stored:
  assumes "follower_react cfg f s = Inr (s', out)" and "follower_stored s' side p"
  shows "follower_stored s side p \<or> (side, p) \<in> set (follower_packets f)"
  using follower_react_buffers(1) [OF assms(1), of side] assms(2) by (auto simp: follower_stored_def)

section \<open>One iteration tracks the newest packet\<close>

lemma cycle_drive_arm:
  assumes "cycle_drive cfg env s = Inr (s', out)" and "\<not> busy s"
  shows "\<exists>rd ct rs ct' rs' cmds. follower_arm side s = Some (ct, rs) \<and> follower_arm side s' = Some (ct', rs')
    \<and> drive_arm (fc_motion cfg) (sm_state (side_safety side s)) (latest_target (side_buffer side s)) rd ct rs
        = Inr (ct', rs', cmds) \<and> can_frames side out = set cmds"
proof -
  obtain cr rr cl rl where arms: "fo_arms s = Some ((cr, rr), (cl, rl))"
    using assms(2) by (cases "fo_arms s") (auto simp: busy_def)
  let ?drive = "\<lambda>m b. drive_arm (fc_motion cfg) (sm_state m) (latest_target b)"
  obtain cr' rr' outr cl' rl' outl where
    r: "?drive (fo_safety_r s) (fo_buffer_r s) (cy_readings_r env) cr rr = Inr (cr', rr', outr)" and
    l: "?drive (fo_safety_l s) (fo_buffer_l s) (cy_readings_l env) cl rl = Inr (cl', rl', outl)" and
    s': "s' = s\<lparr>fo_arms := Some ((cr', rr'), (cl', rl'))\<rparr>" and
    out: "out = map (Can RIGHT) outr @ map (Can LEFT) outl"
    using assms by (auto simp: busy_def cycle_drive_def arms res_bind_eq_Inr)
  show ?thesis
  proof (cases side)
    case RIGHT
    show ?thesis
      by (intro exI [of _ "cy_readings_r env"] exI [of _ cr] exI [of _ rr] exI [of _ cr'] exI [of _ rr'] exI [of _ outr])
        (use r out arms s' RIGHT in \<open>simp add: side_safety_def side_buffer_def follower_arm_def\<close>)
  next
    case LEFT
    show ?thesis
      by (intro exI [of _ "cy_readings_l env"] exI [of _ cl] exI [of _ rl] exI [of _ cl'] exI [of _ rl'] exI [of _ outl])
        (use l out arms s' LEFT in \<open>simp add: side_safety_def side_buffer_def follower_arm_def\<close>)
  qed
qed

lemma follower_arm_role: "follower_inv s \<Longrightarrow> follower_arm side s = Some (ct, rs) \<Longrightarrow> ct_role ct = ROLE_FOLLOWER"
  by (cases side) (auto simp: follower_inv_def follower_roles_def follower_arm_def split: option.splits)

lemma follower_cycle_tracks:
  assumes "follower_inv s" and "follower_cycle cfg env s = Inr (s', out)" and "Can side (Arm_Mit ps) \<in> set out"
    and "tb_get_latest (side_buffer side s) = Some p"
  shows "\<exists>ct rs ct' rs'. follower_arm side s = Some (ct, rs) \<and> follower_arm side s' = Some (ct', rs')
    \<and> map mp_q ps = arm_positions rs'
    \<and> all_refs rs' = (if sm_state (side_safety side s') = HOLD then all_refs rs
        else tracked (mo_limiter (fc_motion cfg)) (posture p) (all_refs rs))"
proof -
  let ?s = "cycle_safety env (after_requests s)"
  obtain s1 s2 out1 out2 out3 where
    d: "cycle_drive cfg env ?s = Inr (s1, out1)"
    and f: "cycle_feedback cfg env s1 = Inr (s2, out2)" and t: "cycle_telemetry cfg env s2 = Inr (s', out3)"
    and out: "out = snd (recover_request s) @ out1 @ out2 @ out3"
    by (rule follower_cycle_parts [OF assms(2)]) (rule that)
  have frame: "Arm_Mit ps \<in> can_frames side out1"
    using assms(3) recover_request_frames [of side s] cycle_feedback_frames [OF f, of side]
      cycle_telemetry_frames [OF t, of side]
    by (auto simp: out can_frames_def set_eq_iff)
  then have free: "\<not> busy ?s" using d cycle_drive_busy [of ?s cfg env] by auto
  obtain rd ct rs ct' rs' cmds where arm: "follower_arm side ?s = Some (ct, rs)" "follower_arm side s1 = Some (ct', rs')"
    and dr: "drive_arm (fc_motion cfg) (sm_state (side_safety side ?s)) (latest_target (side_buffer side ?s)) rd ct rs
        = Inr (ct', rs', cmds)" "can_frames side out1 = set cmds"
    using cycle_drive_arm [OF d free, of side] by blast
  have old: "follower_arm side s = Some (ct, rs)" "tb_get_latest (side_buffer side ?s) = Some p"
    using arm(1) assms(4) by (simp_all only: after_requests_side)
  have new: "follower_arm side s' = Some (ct', rs')" "side_safety side s' = side_safety side ?s"
    using arm(2) cycle_feedback_buffers [OF f, of side] cycle_telemetry_buffers [OF t, of side] cycle_drive_keeps [OF d]
    by (cases side; simp add: follower_arm_def side_safety_def)+
  have role: "ct_role ct = ROLE_FOLLOWER" using follower_arm_role [OF assms(1) old(1)] .
  have "map mp_q ps = arm_positions rs' \<and> all_refs rs' = (if sm_state (side_safety side ?s) = HOLD then all_refs rs
        else tracked (mo_limiter (fc_motion cfg)) (posture p) (all_refs rs))"
    by (rule drive_arm_tracks [OF dr(1) [unfolded latest_target_def] role _ old(2)]) (use dr(2) frame in simp)
  with old(1) new show ?thesis by simp
qed

section \<open>What a feedback datagram says\<close>

lemma fill_feedback_wf [simp]: "feedback_wf (fill_feedback side mode st lk cmd recv now arm hand)"
  by (auto simp: fill_feedback_def feedback_wf_def feedback_zero_def Let_def split: option.splits)

lemma feedback_packet_wf [simp]: "feedback_wf (feedback_packet side st lk b now a seq)"
  by (simp add: feedback_packet_def feedback_wf_def [of "_\<lparr>fp_seq := seq\<rparr>"] split_beta)
    (simp add: feedback_wf_def [symmetric])

text \<open>An iteration's datagrams, and the follower's state they report.\<close>

definition follower_feedback :: "ArmSide \<Rightarrow> u8 list \<Rightarrow> FollowerState \<Rightarrow> bool" where
  "follower_feedback side d s \<longleftrightarrow> (\<exists>t now lk seq. d = feedback_bytes (feedback_encode t (feedback_bits
     (feedback_packet side (sm_state (side_safety side s)) lk (side_buffer side s) now (follower_arm side s) seq))))"

lemma cycle_feedback_datagram:
  assumes "cycle_feedback cfg env s = Inr (s', out)" and "Feedback_Datagram side d \<in> set out"
  shows "follower_feedback side d s"
proof -
  have sent: "\<exists>t. x = feedback_bytes (feedback_encode t (feedback_bits fb)) \<and> side1 = side2"
    if "Feedback_Datagram side1 x \<in> set (snd (send_feedback side2 tm n fb sender))" for side1 x side2 tm n fb sender
    using that by (auto simp: send_feedback_def udp_send_raw_def split: if_splits)
  let ?R = "\<lambda>s1. snd (send_feedback RIGHT (cy_send_time_r env) (cy_sent_r env)
      (feedback_packet RIGHT (sm_state (fo_safety_r s1)) (fo_link_ok s1) (fo_buffer_r s1)
        (cy_fb_now_r env) (map_option fst (fo_arms s1)) (fo_fb_seq s1)) (fo_sender_r s1))"
  let ?L = "\<lambda>s1. snd (send_feedback LEFT (cy_send_time_l env) (cy_sent_l env)
      (feedback_packet LEFT (sm_state (fo_safety_l s1)) (fo_link_ok s1) (fo_buffer_l s1)
        (cy_fb_now_l env) (map_option snd (fo_arms s1)) (fo_fb_seq s1)) (fo_sender_l s1))"
  have "fs_enabled (fc_feedback cfg)"
    using assms by (auto simp: cycle_feedback_def split: if_splits)
  then obtain s1 where l: "refresh_follower_link cfg env s = Inr s1" and out: "out = ?R s1 @ ?L s1"
    using assms(1) by (clarsimp simp: cycle_feedback_def res_bind_eq_Inr split_beta Let_def)
  have same: "side_buffer side s1 = side_buffer side s" "side_safety side s1 = side_safety side s"
    "follower_arm side s1 = follower_arm side s" for side
    using l by (cases side; auto simp: refresh_follower_link_def res_bind_eq_Inr split_beta Let_def side_buffer_def
        side_safety_def follower_arm_def split: if_splits)+
  have arm: "map_option fst (fo_arms s1) = follower_arm RIGHT s1" "map_option snd (fo_arms s1) = follower_arm LEFT s1"
    by (cases "fo_arms s1"; auto simp: follower_arm_def)+
  have buf: "fo_buffer_r s1 = side_buffer RIGHT s1" "fo_buffer_l s1 = side_buffer LEFT s1"
    "fo_safety_r s1 = side_safety RIGHT s1" "fo_safety_l s1 = side_safety LEFT s1"
    by (simp_all add: side_buffer_def side_safety_def)
  from assms(2) consider "Feedback_Datagram side d \<in> set (?R s1)" | "Feedback_Datagram side d \<in> set (?L s1)"
    unfolding out by auto
  then show ?thesis
  proof cases
    case 1
    from sent [OF this] same [of RIGHT] show ?thesis
      unfolding follower_feedback_def arm buf by auto
  next
    case 2
    from sent [OF this] same [of LEFT] show ?thesis
      unfolding follower_feedback_def arm buf by auto
  qed
qed

lemma follower_cycle_feedback:
  assumes "follower_cycle cfg env s = Inr (s', out)" and "Feedback_Datagram side d \<in> set out"
  shows "follower_feedback side d s'"
proof -
  obtain s1 s2 out1 out2 out3 where
    d: "cycle_drive cfg env (cycle_safety env (after_requests s)) = Inr (s1, out1)"
    and f: "cycle_feedback cfg env s1 = Inr (s2, out2)" and t: "cycle_telemetry cfg env s2 = Inr (s', out3)"
    and out: "out = snd (recover_request s) @ out1 @ out2 @ out3"
    by (rule follower_cycle_parts [OF assms(1)]) (rule that)
  have "Feedback_Datagram side d \<notin> set (snd (recover_request s))"
    by (auto simp: recover_request_def Let_def)
  moreover have "Feedback_Datagram side d \<notin> set out1"
    using d by (auto simp: cycle_drive_def res_bind_eq_Inr split: option.splits if_splits)
  moreover have "Feedback_Datagram side d \<notin> set out3"
    using t by (auto simp: cycle_telemetry_def res_bind_eq_Inr split_beta Let_def split: if_splits option.splits)
  ultimately have "follower_feedback side d s1"
    using assms(2) cycle_feedback_datagram [OF f] by (auto simp: out)
  moreover have "side_buffer side s' = side_buffer side s1" "side_safety side s' = side_safety side s1"
    "follower_arm side s' = follower_arm side s1"
    using cycle_feedback_buffers [OF f, of side] cycle_telemetry_buffers [OF t, of side]
    by (simp_all add: follower_arm_def)
  ultimately show ?thesis by (simp add: follower_feedback_def)
qed

lemma follower_feedback_acceptable: "follower_feedback side d s \<Longrightarrow> feedback_acceptable d"
  by (auto simp: follower_feedback_def)

text \<open>A datagram that an iteration of the follower, reached from its start, has sent.\<close>

definition follower_sent ::
    "FollowerConfig \<Rightarrow> FollowerState \<Rightarrow> FollowerState \<Rightarrow> CycleEnv \<Rightarrow> FollowerState \<Rightarrow> ArmSide \<Rightarrow> u8 list \<Rightarrow> bool" where
  "follower_sent cfg r0 r env r' side d \<longleftrightarrow> reached (follower_react cfg) fo_exited r0 r \<and> \<not> fo_exited r
     \<and> (\<exists>out. follower_cycle cfg env r = Inr (r', out) \<and> Feedback_Datagram side d \<in> set out)"

lemma follower_sent_feedback: "follower_sent cfg r0 r env r' side d \<Longrightarrow> follower_feedback side d r'"
  by (auto simp: follower_sent_def intro: follower_cycle_feedback)

definition follower_feedbacks :: "follower_output list \<Rightarrow> (ArmSide \<times> u8 list) list" where
  "follower_feedbacks out = concat (map (\<lambda>x. case x of Feedback_Datagram side d \<Rightarrow> [(side, d)] | _ \<Rightarrow> []) out)"

lemma follower_feedbacks_iff: "(side, d) \<in> set (follower_feedbacks out) \<longleftrightarrow> Feedback_Datagram side d \<in> set out"
  by (induction out) (auto simp: follower_feedbacks_def split: follower_output.splits)

lemma follower_react_sent:
  assumes "follower_react cfg f r = Inr (r', out)" and "Feedback_Datagram side d \<in> set out"
  shows "\<exists>env. follower_cycle cfg env r = Inr (r', out)"
proof (cases f)
  case (Packet sd now p)
  with assms show ?thesis by (cases sd) auto
next
  case (Thread_Done b env)
  with assms show ?thesis
    by (auto simp: complete_thread_def res_bind_eq_Inr Let_def split: if_splits option.splits background.splits)
qed (use assms in \<open>auto simp: split_beta follower_shutdown_def split: if_splits\<close>)

lemma follower_sent_arm:
  assumes "follower_sent cfg r0 r env r' side d" and "fo_arms r0 \<noteq> None"
  shows "follower_arm side r' \<noteq> None"
proof -
  obtain es out where run: "app_run (follower_react cfg) fo_exited es r0 = Inr (r, out)"
    using assms(1) by (auto simp: follower_sent_def reached_def)
  have "(fo_arms r = None) = (fo_arms r0 = None)"
    by (rule app_run_keeps [OF run]) (rule follower_react_buffers(2))
  moreover obtain out where "follower_cycle cfg env r = Inr (r', out)"
    using assms(1) by (auto simp: follower_sent_def)
  ultimately have "fo_arms r' \<noteq> None"
    using assms(2) follower_cycle_buffers by metis
  then show ?thesis by (auto simp: follower_arm_def)
qed

lemma follower_start_fresh:
  "follower_start a env = Inr (cmds, Some (cfg, r0)) \<Longrightarrow> \<not> follower_stored r0 side p"
  by (cases side) (auto simp: follower_start_def follower_initial_def follower_stored_def side_buffer_def
      res_bind_eq_Inr Let_def split_beta split: if_splits)

text \<open>
  Read by the leader: the follower is enabled exactly when that side is ACTIVE, and the positions
  are those the follower's motors reported.
\<close>

lemma follower_feedback_says:
  assumes "follower_feedback side d s" and "follower_arm side s = Some (ct, rs)"
    and "fb = feedback_doubles (feedback_of_bytes d)"
  shows "feedback_acceptable d"
    and "fp_enabled fb = (if sm_state (side_safety side s) = ACTIVE then 1 else 0)"
    and "unat (fp_arm_dof fb) = min 8 (length (rs_response (ss_arm rs)))"
    and "unat (fp_hand_dof fb) = min 4 (length (rs_response (ss_hand rs)))"
    and "i < min 8 (length (rs_response (ss_arm rs))) \<Longrightarrow>
      fp_arm_pos fb ! i = over_wire (js_position (rs_response (ss_arm rs) ! i))"
    and "i < min 4 (length (rs_response (ss_hand rs))) \<Longrightarrow>
      fp_hand_pos fb ! i = over_wire (js_position (rs_response (ss_hand rs) ! i))"
proof -
  obtain t now lk seq where d: "d = feedback_bytes (feedback_encode t (feedback_bits
      (feedback_packet side (sm_state (side_safety side s)) lk (side_buffer side s) now (Some (ct, rs)) seq)))"
    using assms(1,2) unfolding follower_feedback_def by auto
  let ?p = "feedback_packet side (sm_state (side_safety side s)) lk (side_buffer side s) now (Some (ct, rs)) seq"
  have wf: "feedback_wf (feedback_encode t (feedback_bits ?p))" by simp
  then show "feedback_acceptable d" by (simp add: d)
  have fb: "fb = feedback_doubles (feedback_encode t (feedback_bits ?p))"
    using assms(3) wf by (simp add: d)
  have e: "fp_enabled fb = fp_enabled ?p" "fp_arm_dof fb = fp_arm_dof ?p" "fp_hand_dof fb = fp_hand_dof ?p"
    "fp_arm_pos fb = map over_wire (fp_arm_pos ?p)" "fp_hand_pos fb = map over_wire (fp_hand_pos ?p)"
    by (simp_all add: fb feedback_doubles_def feedback_encode_def feedback_bits_def Let_def over_wire_def)
  have n: "unat (word_of_nat (min k n) :: u8) = min k n" if "k < 256" for k n :: nat
    using that by (simp add: unat_of_nat)
  show "fp_enabled fb = (if sm_state (side_safety side s) = ACTIVE then 1 else 0)"
    by (auto simp: e feedback_packet_def fill_feedback_def Let_def split: option.splits)
  show "unat (fp_arm_dof fb) = min 8 (length (rs_response (ss_arm rs)))"
    using n [of 8] by (auto simp: e feedback_packet_def fill_feedback_def Let_def min.commute split: option.splits)
  show "unat (fp_hand_dof fb) = min 4 (length (rs_response (ss_hand rs)))"
    using n [of 4] by (auto simp: e feedback_packet_def fill_feedback_def Let_def min.commute split: option.splits)
  show "i < min 8 (length (rs_response (ss_arm rs))) \<Longrightarrow>
      fp_arm_pos fb ! i = over_wire (js_position (rs_response (ss_arm rs) ! i))"
    by (auto simp: e feedback_packet_def fill_feedback_def feedback_zero_def Let_def copy_prefix_nth split: option.splits)
  show "i < min 4 (length (rs_response (ss_hand rs))) \<Longrightarrow>
      fp_hand_pos fb ! i = over_wire (js_position (rs_response (ss_hand rs) ! i))"
    by (auto simp: e feedback_packet_def fill_feedback_def feedback_zero_def Let_def copy_prefix_nth split: option.splits)
qed

end
