(* ===== verification/Link_Examples.thy ===== *)
theory Link_Examples
  imports Leader_Link Follower_Link
begin

text \<open>
  A bimanual follower with two arms of seven joints and a gripper, brought up from its default
  command line, that has received one command for the right arm. The examples of the composed
  systems start from it.
\<close>

section \<open>Start-up\<close>

definition example_follower_params :: YamlLoader where
  "example_follower_params = [''FollowerArmParam'' \<mapsto> (\<lambda>_. Some
     \<lparr> yn_double = Inr (Fin 1), yn_vector = Inr (replicate 8 (Fin 2)),
       yn_string = Inl Out_Of_Range, yn_bool = Inr False, yn_int = Inl Out_Of_Range \<rparr>)]"

definition example_arms_start :: FollowerStartEnv where
  "example_arms_start = example_start_env\<lparr>se_yaml := Inr example_follower_params,
     se_arm_r := example_arm_env, se_arm_l := example_arm_env\<rparr>"

text \<open>The references of an arm that is at one radian with its gripper motor when it has come up.\<close>

definition example_refs :: "dbl list" where
  "example_refs = replicate 7 (Fin 1) @ [Fin (- (55 / 1309))]"

lemma example_adjusted:
  "\<exists>rs cmds. adjust_arm example_arm_env (ct, rs0) = Inr ((ct, rs), cmds)
    \<and> length (rs_reference (ss_arm rs)) = 7 \<and> length (rs_reference (ss_hand rs)) = 1
    \<and> all_refs rs = example_refs"
  by (simp add: adjust_arm_def AdjustPosition_def MoveToPose_def example_arm_env_def example_bus_def
      move_readings_def without_effort_def NMOTORS_def set_all_responses_def set_all_references_def
      all_refs_def sys_get_all_references_def example_refs_def)
    (simp add: gripper_motor_to_joint_def arm_motor_to_joint_def Let_def)

definition example_dyn :: Dynamics where
  "example_dyn = \<lparr> dy_joints = 7, dy_gravity = (\<lambda>q. q), dy_coriolis = (\<lambda>q dq. q) \<rparr>"

lemma example_arm_dynamics: "ae_dynamics example_arm_env = Some example_dyn"
  by (simp add: example_arm_env_def example_dyn_def)

lemma example_both_up:
  "\<exists>cmds rr rl. bring_up mk example_arm_env example_arm_env
      = Inr (cmds, Some ((mk example_dyn ''right_arm'', rr), (mk example_dyn ''left_arm'', rl)))
    \<and> length (rs_reference (ss_arm rr)) = 7 \<and> length (rs_reference (ss_hand rr)) = 1 \<and> all_refs rr = example_refs"
proof -
  let ?new = "system_state_new (length (rd_arm (ae_verify example_arm_env))) (length (rd_gripper (ae_verify example_arm_env)))"
  have ok: "snd (verify_arm_hardware (ae_verify example_arm_env))"
    by (simp add: example_arm_env_def example_bus_def verify_arm_hardware_def responding_def motor_has_data_def dbl_eq_def)
  obtain rr cr where r: "adjust_arm example_arm_env (mk example_dyn ''right_arm'', ?new)
      = Inr ((mk example_dyn ''right_arm'', rr), cr)"
    and len: "length (rs_reference (ss_arm rr)) = 7" "length (rs_reference (ss_hand rr)) = 1" "all_refs rr = example_refs"
    using example_adjusted by blast
  obtain rl cl where l: "adjust_arm example_arm_env (mk example_dyn ''left_arm'', ?new)
      = Inr ((mk example_dyn ''left_arm'', rl), cl)"
    using example_adjusted by blast
  from ok r l len show ?thesis by (simp add: bring_up_def example_arm_dynamics Let_def split_beta)
qed

text \<open>The arm of a side as it comes up.\<close>

definition example_side_control :: "string \<Rightarrow> Control" where
  "example_side_control name = SetParameter (replicate 8 (Fin 2)) (replicate 8 (Fin 2)) (replicate 8 (Fin 2))
     (replicate 8 (Fin 2)) (replicate 8 (Fin 2)) (replicate 8 (Fin 2))
     (control_new None (Some example_dyn) ROLE_FOLLOWER name)"

lemma example_side_control_simps [simp]:
  "ct_role (example_side_control name) = ROLE_FOLLOWER" "length (ct_Kp (example_side_control name)) = 8"
  "length (ct_Kd (example_side_control name)) = 8"
  "ct_dynamics_f (example_side_control name) = Some example_dyn"
  by (simp_all add: example_side_control_def SetParameter_def control_new_def SetEffortLimits_def)

lemma example_arms_up:
  "\<exists>cmds rr rl. follower_hardware follower_args_default (Inr example_follower_params) example_arm_env example_arm_env
    = Inr (cmds, Some (((example_side_control ''right_arm'', rr), (example_side_control ''left_arm'', rl)),
        \<lparr> fq_kp = replicate 8 (Fin 2), fq_kd = replicate 8 (Fin 2), fq_Fc = replicate 8 (Fin 2),
          fq_k = replicate 8 (Fin 2), fq_Fv = replicate 8 (Fin 2), fq_Fo = replicate 8 (Fin 2),
          fq_gravity_ff = False, fq_gravity_ff_scale = Fin 1 \<rparr>))
    \<and> length (rs_reference (ss_arm rr)) = 7 \<and> length (rs_reference (ss_hand rr)) = 1 \<and> all_refs rr = example_refs"
proof -
  let ?v = "replicate 8 (Fin 2)"
  let ?p = "\<lparr> fq_kp = ?v, fq_kd = ?v, fq_Fc = ?v, fq_k = ?v, fq_Fv = ?v, fq_Fo = ?v,
      fq_gravity_ff = False, fq_gravity_ff_scale = Fin 1 \<rparr>"
  have params: "follower_params example_follower_params = Inr ?p"
    by (simp add: follower_params_def yaml_get_def yaml_get_or_cases yaml_get_node_def Let_def example_follower_params_def)
  have mk: "follower_control ?p example_dyn name = example_side_control name" for name
    by (simp add: follower_control_def example_side_control_def)
  obtain cmds rr rl where "bring_up (follower_control ?p) example_arm_env example_arm_env
      = Inr (cmds, Some ((example_side_control ''right_arm'', rr), (example_side_control ''left_arm'', rl)))"
      "length (rs_reference (ss_arm rr)) = 7" "length (rs_reference (ss_hand rr)) = 1" "all_refs rr = example_refs"
    using example_both_up [of "follower_control ?p"] unfolding mk by blast
  then show ?thesis
    by (simp add: follower_hardware_def follower_args_default_def yaml_load_def params)
qed

text \<open>A follower just started, with the two arms of the example.\<close>

definition example_ready :: "FollowerState \<Rightarrow> bool" where
  "example_ready r \<longleftrightarrow> (\<exists>rr rl. fo_arms r = Some ((example_side_control ''right_arm'', rr), (example_side_control ''left_arm'', rl))
      \<and> length (rs_reference (ss_arm rr)) = 7 \<and> length (rs_reference (ss_hand rr)) = 1 \<and> all_refs rr = example_refs)
    \<and> \<not> fo_exited r \<and> fo_keep_running r \<and> fo_buffer_r r = tb_new \<and> fo_buffer_l r = tb_new
    \<and> fo_safety_r r = safety_new safety_config_default \<and> fo_safety_l r = safety_new safety_config_default
    \<and> \<not> fo_recover_requested r \<and> \<not> fo_init_requested r \<and> \<not> fo_goto_requested r
    \<and> \<not> fo_init_in_progress r \<and> \<not> fo_recover_in_progress r"

lemma example_follower_started:
  "\<exists>cmds cfg r0. follower_args [] = Inr follower_args_default
    \<and> follower_start follower_args_default example_arms_start = Inr (cmds, Some (cfg, r0)) \<and> example_ready r0
    \<and> \<not> fs_enabled (fc_feedback cfg) \<and> \<not> fc_publish_telemetry cfg \<and> fc_period_s cfg = Fin (1 / 500)
    \<and> rl_effective (mo_limiter (fc_motion cfg)) = Fin (3 / 1000)"
proof -
  obtain cmds rr rl where up: "follower_hardware follower_args_default (Inr example_follower_params) example_arm_env
      example_arm_env = Inr (cmds, Some (((example_side_control ''right_arm'', rr), (example_side_control ''left_arm'', rl)),
        \<lparr> fq_kp = replicate 8 (Fin 2), fq_kd = replicate 8 (Fin 2), fq_Fc = replicate 8 (Fin 2),
          fq_k = replicate 8 (Fin 2), fq_Fv = replicate 8 (Fin 2), fq_Fo = replicate 8 (Fin 2),
          fq_gravity_ff = False, fq_gravity_ff_scale = Fin 1 \<rparr>))"
    and len: "length (rs_reference (ss_arm rr)) = 7" "length (rs_reference (ss_hand rr)) = 1" "all_refs rr = example_refs"
    using example_arms_up by blast
  have env: "se_yaml example_arms_start = Inr example_follower_params" "se_arm_r example_arms_start = example_arm_env"
    "se_arm_l example_arms_start = example_arm_env" "se_receiver_sockets example_arms_start = (True, True)"
    by (simp_all add: example_arms_start_def example_start_env_def Let_def)
  have fs: "load_feedback_settings ''config/follower.yaml'' (Inr example_follower_params) = feedback_settings_default"
    by (simp add: load_feedback_settings_def yaml_load_def yaml_has_node_def example_follower_params_def)
  have a: "fa_control_port follower_args_default = 0" "\<not> fa_publish_telemetry follower_args_default"
    "\<not> fa_mock follower_args_default" "fa_safety_config follower_args_default = safety_config_default"
    "fa_rate_hz follower_args_default = Fin 500" "\<not> fs_enabled feedback_settings_default"
    by (simp_all add: follower_args_default_def feedback_settings_default_def)
  have bind: "bind_address x (fa_interface_name follower_args_default) (fa_bind_ip follower_args_default) \<noteq> None" for x
    by (simp add: bind_address_def follower_args_default_def)
  obtain cfg r0 where start: "follower_start follower_args_default example_arms_start = Inr (cmds, Some (cfg, r0))"
    and cfg: "cfg = follower_config follower_args_default feedback_settings_default False (Fin 1)"
    and r0: "r0 = follower_initial follower_args_default example_arms_start feedback_settings_default
        (Some ((example_side_control ''right_arm'', rr), (example_side_control ''left_arm'', rl)))"
    using bind up by (simp add: follower_start_def env fs a udp_start_def udp_start_internal_def udp_receiver_new_def)
  have fields: "\<not> fo_recover_requested r0" "\<not> fo_init_requested r0" "\<not> fo_goto_requested r0" "\<not> fo_init_in_progress r0"
    "\<not> fo_recover_in_progress r0" "\<not> fo_exited r0" "fo_keep_running r0" "fo_buffer_r r0 = tb_new" "fo_buffer_l r0 = tb_new"
    "fo_safety_r r0 = safety_new safety_config_default" "fo_safety_l r0 = safety_new safety_config_default"
    "fo_arms r0 = Some ((example_side_control ''right_arm'', rr), (example_side_control ''left_arm'', rl))"
    by (simp_all add: r0 follower_initial_def a)
  then have "example_ready r0" using len by (simp add: example_ready_def)
  moreover have "\<not> fs_enabled (fc_feedback cfg)" "\<not> fc_publish_telemetry cfg" "fc_period_s cfg = Fin (1 / 500)"
    by (simp_all add: cfg follower_config_def a)
  moreover have "rl_effective (mo_limiter (fc_motion cfg)) = Fin (3 / 1000)"
    by (simp add: cfg follower_config_def follower_motion_config_def rl_effective_def follower_args_default_def
        safety_config_default_def)
  moreover have "follower_args [] = Inr follower_args_default" by (simp add: follower_args_def)
  ultimately show ?thesis using start by blast
qed

section \<open>One command, one step\<close>

lemma example_bus_fits: "length (rd_arm example_bus) = 7" "length (rd_gripper example_bus) = 1"
    "dynamics_ok (Some example_dyn) 7"
  by (simp_all add: example_bus_def example_dyn_def dynamics_ok_def)

definition example_follower_cycle :: CycleEnv where
  "example_follower_cycle = (example_cycle 2000000)\<lparr>cy_readings_r := example_bus, cy_readings_l := example_bus\<rparr>"

lemma example_follower_moves:
  assumes "example_ready r0"
    and "\<not> fs_enabled (fc_feedback cfg)" and "\<not> fc_publish_telemetry cfg" and "fc_period_s cfg = Fin (1 / 500)"
    and "teleop_wf p" and "tp_enable p = 1" and "tp_estop p = 0"
    and "unat (tp_arm_dof p) \<le> 8" and "unat (tp_hand_dof p) \<le> 4"
  shows "\<exists>r' out arm. follower_cycle cfg example_follower_cycle (r0\<lparr>fo_buffer_r := tb_update 1000000 p tb_new\<rparr>) = Inr (r', out)
    \<and> Can RIGHT (Arm_Mit arm) \<in> set out \<and> sm_state (side_safety RIGHT r') = ACTIVE"
proof -
  let ?r = "r0\<lparr>fo_buffer_r := tb_update 1000000 p tb_new\<rparr>"
  obtain rr rl where arms: "fo_arms ?r = Some ((example_side_control ''right_arm'', rr), (example_side_control ''left_arm'', rl))"
      "length (rs_reference (ss_arm rr)) = 7" "length (rs_reference (ss_hand rr)) = 1" "all_refs rr = example_refs"
    and bufs: "fo_buffer_r ?r = tb_update 1000000 p tb_new" "fo_buffer_l ?r = tb_new"
      "fo_safety_r ?r = safety_new safety_config_default" "fo_safety_l ?r = safety_new safety_config_default"
    and free: "\<not> fo_init_in_progress ?r" "\<not> fo_recover_in_progress ?r"
    and idle: "after_requests ?r = ?r" "recover_request ?r = (?r, [])"
    using assms(1)
    by (auto simp: example_ready_def after_requests_def recover_request_def init_request_def goto_request_def)
  let ?env = example_follower_cycle and ?b = "tb_update 1000000 p tb_new"
  have env: "cy_now_r ?env = 2000000" "cy_readings_r ?env = example_bus" "cy_readings_l ?env = example_bus"
    by (simp_all add: example_follower_cycle_def example_cycle_def)
  have "tb_last_receive_time_ns ?b = 1000000"
    by (simp add: tb_update_def Let_def)
  then have r: "follower_safety 2000000 ?b (safety_new safety_config_default)
      = (safety_new safety_config_default)\<lparr>sm_state := ACTIVE\<rparr>"
    using assms(6,7)
    by (simp add: follower_safety_def stream_gap_ms_def dbl_of_word_def safety_update_def safety_new_def
        safety_initial_state_def safety_config_default_def watchdog_check_def safety_watchdog_def)
  have l: "follower_safety now tb_new (safety_new safety_config_default) = safety_new safety_config_default" for now
    by (simp add: follower_safety_def)
  let ?t = "teleop_doubles p"
  have t: "teleop_wf ?t" "unat (tp_arm_dof ?t) \<le> 8" "unat (tp_hand_dof ?t) \<le> 4"
    using assms(5,8,9) by (simp_all add: teleop_doubles_def teleop_wf_def)
  obtain ct' rs' arm hand where dr: "drive_arm (fc_motion cfg) ACTIVE (Some ?t) example_bus (example_side_control ''right_arm'') rr
      = Inr (ct', rs', [Arm_Mit arm, Gripper_Mit hand, Recv_All (Some 200)])"
    using drive_arm_returns [where st = ACTIVE and ct = "example_side_control ''right_arm''" and t = ?t and rs = rr
        and rd = example_bus and mo = "fc_motion cfg"] t arms(2,3) example_bus_fits
    by (auto simp: driven_def live_def)
  have waits: "drive_arm (fc_motion cfg) (sm_state (safety_new safety_config_default)) x rd ct rs = Inr (ct, rs, [])" for x rd ct rs
    by (simp add: drive_arm_def safety_new_def safety_initial_state_def safety_config_default_def)
  have safe: "cycle_safety ?env ?r = ?r\<lparr>fo_safety_r := (safety_new safety_config_default)\<lparr>sm_state := ACTIVE\<rparr>\<rparr>"
    using bufs r l by (simp add: cycle_safety_def env)
  have latest: "latest_target ?b = Some ?t" by (simp add: latest_target_def)
  let ?s = "?r\<lparr>fo_safety_r := (safety_new safety_config_default)\<lparr>sm_state := ACTIVE\<rparr>\<rparr>"
  have drive: "cycle_drive cfg ?env ?s = Inr (?s\<lparr>fo_arms := Some ((ct', rs'), (example_side_control ''left_arm'', rl))\<rparr>,
      map (Can RIGHT) [Arm_Mit arm, Gripper_Mit hand, Recv_All (Some 200)] @ map (Can LEFT) [])"
    using dr arms(1) bufs free by (simp add: cycle_drive_def env latest waits)
  have "follower_cycle cfg ?env ?r = Inr (?s\<lparr>fo_arms := Some ((ct', rs'), (example_side_control ''left_arm'', rl))\<rparr>,
      map (Can RIGHT) [Arm_Mit arm, Gripper_Mit hand, Recv_All (Some 200)])"
    using assms(2-4)
    by (simp add: follower_cycle_eq idle safe drive cycle_feedback_def cycle_telemetry_def example_period)
  then show ?thesis by (simp add: side_safety_def)
qed

section \<open>A leader that sends\<close>

text \<open>
  The leader with its default command line but the enable, two arms brought up the same way, and
  one iteration with all joints at one radian.
\<close>

definition example_bimanual_args :: LeaderArgs where
  "example_bimanual_args = leader_args_default\<lparr>la_initial_enable := True\<rparr>"

definition example_bimanual_cycle :: LeaderCycleEnv where
  "example_bimanual_cycle = example_leader_cycle\<lparr>lv_readings_r := example_bus, lv_readings_l := example_bus\<rparr>"

lemma example_step_side_idle:
  assumes "fb_get_latest (ls_buffer sd) = None" and "friction_params_ok ct 8" and "dynamics_ok (ct_dynamics_l ct) 7"
  shows "\<exists>sd' ct' out. step_side b rate req now example_bus (sd, ct, rs) = Inr ((sd', ct', store_responses example_bus rs), out)"
proof -
  have fresh: "fresh_feedback b now (ls_buffer sd) = None"
    using assms(1) by (simp add: fresh_feedback_def)
  let ?eng = "engager_update (side_wants b req None) False (Fin 1 div rate) (ls_engager sd)"
  let ?c = "(ls_cmd sd)\<lparr>lb_scale := be_scale ?eng\<rparr>"
  obtain ct' out where "leader_step (if engager_active ?eng then Some ?c else None) example_bus ct rs
      = Inr (ct', store_responses example_bus rs, out)"
    using leader_step_returns [of ct example_bus "if engager_active ?eng then Some ?c else None" rs] assms(2,3)
      example_bus_fits by auto
  then show ?thesis
    by (cases "engager_active ?eng") (simp_all add: step_side_def fresh Let_def)
qed

lemma example_bimanual_sent:
  "\<exists>cmds lcfg s0 s1 out d d'. leader_start example_bimanual_args example_leader_start = Inr (cmds, Some (lcfg, s0))
    \<and> \<not> ld_exited s0 \<and> leader_react lcfg (Leader_Cycle example_bimanual_cycle) s0 = Inr (s1, out)
    \<and> leader_commands out = [(RIGHT, d), (LEFT, d')] \<and> teleop_acceptable d \<and> teleop_wf (teleop_of_bytes d)
    \<and> tp_enable (teleop_of_bytes d) = 1 \<and> tp_estop (teleop_of_bytes d) = 0
    \<and> tp_arm_dof (teleop_of_bytes d) = 7 \<and> tp_hand_dof (teleop_of_bytes d) = 1"
proof -
  let ?a = example_bimanual_args and ?env = example_leader_start and ?b = bilateral_settings_default
  have a: "\<not> la_mock ?a" "\<not> la_publish_telemetry ?a" "la_control_port ?a = 0" "la_initial_enable ?a"
    "la_rate_hz ?a = Fin 500" "la_right_urdf ?a \<noteq> []" "la_left_urdf ?a \<noteq> []"
    "bind_address x (la_interface_name ?a) (la_bind_ip ?a) \<noteq> None" for x
    by (simp_all add: bind_address_def leader_args_default_def example_bimanual_args_def)
  have env: "lt_yaml ?env = Inr example_arm_params" "lt_arm_r ?env = example_arm_env"
    "lt_arm_l ?env = example_arm_env"
    "lt_sender_r ?env = \<lparr> us_socket_ok = True, us_target_ok = True, us_sent_count = 0 \<rparr>"
    "lt_sender_l ?env = \<lparr> us_socket_ok = True, us_target_ok = True, us_sent_count = 0 \<rparr>"
    by (simp_all add: example_leader_start_def Let_def)
  have settings: "load_bilateral_settings ''config/leader.yaml'' (Inr example_arm_params) = ?b"
    by (simp add: load_bilateral_settings_def yaml_load_def yaml_has_node_def example_arm_params_def)
  have b: "\<not> bs_feedback_enabled ?b" "\<not> bs_render_enabled ?b" by (simp_all add: bilateral_settings_default_def)
  let ?v = "replicate 8 (Fin 2)"
  obtain p where p: "leader_params example_arm_params = Inr p" "lp_Fc p = ?v" "lp_k p = ?v" "lp_Fv p = ?v" "lp_Fo p = ?v"
    by (simp add: leader_params_def vector_or_def yaml_get_def yaml_get_node_def yaml_has_def Let_def
        example_arm_params_def)
  let ?ct = "leader_control p ?b example_dyn"
  have ct: "friction_params_ok (?ct name) 8" "dynamics_ok (ct_dynamics_l (?ct name)) 7" for name
    using p(2-5) b(2) by (simp_all add: leader_control_def friction_params_ok_def dynamics_ok_def SetParameter_def
        control_new_def SetEffortLimits_def SetGravityTrim_def example_dyn_def Let_def)
  obtain cmds rr rl where up: "bring_up (leader_control p ?b) example_arm_env example_arm_env
      = Inr (cmds, Some ((?ct ''right_arm'', rr), (?ct ''left_arm'', rl)))"
    using example_both_up by blast
  obtain s0 where init: "leader_initial ?a ?env ?b (Some ((?ct ''right_arm'', rr), (?ct ''left_arm'', rl))) = Inr s0"
      "\<not> ld_exited s0" "ld_keep_running s0" "ld_command_enabled s0" "\<not> ld_bilateral_requested s0"
      "\<not> ld_init_requested s0" "\<not> ld_goto_requested s0"
      "ld_arms s0 = Some ((?ct ''right_arm'', rr), (?ct ''left_arm'', rl))"
      "fb_get_latest (ls_buffer (ld_side_r s0)) = None" "fb_get_latest (ls_buffer (ld_side_l s0)) = None"
      "ld_sender_r s0 = \<lparr> us_socket_ok = True, us_target_ok = True, us_sent_count = 0 \<rparr>"
      "ld_sender_l s0 = \<lparr> us_socket_ok = True, us_target_ok = True, us_sent_count = 0 \<rparr>"
    by (simp add: leader_initial_def fb_new_def fb_init_def fb_get_latest_def bilateral_settings_default_def env a Let_def)
  let ?cfg = "\<lparr> lc_args = ?a, lc_bi = ?b \<rparr>"
  have start: "leader_start ?a ?env = Inr (cmds, Some (?cfg, s0))"
    using a(8) up init(1)
    by (simp add: leader_start_def leader_hardware_def a env settings yaml_load_def p(1) leader_sockets_ok_def
        leader_telemetry_ok_def b)
  let ?e = example_bimanual_cycle
  have e: "lv_readings_r ?e = example_bus" "lv_readings_l ?e = example_bus" "lv_gate_time ?e = 0"
    by (simp_all add: example_bimanual_cycle_def)
  have req: "leader_requests ?e s0 = Inr (s0, [])"
    using init by (simp add: leader_requests_def leader_init_request_def leader_goto_request_def)
  obtain sr cr outr where r: "step_side ?b (Fin 500) False (lv_now_r ?e) example_bus (ld_side_r s0, ?ct ''right_arm'', rr)
      = Inr ((sr, cr, store_responses example_bus rr), outr)"
    using example_step_side_idle init(9) ct by blast
  obtain sl cl outl where l: "step_side ?b (Fin 500) False (lv_now_l ?e) example_bus (ld_side_l s0, ?ct ''left_arm'', rl)
      = Inr ((sl, cl, store_responses example_bus rl), outl)"
    using example_step_side_idle init(10) ct by blast
  let ?s2 = "s0\<lparr>ld_side_r := sr, ld_side_l := sl,
      ld_arms := Some ((cr, store_responses example_bus rr), (cl, store_responses example_bus rl))\<rparr>"
  let ?p = "\<lambda>rs. fill_command (rs_response (ss_arm (store_responses example_bus rs)))
      (rs_response (ss_hand (store_responses example_bus rs))) (teleop_zero (Fin 0))"
  have j: "leader_joints ?cfg ?e s0 = Inr (?s2, (?p rr, ?p rl), leader_frames outr outl)"
    using r l init(5,8) by (simp add: leader_joints_def e a Let_def)
  have g: "leader_gate ?cfg ?e ?s2 = Inr ?s2" using init(5) by (simp add: leader_gate_def)
  let ?m = "teleop_encode (lv_send_time_r ?e) (teleop_bits (address_command (ld_seq s0) RIGHT UNILATERAL True (?p rr)))"
  let ?n = "teleop_encode (lv_send_time_l ?e) (teleop_bits (address_command (ld_seq s0) LEFT UNILATERAL True (?p rl)))"
  obtain s4 pkts' where sent: "leader_send ?e (?p rr, ?p rl) ?s2
      = (s4, pkts', [Command_Datagram RIGHT (teleop_bytes ?m), Command_Datagram LEFT (teleop_bytes ?n)])"
    using init(4,5,11,12) by (simp add: leader_send_def send_command_def udp_send_def udp_send_raw_def Let_def split_beta)
  have period: "ns_of_seconds (Fin 1 div la_rate_hz (lc_args ?cfg)) = Inr 2000000"
    by (simp add: a ns_of_seconds_def)
  have cycle: "leader_cycle ?cfg ?e s0 = Inr (s4, leader_frames outr outl
      @ [Command_Datagram RIGHT (teleop_bytes ?m), Command_Datagram LEFT (teleop_bytes ?n)])"
    by (simp only: leader_cycle_eq req res_bind_Inr case_prod_conv j g sent fst_conv snd_conv)
      (use period in \<open>simp add: leader_publish_def a\<close>)
  have none: "leader_commands (leader_frames outr outl @ xs) = leader_commands xs" for xs
    by (auto simp: leader_commands_def leader_frames_def comp_def)
  have "length (rs_response (ss_arm (store_responses example_bus rr))) = 7"
    "length (rs_response (ss_hand (store_responses example_bus rr))) = 1"
    using example_bus_fits by (simp_all add: store_responses_def set_all_responses_def)
  then have "tp_arm_dof ?m = 7" "tp_hand_dof ?m = 1" by (simp_all only: command_counts) simp_all
  moreover have "teleop_acceptable (teleop_bytes ?m) \<and> says (ld_seq s0) RIGHT False True (teleop_of_bytes (teleop_bytes ?m))"
    using address_command_says [of "?p rr" UNILATERAL "lv_send_time_r ?e" "ld_seq s0" RIGHT True] by simp
  moreover have "leader_commands [Command_Datagram RIGHT (teleop_bytes ?m), Command_Datagram LEFT (teleop_bytes ?n)]
      = [(RIGHT, teleop_bytes ?m), (LEFT, teleop_bytes ?n)]"
    by (simp add: leader_commands_def)
  ultimately show ?thesis
    using start cycle init(2,3)
    by (intro exI [of _ cmds] exI [of _ ?cfg] exI [of _ s0] exI [of _ s4] exI [of _ "leader_frames outr outl
      @ [Command_Datagram RIGHT (teleop_bytes ?m), Command_Datagram LEFT (teleop_bytes ?n)]"]
      exI [of _ "teleop_bytes ?m"] exI [of _ "teleop_bytes ?n"]) (simp add: none says_def)
qed

end
