(* ===== verification/Teleop_Bimanual.thy ===== *)
theory Teleop_Bimanual
  imports Link_Examples
begin

text \<open>
  The bimanual pair as one system: \<open>src/apps/wifi_bimanual_leader.cpp\<close> and
  \<open>src/apps/wifi_bimanual_follower.cpp\<close> with the command channel one way and the feedback channel
  the other.
\<close>

section \<open>The two channels\<close>

definition command_channel ::
    "LeaderConfig \<Rightarrow> FollowerConfig \<Rightarrow>
     (LeaderState, leader_event, leader_output, FollowerState, follower_event, follower_output, u64 TeleopPacket) Link" where
  "command_channel lcfg fcfg =
     \<lparr> ln_send = leader_react lcfg, ln_sender_exited = ld_exited, ln_commands = leader_commands,
       ln_receive = follower_react fcfg, ln_receiver_exited = fo_exited, ln_packets = follower_packets,
       ln_accepts = teleop_acceptable, ln_parse = teleop_of_bytes \<rparr>"

definition feedback_channel ::
    "FollowerConfig \<Rightarrow> LeaderConfig \<Rightarrow>
     (FollowerState, follower_event, follower_output, LeaderState, leader_event, leader_output, u64 FeedbackPacket) Link" where
  "feedback_channel fcfg lcfg =
     \<lparr> ln_send = follower_react fcfg, ln_sender_exited = fo_exited, ln_commands = follower_feedbacks,
       ln_receive = leader_react lcfg, ln_receiver_exited = ld_exited, ln_packets = leader_packets,
       ln_accepts = feedback_acceptable, ln_parse = feedback_of_bytes \<rparr>"

lemma channel_simps [simp]:
  "ln_send (command_channel lcfg fcfg) = leader_react lcfg" "ln_sender_exited (command_channel lcfg fcfg) = ld_exited"
  "ln_commands (command_channel lcfg fcfg) = leader_commands" "ln_receive (command_channel lcfg fcfg) = follower_react fcfg"
  "ln_receiver_exited (command_channel lcfg fcfg) = fo_exited" "ln_packets (command_channel lcfg fcfg) = follower_packets"
  "ln_accepts (command_channel lcfg fcfg) = teleop_acceptable" "ln_parse (command_channel lcfg fcfg) = teleop_of_bytes"
  "ln_send (feedback_channel fcfg lcfg) = follower_react fcfg" "ln_sender_exited (feedback_channel fcfg lcfg) = fo_exited"
  "ln_commands (feedback_channel fcfg lcfg) = follower_feedbacks" "ln_receive (feedback_channel fcfg lcfg) = leader_react lcfg"
  "ln_receiver_exited (feedback_channel fcfg lcfg) = ld_exited" "ln_packets (feedback_channel fcfg lcfg) = leader_packets"
  "ln_accepts (feedback_channel fcfg lcfg) = feedback_acceptable" "ln_parse (feedback_channel fcfg lcfg) = feedback_of_bytes"
  by (simp_all add: command_channel_def feedback_channel_def)

interpretation bc: command_link "command_channel lcfg fcfg" "reached (leader_react lcfg) ld_exited s0"
    "\<lambda>side d. \<exists>s env s'. leader_sent lcfg s0 s env s' side d" follower_inv follower_stored for lcfg fcfg s0
proof unfold_locales
  show "ln_accepts (command_channel lcfg fcfg) d0 \<Longrightarrow> within_burst d0 d1 \<Longrightarrow>
      ln_accepts (command_channel lcfg fcfg) d1 \<Longrightarrow> d1 = d0" for d0 d1
    using teleop_acceptable_burst by auto
next
  fix s s' :: LeaderState and e out
  assume r: "\<not> ln_sender_exited (command_channel lcfg fcfg) s" "ln_send (command_channel lcfg fcfg) e s = Inr (s', out)"
    "reached (leader_react lcfg) ld_exited s0 s"
  then show "reached (leader_react lcfg) ld_exited s0 s'"
    using reached_step by fastforce
  fix side d
  assume "(side, d) \<in> set (ln_commands (command_channel lcfg fcfg) out)"
  then have d: "Command_Datagram side d \<in> set out" by (simp add: leader_commands_iff)
  then obtain env where "leader_cycle lcfg env s = Inr (s', out)"
    using leader_react_sent [of lcfg e s s' out side d] r(2) by auto
  with d r have "leader_sent lcfg s0 s env s' side d" by (auto simp: leader_sent_def)
  then show "ln_accepts (command_channel lcfg fcfg) d \<and> (\<exists>s env s'. leader_sent lcfg s0 s env s' side d)"
    using leader_sent_says(1) by auto
next
  fix r r' :: FollowerState and f frames
  assume r: "ln_receive (command_channel lcfg fcfg) f r = Inr (r', frames)"
  then show "follower_inv r \<Longrightarrow> follower_inv r'" using follower_react_inv by simp
  show "follower_stored r' side p \<Longrightarrow> follower_stored r side p \<or> (side, p) \<in> set (ln_packets (command_channel lcfg fcfg) f)"
    for side p using follower_react_stored r by simp
qed

interpretation bf: command_link "feedback_channel fcfg lcfg" "reached (follower_react fcfg) fo_exited r0"
    "\<lambda>side d. \<exists>r env r'. follower_sent fcfg r0 r env r' side d" "\<lambda>_. True" leader_stored for fcfg lcfg r0
proof unfold_locales
  show "ln_accepts (feedback_channel fcfg lcfg) d0 \<Longrightarrow> within_burst d0 d1 \<Longrightarrow>
      ln_accepts (feedback_channel fcfg lcfg) d1 \<Longrightarrow> d1 = d0" for d0 d1
    using feedback_acceptable_burst by auto
next
  fix r r' :: FollowerState and f out
  assume r: "\<not> ln_sender_exited (feedback_channel fcfg lcfg) r" "ln_send (feedback_channel fcfg lcfg) f r = Inr (r', out)"
    "reached (follower_react fcfg) fo_exited r0 r"
  then show "reached (follower_react fcfg) fo_exited r0 r'"
    using reached_step by fastforce
  fix side d
  assume "(side, d) \<in> set (ln_commands (feedback_channel fcfg lcfg) out)"
  then have d: "Feedback_Datagram side d \<in> set out" by (simp add: follower_feedbacks_iff)
  then obtain env where "follower_cycle fcfg env r = Inr (r', out)"
    using follower_react_sent [of fcfg f r r' out side d] r(2) by auto
  with d r have "follower_sent fcfg r0 r env r' side d" by (auto simp: follower_sent_def)
  then show "ln_accepts (feedback_channel fcfg lcfg) d \<and> (\<exists>r env r'. follower_sent fcfg r0 r env r' side d)"
    using follower_feedback_acceptable [OF follower_sent_feedback] by auto
next
  fix s s' :: LeaderState and e out side p
  assume s: "ln_receive (feedback_channel fcfg lcfg) e s = Inr (s', out)"
  show "leader_stored s' side p \<Longrightarrow> leader_stored s side p \<or> (side, p) \<in> set (ln_packets (feedback_channel fcfg lcfg) e)"
    using leader_react_stored s by simp
qed simp

section \<open>Motion\<close>

lemma command_channel_promised:
  assumes "follower_args argv = Inr a" and "follower_start a env0 = Inr (cmds, Some (fcfg, r0))"
    and "link_reach (command_channel lcfg fcfg) (s0, r0, []) (s, r, w)"
  shows "follower_inv r"
    and "tb_get_latest (side_buffer side r) = Some p \<Longrightarrow>
      \<exists>d s1 lenv s2. (side, d) \<in> set w \<and> p = teleop_of_bytes d \<and> leader_sent lcfg s0 s1 lenv s2 side d"
proof -
  have inv: "follower_inv r0"
    using follower_start_inv [OF follower_args_enable [OF assms(1)] assms(2)] .
  have new: "\<forall>side p. \<not> follower_stored r0 side p" using follower_start_fresh [OF assms(2)] by blast
  note facts = assms(3) reached_start inv new
  show "follower_inv r" using bc.reach_inv [OF facts] by blast
  show "tb_get_latest (side_buffer side r) = Some p \<Longrightarrow>
      \<exists>d s1 lenv s2. (side, d) \<in> set w \<and> p = teleop_of_bytes d \<and> leader_sent lcfg s0 s1 lenv s2 side d"
    using bc.stored_promised [OF facts, of side p] by (auto simp: follower_stored_def)
qed

text \<open>
  C1: an arm moves only on the operator's word. Take the two programs with any interleaving of their
  events and a network that loses, repeats, delays, reorders and damages datagrams within four bytes. When an
  iteration of the follower sends an arm a motion frame, no stop is latched on that side, the stream is not
  reported broken, and the newest command of the side is, bit by bit, one that an
  iteration of the leader has sent to that side while the operator's enable was on.
\<close>

theorem bimanual_moves_on_command:
  assumes "follower_args argv = Inr a" and "follower_start a env0 = Inr (cmds, Some (fcfg, r0))"
    and "link_reach (command_channel lcfg fcfg) (s0, r0, []) (s, r, w)"
    and "follower_cycle fcfg env r = Inr (r', out)" and "Can side (Arm_Mit ps) \<in> set out"
  shows "\<not> sm_estop_triggered (side_safety side r)
    \<and> watchdog_check (safety_watchdog (sm_config (side_safety side r)))
        (stream_gap_ms (side_now side env) (tb_last_receive_time_ns (side_buffer side r))) \<noteq> DISABLE
    \<and> (\<exists>d s1 lenv s2. (side, d) \<in> set w \<and> leader_sent lcfg s0 s1 lenv s2 side d \<and> ld_command_enabled s1
        \<and> tb_get_latest (side_buffer side r) = Some (teleop_of_bytes d))"
proof -
  note promised = command_channel_promised [OF assms(1-3)]
  obtain p where p: "tb_get_latest (side_buffer side r) = Some p" "\<not> sm_estop_triggered (side_safety side r)"
    "tp_enable p \<noteq> 0" "watchdog_check (safety_watchdog (sm_config (side_safety side r)))
      (stream_gap_ms (side_now side env) (tb_last_receive_time_ns (side_buffer side r))) \<noteq> DISABLE"
    using follower_cycle_motion [OF promised(1) assms(4,5)] by blast
  obtain d s1 lenv s2 where d: "(side, d) \<in> set w" "p = teleop_of_bytes d" "leader_sent lcfg s0 s1 lenv s2 side d"
    using promised(2) [OF p(1)] by blast
  with p leader_sent_says(2) [OF d(3)] show ?thesis by (auto split: if_splits)
qed

text \<open>
  C2: each follower arm tracks the leader arm of its side. In the same system, with hardware on
  both sides: the positions in a motion frame are the arm's new references; in HOLD these are the old ones,
  otherwise the old ones moved by the rate limiter towards the positions, as they come through the packet,
  that the leader's motors of that side had in an iteration the leader has sent.
\<close>

theorem bimanual_tracks_leader:
  assumes "follower_args argv = Inr a" and "follower_start a env0 = Inr (cmds, Some (fcfg, r0))"
    and "leader_start la lenv0 = Inr (lcmds, Some (lcfg, s0))" and "\<not> la_mock la"
    and "link_reach (command_channel lcfg fcfg) (s0, r0, []) (s, r, w)"
    and "follower_cycle fcfg env r = Inr (r', out)" and "Can side (Arm_Mit ps) \<in> set out"
  shows "\<exists>ct rs ct' rs' d s1 lenv s2 lct lrs. follower_arm side r = Some (ct, rs) \<and> follower_arm side r' = Some (ct', rs')
    \<and> (side, d) \<in> set w \<and> leader_sent lcfg s0 s1 lenv s2 side d \<and> leader_arm side s2 = Some (lct, lrs)
    \<and> map mp_q ps = arm_positions rs'
    \<and> all_refs rs' = (if sm_state (side_safety side r') = HOLD then all_refs rs
        else tracked (mo_limiter (fc_motion fcfg)) (map over_wire (measured lrs)) (all_refs rs))"
proof -
  note promised = command_channel_promised [OF assms(1,2,5)]
  obtain p where p: "tb_get_latest (side_buffer side r) = Some p"
    using follower_cycle_motion [OF promised(1) assms(6,7)] by blast
  obtain d s1 lenv s2 where d: "(side, d) \<in> set w" "p = teleop_of_bytes d" "leader_sent lcfg s0 s1 lenv s2 side d"
    using promised(2) [OF p] by blast
  obtain lct lrs where l: "leader_arm side s2 = Some (lct, lrs)"
    using leader_sent_arm [OF d(3) leader_start_fresh(2) [OF assms(3,4)]] by auto
  obtain ct rs ct' rs' where f: "follower_arm side r = Some (ct, rs)" "follower_arm side r' = Some (ct', rs')"
    "map mp_q ps = arm_positions rs'"
    "all_refs rs' = (if sm_state (side_safety side r') = HOLD then all_refs rs
        else tracked (mo_limiter (fc_motion fcfg)) (posture p) (all_refs rs))"
    using follower_cycle_tracks [OF promised(1) assms(6,7) p] by blast
  have "posture p = map over_wire (measured lrs)"
    using leader_sent_says(3) [OF d(3) l] d(2) by simp
  with f d(1,3) l show ?thesis
    by (intro exI [of _ ct] exI [of _ rs] exI [of _ ct'] exI [of _ rs'] exI [of _ d] exI [of _ s1]
        exI [of _ lenv] exI [of _ s2] exI [of _ lct] exI [of _ lrs]) simp
qed

section \<open>Force\<close>

text \<open>Two arms whose joints are all within the tolerances of each other, across the wire.\<close>

definition arms_meet :: "BilateralSettings \<Rightarrow> RobotSystemState \<Rightarrow> RobotSystemState \<Rightarrow> bool" where
  "arms_meet b lrs frs \<longleftrightarrow>
     length (rs_response (ss_arm lrs)) \<le> length (rs_response (ss_arm frs))
     \<and> length (rs_response (ss_hand lrs)) \<le> length (rs_response (ss_hand frs))
     \<and> (\<forall>i < length (rs_response (ss_arm lrs)). fabs (js_position (rs_response (ss_arm lrs) ! i)
          - over_wire (js_position (rs_response (ss_arm frs) ! i))) \<le> bs_engage_max_error_rad b)
     \<and> (\<forall>i < length (rs_response (ss_hand lrs)). fabs (js_position (rs_response (ss_hand lrs) ! i)
          - over_wire (js_position (rs_response (ss_hand frs) ! i))) \<le> bs_engage_max_error_gripper b)"

lemma aligned_arms_meet:
  assumes "aligned_with b lrs fb" and "follower_feedback side d r" and "follower_arm side r = Some (ct, frs)"
    and "fb = feedback_doubles (feedback_of_bytes d)"
  shows "arms_meet b lrs frs"
proof -
  note says = follower_feedback_says [OF assms(2,3,4)]
  have n: "length (rs_response (ss_arm lrs)) \<le> min 8 (length (rs_response (ss_arm frs)))"
    "length (rs_response (ss_hand lrs)) \<le> min 4 (length (rs_response (ss_hand frs)))"
    using assms(1) says(3,4) by (auto simp: aligned_with_def)
  have "fp_arm_pos fb ! i = over_wire (js_position (rs_response (ss_arm frs) ! i))"
    if "i < length (rs_response (ss_arm lrs))" for i
    using says(5) [of i] n(1) that by simp
  moreover have "fp_hand_pos fb ! i = over_wire (js_position (rs_response (ss_hand frs) ! i))"
    if "i < length (rs_response (ss_hand lrs))" for i
    using says(6) [of i] n(2) that by simp
  ultimately show ?thesis
    using assms(1) n by (simp add: aligned_with_def arms_meet_def)
qed

text \<open>
  C3: force is rendered only where the arms met. Take both programs and both channels from any states in which
  the leader holds no feedback yet and the follower has hardware. When an iteration
  of the leader starts to engage an arm, an iteration of the follower has reported, in a datagram that is
  the newest feedback of that side, an arm that was ACTIVE and whose joints and gripper were within the configured
  tolerances of where the leader arm is.
\<close>

theorem bimanual_force_meets_follower:
  assumes "duplex_reach (command_channel lcfg fcfg) (feedback_channel fcfg lcfg) s0 r0 s r w v"
    and "\<forall>side p. \<not> leader_stored s0 side p" and "fo_arms r0 \<noteq> None"
    and "leader_cycle lcfg env s = Inr (s', out)"
    and "released (ls_engager (leader_side side s))" and "\<not> released (ls_engager (leader_side side s'))"
  shows "\<exists>s1 out1 lct lrs d r1 fenv r2 fct frs. leader_requests env s = Inr (s1, out1)
    \<and> leader_arm side s1 = Some (lct, lrs) \<and> ld_bilateral_requested s
    \<and> leader_stored s side (feedback_of_bytes d) \<and> (side, d) \<in> set v
    \<and> follower_sent fcfg r0 r1 fenv r2 side d \<and> sm_state (side_safety side r2) = ACTIVE
    \<and> follower_arm side r2 = Some (fct, frs) \<and> arms_meet (lc_bi lcfg) lrs frs"
proof -
  have "leader_side side s' \<noteq> leader_side side s" using assms(5,6) by auto
  then obtain s1 out1 lct lrs a' rd cmds where l: "leader_requests env s = Inr (s1, out1)"
      "leader_arm side s1 = Some (lct, lrs)"
    and st: "step_side (lc_bi lcfg) (la_rate_hz (lc_args lcfg)) (ld_bilateral_requested s)
       (leader_now side env) rd (leader_side side s, lct, lrs) = Inr ((leader_side side s', a'), cmds)"
    using leader_cycle_side [OF assms(4), of side] by (auto split: prod.splits)
  obtain p where req: "ld_bilateral_requested s" and p: "leader_stored s side p"
    and fb: "fp_enabled (feedback_doubles p) \<noteq> 0" "aligned_with (lc_bi lcfg) lrs (feedback_doubles p)"
    using step_side_leaves_release [OF st] assms(5,6)
    by (auto simp: usable_feedback_def leader_stored_def)
  have backward: "link_reach (feedback_channel fcfg lcfg) (r0, s0, []) (r, s, v)"
    by (rule duplex_backward [OF assms(1)]) simp_all
  obtain d r1 fenv r2 where d: "(side, d) \<in> set v" "p = feedback_of_bytes d" "follower_sent fcfg r0 r1 fenv r2 side d"
    using bf.stored_promised [OF backward reached_start TrueI assms(2) p] by auto
  obtain fct frs where arm: "follower_arm side r2 = Some (fct, frs)"
    using follower_sent_arm [OF d(3) assms(3)] by auto
  note sent = follower_sent_feedback [OF d(3)]
  have "sm_state (side_safety side r2) = ACTIVE"
    using follower_feedback_says(2) [OF sent arm refl] fb(1) d(2) by (simp split: if_splits)
  moreover have "arms_meet (lc_bi lcfg) lrs frs"
    using aligned_arms_meet [OF fb(2) sent arm] d(2) by simp
  ultimately show ?thesis
    using l req p d arm
    by (intro exI [of _ s1] exI [of _ out1] exI [of _ lct] exI [of _ lrs] exI [of _ d] exI [of _ r1]
        exI [of _ fenv] exI [of _ r2] exI [of _ fct] exI [of _ frs]) simp
qed

section \<open>Examples\<close>

lemma example_bimanual_pair:
  "\<exists>cmds fcfg r0 lcmds lcfg s0 s r d d' r' out arm. follower_args [] = Inr follower_args_default
    \<and> follower_start follower_args_default example_arms_start = Inr (cmds, Some (fcfg, r0))
    \<and> leader_start example_bimanual_args example_leader_start = Inr (lcmds, Some (lcfg, s0))
    \<and> link_reach (command_channel lcfg fcfg) (s0, r0, []) (s, r, [(RIGHT, d), (LEFT, d')])
    \<and> follower_cycle fcfg example_follower_cycle r = Inr (r', out) \<and> Can RIGHT (Arm_Mit arm) \<in> set out
    \<and> tb_get_latest (side_buffer RIGHT r) = Some (teleop_of_bytes d) \<and> sm_state (side_safety RIGHT r') = ACTIVE"
proof -
  obtain cmds fcfg r0 where f: "follower_args [] = Inr follower_args_default"
      "follower_start follower_args_default example_arms_start = Inr (cmds, Some (fcfg, r0))" "example_ready r0"
      "\<not> fs_enabled (fc_feedback fcfg)" "\<not> fc_publish_telemetry fcfg" "fc_period_s fcfg = Fin (1 / 500)"
    using example_follower_started by blast
  obtain lcmds lcfg s0 s out d d' where l: "leader_start example_bimanual_args example_leader_start = Inr (lcmds, Some (lcfg, s0))"
      "\<not> ld_exited s0" "leader_react lcfg (Leader_Cycle example_bimanual_cycle) s0 = Inr (s, out)"
      "leader_commands out = [(RIGHT, d), (LEFT, d')]" "teleop_acceptable d"
    and p: "teleop_wf (teleop_of_bytes d)" "tp_enable (teleop_of_bytes d) = 1" "tp_estop (teleop_of_bytes d) = 0"
      "tp_arm_dof (teleop_of_bytes d) = 7" "tp_hand_dof (teleop_of_bytes d) = 1"
    using example_bimanual_sent by blast
  let ?K = "command_channel lcfg fcfg" and ?w = "[(RIGHT, d), (LEFT, d')]"
  let ?r = "r0\<lparr>fo_buffer_r := tb_update 1000000 (teleop_of_bytes d) tb_new\<rparr>"
  have sent: "link_reach ?K (s0, r0, []) (s, r0, ?w)"
    using link_reach_send [OF link_start, of ?K s0 "Leader_Cycle example_bimanual_cycle" s out r0 "[]"] l by simp
  have arrived: "arrives ?K ?w RIGHT (teleop_of_bytes d)"
    using sent_arrives [of RIGHT d ?w ?K] l(5) by simp
  have new: "\<not> fo_exited r0" "fo_buffer_r r0 = tb_new"
    using f(3) by (simp_all add: example_ready_def)
  have reach: "link_reach ?K (s0, r0, []) (s, ?r, ?w)"
    by (rule link_reach_receive [OF sent, where e = "Packet RIGHT 1000000 (teleop_of_bytes d)" and out = "[]"])
      (use arrived new in simp_all)
  obtain r' fout arm where "follower_cycle fcfg example_follower_cycle ?r = Inr (r', fout)"
      "Can RIGHT (Arm_Mit arm) \<in> set fout" "sm_state (side_safety RIGHT r') = ACTIVE"
    using example_follower_moves [OF f(3-6) p(1-3)] p(4,5) by auto
  moreover have "tb_get_latest (side_buffer RIGHT ?r) = Some (teleop_of_bytes d)"
    by (simp add: side_buffer_def)
  ultimately show ?thesis
    using f(1,2) l(1) reach
    by (intro exI [of _ cmds] exI [of _ fcfg] exI [of _ r0] exI [of _ lcmds] exI [of _ lcfg] exI [of _ s0]
        exI [of _ s] exI [of _ ?r] exI [of _ d] exI [of _ d'] exI [of _ r'] exI [of _ fout] exI [of _ arm]) simp
qed

theorem bimanual_moves_on_command_witness:
  "\<exists>fcfg r0 lcfg s0 s r w r' out arm s1. link_reach (command_channel lcfg fcfg) (s0, r0, []) (s, r, w)
    \<and> follower_cycle fcfg example_follower_cycle r = Inr (r', out) \<and> Can RIGHT (Arm_Mit arm) \<in> set out
    \<and> reached (leader_react lcfg) ld_exited s0 s1 \<and> ld_command_enabled s1"
proof -
  obtain cmds fcfg r0 lcfg s0 s r d d' r' out arm where
    f: "follower_args [] = Inr follower_args_default"
      "follower_start follower_args_default example_arms_start = Inr (cmds, Some (fcfg, r0))"
      "link_reach (command_channel lcfg fcfg) (s0, r0, []) (s, r, [(RIGHT, d), (LEFT, d')])"
      "follower_cycle fcfg example_follower_cycle r = Inr (r', out)" "Can RIGHT (Arm_Mit arm) \<in> set out"
    using example_bimanual_pair by blast
  obtain s1 lenv s2 x where "leader_sent lcfg s0 s1 lenv s2 RIGHT x" "ld_command_enabled s1"
    using bimanual_moves_on_command [OF f] by blast
  with f(3-5) show ?thesis
    by (intro exI [of _ fcfg] exI [of _ r0] exI [of _ lcfg] exI [of _ s0] exI [of _ s] exI [of _ r]
        exI [of _ "[(RIGHT, d), (LEFT, d')]"] exI [of _ r'] exI [of _ out] exI [of _ arm] exI [of _ s1])
      (simp add: leader_sent_def)
qed

text \<open>The leader's joints are at one radian in the only iteration it has run.\<close>

theorem bimanual_tracks_leader_witness:
  "\<exists>fcfg r0 lcfg s0 s r w r' out arm ct rs lrs rs'. link_reach (command_channel lcfg fcfg) (s0, r0, []) (s, r, w)
    \<and> follower_cycle fcfg example_follower_cycle r = Inr (r', out) \<and> Can RIGHT (Arm_Mit arm) \<in> set out
    \<and> follower_arm RIGHT r = Some (ct, rs) \<and> sm_state (side_safety RIGHT r') = ACTIVE
    \<and> all_refs rs' = tracked (mo_limiter (fc_motion fcfg)) (map over_wire (measured lrs)) (all_refs rs)"
proof -
  obtain cmds fcfg r0 lcmds lcfg s0 s r d d' r' out arm where
    f: "follower_args [] = Inr follower_args_default"
      "follower_start follower_args_default example_arms_start = Inr (cmds, Some (fcfg, r0))"
      "leader_start example_bimanual_args example_leader_start = Inr (lcmds, Some (lcfg, s0))"
    and c: "link_reach (command_channel lcfg fcfg) (s0, r0, []) (s, r, [(RIGHT, d), (LEFT, d')])"
      "follower_cycle fcfg example_follower_cycle r = Inr (r', out)" "Can RIGHT (Arm_Mit arm) \<in> set out"
    and act: "sm_state (side_safety RIGHT r') = ACTIVE"
    using example_bimanual_pair by blast
  have "\<not> la_mock example_bimanual_args"
    by (simp add: example_bimanual_args_def leader_args_default_def)
  then obtain ct rs lrs rs' where "follower_arm RIGHT r = Some (ct, rs)"
      "all_refs rs' = (if sm_state (side_safety RIGHT r') = HOLD then all_refs rs
        else tracked (mo_limiter (fc_motion fcfg)) (map over_wire (measured lrs)) (all_refs rs))"
    using bimanual_tracks_leader [OF f _ c] by blast
  with c act show ?thesis
    by (intro exI [of _ fcfg] exI [of _ r0] exI [of _ lcfg] exI [of _ s0] exI [of _ s] exI [of _ r]
        exI [of _ "[(RIGHT, d), (LEFT, d')]"] exI [of _ r'] exI [of _ out] exI [of _ arm] exI [of _ ct]
        exI [of _ rs] exI [of _ lrs] exI [of _ rs']) simp
qed

text \<open>
  A follower whose arms have no joints reports that it is ACTIVE; the leader, with bilateral mode
  requested and waiting for alignment, hears it and starts to engage.
\<close>

definition example_feedback_config :: FollowerConfig where
  "example_feedback_config = example_config\<lparr>fc_feedback := feedback_settings_default\<lparr>fs_enabled := True\<rparr>\<rparr>"

definition example_waiting_leader :: LeaderState where
  "example_waiting_leader = example_leader_state
     \<lparr>ld_side_r := example_side\<lparr>ls_buffer := fb_init 1000000\<rparr>, ld_side_l := example_side\<lparr>ls_buffer := fb_init 1000000\<rparr>\<rparr>"

lemma example_feedback_sent:
  "\<exists>r' out d. follower_cycle example_feedback_config (example_cycle 0) example_follower = Inr (r', out)
    \<and> (RIGHT, d) \<in> set (follower_feedbacks out) \<and> feedback_acceptable d
    \<and> fp_enabled (feedback_of_bytes d) = 1 \<and> fp_estop (feedback_of_bytes d) = 0
    \<and> unat (fp_arm_dof (feedback_of_bytes d)) \<le> 8 \<and> unat (fp_hand_dof (feedback_of_bytes d)) \<le> 4"
proof -
  let ?cfg = example_feedback_config and ?env = "example_cycle 0"
  obtain ct rs cmds where d: "drive_arm example_motion ACTIVE
      (latest_target (tb_update 0 example_command tb_new)) no_motors (fst example_arm) (snd example_arm)
      = Inr (ct, rs, cmds)"
    using example_arm_drive by blast
  have cfg: "fc_motion ?cfg = example_motion" "fs_enabled (fc_feedback ?cfg)" "\<not> fc_publish_telemetry ?cfg"
    "fc_period_s ?cfg = Fin (1 / 500)" "fs_link_recheck_s (fc_feedback ?cfg) = Fin 1"
    by (simp_all add: example_feedback_config_def) (simp_all add: feedback_settings_default_def)
  let ?s = "cycle_safety ?env example_follower"
  obtain s1 out1 where drive: "cycle_drive ?cfg ?env ?s = Inr (s1, out1)"
    and s1: "fo_safety_r s1 = (safety_new safety_config_default)\<lparr>sm_state := ACTIVE\<rparr>"
      "fo_sender_r s1 = fo_sender_r example_follower"
    using d by (simp add: split_beta [of _ example_arm] cycle_safety_def cycle_drive_def cfg example_updates)
  obtain s2 where link: "refresh_follower_link ?cfg ?env s1 = Inr s2" and s2: "fo_safety_r s2 = fo_safety_r s1"
      "fo_sender_r s2 = fo_sender_r s1"
    by (cases "fo_next_link_check s1 \<le> cy_steady ?env")
      (auto simp: refresh_follower_link_def cfg ns_of_seconds_def split_beta Let_def)
  let ?fb = "feedback_packet RIGHT ACTIVE (fo_link_ok s2) (fo_buffer_r s2) (cy_fb_now_r ?env)
      (map_option fst (fo_arms s2)) (fo_fb_seq s2)"
  let ?e = "feedback_encode (cy_send_time_r ?env) (feedback_bits ?fb)"
  have right: "snd (send_feedback RIGHT t n fb (fo_sender_r example_follower))
      = [Feedback_Datagram RIGHT (feedback_bytes (feedback_encode t (feedback_bits fb)))]" for t n fb
    by (simp add: send_feedback_def udp_send_raw_def example_follower_def)
  obtain s3 out3 where feedback: "cycle_feedback ?cfg ?env s1 = Inr (s3, Feedback_Datagram RIGHT (feedback_bytes ?e) # out3)"
    using s1 s2 by (simp add: cycle_feedback_def cfg link Let_def split_beta right)
  have c: "follower_cycle ?cfg ?env example_follower = Inr (s3, out1 @ Feedback_Datagram RIGHT (feedback_bytes ?e) # out3)"
    by (simp add: follower_cycle_eq example_no_requests drive feedback cycle_telemetry_def cfg example_period)
  have "fo_arms s3 \<noteq> None" using follower_cycle_buffers [OF c] by simp
  then obtain fct frs where arm: "follower_arm RIGHT s3 = Some (fct, frs)" by (auto simp: follower_arm_def)
  have fb: "follower_feedback RIGHT (feedback_bytes ?e) s3"
    by (rule follower_cycle_feedback [OF c]) simp
  have dof: "unat (fp_arm_dof (feedback_of_bytes (feedback_bytes ?e))) \<le> 8"
    "unat (fp_hand_dof (feedback_of_bytes (feedback_bytes ?e))) \<le> 4"
    using follower_feedback_says(3,4) [OF fb arm refl] by (simp_all add: feedback_doubles_def)
  have "fp_enabled ?e = fp_enabled ?fb" "fp_estop ?e = fp_estop ?fb"
    by (simp_all add: feedback_encode_def feedback_bits_def Let_def)
  moreover have "fp_enabled ?fb = 1" "fp_estop ?fb = 0"
    by (simp_all add: feedback_packet_def fill_feedback_def Let_def split_beta split: option.splits)
  ultimately have flags: "fp_enabled ?e = 1" "fp_estop ?e = 0" by simp_all
  show ?thesis
    by (intro exI [of _ s3] exI [of _ "out1 @ Feedback_Datagram RIGHT (feedback_bytes ?e) # out3"]
        exI [of _ "feedback_bytes ?e"]) (use c dof flags in \<open>simp add: follower_feedbacks_iff\<close>)
qed

text \<open>The leader's step on a side that hears such feedback, and on one that hears nothing.\<close>

lemma example_hears:
  assumes "fresh_feedback (lc_bi example_leader_config) 9 buf = Some fb" and "fp_enabled fb \<noteq> 0" and "fp_estop fb = 0"
    and "unat (fp_arm_dof fb) \<le> 8" and "unat (fp_hand_dof fb) \<le> 4" and "feedback_wf fb"
  shows "\<exists>sd a cmds. step_side (lc_bi example_leader_config) (Fin 500) True 9 no_motors
      (example_side\<lparr>ls_buffer := buf\<rparr>, example_leader_arm) = Inr ((sd, a), cmds) \<and> be_state (ls_engager sd) = RAMP_UP"
proof -
  let ?sd = example_side
  have arm: "rs_response (ss_arm (snd example_leader_arm)) = []" "rs_response (ss_hand (snd example_leader_arm)) = []"
    by (simp_all add: example_leader_arm_def system_state_new_def robot_state_new_def)
  have wants: "side_wants (lc_bi example_leader_config) True (Some fb)"
    using assms(2,3) by (simp add: side_wants_def example_leader_config_def)
  obtain c where cmd: "command_from fb (ls_cmd ?sd) = Inr c"
    using assms(4-6) by (simp add: command_from_def array_prefix_def feedback_wf_def Let_def)
  have eng: "engager_update True True d (ls_engager ?sd) = (ls_engager ?sd)\<lparr>be_state := RAMP_UP\<rparr>" for d
    by (simp add: engager_update_def example_side_def)
  have off: "\<not> engager_active ((ls_engager ?sd)\<lparr>be_state := RAMP_UP\<rparr>)"
    by (simp add: engager_active_def example_side_def)
  obtain ct rs cmds where st: "leader_step None no_motors (fst example_leader_arm) (snd example_leader_arm)
      = Inr (ct, rs, cmds)"
    using leader_step_returns [of "fst example_leader_arm" no_motors None "snd example_leader_arm"]
    by (auto simp: example_leader_arm_def no_motors_def friction_params_ok_def dynamics_ok_def SetParameter_def
        control_new_def SetEffortLimits_def)
  show ?thesis
    using assms(1) off by (simp add: step_side_def split_beta wants arm example_alignment cmd eng st)
qed

lemma example_hears_nothing:
  assumes "fb_get_latest buf = None"
  shows "\<exists>x. step_side b rate True 9 no_motors (example_side\<lparr>ls_buffer := buf\<rparr>, example_leader_arm) = Inr x"
proof -
  have fresh: "fresh_feedback b 9 buf = None" using assms by (simp add: fresh_feedback_def)
  let ?eng = "engager_update (side_wants b True None) False (Fin 1 div rate) (ls_engager example_side)"
  let ?c = "(ls_cmd example_side)\<lparr>lb_scale := be_scale ?eng\<rparr>"
  obtain ct' rs' out where "leader_step (if engager_active ?eng then Some ?c else None) no_motors
      (fst example_leader_arm) (snd example_leader_arm) = Inr (ct', rs', out)"
    using leader_step_returns [of "fst example_leader_arm" no_motors "if engager_active ?eng then Some ?c else None"
        "snd example_leader_arm"]
    by (auto simp: example_leader_arm_def no_motors_def friction_params_ok_def dynamics_ok_def SetParameter_def
        control_new_def SetEffortLimits_def)
  then show ?thesis
    by (cases "engager_active ?eng") (simp_all add: step_side_def fresh split_beta Let_def)
qed

lemma example_callback:
  assumes "feedback_acceptable d"
  shows "\<exists>rtt. feedback_callback 0 5 d b = fb_update 5 (feedback_of_bytes d, rtt) b"
  using assms by (auto simp: feedback_callback_def feedback_acceptable_def Let_def split_beta)

lemma example_fresh_at:
  assumes "b = fb_update 5 (p, rtt) (fb_init 1000000)"
  shows "fresh_feedback (lc_bi example_leader_config) 9 b = Some (feedback_doubles p)"
proof -
  have "fb_has_data b" "fb_window_ns b = 1000000" "fb_last_receive_time_ns b = 5" "fb_latest b = Some p"
    by (simp_all add: assms fb_update_def fb_update_with_def fb_store_def fb_trim_locked_def fb_init_def)
  then show ?thesis
    by (simp add: fresh_feedback_def fb_get_latest_def fb_snapshot_def Let_def ms_of_ns_def dbl_of_word_def
        example_leader_config_def bilateral_settings_default_def gate_config_default_def)
qed

lemma example_engages:
  assumes "feedback_acceptable d" and "fp_enabled (feedback_of_bytes d) = 1" and "fp_estop (feedback_of_bytes d) = 0"
    and "unat (fp_arm_dof (feedback_of_bytes d)) \<le> 8" and "unat (fp_hand_dof (feedback_of_bytes d)) \<le> 4"
  shows "\<exists>s s' out. leader_react example_leader_config (Feedback RIGHT 0 5 d) example_waiting_leader = Inr (s, [])
    \<and> leader_cycle example_leader_config example_leader_cycle s = Inr (s', out)
    \<and> released (ls_engager (leader_side RIGHT s)) \<and> \<not> released (ls_engager (leader_side RIGHT s'))"
proof -
  obtain rtt where cb: "feedback_callback 0 5 d (fb_init 1000000) = fb_update 5 (feedback_of_bytes d, rtt) (fb_init 1000000)"
    using example_callback [OF assms(1)] by blast
  let ?buf = "fb_update 5 (feedback_of_bytes d, rtt) (fb_init 1000000)"
  let ?s = "example_leader_state\<lparr>ld_side_r := example_side\<lparr>ls_buffer := ?buf\<rparr>,
      ld_side_l := example_side\<lparr>ls_buffer := fb_init 1000000\<rparr>\<rparr>"
  have hear: "leader_react example_leader_config (Feedback RIGHT 0 5 d) example_waiting_leader = Inr (?s, [])"
    by (simp add: example_leader_config_def example_waiting_leader_def take_feedback_def cb)
  let ?fb = "feedback_doubles (feedback_of_bytes d)"
  have fb: "fp_enabled ?fb \<noteq> 0" "fp_estop ?fb = 0" "unat (fp_arm_dof ?fb) \<le> 8" "unat (fp_hand_dof ?fb) \<le> 4" "feedback_wf ?fb"
    using assms(2-5) by (simp_all add: feedback_doubles_def [THEN arg_cong [of _ _ fp_enabled]]
        feedback_doubles_def [THEN arg_cong [of _ _ fp_estop]] feedback_doubles_def [THEN arg_cong [of _ _ fp_arm_dof]]
        feedback_doubles_def [THEN arg_cong [of _ _ fp_hand_dof]])
  obtain sd a cmds where r: "step_side (lc_bi example_leader_config) (Fin 500) True 9 no_motors
      (example_side\<lparr>ls_buffer := ?buf\<rparr>, example_leader_arm) = Inr ((sd, a), cmds)" "be_state (ls_engager sd) = RAMP_UP"
    using example_hears [OF example_fresh_at [OF refl] fb] by blast
  obtain x where l: "step_side (lc_bi example_leader_config) (Fin 500) True 9 no_motors
      (example_side\<lparr>ls_buffer := fb_init 1000000\<rparr>, example_leader_arm) = Inr x"
    using example_hears_nothing [of "fb_init 1000000" "lc_bi example_leader_config" "Fin 500"]
    by (auto simp: fb_init_def fb_get_latest_def)
  have req: "leader_requests example_leader_cycle ?s = Inr (?s, [])"
    by (simp add: leader_requests_def leader_init_request_def leader_goto_request_def)
  obtain s2 pkts out2 where j: "leader_joints example_leader_config example_leader_cycle ?s = Inr (s2, pkts, out2)"
      "leader_side RIGHT s2 = sd" "ld_next_link_check s2 = 100" "ld_next_gate_check s2 = 100"
    using l by (cases a; cases x) (auto simp: leader_joints_def r leader_side_def Let_def)
  have g: "leader_gate example_leader_config example_leader_cycle s2 = Inr s2"
    using j by (simp add: leader_gate_def)
  obtain s' out where c: "leader_cycle example_leader_config example_leader_cycle ?s = Inr (s', out)" "leader_side RIGHT s' = sd"
    using j(2) leader_send_sides [of RIGHT example_leader_cycle pkts s2]
    by (simp add: leader_cycle_eq req j(1) g leader_publish_def example_leader_period)
  have "released (ls_engager (leader_side RIGHT ?s))"
    by (simp add: leader_side_def released_def engager_active_def example_side_def)
  moreover have "\<not> released (ls_engager (leader_side RIGHT s'))" using r(2) c(2) by (simp add: released_def)
  ultimately show ?thesis using hear c(1) by blast
qed

theorem bimanual_force_meets_follower_witness:
  "\<exists>s r v s' out d r1 fenv r2. duplex_reach (command_channel example_leader_config example_feedback_config)
      (feedback_channel example_feedback_config example_leader_config) example_waiting_leader example_follower s r [] v
    \<and> leader_cycle example_leader_config example_leader_cycle s = Inr (s', out)
    \<and> \<not> released (ls_engager (leader_side RIGHT s'))
    \<and> follower_sent example_feedback_config example_follower r1 fenv r2 RIGHT d \<and> sm_state (side_safety RIGHT r2) = ACTIVE"
proof -
  let ?l = example_leader_config and ?f = example_feedback_config
  let ?K = "command_channel ?l ?f" and ?B = "feedback_channel ?f ?l"
  obtain r out1 d where f: "follower_cycle ?f (example_cycle 0) example_follower = Inr (r, out1)"
    "(RIGHT, d) \<in> set (follower_feedbacks out1)" and d: "feedback_acceptable d" "fp_enabled (feedback_of_bytes d) = 1"
    "fp_estop (feedback_of_bytes d) = 0" "unat (fp_arm_dof (feedback_of_bytes d)) \<le> 8"
    "unat (fp_hand_dof (feedback_of_bytes d)) \<le> 4"
    using example_feedback_sent by blast
  obtain s s' out where l: "leader_react ?l (Feedback RIGHT 0 5 d) example_waiting_leader = Inr (s, [])"
    "leader_cycle ?l example_leader_cycle s = Inr (s', out)"
    "released (ls_engager (leader_side RIGHT s))" "\<not> released (ls_engager (leader_side RIGHT s'))"
    using example_engages [OF d] by blast
  let ?v = "follower_feedbacks out1"
  have start: "fo_keep_running example_follower" "\<not> fo_exited example_follower" "\<not> ld_exited example_waiting_leader"
    by (simp_all add: example_follower_def example_waiting_leader_def)
  have 1: "duplex_reach ?K ?B example_waiting_leader example_follower example_waiting_leader r [] ([] @ ln_commands ?B out1)"
    by (rule duplex_second [OF duplex_start, where f = "Cycle (example_cycle 0)"]) (use f(1) start in simp_all)
  have "arrives ?B ?v RIGHT (feedback_of_bytes d)"
    using sent_arrives [of RIGHT d ?v ?B] f(2) d(1) by simp
  then have 2: "duplex_reach ?K ?B example_waiting_leader example_follower s r ([] @ ln_commands ?K []) ?v"
    by (intro duplex_first [OF 1 [simplified], where e = "Feedback RIGHT 0 5 d"]) (use l(1) d(1) start in simp_all)
  have none: "\<forall>side p. \<not> leader_stored example_waiting_leader side p"
    by (auto simp: leader_stored_def leader_side_def example_waiting_leader_def fb_init_def fb_get_latest_def
        split: ArmSide.splits)
  obtain d' r1 fenv r2 where "follower_sent ?f example_follower r1 fenv r2 RIGHT d'" "sm_state (side_safety RIGHT r2) = ACTIVE"
    using bimanual_force_meets_follower [OF 2 none _ l(2-4)] by auto
  moreover have "ln_commands ?K [] = []" by (simp add: leader_commands_def)
  ultimately show ?thesis
    using 2 l(2,4)
    by (intro exI [of _ s] exI [of _ r] exI [of _ ?v] exI [of _ s'] exI [of _ out] exI [of _ d'] exI [of _ r1]
        exI [of _ fenv] exI [of _ r2]) simp
qed

end
