(* ===== verification/Pinocchio_IK.thy ===== *)
theory Pinocchio_IK
  imports Cpp_Double
begin

text \<open>
  The inverse kinematics of the VR leader, \<open>src/ik/openarm_pinocchio_ik.cpp\<close>. The rigid-body
  library (Pinocchio) and the two matrix factorisations of Eigen are parameters, collected in the
  record \<open>IkModel\<close>; the iteration around them is the code's: the convergence test, the clamps, the
  damped least squares step with posture term, the joint limits, and the acceptance test.
\<close>

section \<open>Vectors and matrices\<close>

definition vdot :: "dbl list \<Rightarrow> dbl list \<Rightarrow> dbl" where
  "vdot xs ys = foldr (\<lambda>(x, y) s. x * y + s) (zip xs ys) (Fin 0)"

definition vnorm :: "dbl list \<Rightarrow> dbl" where
  "vnorm xs = d_sqrt (vdot xs xs)"

definition vscale :: "dbl \<Rightarrow> dbl list \<Rightarrow> dbl list" where
  "vscale c xs = map (\<lambda>x. x * c) xs"

text \<open>\<open>normalized()\<close>: a vector with squared norm 0 or NaN is returned as it is.\<close>

definition normalized :: "dbl list \<Rightarrow> dbl list" where
  "normalized xs = (if vdot xs xs > Fin 0 then map (\<lambda>x. x div vnorm xs) xs else xs)"

definition mat_vec :: "dbl list list \<Rightarrow> dbl list \<Rightarrow> dbl list" where
  "mat_vec m v = map (\<lambda>row. vdot row v) m"

definition mat_mul :: "dbl list list \<Rightarrow> dbl list list \<Rightarrow> dbl list list" where
  "mat_mul a b = map (\<lambda>row. map (vdot row) (transpose b)) a"

definition add_diagonal :: "dbl \<Rightarrow> dbl list list \<Rightarrow> dbl list list" where
  "add_diagonal c m = map (\<lambda>i. (m ! i)[i := m ! i ! i + c]) [0..<length m]"

definition identity_minus :: "nat \<Rightarrow> dbl list list \<Rightarrow> dbl list list" where
  "identity_minus n m =
     map (\<lambda>i. map (\<lambda>j. (if i = j then Fin 1 else Fin 0) - m ! i ! j) [0..<n]) [0..<n]"

section \<open>The library\<close>

text \<open>
  \<open>im_pose\<close>: position and quaternion (x, y, z, w) of the end effector; \<open>im_error\<close>: the six
  numbers of \<open>log6\<close> of the placement that leads from the current to the desired pose.
\<close>

record IkModel =
  im_frame :: "string \<Rightarrow> bool"
  im_joint :: "string \<Rightarrow> nat option"
  im_neutral :: "dbl list"
  im_nv :: nat
  im_pose :: "string \<Rightarrow> dbl list \<Rightarrow> dbl list \<times> dbl list"
  im_error :: "string \<Rightarrow> dbl list \<Rightarrow> dbl list \<Rightarrow> dbl list \<Rightarrow> dbl list"
  im_jacobian :: "string \<Rightarrow> dbl list \<Rightarrow> dbl list list"
  im_ldlt_solve :: "dbl list list \<Rightarrow> dbl list \<Rightarrow> dbl list"
  im_inverse :: "dbl list list \<Rightarrow> dbl list list"
  im_difference :: "dbl list \<Rightarrow> dbl list \<Rightarrow> dbl list"
  im_integrate :: "dbl list \<Rightarrow> dbl list \<Rightarrow> dbl list"
  im_lower :: "dbl list"
  im_upper :: "dbl list"

section \<open>The solver\<close>

record IKParams =
  ip_max_iterations :: int
  ip_convergence_tol_m :: dbl
  ip_convergence_tol_rad :: dbl
  ip_damping :: dbl
  ip_max_dq_norm :: dbl
  ip_max_task_step_m :: dbl
  ip_max_task_step_rad :: dbl
  ip_nullspace_enabled :: bool
  ip_nullspace_posture_gain :: dbl
  ip_position_weight :: dbl
  ip_orientation_weight :: dbl

definition ik_params_default :: IKParams where
  "ik_params_default =
     \<lparr> ip_max_iterations = 20, ip_convergence_tol_m = Fin (5 / 1000),
       ip_convergence_tol_rad = Fin (5 / 100), ip_damping = Fin (5 / 100),
       ip_max_dq_norm = Fin (5 / 100), ip_max_task_step_m = Fin (2 / 100),
       ip_max_task_step_rad = Fin (1 / 10), ip_nullspace_enabled = True,
       ip_nullspace_posture_gain = Fin (5 / 100), ip_position_weight = Fin 1,
       ip_orientation_weight = Fin (1 / 10) \<rparr>"

text \<open>\<open>ik_idx\<close>: the index of each named joint in the configuration vector.\<close>

record OpenArmPinocchioIK =
  ik_params :: IKParams
  ik_model :: IkModel
  ik_ee :: string
  ik_idx :: "nat list"

fun joint_indices :: "IkModel \<Rightarrow> string list \<Rightarrow> nat list result" where
  "joint_indices m [] = Inr []"
| "joint_indices m (n # ns) =
     (case im_joint m n of
        None \<Rightarrow> Inl (Runtime_Error (''Joint not found in model: '' @ n))
      | Some i \<Rightarrow> res_bind (joint_indices m ns) (\<lambda>is. Inr (i # is)))"

text \<open>\<open>urdf\<close>: what the parser makes of the file, or the text of its exception.\<close>

definition ik_new :: "string + IkModel \<Rightarrow> string \<Rightarrow> string list \<Rightarrow> OpenArmPinocchioIK result" where
  "ik_new urdf ee_link_name joint_names =
     (case urdf of
        Inl what \<Rightarrow> Inl (Runtime_Error what)
      | Inr m \<Rightarrow>
          (if \<not> im_frame m ee_link_name
           then Inl (Runtime_Error (''End-effector frame not found: '' @ ee_link_name))
           else res_bind (joint_indices m joint_names) (\<lambda>is.
             Inr \<lparr> ik_params = ik_params_default, ik_model = m, ik_ee = ee_link_name, ik_idx = is \<rparr>)))"

definition ik_set_params :: "IKParams \<Rightarrow> OpenArmPinocchioIK \<Rightarrow> OpenArmPinocchioIK" where
  "ik_set_params p ik = ik\<lparr>ik_params := p\<rparr>"

text \<open>The neutral configuration with the named joints set.\<close>

definition ik_configuration :: "OpenArmPinocchioIK \<Rightarrow> dbl list \<Rightarrow> dbl list" where
  "ik_configuration ik qs = fold (\<lambda>(i, x) q. q[i := x]) (zip (ik_idx ik) qs) (im_neutral (ik_model ik))"

definition compute_fk_pose :: "OpenArmPinocchioIK \<Rightarrow> dbl list \<Rightarrow> dbl list \<times> dbl list" where
  "compute_fk_pose ik q_in = im_pose (ik_model ik) (ik_ee ik) (ik_configuration ik q_in)"

definition compute_fk :: "OpenArmPinocchioIK \<Rightarrow> dbl list \<Rightarrow> dbl list" where
  "compute_fk ik q_in = fst (compute_fk_pose ik q_in)"

definition clamp_norm :: "dbl \<Rightarrow> dbl list \<Rightarrow> dbl list" where
  "clamp_norm limit v = (if vnorm v > limit then vscale limit (normalized v) else v)"

text \<open>The posture term of the step: the pull towards the anchor, projected into the null space.\<close>

definition posture_step ::
    "OpenArmPinocchioIK \<Rightarrow> dbl list list \<Rightarrow> dbl list list \<Rightarrow> dbl list \<Rightarrow> dbl list \<Rightarrow> dbl list" where
  "posture_step ik J JJT q anchor =
    (let m = ik_model ik;
         post_err = im_difference m q (ik_configuration ik anchor);
         J_pinv = mat_mul (transpose J) (im_inverse m JJT);
         N = identity_minus (im_nv m) (mat_mul J_pinv J)
     in mat_vec N (vscale (ip_nullspace_posture_gain (ik_params ik)) post_err))"

definition clamp_limits :: "IkModel \<Rightarrow> dbl list \<Rightarrow> dbl list" where
  "clamp_limits m q =
     map (\<lambda>i. std_max (im_lower m ! i) (std_min (im_upper m ! i) (q ! i))) [0..<length q]"

definition ik_step ::
    "OpenArmPinocchioIK \<Rightarrow> dbl list option \<Rightarrow> dbl list \<Rightarrow> dbl list \<Rightarrow> dbl list" where
  "ik_step ik anchor err q =
    (let m = ik_model ik; p = ik_params ik;
         pos = vscale (ip_position_weight p) (clamp_norm (ip_max_task_step_m p) (take 3 err));
         ori = vscale (ip_orientation_weight p) (clamp_norm (ip_max_task_step_rad p) (drop 3 err));
         J = im_jacobian m (ik_ee ik) q;
         JJT = add_diagonal (ip_damping p * ip_damping p) (mat_mul J (transpose J));
         dq = mat_vec (transpose J) (im_ldlt_solve m JJT (pos @ ori));
         dq = (case anchor of
                 Some a \<Rightarrow> if ip_nullspace_enabled p then map2 (+) dq (posture_step ik J JJT q a) else dq
               | None \<Rightarrow> dq)
     in clamp_limits m (im_integrate m q (clamp_norm (ip_max_dq_norm p) dq)))"

text \<open>
  The loop: \<open>n\<close> iterations are left, \<open>e\<close> is the position error of the iteration before. The
  result: whether it converged, the last position error measured, the configuration.
\<close>

fun ik_loop ::
    "IKParams \<Rightarrow> (dbl list \<Rightarrow> dbl list) \<Rightarrow> (dbl list \<Rightarrow> dbl list \<Rightarrow> dbl list) \<Rightarrow> nat \<Rightarrow> dbl \<Rightarrow> dbl list \<Rightarrow>
     bool \<times> dbl \<times> dbl list" where
  "ik_loop p error step 0 e q = (False, e, q)"
| "ik_loop p error step (Suc n) e q =
     (let err = error q; err_pos = vnorm (take 3 err); err_ori = vnorm (drop 3 err)
      in if err_pos < ip_convergence_tol_m p \<and> err_ori < ip_convergence_tol_rad p
         then (True, err_pos, q)
         else ik_loop p error step n err_pos (step err q))"

definition solve_pose ::
    "OpenArmPinocchioIK \<Rightarrow> dbl list \<Rightarrow> dbl list \<Rightarrow> dbl list \<Rightarrow> dbl list option \<Rightarrow> bool \<times> dbl list" where
  "solve_pose ik target_pos target_quat q_seed q_anchor =
    (let p = ik_params ik;
         (success, e, q) = ik_loop p (\<lambda>q. im_error (ik_model ik) (ik_ee ik) q target_pos target_quat)
           (ik_step ik q_anchor) (nat (ip_max_iterations p)) (Fin 0) (ik_configuration ik q_seed)
     in (success \<or> e < ip_convergence_tol_m p * Fin 5, map (\<lambda>i. q ! i) (ik_idx ik)))"

text \<open>Position only: the orientation gets weight 0 for the call; its error is still tested.\<close>

definition solve ::
    "OpenArmPinocchioIK \<Rightarrow> dbl list \<Rightarrow> dbl list \<Rightarrow> dbl list option \<Rightarrow> bool \<times> dbl list" where
  "solve ik target_pos q_seed q_anchor =
     solve_pose (ik\<lparr>ik_params := (ik_params ik)\<lparr>ip_orientation_weight := Fin 0\<rparr>\<rparr>)
       target_pos [Fin 0, Fin 0, Fin 0, Fin 1] q_seed q_anchor"

section \<open>Joint limits\<close>

text \<open>What the solver relies on of the library: one finite, ordered pair of limits per coordinate.\<close>

definition limits_ok :: "IkModel \<Rightarrow> bool" where
  "limits_ok m \<longleftrightarrow> (\<forall>i < length (im_neutral m). \<exists>a b. im_lower m ! i = Fin a \<and> im_upper m ! i = Fin b \<and> a \<le> b)
     \<and> (\<forall>q dq. length q = length (im_neutral m) \<longrightarrow> length (im_integrate m q dq) = length (im_neutral m))"

definition within_limits :: "IkModel \<Rightarrow> nat \<Rightarrow> dbl \<Rightarrow> bool" where
  "within_limits m i x \<longleftrightarrow> im_lower m ! i \<le> x \<and> x \<le> im_upper m ! i"

lemma clamp_limits_within:
  assumes "limits_ok m" and "length q = length (im_neutral m)" and "i < length q"
  shows "within_limits m i (clamp_limits m q ! i)"
proof -
  obtain a b where ab: "im_lower m ! i = Fin a" "im_upper m ! i = Fin b" "a \<le> b"
    using assms by (auto simp: limits_ok_def)
  then show ?thesis
    using assms(3) by (cases "q ! i") (auto simp: within_limits_def clamp_limits_def std_min_def std_max_def)
qed

lemma length_ik_configuration [simp]: "length (ik_configuration ik qs) = length (im_neutral (ik_model ik))"
proof -
  have "length (fold (\<lambda>(i, x) q. q[i := x]) ps q0) = length (q0 :: dbl list)" for ps q0
    by (induction ps arbitrary: q0) (auto simp: case_prod_beta)
  then show ?thesis by (simp add: ik_configuration_def)
qed

lemma ik_configuration_nth:
  assumes "distinct (ik_idx ik)" and "length qs = length (ik_idx ik)" and "i < length qs"
    and "set (ik_idx ik) \<subseteq> {..<length (im_neutral (ik_model ik))}"
  shows "ik_configuration ik qs ! (ik_idx ik ! i) = qs ! i"
proof -
  have "fold (\<lambda>(i, x) q. q[i := x]) (zip is xs) q0 ! (is ! k) = xs ! k"
    if "distinct is" "length xs = length is" "k < length is" "set is \<subseteq> {..<length q0}"
    for "is" xs k and q0 :: "dbl list"
    using that
  proof (induction "is" arbitrary: xs k q0)
    case (Cons j js)
    then obtain y ys where xs: "xs = y # ys" by (cases xs) auto
    have keep: "fold (\<lambda>(i, x) q. q[i := x]) (zip js zs) q1 ! j = q1 ! j" for zs and q1 :: "dbl list"
      using Cons.prems(1)
    proof (induction js arbitrary: zs q1)
      case (Cons a as)
      then show ?case by (cases zs) auto
    qed simp
    show ?case
      using Cons.prems xs keep Cons.IH [of ys "k - 1" "q0[j := y]"]
      by (cases k) auto
  qed simp
  then show ?thesis using assms by (simp add: ik_configuration_def)
qed

definition all_within :: "IkModel \<Rightarrow> dbl list \<Rightarrow> bool" where
  "all_within m q \<longleftrightarrow> length q = length (im_neutral m) \<and> (\<forall>i < length q. within_limits m i (q ! i))"

lemma ik_step_within:
  assumes "limits_ok (ik_model ik)" and "length q = length (im_neutral (ik_model ik))"
  shows "all_within (ik_model ik) (ik_step ik anchor err q)"
proof -
  let ?m = "ik_model ik"
  have "all_within ?m (clamp_limits ?m (im_integrate ?m q dq))" for dq
  proof -
    have "length (im_integrate ?m q dq) = length (im_neutral ?m)"
      using assms by (auto simp: limits_ok_def)
    with clamp_limits_within [OF assms(1)] show ?thesis
      by (simp add: all_within_def) (simp add: clamp_limits_def)
  qed
  then show ?thesis by (simp add: ik_step_def Let_def)
qed

lemma ik_loop_within:
  assumes "\<And>err q. length q = length (im_neutral m) \<Longrightarrow> all_within m (step err q)"
    and "ik_loop p error step n e q = (ok, e', q')" and "length q = length (im_neutral m)"
  shows "q' = q \<or> all_within m q'"
  using assms(2,3)
proof (induction n arbitrary: e q)
  case (Suc n)
  show ?case
  proof (cases "q' = q")
    case False
    with Suc.prems obtain err e1 where r: "ik_loop p error step n e1 (step err q) = (ok, e', q')"
      by (auto simp: Let_def split: if_splits)
    have "all_within m (step err q)" using assms(1) Suc.prems(2) by blast
    with Suc.IH [OF r] show ?thesis by (auto simp: all_within_def)
  qed simp
qed simp

text \<open>What the acceptance says: the last error measured is below five times the tolerance.\<close>

lemma ik_loop_converged:
  "ik_loop p error step n e q = (True, e', q') \<Longrightarrow> e' < ip_convergence_tol_m p \<and> e' = vnorm (take 3 (error q'))"
  by (induction n arbitrary: e q) (auto simp: Let_def split: if_splits)

text \<open>
  C17: the solver keeps the joint limits. Whatever the library computes, NaN included, the joints it
  returns are those it was started from or each within the limits of the model; there is one
  result for every joint.
\<close>

theorem ik_result_in_limits:
  assumes "limits_ok (ik_model ik)" and "distinct (ik_idx ik)"
    and "set (ik_idx ik) \<subseteq> {..<length (im_neutral (ik_model ik))}"
    and "length q_seed = length (ik_idx ik)"
    and "solve_pose ik pos quat q_seed anchor = (ok, out)"
  shows "length out = length q_seed
    \<and> (out = q_seed \<or> (\<forall>i < length out. within_limits (ik_model ik) (ik_idx ik ! i) (out ! i)))"
proof -
  let ?m = "ik_model ik" and ?q0 = "ik_configuration ik q_seed"
  obtain s e q where l: "ik_loop (ik_params ik) (\<lambda>q. im_error ?m (ik_ee ik) q pos quat) (ik_step ik anchor)
      (nat (ip_max_iterations (ik_params ik))) (Fin 0) ?q0 = (s, e, q)"
    by (metis surj_pair)
  have out: "out = map (\<lambda>i. q ! i) (ik_idx ik)"
    using assms(5) l by (simp add: solve_pose_def Let_def)
  have "q = ?q0 \<or> all_within ?m q"
    using ik_loop_within [OF ik_step_within [OF assms(1)] l] by simp
  then show ?thesis
  proof
    assume "q = ?q0"
    then have "out = q_seed"
      unfolding out using assms(2-4) by (intro nth_equalityI) (simp_all add: ik_configuration_nth)
    then show ?thesis by simp
  next
    assume w: "all_within ?m q"
    have "within_limits ?m (ik_idx ik ! i) (q ! (ik_idx ik ! i))" if "i < length (ik_idx ik)" for i
      using w assms(3) nth_mem [OF that] by (auto simp: all_within_def)
    then show ?thesis by (simp add: out assms(4))
  qed
qed

text \<open>A model with one joint whose library answers every step with NaN.\<close>

definition nan_model :: IkModel where
  "nan_model =
     \<lparr> im_frame = (\<lambda>_. True), im_joint = (\<lambda>_. Some 0), im_neutral = [Fin 0], im_nv = 1,
       im_pose = (\<lambda>_ q. ([Fin 0, Fin 0, Fin 0], [Fin 0, Fin 0, Fin 0, Fin 1])),
       im_error = (\<lambda>_ _ _ _. [Fin 1, Fin 0, Fin 0, Fin 0, Fin 0, Fin 0]),
       im_jacobian = (\<lambda>_ _. replicate 6 [Fin 1]), im_ldlt_solve = (\<lambda>_ e. e), im_inverse = (\<lambda>m. m),
       im_difference = (\<lambda>_ _. [Fin 0]), im_integrate = (\<lambda>_ _. [NaN]),
       im_lower = [Fin (- 2)], im_upper = [Fin 3] \<rparr>"

definition nan_solver :: OpenArmPinocchioIK where
  "nan_solver = \<lparr> ik_params = ik_params_default, ik_model = nan_model, ik_ee = ''hand'', ik_idx = [0] \<rparr>"

theorem ik_result_in_limits_witness:
  "\<exists>ok x. solve_pose nan_solver [Fin 0, Fin 0, Fin 0] [Fin 0, Fin 0, Fin 0, Fin 1] [Fin 1] None = (ok, [x])
    \<and> (x = Fin 1 \<or> within_limits nan_model 0 x)"
proof -
  obtain ok out where s: "solve_pose nan_solver [Fin 0, Fin 0, Fin 0] [Fin 0, Fin 0, Fin 0, Fin 1] [Fin 1] None
      = (ok, out)"
    by (metis surj_pair)
  have m: "limits_ok nan_model" "im_neutral nan_model = [Fin 0]" "ik_model nan_solver = nan_model"
    "ik_idx nan_solver = [0]"
    by (simp_all add: limits_ok_def nan_model_def nan_solver_def)
  have out: "length out = 1" "out = [Fin 1] \<or> (\<forall>i < length out. within_limits nan_model ([0] ! i) (out ! i))"
    using ik_result_in_limits [OF _ _ _ _ s] by (auto simp: m)
  from out(1) obtain x where "out = [x]" by (auto simp: length_Suc_conv)
  with out(2) s show ?thesis by auto
qed

end
