(* ===== verification/Vr_Config.thy ===== *)
theory Vr_Config
  imports App_Common Bilateral_Engager Pinocchio_IK
begin

text \<open>
  How the VR leader (\<open>src/apps/wifi_vr_bimanual_leader.cpp\<close>) is configured: the settings file
  with its sections, the command line, and the \<open>--set\<close> overrides.
\<close>

section \<open>The settings\<close>

definition identity3 :: "dbl list list" where
  "identity3 = [[Fin 1, Fin 0, Fin 0], [Fin 0, Fin 1, Fin 0], [Fin 0, Fin 0, Fin 1]]"

definition default_max_step :: "dbl list" where
  "default_max_step = map Fin [35 / 1000, 35 / 1000, 35 / 1000, 35 / 1000, 35 / 1000, 25 / 1000,
     35 / 1000, 20 / 1000]"

record VrMapping =
  vm_position_scale_xyz :: "dbl list"
  vm_max_delta_m :: dbl
  vm_deadband_m :: dbl
  vm_max_delta_per_cycle_m :: dbl
  vm_right_translation_matrix :: "dbl list list"
  vm_left_translation_matrix :: "dbl list list"
  vm_right_rotation_matrix :: "dbl list list"
  vm_left_rotation_matrix :: "dbl list list"
  vm_invert_rotation_delta :: bool
  vm_rotation_compose_order :: string
  vm_gripper_min_limit :: dbl
  vm_gripper_max_limit :: dbl

record VrIKConfig =
  vi_mode :: string
  vi_max_iterations :: int
  vi_convergence_tol_m :: dbl
  vi_convergence_tol_rad :: dbl
  vi_damping :: dbl
  vi_max_dq_norm :: dbl
  vi_max_task_step_m :: dbl
  vi_max_task_step_rad :: dbl
  vi_position_weight :: dbl
  vi_orientation_weight :: dbl
  vi_nullspace_enabled :: bool
  vi_nullspace_posture_gain :: dbl
  vi_max_consecutive_failures :: int
  vi_failure_hold :: bool

record VrTelemetryConfig =
  vt_stale_timeout_ms :: int
  vt_anchor_reset_timeout_ms :: int

record VrHumanModel =
  vhm_enabled :: bool
  vhm_shoulder_width_m :: dbl
  vhm_shoulder_down_offset_m :: dbl
  vhm_shoulder_back_offset_m :: dbl
  vhm_upper_arm_length_m :: dbl
  vhm_forearm_length_m :: dbl
  vhm_neutral_swivel_right_rad :: dbl
  vhm_neutral_swivel_left_rad :: dbl

record VrSwivelConfig =
  vs_enabled :: bool
  vs_apply_to_ik :: bool
  vs_log_only :: bool
  vs_neutral_gain :: dbl
  vs_continuity_gain :: dbl
  vs_wrist_orientation_gain :: dbl
  vs_max_swivel_rate_rad_s :: dbl

record VrRateLimit =
  vl_enabled :: bool
  vl_max_step_rad_r :: "dbl list"
  vl_max_step_rad_l :: "dbl list"

record VrDebugConfig =
  vd_ik_debug :: bool
  vd_ik_debug_rate_hz :: dbl
  vd_ik_debug_burst_sec :: dbl

record VrTeleopConfig =
  vc_mapping :: VrMapping
  vc_ik :: VrIKConfig
  vc_tel :: VrTelemetryConfig
  vc_human :: VrHumanModel
  vc_swivel :: VrSwivelConfig
  vc_rate_limit :: VrRateLimit
  vc_debug :: VrDebugConfig

definition vr_mapping_default :: VrMapping where
  "vr_mapping_default =
     \<lparr> vm_position_scale_xyz = [Fin 1, Fin 1, Fin 1], vm_max_delta_m = Fin (30 / 100),
       vm_deadband_m = Fin (2 / 1000), vm_max_delta_per_cycle_m = Fin (1 / 100),
       vm_right_translation_matrix = identity3, vm_left_translation_matrix = identity3,
       vm_right_rotation_matrix = identity3, vm_left_rotation_matrix = identity3,
       vm_invert_rotation_delta = False, vm_rotation_compose_order = ''anchor_then_delta'',
       vm_gripper_min_limit = Fin 0, vm_gripper_max_limit = Fin (44 / 1000) \<rparr>"

definition vr_ik_default :: VrIKConfig where
  "vr_ik_default =
     \<lparr> vi_mode = ''pose'', vi_max_iterations = 20, vi_convergence_tol_m = Fin (5 / 1000),
       vi_convergence_tol_rad = Fin (5 / 100), vi_damping = Fin (5 / 100),
       vi_max_dq_norm = Fin (5 / 100), vi_max_task_step_m = Fin (2 / 100),
       vi_max_task_step_rad = Fin (1 / 10), vi_position_weight = Fin 1,
       vi_orientation_weight = Fin (1 / 10), vi_nullspace_enabled = True,
       vi_nullspace_posture_gain = Fin (5 / 100), vi_max_consecutive_failures = 20,
       vi_failure_hold = True \<rparr>"

definition vr_tel_default :: VrTelemetryConfig where
  "vr_tel_default =
     \<lparr> vt_stale_timeout_ms = 100, vt_anchor_reset_timeout_ms = 300 \<rparr>"

definition vr_human_default :: VrHumanModel where
  "vr_human_default =
     \<lparr> vhm_enabled = True, vhm_shoulder_width_m = Fin (38 / 100),
       vhm_shoulder_down_offset_m = Fin (18 / 100),
       vhm_shoulder_back_offset_m = Fin (5 / 100), vhm_upper_arm_length_m = Fin (30 / 100),
       vhm_forearm_length_m = Fin (27 / 100), vhm_neutral_swivel_right_rad = Fin 0,
       vhm_neutral_swivel_left_rad = Fin 0 \<rparr>"

definition vr_swivel_default :: VrSwivelConfig where
  "vr_swivel_default =
     \<lparr> vs_enabled = True, vs_apply_to_ik = True, vs_log_only = False,
       vs_neutral_gain = Fin (2 / 10), vs_continuity_gain = Fin (7 / 10),
       vs_wrist_orientation_gain = Fin (1 / 10), vs_max_swivel_rate_rad_s = Fin 1 \<rparr>"

definition vr_rate_limit_default :: VrRateLimit where
  "vr_rate_limit_default =
     \<lparr> vl_enabled = True, vl_max_step_rad_r = default_max_step,
       vl_max_step_rad_l = default_max_step \<rparr>"

definition vr_debug_default :: VrDebugConfig where
  "vr_debug_default =
     \<lparr> vd_ik_debug = False, vd_ik_debug_rate_hz = Fin 5,
       vd_ik_debug_burst_sec = Fin 3 \<rparr>"

definition vr_config_default :: VrTeleopConfig where
  "vr_config_default =
     \<lparr> vc_mapping = vr_mapping_default, vc_ik = vr_ik_default, vc_tel = vr_tel_default,
       vc_human = vr_human_default, vc_swivel = vr_swivel_default,
       vc_rate_limit = vr_rate_limit_default, vc_debug = vr_debug_default \<rparr>"

section \<open>The settings file\<close>

text \<open>
  The YAML library's answers for a path of keys and indices: whether the node is there, and what
  \<open>as<T>\<close> makes of it. Any of them may throw.
\<close>

datatype yaml_key = Key string | Idx nat

record VrYaml =
  vy_has :: "yaml_key list \<Rightarrow> bool result"
  vy_double :: "yaml_key list \<Rightarrow> dbl result"
  vy_int :: "yaml_key list \<Rightarrow> int result"
  vy_bool :: "yaml_key list \<Rightarrow> bool result"
  vy_string :: "yaml_key list \<Rightarrow> string result"

type_synonym vr_step = "VrTeleopConfig \<Rightarrow> VrTeleopConfig result"

text \<open>\<open>if (node[path]) { steps }\<close>\<close>

definition vy_section :: "VrYaml \<Rightarrow> yaml_key list \<Rightarrow> vr_step list \<Rightarrow> vr_step list" where
  "vy_section y path steps =
     (case vy_has y path of Inl e \<Rightarrow> [\<lambda>_. Inl e] | Inr b \<Rightarrow> if b then steps else [])"

text \<open>\<open>if (node[path]) cfg.field = node[path].as<T>()\<close>\<close>

definition vy_set ::
    "(VrYaml \<Rightarrow> yaml_key list \<Rightarrow> 'v result) \<Rightarrow> VrYaml \<Rightarrow> yaml_key list \<Rightarrow>
     ('v \<Rightarrow> VrTeleopConfig \<Rightarrow> VrTeleopConfig) \<Rightarrow> vr_step list" where
  "vy_set as_type y path upd = vy_section y path [\<lambda>c. res_bind (as_type y path) (\<lambda>v. Inr (upd v c))]"

text \<open>The loops over array elements; an exception leaves the elements before it assigned.\<close>

definition vy_array ::
    "VrYaml \<Rightarrow> yaml_key list \<Rightarrow> nat \<Rightarrow> (nat \<Rightarrow> dbl \<Rightarrow> VrTeleopConfig \<Rightarrow> VrTeleopConfig) \<Rightarrow> vr_step list" where
  "vy_array y path n upd = vy_section y path
     (map (\<lambda>i c. res_bind (vy_double y (path @ [Idx i])) (\<lambda>v. Inr (upd i v c))) [0..<n])"

definition vy_matrix ::
    "VrYaml \<Rightarrow> yaml_key list \<Rightarrow> ((dbl list list \<Rightarrow> dbl list list) \<Rightarrow> VrTeleopConfig \<Rightarrow> VrTeleopConfig) \<Rightarrow>
     vr_step list" where
  "vy_matrix y path upd = vy_section y path
     (concat (map (\<lambda>i. map (\<lambda>j c. res_bind (vy_double y (path @ [Idx i, Idx j])) (\<lambda>v.
        Inr (upd (\<lambda>m. m[i := (m ! i)[j := v]]) c))) [0..<3]) [0..<3]))"

definition vr_mapping_steps :: "VrYaml \<Rightarrow> vr_step list" where
  "vr_mapping_steps y = vy_section y [Key ''vr_mapping''] (concat [
          vy_array y [Key ''vr_mapping'', Key ''position_scale_xyz''] 3
            (\<lambda>i v. vc_mapping_update (vm_position_scale_xyz_update (\<lambda>a. a[i := v]))),
          vy_set vy_double y [Key ''vr_mapping'', Key ''max_delta_m'']
            (\<lambda>v. vc_mapping_update (vm_max_delta_m_update (\<lambda>_. v))),
          vy_set vy_double y [Key ''vr_mapping'', Key ''deadband_m'']
            (\<lambda>v. vc_mapping_update (vm_deadband_m_update (\<lambda>_. v))),
          vy_set vy_double y [Key ''vr_mapping'', Key ''max_delta_per_cycle_m'']
            (\<lambda>v. vc_mapping_update (vm_max_delta_per_cycle_m_update (\<lambda>_. v))),
          vy_matrix y [Key ''vr_mapping'', Key ''right_translation_matrix'']
            (\<lambda>f. vc_mapping_update (vm_right_translation_matrix_update f)),
          vy_matrix y [Key ''vr_mapping'', Key ''left_translation_matrix'']
            (\<lambda>f. vc_mapping_update (vm_left_translation_matrix_update f)),
          vy_matrix y [Key ''vr_mapping'', Key ''right_axis_matrix'']
            (\<lambda>f. vc_mapping_update (vm_right_translation_matrix_update f)),
          vy_matrix y [Key ''vr_mapping'', Key ''left_axis_matrix'']
            (\<lambda>f. vc_mapping_update (vm_left_translation_matrix_update f)),
          vy_matrix y [Key ''vr_mapping'', Key ''right_rotation_matrix'']
            (\<lambda>f. vc_mapping_update (vm_right_rotation_matrix_update f)),
          vy_matrix y [Key ''vr_mapping'', Key ''left_rotation_matrix'']
            (\<lambda>f. vc_mapping_update (vm_left_rotation_matrix_update f)),
          vy_set vy_bool y [Key ''vr_mapping'', Key ''invert_rotation_delta'']
            (\<lambda>v. vc_mapping_update (vm_invert_rotation_delta_update (\<lambda>_. v))),
          vy_set vy_string y [Key ''vr_mapping'', Key ''rotation_compose_order'']
            (\<lambda>v. vc_mapping_update (vm_rotation_compose_order_update (\<lambda>_. v))),
          vy_set vy_double y [Key ''vr_mapping'', Key ''gripper_min_limit'']
            (\<lambda>v. vc_mapping_update (vm_gripper_min_limit_update (\<lambda>_. v))),
          vy_set vy_double y [Key ''vr_mapping'', Key ''gripper_max_limit'']
            (\<lambda>v. vc_mapping_update (vm_gripper_max_limit_update (\<lambda>_. v)))])"

definition vr_ik_steps :: "VrYaml \<Rightarrow> vr_step list" where
  "vr_ik_steps y = vy_section y [Key ''ik''] (concat [
          vy_set vy_string y [Key ''ik'', Key ''mode'']
            (\<lambda>v. vc_ik_update (vi_mode_update (\<lambda>_. v))),
          vy_set vy_int y [Key ''ik'', Key ''max_iterations'']
            (\<lambda>v. vc_ik_update (vi_max_iterations_update (\<lambda>_. v))),
          vy_set vy_double y [Key ''ik'', Key ''convergence_tol_m'']
            (\<lambda>v. vc_ik_update (vi_convergence_tol_m_update (\<lambda>_. v))),
          vy_set vy_double y [Key ''ik'', Key ''convergence_tol_pos_m'']
            (\<lambda>v. vc_ik_update (vi_convergence_tol_m_update (\<lambda>_. v))),
          vy_set vy_double y [Key ''ik'', Key ''convergence_tol_rad'']
            (\<lambda>v. vc_ik_update (vi_convergence_tol_rad_update (\<lambda>_. v))),
          vy_set vy_double y [Key ''ik'', Key ''convergence_tol_ori_rad'']
            (\<lambda>v. vc_ik_update (vi_convergence_tol_rad_update (\<lambda>_. v))),
          vy_set vy_double y [Key ''ik'', Key ''damping'']
            (\<lambda>v. vc_ik_update (vi_damping_update (\<lambda>_. v))),
          vy_set vy_double y [Key ''ik'', Key ''max_dq_norm'']
            (\<lambda>v. vc_ik_update (vi_max_dq_norm_update (\<lambda>_. v))),
          vy_set vy_double y [Key ''ik'', Key ''max_task_step_m'']
            (\<lambda>v. vc_ik_update (vi_max_task_step_m_update (\<lambda>_. v))),
          vy_set vy_double y [Key ''ik'', Key ''max_task_step_rad'']
            (\<lambda>v. vc_ik_update (vi_max_task_step_rad_update (\<lambda>_. v))),
          vy_set vy_double y [Key ''ik'', Key ''position_weight'']
            (\<lambda>v. vc_ik_update (vi_position_weight_update (\<lambda>_. v))),
          vy_set vy_double y [Key ''ik'', Key ''orientation_weight'']
            (\<lambda>v. vc_ik_update (vi_orientation_weight_update (\<lambda>_. v))),
          vy_set vy_bool y [Key ''ik'', Key ''nullspace_enabled'']
            (\<lambda>v. vc_ik_update (vi_nullspace_enabled_update (\<lambda>_. v))),
          vy_set vy_double y [Key ''ik'', Key ''nullspace_posture_gain'']
            (\<lambda>v. vc_ik_update (vi_nullspace_posture_gain_update (\<lambda>_. v))),
          vy_set vy_int y [Key ''ik'', Key ''max_consecutive_failures'']
            (\<lambda>v. vc_ik_update (vi_max_consecutive_failures_update (\<lambda>_. v))),
          vy_set vy_bool y [Key ''ik'', Key ''failure_hold'']
            (\<lambda>v. vc_ik_update (vi_failure_hold_update (\<lambda>_. v)))])"

definition vr_tel_steps :: "VrYaml \<Rightarrow> vr_step list" where
  "vr_tel_steps y = vy_section y [Key ''telemetry''] (concat [
          vy_set vy_int y [Key ''telemetry'', Key ''stale_timeout_ms'']
            (\<lambda>v. vc_tel_update (vt_stale_timeout_ms_update (\<lambda>_. v))),
          vy_set vy_int y [Key ''telemetry'', Key ''anchor_reset_timeout_ms'']
            (\<lambda>v. vc_tel_update (vt_anchor_reset_timeout_ms_update (\<lambda>_. v)))])"

definition vr_human_steps :: "VrYaml \<Rightarrow> vr_step list" where
  "vr_human_steps y = vy_section y [Key ''human_model''] (concat [
          vy_set vy_bool y [Key ''human_model'', Key ''enabled'']
            (\<lambda>v. vc_human_update (vhm_enabled_update (\<lambda>_. v))),
          vy_set vy_double y [Key ''human_model'', Key ''shoulder_width_m'']
            (\<lambda>v. vc_human_update (vhm_shoulder_width_m_update (\<lambda>_. v))),
          vy_set vy_double y [Key ''human_model'', Key ''shoulder_down_offset_m'']
            (\<lambda>v. vc_human_update (vhm_shoulder_down_offset_m_update (\<lambda>_. v))),
          vy_set vy_double y [Key ''human_model'', Key ''shoulder_back_offset_m'']
            (\<lambda>v. vc_human_update (vhm_shoulder_back_offset_m_update (\<lambda>_. v))),
          vy_set vy_double y [Key ''human_model'', Key ''upper_arm_length_m'']
            (\<lambda>v. vc_human_update (vhm_upper_arm_length_m_update (\<lambda>_. v))),
          vy_set vy_double y [Key ''human_model'', Key ''forearm_length_m'']
            (\<lambda>v. vc_human_update (vhm_forearm_length_m_update (\<lambda>_. v))),
          vy_set vy_double y [Key ''human_model'', Key ''neutral_swivel_right_rad'']
            (\<lambda>v. vc_human_update (vhm_neutral_swivel_right_rad_update (\<lambda>_. v))),
          vy_set vy_double y [Key ''human_model'', Key ''neutral_swivel_left_rad'']
            (\<lambda>v. vc_human_update (vhm_neutral_swivel_left_rad_update (\<lambda>_. v)))])"

definition vr_swivel_steps :: "VrYaml \<Rightarrow> vr_step list" where
  "vr_swivel_steps y = vy_section y [Key ''swivel_prior''] (concat [
          vy_set vy_bool y [Key ''swivel_prior'', Key ''enabled'']
            (\<lambda>v. vc_swivel_update (vs_enabled_update (\<lambda>_. v))),
          vy_set vy_bool y [Key ''swivel_prior'', Key ''apply_to_ik'']
            (\<lambda>v. vc_swivel_update (vs_apply_to_ik_update (\<lambda>_. v))),
          vy_set vy_bool y [Key ''swivel_prior'', Key ''log_only'']
            (\<lambda>v. vc_swivel_update (vs_log_only_update (\<lambda>_. v))),
          vy_set vy_double y [Key ''swivel_prior'', Key ''neutral_gain'']
            (\<lambda>v. vc_swivel_update (vs_neutral_gain_update (\<lambda>_. v))),
          vy_set vy_double y [Key ''swivel_prior'', Key ''continuity_gain'']
            (\<lambda>v. vc_swivel_update (vs_continuity_gain_update (\<lambda>_. v))),
          vy_set vy_double y [Key ''swivel_prior'', Key ''wrist_orientation_gain'']
            (\<lambda>v. vc_swivel_update (vs_wrist_orientation_gain_update (\<lambda>_. v))),
          vy_set vy_double y [Key ''swivel_prior'', Key ''max_swivel_rate_rad_s'']
            (\<lambda>v. vc_swivel_update (vs_max_swivel_rate_rad_s_update (\<lambda>_. v)))])"

definition vr_rate_limit_steps :: "VrYaml \<Rightarrow> vr_step list" where
  "vr_rate_limit_steps y = vy_section y [Key ''rate_limit'']
     (vy_set vy_bool y [Key ''rate_limit'', Key ''enabled'']
        (\<lambda>v. vc_rate_limit_update (vl_enabled_update (\<lambda>_. v)))
      @ vy_section y [Key ''rate_limit'', Key ''max_step_rad'']
         (vy_array y [Key ''rate_limit'', Key ''max_step_rad'', Key ''right_arm''] 8
            (\<lambda>i v. vc_rate_limit_update (vl_max_step_rad_r_update (\<lambda>a. a[i := v])))
          @ vy_array y [Key ''rate_limit'', Key ''max_step_rad'', Key ''left_arm''] 8
            (\<lambda>i v. vc_rate_limit_update (vl_max_step_rad_l_update (\<lambda>a. a[i := v])))))"

definition vr_debug_steps :: "VrYaml \<Rightarrow> vr_step list" where
  "vr_debug_steps y = vy_section y [Key ''debug''] (concat [
          vy_set vy_bool y [Key ''debug'', Key ''ik_debug'']
            (\<lambda>v. vc_debug_update (vd_ik_debug_update (\<lambda>_. v))),
          vy_set vy_double y [Key ''debug'', Key ''ik_debug_rate_hz'']
            (\<lambda>v. vc_debug_update (vd_ik_debug_rate_hz_update (\<lambda>_. v))),
          vy_set vy_double y [Key ''debug'', Key ''ik_debug_burst_sec'']
            (\<lambda>v. vc_debug_update (vd_ik_debug_burst_sec_update (\<lambda>_. v)))])"

text \<open>An exception on the way keeps what was read before it.\<close>

definition vr_load_config :: "string + VrYaml \<Rightarrow> VrTeleopConfig" where
  "vr_load_config file =
     (case file of
        Inl what \<Rightarrow> vr_config_default
      | Inr y \<Rightarrow> fst (try_steps (concat [vr_mapping_steps y, vr_ik_steps y, vr_tel_steps y,
          vr_human_steps y, vr_swivel_steps y, vr_rate_limit_steps y, vr_debug_steps y])
          vr_config_default))"

section \<open>The command line\<close>

record VrArgs =
  va_follower_ip :: string
  va_vr_port :: u16
  va_telemetry_port :: u16
  va_rate_hz :: dbl
  va_right_urdf :: string
  va_left_urdf :: string
  va_config_path :: string
  va_ik_debug :: bool
  va_dry_run :: bool
  va_mapping_test :: bool
  va_max_test_sec :: dbl
  va_log_csv_path :: string
  va_set_overrides :: "string list"

definition vr_args_default :: VrArgs where
  "vr_args_default =
     \<lparr> va_follower_ip = ''127.0.0.1'', va_vr_port = 54002, va_telemetry_port = 51000,
       va_rate_hz = Fin 100, va_right_urdf = ''urdf/openarm_right.urdf'',
       va_left_urdf = ''urdf/openarm_left.urdf'', va_config_path = ''config/vr_teleop_config.yaml'',
       va_ik_debug = False, va_dry_run = False, va_mapping_test = False, va_max_test_sec = Fin 0,
       va_log_csv_path = [], va_set_overrides = [] \<rparr>"

definition vr_option :: "string \<Rightarrow> string \<Rightarrow> VrArgs \<Rightarrow> VrArgs result option" where
  "vr_option x v a =
     (let push = (\<lambda>item. a\<lparr>va_set_overrides := va_set_overrides a @ [item]\<rparr>)
      in if x = ''--follower-ip'' then Some (Inr (a\<lparr>va_follower_ip := v\<rparr>))
      else if x = ''--vr-port'' then arg_u16 v (\<lambda>p. a\<lparr>va_vr_port := p\<rparr>)
      else if x = ''--telemetry-port'' then arg_u16 v (\<lambda>p. a\<lparr>va_telemetry_port := p\<rparr>)
      else if x = ''--rate-hz'' then arg_double v (\<lambda>d. a\<lparr>va_rate_hz := d\<rparr>)
      else if x = ''--right-urdf'' then Some (Inr (a\<lparr>va_right_urdf := v\<rparr>))
      else if x = ''--left-urdf'' then Some (Inr (a\<lparr>va_left_urdf := v\<rparr>))
      else if x = ''--config'' then Some (Inr (a\<lparr>va_config_path := v\<rparr>))
      else if x = ''--ik-debug-rate-hz'' then Some (Inr (push (''debug.ik_debug_rate_hz='' @ v)))
      else if x = ''--ik-debug-burst-sec'' then Some (Inr (push (''debug.ik_debug_burst_sec='' @ v)))
      else if x = ''--log-csv'' then Some (Inr (a\<lparr>va_log_csv_path := v\<rparr>))
      else if x = ''--max-test-sec'' then arg_double v (\<lambda>d. a\<lparr>va_max_test_sec := d\<rparr>)
      else if x = ''--set'' then Some (Inr (push v))
      else None)"

definition vr_flag :: "string \<Rightarrow> VrArgs \<Rightarrow> VrArgs option" where
  "vr_flag x a =
     (if x = ''--ik-debug'' then Some (a\<lparr>va_ik_debug := True\<rparr>)
      else if x = ''--dry-run'' then Some (a\<lparr>va_dry_run := True\<rparr>)
      else if x = ''--vr-mapping-test'' then Some (a\<lparr>va_mapping_test := True\<rparr>)
      else None)"

definition vr_args :: "string list \<Rightarrow> VrArgs result" where
  "vr_args argv = parse_args vr_option vr_flag argv vr_args_default"

definition vr_parse_bool :: "string \<Rightarrow> bool" where
  "vr_parse_bool value \<longleftrightarrow> value \<in> {''1'', ''true'', ''TRUE'', ''yes'', ''on''}"

text \<open>One \<open>key=value\<close> override; a malformed or unknown one is only logged.\<close>

definition vr_apply_set :: "string \<Rightarrow> VrTeleopConfig \<Rightarrow> VrTeleopConfig result" where
  "vr_apply_set item cfg =
    (let key = takeWhile (\<lambda>c. c \<noteq> CHR ''='') item; rest = dropWhile (\<lambda>c. c \<noteq> CHR ''='') item; value = tl rest;
         num = (\<lambda>upd. res_bind (stod value) (\<lambda>d. Inr (upd d cfg)))
     in if rest = [] then Inr cfg
        else if key = ''ik.orientation_weight'' then num (\<lambda>d. vc_ik_update (vi_orientation_weight_update (\<lambda>_. d)))
        else if key = ''ik.position_weight'' then num (\<lambda>d. vc_ik_update (vi_position_weight_update (\<lambda>_. d)))
        else if key = ''ik.damping'' then num (\<lambda>d. vc_ik_update (vi_damping_update (\<lambda>_. d)))
        else if key = ''ik.max_dq_norm'' then num (\<lambda>d. vc_ik_update (vi_max_dq_norm_update (\<lambda>_. d)))
        else if key = ''ik.mode'' then Inr (vc_ik_update (vi_mode_update (\<lambda>_. value)) cfg)
        else if key = ''human_model.enabled'' then
          Inr (vc_human_update (vhm_enabled_update (\<lambda>_. vr_parse_bool value)) cfg)
        else if key = ''swivel_prior.enabled'' then
          Inr (vc_swivel_update (vs_enabled_update (\<lambda>_. vr_parse_bool value)) cfg)
        else if key = ''swivel_prior.apply_to_ik'' then
          Inr (vc_swivel_update (vs_apply_to_ik_update (\<lambda>_. vr_parse_bool value)) cfg)
        else if key = ''swivel_prior.log_only'' then
          Inr (vc_swivel_update (vs_log_only_update (\<lambda>_. vr_parse_bool value)) cfg)
        else if key = ''vr_mapping.rotation_compose_order'' then
          Inr (vc_mapping_update (vm_rotation_compose_order_update (\<lambda>_. value)) cfg)
        else if key = ''vr_mapping.invert_rotation_delta'' then
          Inr (vc_mapping_update (vm_invert_rotation_delta_update (\<lambda>_. vr_parse_bool value)) cfg)
        else if key = ''debug.ik_debug_rate_hz'' then
          num (\<lambda>d. vc_debug_update (vd_ik_debug_rate_hz_update (\<lambda>_. d)))
        else if key = ''debug.ik_debug_burst_sec'' then
          num (\<lambda>d. vc_debug_update (vd_ik_debug_burst_sec_update (\<lambda>_. d)))
        else Inr cfg)"

fun vr_apply_sets :: "string list \<Rightarrow> VrTeleopConfig \<Rightarrow> VrTeleopConfig result" where
  "vr_apply_sets [] cfg = Inr cfg"
| "vr_apply_sets (i # is) cfg = res_bind (vr_apply_set i cfg) (vr_apply_sets is)"

text \<open>The second pass over \<open>argv\<close> looks at every word, values of options included.\<close>

definition vr_ik_mode :: "string list \<Rightarrow> VrTeleopConfig \<Rightarrow> VrTeleopConfig" where
  "vr_ik_mode argv cfg = fold (\<lambda>arg c.
     if arg = ''--pose-ik'' then vc_ik_update (vi_mode_update (\<lambda>_. ''pose'')) c
     else if arg = ''--position-ik'' then vc_ik_update (vi_mode_update (\<lambda>_. ''position'')) c
     else c) argv cfg"

definition vr_config :: "string list \<Rightarrow> VrArgs \<Rightarrow> string + VrYaml \<Rightarrow> VrTeleopConfig result" where
  "vr_config argv a file =
    (let cfg = vr_load_config file;
         cfg = (if va_ik_debug a \<or> va_log_csv_path a \<noteq> []
                then vc_debug_update (vd_ik_debug_update (\<lambda>_. True)) cfg else cfg)
     in res_bind (vr_apply_sets (va_set_overrides a) cfg) (\<lambda>cfg. Inr (vr_ik_mode argv cfg)))"

text \<open>The parameters handed to the solvers and the elbow estimators.\<close>

definition vr_ik_params :: "VrTeleopConfig \<Rightarrow> IKParams" where
  "vr_ik_params cfg =
    (let i = vc_ik cfg
     in \<lparr> ip_max_iterations = vi_max_iterations i, ip_convergence_tol_m = vi_convergence_tol_m i,
          ip_convergence_tol_rad = vi_convergence_tol_rad i, ip_damping = vi_damping i,
          ip_max_dq_norm = vi_max_dq_norm i, ip_max_task_step_m = vi_max_task_step_m i,
          ip_max_task_step_rad = vi_max_task_step_rad i,
          ip_nullspace_enabled = vi_nullspace_enabled i,
          ip_nullspace_posture_gain = vi_nullspace_posture_gain i,
          ip_position_weight = vi_position_weight i,
          ip_orientation_weight = vi_orientation_weight i \<rparr>)"

definition vr_swivel :: "VrTeleopConfig \<Rightarrow> dbl \<Rightarrow> TemporalSwivelEstimator" where
  "vr_swivel cfg neutral =
    (let s = vc_swivel cfg
     in swivel_new \<lparr> sw_enabled = vs_enabled s, sw_neutral_gain = vs_neutral_gain s,
          sw_continuity_gain = vs_continuity_gain s,
          sw_wrist_orientation_gain = vs_wrist_orientation_gain s,
          sw_max_swivel_rate_rad_s = vs_max_swivel_rate_rad_s s, sw_neutral_swivel_rad = neutral \<rparr>)"

end
