(* ===== verification/Vr_Protocol.thy ===== *)
theory Vr_Protocol
  imports Packets Cpp_Bits
begin

text \<open>
  The packet of the VR headset, \<open>include/openarm_wifi_teleop/net/vr_protocol.hpp\<close>: a packed
  struct of 256 bytes with the headset's pose and, for either hand, the pose relative to where
  the grip was closed. Numbers are 32-bit floats.
\<close>

record VrHand =
  vh_delta_pos_world :: "u32 list"
  vh_delta_rot_world_xyzw :: "u32 list"
  vh_delta_pos_hmd :: "u32 list"
  vh_delta_rot_hmd_xyzw :: "u32 list"
  vh_abs_pos_world :: "u32 list"
  vh_abs_rot_world_xyzw :: "u32 list"
  vh_grip :: u32
  vh_trigger :: u32
  vh_thumbstick :: "u32 list"
  vh_buttons :: u8

record VrRelativeTeleopPacketV2 =
  vr_magic :: u32
  vr_version :: u16
  vr_packet_size :: u16
  vr_seq :: u32
  vr_timestamp_sec :: u64
  vr_hmd_abs_pos_world :: "u32 list"
  vr_hmd_abs_quat_world_xyzw :: "u32 list"
  vr_left :: VrHand
  vr_right :: VrHand
  vr_reserved :: u16
  vr_crc32 :: u32

definition VR_MAGIC :: u32 where "VR_MAGIC = 0x3252564F"

definition VR_VERSION :: u16 where "VR_VERSION = 2"

definition vr_size :: nat where "vr_size = 256"

definition vr_hand_layout :: "nat list" where
  "vr_hand_layout = [12, 16, 12, 16, 12, 16, 4, 4, 8, 1]"

definition vr_layout :: "nat list" where
  "vr_layout = [4, 2, 2, 4, 8, 12, 16, 101, 101, 2, 4]"

definition vr_hand_of_bytes :: "u8 list \<Rightarrow> VrHand" where
  "vr_hand_of_bytes bs =
     (let c = chunks vr_hand_layout bs in \<lparr>
        vh_delta_pos_world = le_array_words 4 3 (c ! 0),
        vh_delta_rot_world_xyzw = le_array_words 4 4 (c ! 1),
        vh_delta_pos_hmd = le_array_words 4 3 (c ! 2),
        vh_delta_rot_hmd_xyzw = le_array_words 4 4 (c ! 3),
        vh_abs_pos_world = le_array_words 4 3 (c ! 4),
        vh_abs_rot_world_xyzw = le_array_words 4 4 (c ! 5),
        vh_grip = le_word (c ! 6), vh_trigger = le_word (c ! 7),
        vh_thumbstick = le_array_words 4 2 (c ! 8), vh_buttons = le_word (c ! 9) \<rparr>)"

definition vr_of_bytes :: "u8 list \<Rightarrow> VrRelativeTeleopPacketV2" where
  "vr_of_bytes bs =
     (let c = chunks vr_layout bs in \<lparr>
        vr_magic = le_word (c ! 0), vr_version = le_word (c ! 1), vr_packet_size = le_word (c ! 2),
        vr_seq = le_word (c ! 3), vr_timestamp_sec = le_word (c ! 4),
        vr_hmd_abs_pos_world = le_array_words 4 3 (c ! 5),
        vr_hmd_abs_quat_world_xyzw = le_array_words 4 4 (c ! 6),
        vr_left = vr_hand_of_bytes (c ! 7), vr_right = vr_hand_of_bytes (c ! 8),
        vr_reserved = le_word (c ! 9), vr_crc32 = le_word (c ! 10) \<rparr>)"

lemma vr_layout_sum: "sum_list vr_layout = vr_size" "sum_list vr_hand_layout = 101"
  by (simp_all add: vr_layout_def vr_hand_layout_def vr_size_def)

definition vr_hand_bytes :: "VrHand \<Rightarrow> u8 list" where
  "vr_hand_bytes h = concat
     [le_array_bytes 4 (vh_delta_pos_world h), le_array_bytes 4 (vh_delta_rot_world_xyzw h),
      le_array_bytes 4 (vh_delta_pos_hmd h), le_array_bytes 4 (vh_delta_rot_hmd_xyzw h),
      le_array_bytes 4 (vh_abs_pos_world h), le_array_bytes 4 (vh_abs_rot_world_xyzw h),
      le_bytes 4 (vh_grip h), le_bytes 4 (vh_trigger h), le_array_bytes 4 (vh_thumbstick h),
      le_bytes 1 (vh_buttons h)]"

definition vr_bytes :: "VrRelativeTeleopPacketV2 \<Rightarrow> u8 list" where
  "vr_bytes p = concat
     [le_bytes 4 (vr_magic p), le_bytes 2 (vr_version p), le_bytes 2 (vr_packet_size p),
      le_bytes 4 (vr_seq p), le_bytes 8 (vr_timestamp_sec p),
      le_array_bytes 4 (vr_hmd_abs_pos_world p), le_array_bytes 4 (vr_hmd_abs_quat_world_xyzw p),
      vr_hand_bytes (vr_left p), vr_hand_bytes (vr_right p), le_bytes 2 (vr_reserved p),
      le_bytes 4 (vr_crc32 p)]"

definition vr_hand_wf :: "VrHand \<Rightarrow> bool" where
  "vr_hand_wf h \<longleftrightarrow> length (vh_delta_pos_world h) = 3 \<and> length (vh_delta_rot_world_xyzw h) = 4
     \<and> length (vh_delta_pos_hmd h) = 3 \<and> length (vh_delta_rot_hmd_xyzw h) = 4
     \<and> length (vh_abs_pos_world h) = 3 \<and> length (vh_abs_rot_world_xyzw h) = 4
     \<and> length (vh_thumbstick h) = 2"

definition vr_wf :: "VrRelativeTeleopPacketV2 \<Rightarrow> bool" where
  "vr_wf p \<longleftrightarrow> length (vr_hmd_abs_pos_world p) = 3 \<and> length (vr_hmd_abs_quat_world_xyzw p) = 4
     \<and> vr_hand_wf (vr_left p) \<and> vr_hand_wf (vr_right p)"

text \<open>The byte image of a packet, as the sender lays it out, is read back as the packet.\<close>

lemma vr_hand_bytes_length [simp]: "vr_hand_wf h \<Longrightarrow> length (vr_hand_bytes h) = 101"
  by (simp add: vr_hand_bytes_def vr_hand_wf_def)

lemma vr_hand_of_bytes_bytes [simp]: "vr_hand_wf h \<Longrightarrow> vr_hand_of_bytes (vr_hand_bytes h) = h"
  unfolding vr_hand_bytes_def vr_hand_of_bytes_def
  by (subst chunks_concat) (simp_all add: vr_hand_layout_def vr_hand_wf_def Let_def bytes_simps)

lemma vr_bytes_length [simp]: "vr_wf p \<Longrightarrow> length (vr_bytes p) = vr_size"
  by (simp add: vr_bytes_def vr_wf_def vr_size_def)

lemma vr_of_bytes_bytes [simp]: "vr_wf p \<Longrightarrow> vr_of_bytes (vr_bytes p) = p"
  unfolding vr_bytes_def vr_of_bytes_def
  by (subst chunks_concat) (simp_all add: vr_layout_def vr_wf_def Let_def bytes_simps)

definition vr_floats :: "u32 list \<Rightarrow> dbl list" where
  "vr_floats ws = map dbl_of_bits32 ws"

end
