(* ===== verification/Vr_Leader.thy ===== *)
theory Vr_Leader
  imports Vr_Config Vr_Protocol Udp_Channel
begin

text \<open>
  The VR leader, \<open>src/apps/wifi_vr_bimanual_leader.cpp\<close>: it takes the headset's packets and the
  follower's telemetry, keeps an anchor pose per arm while the grip is held, and turns the hand's
  motion since then into joint targets. The log and its CSV file are in
  \<open>Vr_Log\<close>, the mapping test output is left out; neither has an effect on the motion. Vectors are lists, quaternions
  \<open>[x, y, z, w]\<close>; the quaternion operations of Eigen are parameters.
\<close>

record EigenOps =
  eg_quat_matrix :: "dbl list \<Rightarrow> dbl list list"
  eg_matrix_quat :: "dbl list list \<Rightarrow> dbl list"
  eg_quat_mul :: "dbl list \<Rightarrow> dbl list \<Rightarrow> dbl list"
  eg_quat_conj :: "dbl list \<Rightarrow> dbl list"

section \<open>State\<close>

record VrArm =
  vx_delta_pos_hmd :: "dbl list"
  vx_delta_rot_hmd :: "dbl list"
  vx_delta_pos_robot :: "dbl list"
  vx_delta_rot_robot :: "dbl list"
  vx_grip :: dbl
  vx_trigger :: dbl
  vx_buttons :: u8
  vx_thumbstick :: "dbl list"
  vx_abs_pos_world :: "dbl list"
  vx_abs_rot_world :: "dbl list"

record VrState =
  vst_seq :: u32
  vst_enabled :: bool
  vst_estop :: bool
  vst_recenter :: bool
  vst_left :: VrArm
  vst_right :: VrArm
  vst_hmd_pos :: "dbl list"
  vst_hmd_quat :: "dbl list"
  vst_version :: int

definition zero3 :: "dbl list" where "zero3 = [Fin 0, Fin 0, Fin 0]"

definition quat_identity :: "dbl list" where "quat_identity = [Fin 0, Fin 0, Fin 0, Fin 1]"

definition vr_arm_new :: VrArm where
  "vr_arm_new =
     \<lparr> vx_delta_pos_hmd = zero3, vx_delta_rot_hmd = quat_identity, vx_delta_pos_robot = zero3,
       vx_delta_rot_robot = quat_identity, vx_grip = Fin 0, vx_trigger = Fin 0, vx_buttons = 0,
       vx_thumbstick = [Fin 0, Fin 0], vx_abs_pos_world = zero3, vx_abs_rot_world = quat_identity \<rparr>"

definition vr_state_new :: VrState where
  "vr_state_new =
     \<lparr> vst_seq = 0, vst_enabled = False, vst_estop = False, vst_recenter = False,
       vst_left = vr_arm_new, vst_right = vr_arm_new, vst_hmd_pos = zero3,
       vst_hmd_quat = quat_identity, vst_version = 0 \<rparr>"

record ArmAnchor =
  an_active :: bool
  an_ee_pos :: "dbl list"
  an_ee_quat :: "dbl list"
  an_q :: "dbl list"

definition arm_anchor_new :: ArmAnchor where
  "arm_anchor_new = \<lparr> an_active = False, an_ee_pos = zero3, an_ee_quat = quat_identity,
     an_q = replicate 7 (Fin 0) \<rparr>"

text \<open>What the loop keeps for one arm, the newest feedback included.\<close>

record VrSide =
  vz_ik :: OpenArmPinocchioIK
  vz_anchor :: ArmAnchor
  vz_swivel :: TemporalSwivelEstimator
  vz_target :: "dbl list"
  vz_grip_target :: dbl
  vz_feedback :: "dbl list"
  vz_sender :: UdpSender

record VrLeader =
  vz_exited :: bool
  vz_keep_running :: bool
  vz_vr :: VrState
  vz_vr_connected :: bool
  vz_last_vr_time :: int
  vz_last_tel_time :: int
  vz_tel_connected :: bool
  vz_right :: VrSide
  vz_left :: VrSide
  vz_viz_sender :: UdpSender
  vz_seq :: u32

datatype vr_output = Vr_Command ArmSide "u8 list" | Vr_Forward "u8 list"

section \<open>Packets coming in\<close>

definition fill_arm_v2 ::
    "EigenOps \<Rightarrow> VrMapping \<Rightarrow> dbl list list \<Rightarrow> dbl list list \<Rightarrow> VrHand \<Rightarrow> VrArm" where
  "fill_arm_v2 eg m trans_mat rot_mat h =
    (let delta_pos = vr_floats (vh_delta_pos_hmd h); delta_rot = vr_floats (vh_delta_rot_hmd_xyzw h);
         rot = eg_matrix_quat eg (mat_mul (mat_mul rot_mat (eg_quat_matrix eg delta_rot)) (transpose rot_mat))
     in \<lparr> vx_delta_pos_hmd = delta_pos, vx_delta_rot_hmd = delta_rot,
          vx_delta_pos_robot = mat_vec trans_mat (map2 (*) (vm_position_scale_xyz m) delta_pos),
          vx_delta_rot_robot = (if vm_invert_rotation_delta m then eg_quat_conj eg rot else rot),
          vx_grip = dbl_of_bits32 (vh_grip h), vx_trigger = dbl_of_bits32 (vh_trigger h),
          vx_buttons = vh_buttons h, vx_thumbstick = vr_floats (vh_thumbstick h),
          vx_abs_pos_world = vr_floats (vh_abs_pos_world h),
          vx_abs_rot_world = vr_floats (vh_abs_rot_world_xyzw h) \<rparr>)"

definition vr_state_of :: "EigenOps \<Rightarrow> VrMapping \<Rightarrow> VrRelativeTeleopPacketV2 \<Rightarrow> VrState" where
  "vr_state_of eg m p =
     \<lparr> vst_seq = vr_seq p,
       vst_enabled = (dbl_of_bits32 (vh_grip (vr_left p)) > Fin (1 / 10)
         \<or> dbl_of_bits32 (vh_grip (vr_right p)) > Fin (1 / 10)),
       vst_estop = False, vst_recenter = False,
       vst_left = fill_arm_v2 eg m (vm_left_translation_matrix m) (vm_left_rotation_matrix m) (vr_left p),
       vst_right = fill_arm_v2 eg m (vm_right_translation_matrix m) (vm_right_rotation_matrix m) (vr_right p),
       vst_hmd_pos = vr_floats (vr_hmd_abs_pos_world p),
       vst_hmd_quat = vr_floats (vr_hmd_abs_quat_world_xyzw p), vst_version = 2 \<rparr>"

text \<open>The callback of the VR receiver; every datagram of at least 8 bytes is forwarded as it is.\<close>

definition vr_callback ::
    "EigenOps \<Rightarrow> VrTeleopConfig \<Rightarrow> int \<Rightarrow> int \<Rightarrow> u8 list \<Rightarrow> VrLeader \<Rightarrow> VrLeader \<times> vr_output list" where
  "vr_callback eg cfg now sent data s =
    (if length data < 8 then (s, [])
     else
       let s = (if le_word (take 4 data) = VR_MAGIC \<and> length data = vr_size
                then s\<lparr>vz_vr := vr_state_of eg (vc_mapping cfg) (vr_of_bytes data),
                       vz_vr_connected := True, vz_last_vr_time := now\<rparr>
                else s);
           (viz, ok, d) = udp_send_raw sent data (vz_viz_sender s)
       in (s\<lparr>vz_viz_sender := viz\<rparr>, case d of Some d \<Rightarrow> [Vr_Forward d] | None \<Rightarrow> []))"

definition vr_telemetry_callback :: "int \<Rightarrow> u8 list \<Rightarrow> VrLeader \<Rightarrow> VrLeader" where
  "vr_telemetry_callback now data s =
    (if length data = telemetry_size \<and> te_magic (telemetry_of_bytes data) = TELEMETRY_MAGIC then
       let obs = vr_floats (te_observation_state (telemetry_of_bytes data))
       in s\<lparr>vz_right := (vz_right s)\<lparr>vz_feedback := take 7 obs\<rparr>,
            vz_left := (vz_left s)\<lparr>vz_feedback := take 7 (drop 8 obs)\<rparr>,
            vz_last_tel_time := now, vz_tel_connected := True\<rparr>
     else s)"

section \<open>One arm\<close>

text \<open>The pose asked for: the anchor moved by the hand's displacement, which is cut to a length.\<close>

definition desired_pose ::
    "EigenOps \<Rightarrow> VrMapping \<Rightarrow> VrArm \<Rightarrow> ArmAnchor \<Rightarrow> dbl list \<times> dbl list" where
  "desired_pose eg m arm anchor =
    (let delta = vx_delta_pos_robot arm; n = vnorm delta;
         delta = (if n > vm_max_delta_m m then vscale (vm_max_delta_m m div n) delta else delta);
         rot = vx_delta_rot_robot arm
     in (map2 (+) (an_ee_pos anchor) delta,
         if vm_rotation_compose_order m = ''delta_then_anchor''
         then eg_quat_mul eg rot (an_ee_quat anchor) else eg_quat_mul eg (an_ee_quat anchor) rot))"

definition swivel_step ::
    "VrTeleopConfig \<Rightarrow> dbl \<Rightarrow> ArmSide \<Rightarrow> dbl list \<times> dbl list \<Rightarrow> TemporalSwivelEstimator \<Rightarrow>
     TemporalSwivelEstimator \<times> dbl" where
  "swivel_step cfg rate_hz side pose est =
     (if vhm_enabled (vc_human cfg) \<and> vs_enabled (vc_swivel cfg) then
        swivel_update
          \<lparr> si_shoulder_pos = [Fin 0, if side = RIGHT then Fin (- 2 / 10) else Fin (2 / 10), Fin (1 / 2)],
            si_wrist_pos = fst pose, si_wrist_orientation = snd pose, si_previous_swivel = Fin 0,
            si_dt = Fin 1 div rate_hz, si_right_arm = (side = RIGHT) \<rparr> est
      else (est, Fin 0))"

text \<open>The limited step of each joint from its target towards the solution.\<close>

definition vr_rate_limit :: "bool \<Rightarrow> dbl \<Rightarrow> dbl \<Rightarrow> dbl \<Rightarrow> dbl" where
  "vr_rate_limit enabled max_step target q =
    (let diff = q - target
     in target + (if enabled \<and> fabs diff > max_step
                  then (if diff > Fin 0 then Fin 1 else Fin (- 1)) * max_step else diff))"

definition max_steps :: "VrTeleopConfig \<Rightarrow> ArmSide \<Rightarrow> dbl list" where
  "max_steps cfg side =
     (case side of RIGHT \<Rightarrow> vl_max_step_rad_r (vc_rate_limit cfg)
      | LEFT \<Rightarrow> vl_max_step_rad_l (vc_rate_limit cfg))"

definition limited_target :: "VrTeleopConfig \<Rightarrow> ArmSide \<Rightarrow> dbl list \<Rightarrow> dbl list \<Rightarrow> dbl list" where
  "limited_target cfg side target q =
     map (\<lambda>i. vr_rate_limit (vl_enabled (vc_rate_limit cfg)) (max_steps cfg side ! i) (target ! i) (q ! i)) [0..<7]"

definition take_anchor :: "VrSide \<Rightarrow> VrSide" where
  "take_anchor sd =
    (let (pos, quat) = compute_fk_pose (vz_ik sd) (vz_feedback sd)
     in sd\<lparr>vz_anchor := \<lparr> an_active = True, an_ee_pos = pos, an_ee_quat = quat, an_q = vz_feedback sd \<rparr>\<rparr>)"

text \<open>The part of \<open>process_arm_logic\<close> while the grip is held: the side, and whether the solver succeeded.\<close>

definition follow_hand ::
    "EigenOps \<Rightarrow> VrTeleopConfig \<Rightarrow> dbl \<Rightarrow> ArmSide \<Rightarrow> VrArm \<Rightarrow> bool \<Rightarrow> VrSide \<Rightarrow> VrSide \<times> bool" where
  "follow_hand eg cfg rate_hz side arm recenter sd =
    (let sd = (if \<not> an_active (vz_anchor sd) \<or> recenter then take_anchor sd else sd);
         pose = desired_pose eg (vc_mapping cfg) arm (vz_anchor sd);
         (est, swivel) = swivel_step cfg rate_hz side pose (vz_swivel sd);
         sd = sd\<lparr>vz_swivel := est\<rparr>;
         anchor = an_q (vz_anchor sd);
         anchor = (if vhm_enabled (vc_human cfg) \<and> vs_enabled (vc_swivel cfg)
                     \<and> vs_apply_to_ik (vc_swivel cfg) \<and> \<not> vs_log_only (vc_swivel cfg)
                   then anchor[2 := anchor ! 2 + swivel] else anchor);
         (solved, q) = (if vi_mode (vc_ik cfg) = ''pose''
           then solve_pose (vz_ik sd) (fst pose) (snd pose) (vz_feedback sd) (Some anchor)
           else solve (vz_ik sd) (fst pose) (vz_feedback sd) (Some anchor))
     in if solved then (sd\<lparr>vz_target := limited_target cfg side (vz_target sd) q\<rparr>, True) else (sd, False))"

definition process_arm ::
    "EigenOps \<Rightarrow> VrTeleopConfig \<Rightarrow> VrArgs \<Rightarrow> ArmSide \<Rightarrow> VrState \<Rightarrow> bool \<Rightarrow> bool \<Rightarrow> VrSide \<Rightarrow> VrSide \<times> bool" where
  "process_arm eg cfg a side vr telemetry_stale tel_connected sd =
    (if telemetry_stale then (sd, False)
     else
       let arm = (case side of RIGHT \<Rightarrow> vst_right vr | LEFT \<Rightarrow> vst_left vr);
           m = vc_mapping cfg;
           sd = sd\<lparr>vz_grip_target := vm_gripper_min_limit m
                + vx_trigger arm * (vm_gripper_max_limit m - vm_gripper_min_limit m)\<rparr>;
           feedback_available = (tel_connected \<or> va_dry_run a)
       in if vx_grip arm > Fin (1 / 2) \<and> feedback_available
          then follow_hand eg cfg (va_rate_hz a) side arm (vst_recenter vr) sd
          else
            let sd = sd\<lparr>vz_anchor := (vz_anchor sd)\<lparr>an_active := False\<rparr>\<rparr>
            in (if feedback_available then sd\<lparr>vz_target := vz_feedback sd\<rparr> else sd, False))"

section \<open>The command packet\<close>

definition vr_command ::
    "u32 \<Rightarrow> ArmSide \<Rightarrow> bool \<Rightarrow> dbl list \<Rightarrow> dbl \<Rightarrow> dbl TeleopPacket" where
  "vr_command seq side enabled q grip =
     (teleop_zero (Fin 0))\<lparr>tp_magic := TELEOP_MAGIC, tp_version := TELEOP_VERSION,
        tp_packet_size := word_of_nat teleop_size, tp_seq := seq, tp_arm_side := arm_side_code side,
        tp_mode := control_mode_code UNILATERAL,
        tp_enable := (if enabled \<and> \<not> (\<exists>i < 7. isnan (q ! i)) then 1 else 0),
        tp_arm_dof := 7, tp_hand_dof := 1, tp_arm_pos := copy_prefix (take 7 q) (replicate 8 (Fin 0)),
        tp_hand_pos := [grip, Fin 0, Fin 0, Fin 0]\<rparr>"

definition send_pkt ::
    "VrArgs \<Rightarrow> VrState \<Rightarrow> bool \<Rightarrow> bool \<Rightarrow> u32 \<Rightarrow> ArmSide \<Rightarrow> u64 \<Rightarrow> int \<Rightarrow> VrSide \<Rightarrow> VrSide \<times> vr_output list" where
  "send_pkt a vr telemetry_stale tel_connected seq side send_time sent sd =
    (let arm = (case side of RIGHT \<Rightarrow> vst_right vr | LEFT \<Rightarrow> vst_left vr);
         enabled = (vx_grip arm > Fin (1 / 2) \<and> tel_connected \<and> \<not> vst_estop vr \<and> \<not> telemetry_stale
           \<and> \<not> va_dry_run a);
         p = vr_command seq side enabled (vz_target sd) (vz_grip_target sd);
         (sender, ok, d) = udp_send sent (teleop_encode send_time (teleop_bits p)) (vz_sender sd)
     in (sd\<lparr>vz_sender := sender\<rparr>, case d of Some d \<Rightarrow> [Vr_Command side d] | None \<Rightarrow> []))"

section \<open>The loop\<close>

text \<open>
  An iteration copies the feedback under the mutex and reads \<open>tel_connected\<close> four times later
  outside it: when it processes the right and the left arm, and when it makes the right and the left
  packet. \<open>vv_process_r\<close>, \<open>vv_process_l\<close>, \<open>vv_send_r\<close> and \<open>vv_send_l\<close> are the telemetry datagrams,
  with their receive times, that arrive after the copy or the read before, and before that read. One
  that arrives after the last read is an event after the iteration.
\<close>

record VrCycleEnv =
  vv_now :: int
  vv_process_r :: "(int \<times> u8 list) list"
  vv_process_l :: "(int \<times> u8 list) list"
  vv_send_r :: "(int \<times> u8 list) list"
  vv_send_l :: "(int \<times> u8 list) list"
  vv_send_time_r :: u64
  vv_send_time_l :: u64
  vv_sent_r :: int
  vv_sent_l :: int
  vv_elapsed_s :: dbl

text \<open>\<open>duration_cast<milliseconds>\<close>\<close>

definition age_ms :: "int \<Rightarrow> int \<Rightarrow> int" where
  "age_ms now last_time = (if now \<ge> last_time then (now - last_time) div 1000000
     else - ((last_time - now) div 1000000))"

definition telemetry_stale :: "VrTeleopConfig \<Rightarrow> int \<Rightarrow> VrLeader \<Rightarrow> bool" where
  "telemetry_stale cfg now s \<longleftrightarrow>
     vz_tel_connected s \<and> age_ms now (vz_last_tel_time s) > vt_stale_timeout_ms (vc_tel cfg)"

definition drop_anchors :: "VrTeleopConfig \<Rightarrow> int \<Rightarrow> VrLeader \<Rightarrow> VrLeader" where
  "drop_anchors cfg now s =
     (if vz_tel_connected s \<and> age_ms now (vz_last_tel_time s) > vt_anchor_reset_timeout_ms (vc_tel cfg)
      then let off = vz_anchor_update (an_active_update (\<lambda>_. False))
           in s\<lparr>vz_right := off (vz_right s), vz_left := off (vz_left s)\<rparr>
      else s)"

definition tel_run :: "(int \<times> u8 list) list \<Rightarrow> VrLeader \<Rightarrow> VrLeader" where
  "tel_run ds s = fold (\<lambda>(now, d). vr_telemetry_callback now d) ds s"

text \<open>What has arrived since the copy at each of the four reads, and at the last one.\<close>

definition vv_at_process :: "ArmSide \<Rightarrow> VrCycleEnv \<Rightarrow> (int \<times> u8 list) list" where
  "vv_at_process side env =
     (case side of RIGHT \<Rightarrow> vv_process_r env | LEFT \<Rightarrow> vv_process_r env @ vv_process_l env)"

definition vv_at_send :: "ArmSide \<Rightarrow> VrCycleEnv \<Rightarrow> (int \<times> u8 list) list" where
  "vv_at_send side env = vv_at_process LEFT env @
     (case side of RIGHT \<Rightarrow> vv_send_r env | LEFT \<Rightarrow> vv_send_r env @ vv_send_l env)"

definition vv_during :: "VrCycleEnv \<Rightarrow> (int \<times> u8 list) list" where
  "vv_during env = vv_at_send LEFT env"

definition vr_cycle ::
    "EigenOps \<Rightarrow> VrTeleopConfig \<Rightarrow> VrArgs \<Rightarrow> VrCycleEnv \<Rightarrow> VrLeader \<Rightarrow> (VrLeader \<times> vr_output list) result" where
  "vr_cycle eg cfg a env s =
    (let vr = vz_vr s; stale = telemetry_stale cfg (vv_now env) s;
         connected = (\<lambda>ds. vz_tel_connected (tel_run ds s));
         s = drop_anchors cfg (vv_now env) s;
         r = fst (process_arm eg cfg a RIGHT vr stale (connected (vv_at_process RIGHT env)) (vz_right s));
         l = fst (process_arm eg cfg a LEFT vr stale (connected (vv_at_process LEFT env)) (vz_left s));
         (r, out_r) = send_pkt a vr stale (connected (vv_at_send RIGHT env)) (vz_seq s) RIGHT
           (vv_send_time_r env) (vv_sent_r env) r;
         (l, out_l) = send_pkt a vr stale (connected (vv_at_send LEFT env)) (vz_seq s) LEFT
           (vv_send_time_l env) (vv_sent_l env) l;
         s = s\<lparr>vz_right := r, vz_left := l, vz_seq := vz_seq s + 1,
               vz_keep_running := vz_keep_running s
                 \<and> \<not> (va_max_test_sec a > Fin 0 \<and> vv_elapsed_s env \<ge> va_max_test_sec a)\<rparr>
     in res_bind (ns_of_seconds (Fin 1 div va_rate_hz a)) (\<lambda>_.
          Inr (tel_run (vv_during env) s, out_r @ out_l)))"

section \<open>Runs\<close>

datatype vr_event =
    Vr_Datagram int int "u8 list"
  | Vr_Telemetry int "u8 list"
  | Vr_Signal
  | Vr_Cycle VrCycleEnv

fun vr_react ::
    "EigenOps \<Rightarrow> VrTeleopConfig \<Rightarrow> VrArgs \<Rightarrow> vr_event \<Rightarrow> VrLeader \<Rightarrow> (VrLeader \<times> vr_output list) result" where
  "vr_react eg cfg a (Vr_Datagram now sent d) s = Inr (vr_callback eg cfg now sent d s)"
| "vr_react eg cfg a (Vr_Telemetry now d) s = Inr (vr_telemetry_callback now d s, [])"
| "vr_react eg cfg a Vr_Signal s = Inr (s\<lparr>vz_keep_running := False\<rparr>, [])"
| "vr_react eg cfg a (Vr_Cycle env) s =
     (if vz_keep_running s then vr_cycle eg cfg a env s else Inr (s\<lparr>vz_exited := True\<rparr>, []))"

definition vr_run ::
    "EigenOps \<Rightarrow> VrTeleopConfig \<Rightarrow> VrArgs \<Rightarrow> vr_event list \<Rightarrow> VrLeader \<Rightarrow>
     (VrLeader \<times> vr_output list) result" where
  "vr_run eg cfg a = app_run (vr_react eg cfg a) vz_exited"

section \<open>From the command line to the first iteration\<close>

record VrStartEnv =
  vse_yaml :: "string + VrYaml"
  vse_csv_ok :: bool
  vse_model_r :: "string + IkModel"
  vse_model_l :: "string + IkModel"
  vse_sender_r :: UdpSender
  vse_sender_l :: UdpSender
  vse_viz_sender :: UdpSender

definition joint_names :: "string \<Rightarrow> string list" where
  "joint_names side = map (\<lambda>i. ''openarm_'' @ side @ ''_joint'' @ show_int (int i)) [1..<8]"

definition vr_side_new ::
    "VrTeleopConfig \<Rightarrow> OpenArmPinocchioIK \<Rightarrow> dbl \<Rightarrow> UdpSender \<Rightarrow> VrSide" where
  "vr_side_new cfg ik neutral sender =
     \<lparr> vz_ik = ik_set_params (vr_ik_params cfg) ik, vz_anchor = arm_anchor_new,
       vz_swivel = vr_swivel cfg neutral, vz_target = replicate 7 (Fin 0), vz_grip_target = Fin 0,
       vz_feedback = replicate 7 (Fin 0), vz_sender = sender \<rparr>"

text \<open>\<open>None\<close>: \<open>main\<close> returned 1.\<close>

definition vr_start ::
    "string list \<Rightarrow> VrStartEnv \<Rightarrow> (VrTeleopConfig \<times> VrArgs \<times> VrLeader) option result" where
  "vr_start argv env =
     res_bind (vr_args argv) (\<lambda>a.
     res_bind (vr_config argv a (vse_yaml env)) (\<lambda>cfg.
     if va_log_csv_path a \<noteq> [] \<and> \<not> vse_csv_ok env then Inr None
     else
       res_bind (ik_new (vse_model_r env) ''openarm_right_hand'' (joint_names ''right'')) (\<lambda>ik_r.
       res_bind (ik_new (vse_model_l env) ''openarm_left_hand'' (joint_names ''left'')) (\<lambda>ik_l.
         Inr (Some (cfg, a,
           \<lparr> vz_exited = False, vz_keep_running = True, vz_vr = vr_state_new,
             vz_vr_connected = False, vz_last_vr_time = 0, vz_last_tel_time = 0,
             vz_tel_connected = False,
             vz_right = vr_side_new cfg ik_r (vhm_neutral_swivel_right_rad (vc_human cfg)) (vse_sender_r env),
             vz_left = vr_side_new cfg ik_l (vhm_neutral_swivel_left_rad (vc_human cfg)) (vse_sender_l env),
             vz_viz_sender = vse_viz_sender env, vz_seq = 0 \<rparr>))))))"

end
