(* ===== verification/Vr_Props.thy ===== *)
theory Vr_Props
  imports Vr_Leader
begin

text \<open>
  What the VR leader promises of the commands it sends: when they enable an arm, and how far
  an enabled command can be from the one before.
\<close>

definition vr_side :: "ArmSide \<Rightarrow> VrLeader \<Rightarrow> VrSide" where
  "vr_side side s = (case side of RIGHT \<Rightarrow> vz_right s | LEFT \<Rightarrow> vz_left s)"

definition vr_arm :: "ArmSide \<Rightarrow> VrLeader \<Rightarrow> VrArm" where
  "vr_arm side s = (case side of RIGHT \<Rightarrow> vst_right (vz_vr s) | LEFT \<Rightarrow> vst_left (vz_vr s))"

text \<open>What an iteration does to one side before it sends.\<close>

definition vr_processed ::
    "EigenOps \<Rightarrow> VrTeleopConfig \<Rightarrow> VrArgs \<Rightarrow> ArmSide \<Rightarrow> VrCycleEnv \<Rightarrow> VrLeader \<Rightarrow> VrSide" where
  "vr_processed eg cfg a side env s =
     fst (process_arm eg cfg a side (vz_vr s) (telemetry_stale cfg (vv_now env) s)
       (vz_tel_connected (tel_run (vv_at_process side env) s)) (vr_side side (drop_anchors cfg (vv_now env) s)))"

definition vr_enabled :: "VrTeleopConfig \<Rightarrow> VrArgs \<Rightarrow> ArmSide \<Rightarrow> VrCycleEnv \<Rightarrow> VrLeader \<Rightarrow> bool" where
  "vr_enabled cfg a side env s \<longleftrightarrow> vx_grip (vr_arm side s) > Fin (1 / 2)
     \<and> vz_tel_connected (tel_run (vv_at_send side env) s)
     \<and> \<not> vst_estop (vz_vr s) \<and> \<not> telemetry_stale cfg (vv_now env) s \<and> \<not> va_dry_run a"

lemma tel_run_keeps [simp]:
  "vz_target (vr_side side (tel_run ds s)) = vz_target (vr_side side s)"
  "vz_grip_target (vr_side side (tel_run ds s)) = vz_grip_target (vr_side side s)"
proof -
  have one: "vz_target (vr_side side (vr_telemetry_callback now d s)) = vz_target (vr_side side s)
      \<and> vz_grip_target (vr_side side (vr_telemetry_callback now d s)) = vz_grip_target (vr_side side s)" for now d s
    by (cases side) (simp_all add: vr_telemetry_callback_def vr_side_def Let_def)
  have "vz_target (vr_side side (tel_run ds s)) = vz_target (vr_side side s)
      \<and> vz_grip_target (vr_side side (tel_run ds s)) = vz_grip_target (vr_side side s)"
    by (induction ds arbitrary: s) (simp_all add: tel_run_def one split_beta)
  then show "vz_target (vr_side side (tel_run ds s)) = vz_target (vr_side side s)"
    "vz_grip_target (vr_side side (tel_run ds s)) = vz_grip_target (vr_side side s)" by simp_all
qed

text \<open>Telemetry connects for good, so a later read sees what an earlier one saw.\<close>

lemma telemetry_connects: "vz_tel_connected s \<Longrightarrow> vz_tel_connected (vr_telemetry_callback now d s)"
  by (simp add: vr_telemetry_callback_def Let_def)

lemma tel_run_connects: "vz_tel_connected s \<Longrightarrow> vz_tel_connected (tel_run ds s)"
  by (induction ds arbitrary: s) (auto simp: tel_run_def telemetry_connects split_beta)

lemma tel_run_append: "tel_run (ds @ es) s = tel_run es (tel_run ds s)"
  by (simp add: tel_run_def)

lemma reads_connect:
  "vz_tel_connected (tel_run (vv_at_process side env) s) \<Longrightarrow> vz_tel_connected (tel_run (vv_at_send side env) s)"
  "vz_tel_connected (tel_run (vv_at_send side env) s) \<Longrightarrow> vz_tel_connected (tel_run (vv_during env) s)"
  by (cases side; simp add: vv_at_process_def vv_at_send_def vv_during_def tel_run_append tel_run_connects)+

lemma drop_anchors_keeps [simp]:
  "vz_vr (drop_anchors cfg now s) = vz_vr s" "vz_seq (drop_anchors cfg now s) = vz_seq s"
  "vz_target (vr_side side (drop_anchors cfg now s)) = vz_target (vr_side side s)"
  "vz_feedback (vr_side side (drop_anchors cfg now s)) = vz_feedback (vr_side side s)"
  "vz_sender (vr_side side (drop_anchors cfg now s)) = vz_sender (vr_side side s)"
  by (cases side; simp add: drop_anchors_def vr_side_def Let_def)+

lemma vr_command_wf [simp]: "teleop_wf (vr_command seq side enabled q grip)"
  by (simp add: vr_command_def teleop_wf_def teleop_zero_def)

lemma send_pkt_datagram:
  assumes "send_pkt a vr stale conn seq side t sent sd = (sd', out)" and "Vr_Command side' d \<in> set out"
  shows "side' = side \<and> d = teleop_bytes (teleop_encode t (teleop_bits (vr_command seq side
        (vx_grip (case side of RIGHT \<Rightarrow> vst_right vr | LEFT \<Rightarrow> vst_left vr) > Fin (1 / 2) \<and> conn
          \<and> \<not> vst_estop vr \<and> \<not> stale \<and> \<not> va_dry_run a) (vz_target sd) (vz_grip_target sd))))"
  using assms
  by (auto simp: send_pkt_def udp_send_def udp_send_raw_def Let_def split_beta split: if_splits)

lemma send_pkt_side: "send_pkt a vr stale conn seq side t sent sd = (sd', out) \<Longrightarrow>
    vz_target sd' = vz_target sd \<and> vz_grip_target sd' = vz_grip_target sd
    \<and> (\<forall>side' d. Vr_Command side' d \<in> set out \<longrightarrow> side' = side)"
  by (auto simp: send_pkt_def Let_def split_beta split: option.splits)

text \<open>The datagram of a side, and the target it was made from.\<close>

lemma vr_cycle_command:
  assumes "vr_cycle eg cfg a env s = Inr (s', out)" and "Vr_Command side d \<in> set out"
  shows "\<exists>t. d = teleop_bytes (teleop_encode t (teleop_bits (vr_command (vz_seq s) side
      (vr_enabled cfg a side env s) (vz_target (vr_side side s')) (vz_grip_target (vr_side side s')))))"
    and "vz_target (vr_side side s') = vz_target (vr_processed eg cfg a side env s)"
proof -
  let ?stale = "telemetry_stale cfg (vv_now env) s" and ?conn = "\<lambda>x. vz_tel_connected (tel_run (vv_at_send x env) s)"
  let ?send = "\<lambda>x t n. send_pkt a (vz_vr s) ?stale (?conn x) (vz_seq s) x t n (vr_processed eg cfg a x env s)"
  obtain r outr where r: "?send RIGHT (vv_send_time_r env) (vv_sent_r env) = (r, outr)" by fastforce
  obtain l outl where l: "?send LEFT (vv_send_time_l env) (vv_sent_l env) = (l, outl)" by fastforce
  obtain s1 where c: "s' = tel_run (vv_during env) s1" "vz_right s1 = r" "vz_left s1 = l" "out = outr @ outl"
    using assms(1) r l
    by (auto simp: vr_cycle_def vr_processed_def vr_side_def Let_def res_bind_eq_Inr)
  then have t: "vz_target (vr_side side s') = vz_target (vr_side side s1)"
      "vz_grip_target (vr_side side s') = vz_grip_target (vr_side side s1)" by simp_all
  show "\<exists>t. d = teleop_bytes (teleop_encode t (teleop_bits (vr_command (vz_seq s) side
      (vr_enabled cfg a side env s) (vz_target (vr_side side s')) (vz_grip_target (vr_side side s')))))"
  proof (cases side)
    case RIGHT
    then have "Vr_Command RIGHT d \<in> set outr" using assms(2) c(4) send_pkt_side [OF l] by auto
    from send_pkt_datagram [OF r this] send_pkt_side [OF r] RIGHT c(2) show ?thesis
      unfolding t by (auto simp: vr_enabled_def vr_arm_def vr_side_def)
  next
    case LEFT
    then have "Vr_Command LEFT d \<in> set outl" using assms(2) c(4) send_pkt_side [OF r] by auto
    from send_pkt_datagram [OF l this] send_pkt_side [OF l] LEFT c(3) show ?thesis
      unfolding t by (auto simp: vr_enabled_def vr_arm_def vr_side_def)
  qed
  show "vz_target (vr_side side s') = vz_target (vr_processed eg cfg a side env s)"
    unfolding t using send_pkt_side [OF r] send_pkt_side [OF l] c by (cases side) (simp_all add: vr_side_def)
qed

section \<open>When an arm is enabled\<close>

lemma vr_command_read:
  "teleop_of_bytes (teleop_bytes (teleop_encode t (teleop_bits (vr_command seq side en q grip))))
     = teleop_encode t (teleop_bits (vr_command seq side en q grip))"
  by simp

lemma vr_command_sent:
  "tp_enable (teleop_encode t (teleop_bits (vr_command seq side en q grip)))
     = (if en \<and> \<not> (\<exists>i < 7. isnan (q ! i)) then 1 else 0)"
  "tp_seq (teleop_encode t (teleop_bits (vr_command seq side en q grip))) = seq"
  "tp_arm_side (teleop_encode t (teleop_bits (vr_command seq side en q grip))) = arm_side_code side"
  "tp_arm_pos (teleop_encode t (teleop_bits (vr_command seq side en q grip)))
     = map bits_of_dbl (copy_prefix (take 7 q) (replicate 8 (Fin 0)))"
  by (simp_all add: teleop_encode_def teleop_bits_def vr_command_def Let_def)

lemmas vr_command_fields = vr_command_read vr_command_sent

text \<open>
  C18: when the VR leader enables an arm. A datagram sent by an iteration passes the follower's
  validation and enables its arm exactly if the grip of that hand is held in the newest headset
  packet, the follower's telemetry is connected when the packet is made and was not older than the
  timeout when the iteration began (or connected only since then), the headset does not ask for a stop, it is not a dry run, and no
  joint of the target is NaN. The age of the headset packet is not asked for, nor whether the
  inverse kinematics succeeded.
\<close>

theorem vr_enable_conditions:
  assumes "vr_cycle eg cfg a env s = Inr (s', out)" and "Vr_Command side d \<in> set out"
  shows "teleop_acceptable d \<and> tp_seq (teleop_of_bytes d) = vz_seq s
    \<and> tp_arm_side (teleop_of_bytes d) = arm_side_code side
    \<and> tp_enable (teleop_of_bytes d) =
        (if vx_grip (vr_arm side s) > Fin (1 / 2) \<and> vz_tel_connected (tel_run (vv_at_send side env) s)
           \<and> (vz_tel_connected s \<longrightarrow> age_ms (vv_now env) (vz_last_tel_time s) \<le> vt_stale_timeout_ms (vc_tel cfg))
           \<and> \<not> vst_estop (vz_vr s) \<and> \<not> va_dry_run a
           \<and> (\<forall>i < 7. \<not> isnan (vz_target (vr_side side s') ! i)) then 1 else 0)"
proof -
  obtain t where "d = teleop_bytes (teleop_encode t (teleop_bits (vr_command (vz_seq s) side
      (vr_enabled cfg a side env s) (vz_target (vr_side side s')) (vz_grip_target (vr_side side s')))))"
    using vr_cycle_command(1) [OF assms] by blast
  then show ?thesis
    by (auto simp: vr_command_fields vr_enabled_def telemetry_stale_def not_less)
qed

section \<open>How far an enabled command moves\<close>

lemma vr_rate_limit_bound:
  assumes "0 \<le> m" and "\<not> isnan (vr_rate_limit True (Fin m) (Fin x) q)"
  shows "\<exists>y. vr_rate_limit True (Fin m) (Fin x) q = Fin y \<and> \<bar>y - x\<bar> \<le> m"
  using assms by (cases q) (auto simp: vr_rate_limit_def Let_def isnan_def)

lemma follow_hand_target:
  "vz_target (fst (follow_hand eg cfg rate side arm rec sd)) = vz_target sd
   \<or> (\<exists>q. vz_target (fst (follow_hand eg cfg rate side arm rec sd)) = limited_target cfg side (vz_target sd) q)"
  by (auto simp: follow_hand_def take_anchor_def Let_def split_beta)

text \<open>An arm whose iteration has not heard of the follower keeps its target.\<close>

lemma vr_processed_unconnected:
  assumes "\<not> vz_tel_connected (tel_run (vv_at_process side env) s)" and "\<not> va_dry_run a"
  shows "vz_target (vr_processed eg cfg a side env s) = vz_target (vr_side side s)"
  using assms by (simp add: vr_processed_def process_arm_def Let_def)

lemma vr_processed_target:
  assumes "vr_enabled cfg a side env s"
  shows "vz_target (vr_processed eg cfg a side env s) = vz_target (vr_side side s)
   \<or> (\<exists>q. vz_target (vr_processed eg cfg a side env s) = limited_target cfg side (vz_target (vr_side side s)) q)"
proof -
  let ?sd = "vr_side side (drop_anchors cfg (vv_now env) s)" and ?m = "vc_mapping cfg" and ?arm = "vr_arm side s"
  let ?sd' = "?sd\<lparr>vz_grip_target := vm_gripper_min_limit ?m
    + vx_trigger ?arm * (vm_gripper_max_limit ?m - vm_gripper_min_limit ?m)\<rparr>"
  show ?thesis
  proof (cases "vz_tel_connected (tel_run (vv_at_process side env) s)")
    case True
    then have "vr_processed eg cfg a side env s
        = fst (follow_hand eg cfg (va_rate_hz a) side ?arm (vst_recenter (vz_vr s)) ?sd')"
      using assms by (simp add: vr_processed_def vr_enabled_def process_arm_def vr_arm_def Let_def)
    with follow_hand_target [of eg cfg "va_rate_hz a" side ?arm "vst_recenter (vz_vr s)" ?sd']
    show ?thesis by simp
  next
    case False
    with vr_processed_unconnected assms show ?thesis by (simp add: vr_enabled_def)
  qed
qed

text \<open>What an enabling datagram carries, and where its target comes from.\<close>

lemma vr_enabled_target:
  assumes "vr_cycle eg cfg a env s = Inr (s', out)" and "Vr_Command side d \<in> set out"
    and "tp_enable (teleop_of_bytes d) = 1" and "length (vz_target (vr_side side s)) = 7"
  defines "new \<equiv> vz_target (vr_side side s')"
  shows "(new = vz_target (vr_side side s) \<or> (\<exists>q. new = limited_target cfg side (vz_target (vr_side side s)) q))
    \<and> (\<forall>i < 7. \<not> isnan (new ! i) \<and> tp_arm_pos (teleop_of_bytes d) ! i = bits_of_dbl (new ! i))"
proof -
  obtain t where d: "d = teleop_bytes (teleop_encode t (teleop_bits (vr_command (vz_seq s) side
      (vr_enabled cfg a side env s) new (vz_grip_target (vr_side side s')))))"
    using vr_cycle_command(1) [OF assms(1,2)] by (auto simp: new_def)
  then have en: "vr_enabled cfg a side env s" and nan: "\<forall>i < 7. \<not> isnan (new ! i)"
    using assms(3) by (auto simp: vr_command_fields split: if_splits)
  have new: "new = vz_target (vr_side side s) \<or> (\<exists>q. new = limited_target cfg side (vz_target (vr_side side s)) q)"
    using vr_processed_target [OF en] vr_cycle_command(2) [OF assms(1,2)] by (simp add: new_def)
  then have "length new = 7" using assms(4) by (auto simp: limited_target_def)
  then have "\<forall>i < 7. tp_arm_pos (teleop_of_bytes d) ! i = bits_of_dbl (new ! i)"
    by (simp add: d vr_command_fields copy_prefix_nth)
  with new nan show ?thesis by blast
qed

lemma vr_limited_step:
  assumes "new = old \<or> (\<exists>q. new = limited_target cfg side old q)" and "\<not> isnan (new ! i)"
    and "vl_enabled (vc_rate_limit cfg)" and "i < 7" and "old ! i = Fin x" and "max_steps cfg side ! i = Fin m" and "0 \<le> m"
  shows "\<exists>y. new ! i = Fin y \<and> \<bar>y - x\<bar> \<le> m"
  using assms(1)
proof
  assume "\<exists>q. new = limited_target cfg side old q"
  then obtain q where "new ! i = vr_rate_limit True (Fin m) (Fin x) (q ! i)"
    using assms(3-6) by (auto simp: limited_target_def)
  with vr_rate_limit_bound [OF assms(7), of x "q ! i"] assms(2) show ?thesis by simp
qed (use assms(5,7) in simp)

text \<open>
  C20: an enabled command is near the one before. With the rate limit on and finite limits and
  targets, the target that an enabling datagram carries is finite and differs from the target
  before the iteration by at most the configured step on every joint, whatever the inverse
  kinematics returned.
\<close>

theorem vr_enabled_step_bounded:
  assumes "vr_cycle eg cfg a env s = Inr (s', out)" and "Vr_Command side d \<in> set out"
    and "tp_enable (teleop_of_bytes d) = 1" and "vl_enabled (vc_rate_limit cfg)"
    and "i < 7" and "length (vz_target (vr_side side s)) = 7"
    and "vz_target (vr_side side s) ! i = Fin x" and "max_steps cfg side ! i = Fin m" and "0 \<le> m"
  shows "\<exists>y. vz_target (vr_side side s') ! i = Fin y \<and> \<bar>y - x\<bar> \<le> m
    \<and> tp_arm_pos (teleop_of_bytes d) ! i = bits_of_dbl (Fin y)"
proof -
  note new = vr_enabled_target [OF assms(1-3,6)]
  with vr_limited_step [OF conjunct1 [OF new] _ assms(4,5,7-9)] assms(5) show ?thesis by auto
qed

section \<open>When the solver fails, and when a command is sent\<close>

lemma vr_processed_unsolved:
  assumes "vr_enabled cfg a side env s" and "vi_mode (vc_ik cfg) = ''pose''"
    and "\<And>pos quat seed anchor. \<not> fst (solve_pose (vz_ik (vr_side side s)) pos quat seed anchor)"
  shows "vz_target (vr_processed eg cfg a side env s) = vz_target (vr_side side s)"
proof -
  have ik: "vz_ik (take_anchor sd) = vz_ik sd" "vz_target (take_anchor sd) = vz_target sd" for sd
    by (simp_all add: take_anchor_def Let_def split_beta)
  have "vz_target (fst (follow_hand eg cfg rate x arm rec sd)) = vz_target sd"
    if "vz_ik sd = vz_ik (vr_side side s)" for rate x arm rec sd
    using that assms(3) by (simp add: follow_hand_def Let_def split_beta assms(2) ik)
  moreover have "vz_ik (vr_side side (drop_anchors cfg (vv_now env) s)) = vz_ik (vr_side side s)"
    by (cases side) (simp_all add: drop_anchors_def vr_side_def Let_def)
  ultimately show ?thesis
    using assms(1)
    by (cases "vz_tel_connected (tel_run (vv_at_process side env) s)")
      (simp_all add: vr_processed_def vr_enabled_def process_arm_def vr_arm_def Let_def)
qed

lemma process_arm_sender: "vz_sender (fst (process_arm eg cfg a side vr st cn sd)) = vz_sender sd"
  by (auto simp: process_arm_def follow_hand_def take_anchor_def Let_def split_beta split: if_splits)

lemma send_pkt_sends:
  "us_socket_ok (vz_sender sd) \<Longrightarrow> us_target_ok (vz_sender sd) \<Longrightarrow>
     \<exists>d. Vr_Command side d \<in> set (snd (send_pkt a vr st cn sq side t n sd))"
  by (simp add: send_pkt_def udp_send_def udp_send_raw_def Let_def split_beta)

lemma vr_cycle_sends:
  assumes "us_socket_ok (vz_sender (vr_side RIGHT s))" and "us_target_ok (vz_sender (vr_side RIGHT s))"
    and "va_rate_hz a = Fin 100"
  shows "\<exists>s' out d. vr_cycle eg cfg a env s = Inr (s', out) \<and> Vr_Command RIGHT d \<in> set out"
proof -
  let ?sd = "vr_processed eg cfg a RIGHT env s"
  have "vz_sender ?sd = vz_sender (vr_side RIGHT s)"
    by (simp add: vr_processed_def process_arm_sender)
  then obtain d where "Vr_Command RIGHT d \<in> set (snd (send_pkt a (vz_vr s) (telemetry_stale cfg (vv_now env) s)
      (vz_tel_connected (tel_run (vv_at_send RIGHT env) s)) (vz_seq s) RIGHT (vv_send_time_r env) (vv_sent_r env) ?sd))"
    using send_pkt_sends [of ?sd] assms(1,2) by metis
  then show ?thesis
    by (simp add: vr_cycle_def Let_def split_beta assms(3) ns_of_seconds_def vr_processed_def vr_side_def) blast
qed

section \<open>Example\<close>

text \<open>
  The right grip is held, telemetry is fresh, and the solver fails: its library reports an error
  of one metre whatever the joints. The arm is enabled all the same and keeps its target.
\<close>

definition failing_solver :: OpenArmPinocchioIK where
  "failing_solver = nan_solver\<lparr>ik_params := ik_params_default\<lparr>ip_max_iterations := 1\<rparr>\<rparr>"

definition example_vr_side :: VrSide where
  "example_vr_side =
     \<lparr> vz_ik = failing_solver, vz_anchor = arm_anchor_new, vz_swivel = vr_swivel vr_config_default (Fin 0),
       vz_target = replicate 7 (Fin 1), vz_grip_target = Fin 0, vz_feedback = replicate 7 (Fin 0),
       vz_sender = \<lparr> us_socket_ok = True, us_target_ok = True, us_sent_count = 0 \<rparr> \<rparr>"

definition example_vr :: VrLeader where
  "example_vr =
     \<lparr> vz_exited = False, vz_keep_running = True,
       vz_vr = vr_state_new\<lparr>vst_right := vr_arm_new\<lparr>vx_grip := Fin 1\<rparr>\<rparr>,
       vz_vr_connected = True, vz_last_vr_time = 0, vz_last_tel_time = 0, vz_tel_connected = True,
       vz_right = example_vr_side, vz_left = example_vr_side,
       vz_viz_sender = \<lparr> us_socket_ok = True, us_target_ok = True, us_sent_count = 0 \<rparr>, vz_seq = 0 \<rparr>"

definition example_vr_env :: VrCycleEnv where
  "example_vr_env = \<lparr> vv_now = 1000000, vv_process_r = [], vv_process_l = [], vv_send_r = [],
     vv_send_l = [], vv_send_time_r = 0, vv_send_time_l = 0, vv_sent_r = 224,
     vv_sent_l = 224, vv_elapsed_s = Fin 0 \<rparr>"

abbreviation example_vr_cycle :: "EigenOps \<Rightarrow> (VrLeader \<times> vr_output list) result" where
  "example_vr_cycle eg \<equiv> vr_cycle eg vr_config_default vr_args_default example_vr_env example_vr"

lemma failing_solver_fails: "fst (solve_pose failing_solver pos quat seed anchor) = False"
  by (simp add: solve_pose_def failing_solver_def nan_solver_def nan_model_def ik_params_default_def
      vnorm_def vdot_def Let_def)

lemma example_vr_enabled: "vr_enabled vr_config_default vr_args_default RIGHT example_vr_env example_vr"
  by (simp add: example_vr_env_def vv_at_send_def vv_at_process_def tel_run_def vr_enabled_def vr_arm_def example_vr_def telemetry_stale_def age_ms_def vr_state_new_def
      vr_config_default_def vr_tel_default_def vr_args_default_def)

lemma example_vr_command: "\<exists>s' out d. example_vr_cycle eg = Inr (s', out) \<and> Vr_Command RIGHT d \<in> set out"
  by (rule vr_cycle_sends) (simp_all add: vr_side_def example_vr_def example_vr_side_def vr_args_default_def)

lemma example_vr_target:
  "vz_target (vr_processed eg vr_config_default vr_args_default RIGHT example_vr_env example_vr) = replicate 7 (Fin 1)"
proof -
  have "vz_ik (vr_side RIGHT example_vr) = failing_solver" "vz_target (vr_side RIGHT example_vr) = replicate 7 (Fin 1)"
    by (simp_all add: vr_side_def example_vr_def example_vr_side_def)
  then show ?thesis
    using vr_processed_unsolved [OF example_vr_enabled, of eg] failing_solver_fails
    by (simp add: vr_config_default_def vr_ik_default_def)
qed

text \<open>The operations on quaternions \<open>[x, y, z, w]\<close> that the example needs.\<close>

definition example_eigen :: EigenOps where
  "example_eigen =
     \<lparr> eg_quat_matrix = (\<lambda>_. identity3), eg_matrix_quat = (\<lambda>_. quat_identity),
       eg_quat_mul = (\<lambda>p q. q), eg_quat_conj = (\<lambda>q. map uminus (take 3 q) @ drop 3 q) \<rparr>"

lemma example_vr_sends:
  "\<exists>s' out d. example_vr_cycle example_eigen = Inr (s', out) \<and> Vr_Command RIGHT d \<in> set out
    \<and> vz_target (vr_side RIGHT s') = replicate 7 (Fin 1) \<and> tp_enable (teleop_of_bytes d) = 1"
proof -
  obtain s' out d where c: "example_vr_cycle example_eigen = Inr (s', out)" "Vr_Command RIGHT d \<in> set out"
    using example_vr_command by blast
  have t: "vz_target (vr_side RIGHT s') = replicate 7 (Fin 1)"
    using vr_cycle_command(2) [OF c] example_vr_target by simp
  obtain n where "d = teleop_bytes (teleop_encode n (teleop_bits (vr_command (vz_seq example_vr) RIGHT
      (vr_enabled vr_config_default vr_args_default RIGHT example_vr_env example_vr)
      (vz_target (vr_side RIGHT s')) (vz_grip_target (vr_side RIGHT s')))))"
    using vr_cycle_command(1) [OF c] by auto
  then have "tp_enable (teleop_of_bytes d) = 1"
    using t example_vr_enabled by (auto simp: vr_command_fields isnan_def)
  with c t show ?thesis by blast
qed

theorem vr_enable_conditions_witness:
  "\<exists>s' out d. example_vr_cycle example_eigen = Inr (s', out) \<and> Vr_Command RIGHT d \<in> set out
    \<and> teleop_acceptable d \<and> tp_enable (teleop_of_bytes d) = 1 \<and> vz_tel_connected example_vr"
proof -
  obtain s' out d where c: "example_vr_cycle example_eigen = Inr (s', out)" "Vr_Command RIGHT d \<in> set out"
    and en: "tp_enable (teleop_of_bytes d) = 1"
    using example_vr_sends by blast
  moreover have "vz_tel_connected example_vr" by (simp add: example_vr_def)
  ultimately show ?thesis
    using vr_enable_conditions [OF c]
    by (intro exI [of _ s'] exI [of _ out] exI [of _ d]) simp
qed

theorem vr_enabled_step_bounded_witness:
  "\<exists>s' out y. example_vr_cycle example_eigen = Inr (s', out)
    \<and> vz_target (vr_side RIGHT s') ! 2 = Fin y \<and> \<bar>y - 1\<bar> \<le> 35 / 1000"
proof -
  obtain s' out d where c: "example_vr_cycle example_eigen = Inr (s', out)" "Vr_Command RIGHT d \<in> set out"
    and en: "tp_enable (teleop_of_bytes d) = 1"
    using example_vr_sends by blast
  have "length (vz_target (vr_side RIGHT example_vr)) = 7" "vz_target (vr_side RIGHT example_vr) ! 2 = Fin 1"
    by (simp_all add: vr_side_def example_vr_def example_vr_side_def)
  moreover have "vl_enabled (vc_rate_limit vr_config_default)"
    "max_steps vr_config_default RIGHT ! 2 = Fin (35 / 1000)"
    by (simp_all add: vr_config_default_def vr_rate_limit_default_def max_steps_def default_max_step_def)
  ultimately show ?thesis
    using vr_enabled_step_bounded [OF c en, of 2 1 "35 / 1000"] c(1) by auto
qed

end
