(* ===== verification/Vr_Runs.thy ===== *)
theory Vr_Runs
  imports Vr_Props
begin

text \<open>
  Runs of the VR leader from its start: what it sends before the follower's telemetry arrives,
  and what its first enabled command looks like.
\<close>

section \<open>Until telemetry arrives\<close>

text \<open>Without telemetry, and not in a dry run, both targets are where they started.\<close>

definition vr_waiting :: "VrLeader \<Rightarrow> bool" where
  "vr_waiting s \<longleftrightarrow> (\<not> vz_tel_connected s \<longrightarrow>
     (\<forall>side. vz_target (vr_side side s) = replicate 7 (Fin 0)))"

lemma vr_callbacks_keep [simp]:
  "vz_target (vr_side side (vr_telemetry_callback now d s)) = vz_target (vr_side side s)"
  "vz_target (vr_side side (fst (vr_callback eg cfg now sent d s))) = vz_target (vr_side side s)"
  "vz_tel_connected (fst (vr_callback eg cfg now sent d s)) = vz_tel_connected s"
  by (cases side; simp add: vr_telemetry_callback_def vr_callback_def vr_side_def Let_def split_beta)+

lemma tel_run_connected:
  "vz_tel_connected s = vz_tel_connected t \<Longrightarrow> vz_tel_connected (tel_run ds s) = vz_tel_connected (tel_run ds t)"
proof (induction ds arbitrary: s t)
  case (Cons x ds)
  have "vz_tel_connected (vr_telemetry_callback (fst x) (snd x) s)
      = vz_tel_connected (vr_telemetry_callback (fst x) (snd x) t)"
    using Cons.prems by (simp add: vr_telemetry_callback_def Let_def)
  from Cons.IH [OF this] show ?case by (simp add: tel_run_def split_beta)
qed (simp add: tel_run_def)

lemma vr_cycle_result:
  assumes "vr_cycle eg cfg a env s = Inr (s', out)"
  shows "\<exists>r l k. s' = tel_run (vv_during env) ((drop_anchors cfg (vv_now env) s)
    \<lparr>vz_right := r, vz_left := l, vz_seq := vz_seq s + 1, vz_keep_running := k\<rparr>)"
  using assms by (clarsimp simp: vr_cycle_def Let_def split_beta res_bind_eq_Inr) (rule exI, rule exI, rule exI, rule refl)

lemma vr_cycle_connected:
  assumes "vr_cycle eg cfg a env s = Inr (s', out)"
  shows "vz_tel_connected s' = vz_tel_connected (tel_run (vv_during env) s)"
proof -
  obtain r l k where s': "s' = tel_run (vv_during env) ((drop_anchors cfg (vv_now env) s)
      \<lparr>vz_right := r, vz_left := l, vz_seq := vz_seq s + 1, vz_keep_running := k\<rparr>)"
    using vr_cycle_result [OF assms] by blast
  show ?thesis
    unfolding s' by (rule tel_run_connected) (simp add: drop_anchors_def Let_def)
qed

text \<open>The targets after an iteration, whether or not it managed to send.\<close>

lemma vr_cycle_target:
  assumes "vr_cycle eg cfg a env s = Inr (s', out)"
  shows "vz_target (vr_side side s') = vz_target (vr_processed eg cfg a side env s)"
proof -
  have sent: "vz_target (fst (send_pkt a vr st cn sq x t n sd)) = vz_target sd" for vr st cn sq x t n sd
    by (simp add: send_pkt_def Let_def split_beta)
  obtain s1 where "s' = tel_run (vv_during env) s1"
    "vz_target (vr_side side s1) = vz_target (vr_processed eg cfg a side env s)"
    using assms
    by (cases side) (auto simp: vr_cycle_def vr_processed_def vr_side_def Let_def split_beta res_bind_eq_Inr sent)
  then show ?thesis by simp
qed

lemma vr_react_waiting:
  assumes "vr_react eg cfg a e s = Inr (s', out)" and "vr_waiting s" and "\<not> va_dry_run a"
  shows "vr_waiting s'"
proof (cases e)
  case (Vr_Cycle env)
  show ?thesis
  proof (cases "vz_keep_running s")
    case True
    then have c: "vr_cycle eg cfg a env s = Inr (s', out)" using assms(1) Vr_Cycle by simp
    show ?thesis
      unfolding vr_waiting_def
    proof (intro impI allI)
      fix side assume n: "\<not> vz_tel_connected s'"
      then have t: "\<not> vz_tel_connected (tel_run (vv_during env) s)" by (simp add: vr_cycle_connected [OF c])
      with tel_run_connects have "\<not> vz_tel_connected s" by blast
      moreover have "\<not> vz_tel_connected (tel_run (vv_at_process side env) s)"
        using t reads_connect by blast
      ultimately show "vz_target (vr_side side s') = replicate 7 (Fin 0)"
        using assms(2) vr_processed_unconnected [OF _ assms(3)] vr_cycle_target [OF c] by (simp add: vr_waiting_def)
    qed
  qed (use assms Vr_Cycle in \<open>auto simp: vr_waiting_def vr_side_def split: ArmSide.splits\<close>)
next
  case (Vr_Datagram now sent d)
  then have "s' = fst (vr_callback eg cfg now sent d s)" using assms(1) by simp
  with assms(2) show ?thesis by (simp add: vr_waiting_def)
next
  case (Vr_Telemetry now d)
  then have "s' = vr_telemetry_callback now d s" using assms(1) by simp
  with assms(2) telemetry_connects [of s now d] show ?thesis by (auto simp: vr_waiting_def)
next
  case Vr_Signal
  with assms show ?thesis by (auto simp: vr_waiting_def vr_side_def split: ArmSide.splits)
qed

interpretation vr_app: app_invariant "vr_react eg cfg a" vz_exited
    "\<lambda>s. \<not> va_dry_run a \<longrightarrow> vr_waiting s" for eg cfg a
  by unfold_locales (use vr_react_waiting in blast)

lemma vr_start_waiting: "vr_start argv env = Inr (Some (cfg, a, s)) \<Longrightarrow> vr_waiting s"
  by (auto simp: vr_start_def res_bind_eq_Inr vr_waiting_def vr_side_def vr_side_new_def
      split: if_splits ArmSide.splits)

text \<open>Once connected, always connected; before that nothing is enabled.\<close>

lemma vr_react_connects:
  assumes "vr_react eg cfg a e s = Inr (s', out)" and "vz_tel_connected s"
  shows "vz_tel_connected s'"
proof (cases e)
  case (Vr_Datagram now sent d)
  then have "s' = fst (vr_callback eg cfg now sent d s)" using assms(1) by simp
  with assms(2) show ?thesis by simp
qed (use assms in \<open>auto simp: tel_run_connects telemetry_connects vr_cycle_connected split: if_splits\<close>)

definition enables :: "vr_output \<Rightarrow> bool" where
  "enables x = (case x of Vr_Command side d \<Rightarrow> tp_enable (teleop_of_bytes d) = 1 | Vr_Forward d \<Rightarrow> False)"

lemma vr_cycle_enables:
  assumes "vr_cycle eg cfg a env s = Inr (s', out)" and "x \<in> set out" and "enables x"
  shows "vz_tel_connected s' \<and> \<not> va_dry_run a"
proof -
  obtain side d where x: "x = Vr_Command side d" "tp_enable (teleop_of_bytes d) = 1"
    using assms(3) by (cases x) (auto simp: enables_def)
  obtain t where "d = teleop_bytes (teleop_encode t (teleop_bits (vr_command (vz_seq s) side
      (vr_enabled cfg a side env s) (vz_target (vr_side side s')) (vz_grip_target (vr_side side s')))))"
    using vr_cycle_command(1) [OF assms(1)] assms(2) x(1) by blast
  with x(2) have "vr_enabled cfg a side env s" by (auto simp: vr_command_fields split: if_splits)
  then show ?thesis
    using reads_connect(2) [of side env s] by (simp add: vr_enabled_def vr_cycle_connected [OF assms(1)])
qed

lemma vr_react_enables:
  assumes "vr_react eg cfg a e s = Inr (s', out)" and "x \<in> set out" and "enables x"
  shows "vz_tel_connected s' \<and> \<not> va_dry_run a"
proof (cases e)
  case (Vr_Datagram now sent f)
  then have "out = snd (vr_callback eg cfg now sent f s)" using assms(1) by simp
  with assms(2,3) show ?thesis
    by (auto simp: enables_def vr_callback_def Let_def split_beta split: if_splits option.splits)
next
  case (Vr_Cycle env)
  with assms have "vr_cycle eg cfg a env s = Inr (s', out)" by (auto split: if_splits)
  then show ?thesis using vr_cycle_enables assms(2,3) by blast
qed (use assms in auto)

lemma vr_run_enables:
  assumes "vr_run eg cfg a es s = Inr (s', out)" and "x \<in> set out" and "enables x"
  shows "vz_tel_connected s' \<and> \<not> va_dry_run a"
  using assms(1,2)
  unfolding vr_run_def
proof (induction es arbitrary: s out)
  case (Cons e es)
  then have "\<not> vz_exited s" by (auto split: if_splits)
  with Cons.prems obtain s1 o1 o2 where r: "vr_react eg cfg a e s = Inr (s1, o1)"
      "app_run (vr_react eg cfg a) vz_exited es s1 = Inr (s', o2)" "out = o1 @ o2"
    by (auto simp: res_bind_eq_Inr)
  have keep: "vz_tel_connected s1 \<Longrightarrow> vz_tel_connected s'"
    using r(2)
  proof (induction es arbitrary: s1 o2)
    case (Cons e es)
    then show ?case
      by (cases "vz_exited s1") (auto simp: res_bind_eq_Inr dest: vr_react_connects)
  qed simp
  show ?case
    using vr_react_enables [OF r(1) _ assms(3)] keep Cons.IH [OF r(2)] Cons.prems(2) r(3) by auto
qed simp

lemma vr_run_targets:
  assumes "vr_run eg cfg a es s = Inr (s', out)" and "\<forall>e \<in> set es. \<forall>env. e \<noteq> Vr_Cycle env"
  shows "vz_target (vr_side side s') = vz_target (vr_side side s)"
  using assms
  unfolding vr_run_def
proof (induction es arbitrary: s out)
  case (Cons e es)
  show ?case
  proof (cases "vz_exited s")
    case False
    then obtain s1 o1 o2 where r: "vr_react eg cfg a e s = Inr (s1, o1)"
        "app_run (vr_react eg cfg a) vz_exited es s1 = Inr (s', o2)"
      using Cons.prems(1) by (auto simp: res_bind_eq_Inr)
    have "vz_target (vr_side side s1) = vz_target (vr_side side s)"
    proof (cases e)
      case (Vr_Datagram now sent d)
      then have "s1 = fst (vr_callback eg cfg now sent d s)" using r(1) by simp
      then show ?thesis by simp
    next
      case (Vr_Telemetry now d)
      then have "s1 = vr_telemetry_callback now d s" using r(1) by simp
      then show ?thesis by simp
    qed (use r(1) Cons.prems(2) in \<open>auto simp: vr_side_def split: ArmSide.splits\<close>)
    with Cons.IH [OF r(2)] Cons.prems(2) show ?thesis by simp
  qed (use Cons.prems in simp)
qed simp

section \<open>The first enabled command\<close>

text \<open>
  C19: the first enabled command is near the zero posture, not near the arm. Take a run from the
  start up to the first iteration that meets the follower's telemetry. Nothing is enabled before
  it; and if the grip is already held, so that the iteration sends an enabling command, every joint
  of it lies within one rate-limit step of zero, wherever the telemetry says the arm is.
\<close>

theorem vr_first_command_near_zero:
  assumes "vr_start argv env0 = Inr (Some (cfg, a, s0))"
    and "vr_run eg cfg a es s0 = Inr (s1, out1)" and "\<not> vz_tel_connected s1"
    and "vr_run eg cfg a ts s1 = Inr (s2, out2)" and "\<forall>e \<in> set ts. \<forall>env. e \<noteq> Vr_Cycle env"
    and "vr_cycle eg cfg a env s2 = Inr (s3, out)" and "Vr_Command side d \<in> set out"
    and "tp_enable (teleop_of_bytes d) = 1" and "vl_enabled (vc_rate_limit cfg)"
    and "i < 7" and "max_steps cfg side ! i = Fin m" and "0 \<le> m"
  shows "(\<forall>side' d'. Vr_Command side' d' \<in> set out1 \<longrightarrow> tp_enable (teleop_of_bytes d') \<noteq> 1)
    \<and> (\<exists>y. tp_arm_pos (teleop_of_bytes d) ! i = bits_of_dbl (Fin y) \<and> \<bar>y\<bar> \<le> m)"
proof
  show "\<forall>side' d'. Vr_Command side' d' \<in> set out1 \<longrightarrow> tp_enable (teleop_of_bytes d') \<noteq> 1"
    using vr_run_enables [OF assms(2)] assms(3) by (fastforce simp: enables_def)
  have en: "\<not> va_dry_run a"
    using vr_cycle_enables [OF assms(6)] assms(7,8) by (auto simp: enables_def)
  have "vr_waiting s1"
    using vr_app.run_inv [OF assms(2) [unfolded vr_run_def]] vr_start_waiting [OF assms(1)] en by simp
  then have t: "vz_target (vr_side side s2) = replicate 7 (Fin 0)"
    using assms(3) vr_run_targets [OF assms(4,5)] by (simp add: vr_waiting_def)
  note new = vr_enabled_target [OF assms(6-8)]
  with t vr_limited_step [of "vz_target (vr_side side s3)" "vz_target (vr_side side s2)" cfg side i 0 m] assms(9-12)
  show "\<exists>y. tp_arm_pos (teleop_of_bytes d) ! i = bits_of_dbl (Fin y) \<and> \<bar>y\<bar> \<le> m" by auto
qed

section \<open>Example\<close>

text \<open>
  The right grip is held before the follower's telemetry arrives; it reports an arm with every
  joint at one radian. The solver of the example finds no solution.
\<close>

definition example_hand :: "u32 \<Rightarrow> VrHand" where
  "example_hand grip =
     \<lparr> vh_delta_pos_world = replicate 3 0, vh_delta_rot_world_xyzw = replicate 4 0,
       vh_delta_pos_hmd = replicate 3 0, vh_delta_rot_hmd_xyzw = replicate 4 0,
       vh_abs_pos_world = replicate 3 0, vh_abs_rot_world_xyzw = replicate 4 0,
       vh_grip = grip, vh_trigger = 0, vh_thumbstick = replicate 2 0, vh_buttons = 0 \<rparr>"

definition example_headset :: VrRelativeTeleopPacketV2 where
  "example_headset =
     \<lparr> vr_magic = VR_MAGIC, vr_version = 2, vr_packet_size = 256, vr_seq = 1, vr_timestamp_sec = 0,
       vr_hmd_abs_pos_world = replicate 3 0, vr_hmd_abs_quat_world_xyzw = replicate 4 0,
       vr_left = example_hand 0, vr_right = example_hand 0x3F800000, vr_reserved = 0, vr_crc32 = 0 \<rparr>"

definition example_telemetry :: "u32 TelemetryPacket" where
  "example_telemetry = (telemetry_zero 0)\<lparr>te_magic := TELEMETRY_MAGIC,
     te_observation_state := replicate 16 0x3F800000\<rparr>"

definition example_sender :: UdpSender where
  "example_sender = \<lparr> us_socket_ok = True, us_target_ok = True, us_sent_count = 0 \<rparr>"

definition example_vr_start :: VrStartEnv where
  "example_vr_start = \<lparr> vse_yaml = Inl [], vse_csv_ok = True, vse_model_r = Inr nan_model,
     vse_model_l = Inr nan_model, vse_sender_r = example_sender, vse_sender_l = example_sender,
     vse_viz_sender = example_sender \<rparr>"

lemma one_float: "dbl_of_bits32 0x3F800000 = Fin 1"
  by (simp add: dbl_of_bits32_def ieee_decode_def ieee_bias_def Let_def)

lemma example_headset_wf: "vr_wf example_headset"
  by (simp add: vr_wf_def vr_hand_wf_def example_headset_def example_hand_def)

lemma example_telemetry_wf: "telemetry_wf example_telemetry"
  by (simp add: example_telemetry_def telemetry_wf_def telemetry_zero_def)

lemma vr_bytes_magic: "le_word (take 4 (vr_bytes p)) = vr_magic p"
  by (simp add: vr_bytes_def bytes_simps)

lemma nan_joint_indices: "joint_indices nan_model ns = Inr (replicate (length ns) 0)"
  by (induction ns) (simp_all add: nan_model_def)

lemma constant_error_loop:
  assumes "vnorm (take 3 e) = Fin 1" and "ip_convergence_tol_m p = Fin t" and "t \<le> 1"
  shows "\<exists>q'. ik_loop p (\<lambda>_. e) step n e0 q = (False, if n = 0 then e0 else Fin 1, q')"
proof (induction n arbitrary: e0 q)
  case (Suc n)
  show ?case using Suc.IH [of "Fin 1" "step e q"] assms by (simp add: Let_def)
qed simp

lemma nan_model_fails:
  assumes "ik_model ik = nan_model" and "ip_convergence_tol_m (ik_params ik) = Fin (5 / 1000)"
    and "0 < ip_max_iterations (ik_params ik)"
  shows "fst (solve_pose ik pos quat seed anchor) = False"
proof -
  have e: "im_error (ik_model ik) (ik_ee ik) q pos quat = [Fin 1, Fin 0, Fin 0, Fin 0, Fin 0, Fin 0]" for q
    by (simp add: assms(1) nan_model_def)
  obtain q' where "ik_loop (ik_params ik) (\<lambda>q. [Fin 1, Fin 0, Fin 0, Fin 0, Fin 0, Fin 0]) (ik_step ik anchor)
      (nat (ip_max_iterations (ik_params ik))) (Fin 0) (ik_configuration ik seed) = (False, Fin 1, q')"
    using constant_error_loop [OF _ assms(2), of "[Fin 1, Fin 0, Fin 0, Fin 0, Fin 0, Fin 0]"
      "ik_step ik anchor" "nat (ip_max_iterations (ik_params ik))" "Fin 0" "ik_configuration ik seed"] assms(3)
    by (auto simp: vnorm_def vdot_def)
  then show ?thesis using assms(2) by (simp add: solve_pose_def e)
qed

text \<open>The state after the headset's packet and after the telemetry.\<close>

definition example_vr_0 :: VrLeader where
  "example_vr_0 =
    (let side = (\<lambda>neutral. vr_side_new vr_config_default \<lparr> ik_params = ik_params_default,
         ik_model = nan_model, ik_ee = neutral, ik_idx = replicate 7 0 \<rparr>
         (Fin 0) example_sender)
     in \<lparr> vz_exited = False, vz_keep_running = True, vz_vr = vr_state_new, vz_vr_connected = False,
          vz_last_vr_time = 0, vz_last_tel_time = 0, vz_tel_connected = False,
          vz_right = side ''openarm_right_hand'', vz_left = side ''openarm_left_hand'',
          vz_viz_sender = example_sender, vz_seq = 0 \<rparr>)"

definition example_vr_1 :: VrLeader where
  "example_vr_1 = fst (vr_callback example_eigen vr_config_default 5 256 (vr_bytes example_headset) example_vr_0)"

definition example_vr_2 :: VrLeader where
  "example_vr_2 = vr_telemetry_callback 10 (telemetry_bytes example_telemetry) example_vr_1"

lemma example_vr_started:
  "vr_start [] example_vr_start = Inr (Some (vr_config_default, vr_args_default, example_vr_0))"
proof -
  have c: "vr_config [] vr_args_default (Inl []) = Inr vr_config_default" "vr_args [] = Inr vr_args_default"
    "va_log_csv_path vr_args_default = []"
    by (simp_all add: vr_config_def vr_load_config_def vr_ik_mode_def vr_args_def vr_args_default_def)
  have n: "vhm_neutral_swivel_right_rad (vc_human vr_config_default) = Fin 0"
    "vhm_neutral_swivel_left_rad (vc_human vr_config_default) = Fin 0"
    by (simp_all add: vr_config_default_def vr_human_default_def)
  have ik: "ik_new (Inr nan_model) ee (joint_names side) = Inr \<lparr> ik_params = ik_params_default,
      ik_model = nan_model, ik_ee = ee, ik_idx = replicate 7 0 \<rparr>" for ee side
  proof -
    have "im_frame nan_model ee" by (simp add: nan_model_def)
    then show ?thesis by (simp add: ik_new_def nan_joint_indices joint_names_def)
  qed
  show ?thesis
    by (simp add: vr_start_def example_vr_start_def c n ik) (simp add: example_vr_0_def Let_def)
qed

lemma example_vr_1_run:
  "\<exists>out. vr_run example_eigen vr_config_default vr_args_default [Vr_Datagram 5 256 (vr_bytes example_headset)]
     example_vr_0 = Inr (example_vr_1, out)"
  by (cases "vr_callback example_eigen vr_config_default 5 256 (vr_bytes example_headset) example_vr_0")
    (simp add: vr_run_def example_vr_1_def example_vr_0_def Let_def)

lemma example_vr_1_fields:
  "vz_vr example_vr_1 = vr_state_of example_eigen (vc_mapping vr_config_default) example_headset"
  "\<not> vz_tel_connected example_vr_1" "\<not> vz_exited example_vr_1"
  "vz_right example_vr_1 = vz_right example_vr_0"
  using example_headset_wf
  by (simp_all add: example_vr_1_def vr_callback_def vr_bytes_magic vr_size_def Let_def split_beta)
    (simp_all add: example_headset_def example_vr_0_def Let_def)

lemma example_vr_2_fields:
  "vz_vr example_vr_2 = vz_vr example_vr_1" "vz_tel_connected example_vr_2" "vz_last_tel_time example_vr_2 = 10"
  "vz_right example_vr_2 = (vz_right example_vr_0)\<lparr>vz_feedback := replicate 7 (Fin 1)\<rparr>"
  using example_telemetry_wf
  by (simp_all add: example_vr_2_def vr_telemetry_callback_def example_vr_1_fields Let_def)
    (simp_all add: example_telemetry_def vr_floats_def one_float)

lemma example_vr_2_run:
  "vr_run example_eigen vr_config_default vr_args_default
     [Vr_Telemetry 10 (telemetry_bytes example_telemetry)] example_vr_1 = Inr (example_vr_2, [])"
  by (simp add: vr_run_def example_vr_2_def example_vr_1_fields)

lemma example_vr_2_enabled: "vr_enabled vr_config_default vr_args_default RIGHT example_vr_env example_vr_2"
proof -
  have "vx_grip (vr_arm RIGHT example_vr_2) = Fin 1"
    by (simp add: vr_arm_def example_vr_2_fields example_vr_1_fields vr_state_of_def fill_arm_v2_def Let_def)
      (simp add: example_headset_def example_hand_def one_float)
  moreover have "\<not> vst_estop (vz_vr example_vr_2)"
    by (simp add: example_vr_2_fields example_vr_1_fields vr_state_of_def)
  ultimately show ?thesis
    by (simp add: vr_enabled_def example_vr_env_def vv_at_send_def vv_at_process_def tel_run_def telemetry_stale_def example_vr_2_fields
        age_ms_def vr_config_default_def vr_tel_default_def vr_args_default_def)
qed

lemma example_vr_3:
  "\<exists>s3 out d. vr_cycle example_eigen vr_config_default vr_args_default example_vr_env example_vr_2 = Inr (s3, out)
     \<and> Vr_Command RIGHT d \<in> set out \<and> tp_enable (teleop_of_bytes d) = 1"
proof -
  let ?s2 = example_vr_2
  have side: "vz_sender (vr_side RIGHT ?s2) = example_sender" "vz_target (vr_side RIGHT ?s2) = replicate 7 (Fin 0)"
    "vz_feedback (vr_side RIGHT ?s2) = replicate 7 (Fin 1)"
    "ik_model (vz_ik (vr_side RIGHT ?s2)) = nan_model" "ik_params (vz_ik (vr_side RIGHT ?s2)) = vr_ik_params vr_config_default"
    by (simp_all add: vr_side_def example_vr_2_fields)
      (simp_all add: example_vr_0_def vr_side_new_def ik_set_params_def Let_def)
  obtain s3 out d where c: "vr_cycle example_eigen vr_config_default vr_args_default example_vr_env ?s2 = Inr (s3, out)"
      "Vr_Command RIGHT d \<in> set out"
    using vr_cycle_sends [of ?s2 vr_args_default example_eigen vr_config_default example_vr_env] side(1)
    by (auto simp: example_sender_def vr_args_default_def)
  have "\<not> fst (solve_pose (vz_ik (vr_side RIGHT ?s2)) pos quat seed anchor)" for pos quat seed anchor
    using nan_model_fails [OF side(4)] side(5)
    by (simp add: vr_ik_params_def vr_config_default_def vr_ik_default_def Let_def)
  then have t: "vz_target (vr_side RIGHT s3) = replicate 7 (Fin 0)"
    using vr_cycle_target [OF c(1)] vr_processed_unsolved [OF example_vr_2_enabled] side(2)
    by (simp add: vr_config_default_def vr_ik_default_def)
  obtain n where "d = teleop_bytes (teleop_encode n (teleop_bits (vr_command (vz_seq ?s2) RIGHT
      (vr_enabled vr_config_default vr_args_default RIGHT example_vr_env ?s2)
      (vz_target (vr_side RIGHT s3)) (vz_grip_target (vr_side RIGHT s3)))))"
    using vr_cycle_command(1) [OF c] by blast
  then have en: "tp_enable (teleop_of_bytes d) = 1"
    using t example_vr_2_enabled by (auto simp: vr_command_fields isnan_def)
  with c show ?thesis by blast
qed

text \<open>
  The race of the reads. The telemetry arrives after the iteration has copied the feedback and
  before it processes the right arm: the anchor is taken from the initial zero feedback and not from
  the arm, which reports one radian, and the command is enabled.
\<close>

definition example_race_env :: VrCycleEnv where
  "example_race_env = example_vr_env\<lparr>vv_process_r := [(10, telemetry_bytes example_telemetry)]\<rparr>"

lemma example_race_reads:
  "tel_run (vv_at_process RIGHT example_race_env) example_vr_1 = example_vr_2"
  "tel_run (vv_at_send RIGHT example_race_env) example_vr_1 = example_vr_2"
  "tel_run (vv_during example_race_env) s = vr_telemetry_callback 10 (telemetry_bytes example_telemetry) s"
  by (simp_all add: example_race_env_def example_vr_env_def vv_at_process_def vv_at_send_def vv_during_def tel_run_def
      example_vr_2_def)

lemma vr_cycle_anchor:
  assumes "vr_cycle eg cfg a env s = Inr (s', out)"
  shows "\<exists>s1. s' = tel_run (vv_during env) s1 \<and> vz_anchor (vr_side side s1) = vz_anchor (vr_processed eg cfg a side env s)"
proof -
  have sent: "vz_anchor (fst (send_pkt a vr st cn sq x t n sd)) = vz_anchor sd" for vr st cn sq x t n sd
    by (simp add: send_pkt_def Let_def split_beta)
  show ?thesis
    using assms
    by (cases side) (auto simp: vr_cycle_def vr_processed_def vr_side_def Let_def split_beta res_bind_eq_Inr sent)
qed

lemma follow_hand_anchor:
  "\<not> an_active (vz_anchor sd) \<Longrightarrow>
     an_q (vz_anchor (fst (follow_hand eg cfg rate side arm rec sd))) = vz_feedback sd"
  by (simp add: follow_hand_def take_anchor_def Let_def split_beta)

lemma vr_read_race:
  "\<exists>s' out d. vr_cycle example_eigen vr_config_default vr_args_default example_race_env example_vr_1 = Inr (s', out)
    \<and> Vr_Command RIGHT d \<in> set out \<and> tp_enable (teleop_of_bytes d) = 1
    \<and> an_q (vz_anchor (vz_right s')) = replicate 7 (Fin 0) \<and> vz_feedback (vz_right s') = replicate 7 (Fin 1)"
proof -
  let ?p = "vr_processed example_eigen vr_config_default vr_args_default RIGHT example_race_env example_vr_1"
  have side: "vz_right example_vr_1 = vz_right example_vr_0" by (fact example_vr_1_fields(4))
  have right: "vz_sender (vr_side RIGHT example_vr_1) = example_sender"
    "vz_target (vr_side RIGHT example_vr_1) = replicate 7 (Fin 0)"
    "vz_feedback (vr_side RIGHT example_vr_1) = replicate 7 (Fin 0)"
    "\<not> an_active (vz_anchor (vr_side RIGHT example_vr_1))"
    "ik_model (vz_ik (vr_side RIGHT example_vr_1)) = nan_model"
    "ik_params (vz_ik (vr_side RIGHT example_vr_1)) = vr_ik_params vr_config_default"
    by (simp_all add: vr_side_def side)
      (simp_all add: example_vr_0_def vr_side_new_def ik_set_params_def arm_anchor_new_def Let_def)
  have en: "vr_enabled vr_config_default vr_args_default RIGHT example_race_env example_vr_1"
    using example_vr_2_enabled
    by (simp add: vr_enabled_def example_race_reads example_vr_2_fields vr_arm_def telemetry_stale_def
        example_vr_1_fields(2))
  obtain s' out d where c: "vr_cycle example_eigen vr_config_default vr_args_default example_race_env example_vr_1
      = Inr (s', out)" "Vr_Command RIGHT d \<in> set out"
    using vr_cycle_sends [of example_vr_1 vr_args_default example_eigen vr_config_default example_race_env] right(1)
    by (auto simp: example_sender_def vr_args_default_def)
  have "\<not> fst (solve_pose (vz_ik (vr_side RIGHT example_vr_1)) pos quat seed anchor)" for pos quat seed anchor
    using nan_model_fails [OF right(5)] right(6)
    by (simp add: vr_ik_params_def vr_config_default_def vr_ik_default_def Let_def)
  then have "vz_target (vr_side RIGHT s') = replicate 7 (Fin 0)"
    using vr_cycle_target [OF c(1)] vr_processed_unsolved [OF en] right(2)
    by (simp add: vr_config_default_def vr_ik_default_def)
  moreover obtain n where "d = teleop_bytes (teleop_encode n (teleop_bits (vr_command (vz_seq example_vr_1) RIGHT
      (vr_enabled vr_config_default vr_args_default RIGHT example_race_env example_vr_1)
      (vz_target (vr_side RIGHT s')) (vz_grip_target (vr_side RIGHT s')))))"
    using vr_cycle_command(1) [OF c] by blast
  ultimately have d: "tp_enable (teleop_of_bytes d) = 1"
    using en by (auto simp: vr_command_fields isnan_def)
  have "an_q (vz_anchor ?p) = replicate 7 (Fin 0)"
    using en right(3,4)
    by (simp add: vr_processed_def vr_enabled_def process_arm_def vr_arm_def follow_hand_anchor drop_anchors_def
        example_race_reads example_vr_1_fields(2) example_vr_2_fields(2) Let_def)
  moreover obtain s1 where s1: "s' = vr_telemetry_callback 10 (telemetry_bytes example_telemetry) s1"
    "vz_anchor (vr_side RIGHT s1) = vz_anchor ?p"
    using vr_cycle_anchor [OF c(1), of RIGHT] by (auto simp: example_race_reads)
  moreover have "vz_anchor (vz_right s') = vz_anchor (vz_right s1) \<and> vz_feedback (vz_right s') = replicate 7 (Fin 1)"
    using example_telemetry_wf
    by (simp add: s1(1) vr_telemetry_callback_def Let_def) (simp add: example_telemetry_def vr_floats_def one_float)
  ultimately show ?thesis using c d by (auto simp: vr_side_def)
qed

theorem vr_first_command_near_zero_witness:
  "\<exists>s1 out1 s2 out2 s3 out d y.
     vr_run example_eigen vr_config_default vr_args_default
       [Vr_Datagram 5 256 (vr_bytes example_headset)] example_vr_0 = Inr (s1, out1)
     \<and> vr_run example_eigen vr_config_default vr_args_default
       [Vr_Telemetry 10 (telemetry_bytes example_telemetry)] s1 = Inr (s2, out2)
     \<and> vz_feedback (vr_side RIGHT s2) ! 2 = Fin 1
     \<and> vr_cycle example_eigen vr_config_default vr_args_default example_vr_env s2 = Inr (s3, out)
     \<and> Vr_Command RIGHT d \<in> set out \<and> tp_enable (teleop_of_bytes d) = 1
     \<and> tp_arm_pos (teleop_of_bytes d) ! 2 = bits_of_dbl (Fin y) \<and> \<bar>y\<bar> \<le> 35 / 1000"
proof -
  let ?s2 = example_vr_2
  have side: "vz_feedback (vr_side RIGHT ?s2) = replicate 7 (Fin 1)"
    by (simp add: vr_side_def example_vr_2_fields)
  obtain out1 where r1: "vr_run example_eigen vr_config_default vr_args_default
      [Vr_Datagram 5 256 (vr_bytes example_headset)] example_vr_0 = Inr (example_vr_1, out1)"
    using example_vr_1_run by blast
  obtain s3 out d where c: "vr_cycle example_eigen vr_config_default vr_args_default example_vr_env ?s2 = Inr (s3, out)"
      "Vr_Command RIGHT d \<in> set out" and en: "tp_enable (teleop_of_bytes d) = 1"
    using example_vr_3 by blast
  have "vl_enabled (vc_rate_limit vr_config_default)" "max_steps vr_config_default RIGHT ! 2 = Fin (35 / 1000)"
    by (simp_all add: vr_config_default_def vr_rate_limit_default_def max_steps_def default_max_step_def)
  then obtain y where "tp_arm_pos (teleop_of_bytes d) ! 2 = bits_of_dbl (Fin y)" "\<bar>y\<bar> \<le> 35 / 1000"
    using vr_first_command_near_zero [OF example_vr_started r1 example_vr_1_fields(2) example_vr_2_run _ c en,
      of 2 "35 / 1000"] by auto
  with r1 example_vr_2_run c en side show ?thesis
    by (intro exI conjI) simp_all
qed

end
