(* ===== verification/Teleop_Vr.thy ===== *)
theory Teleop_Vr
  imports Link_Examples Vr_Runs
begin

text \<open>
  The VR leader and the bimanual follower as one system: \<open>src/apps/wifi_vr_bimanual_leader.cpp\<close>
  sends to \<open>src/apps/wifi_bimanual_follower.cpp\<close>. The grip of a hand, as the newest headset packet
  has it, releases the follower arm of that side.
\<close>

section \<open>The system\<close>

definition vr_commands :: "vr_output list \<Rightarrow> (ArmSide \<times> u8 list) list" where
  "vr_commands out = concat (map (\<lambda>x. case x of Vr_Command side d \<Rightarrow> [(side, d)] | Vr_Forward d \<Rightarrow> []) out)"

lemma vr_commands_iff: "(side, d) \<in> set (vr_commands out) \<longleftrightarrow> Vr_Command side d \<in> set out"
  by (induction out) (auto simp: vr_commands_def split: vr_output.splits)

definition vr_channel ::
    "EigenOps \<Rightarrow> VrTeleopConfig \<Rightarrow> VrArgs \<Rightarrow> FollowerConfig \<Rightarrow>
     (VrLeader, vr_event, vr_output, FollowerState, follower_event, follower_output, u64 TeleopPacket) Link" where
  "vr_channel eg cfg a fcfg =
     \<lparr> ln_send = vr_react eg cfg a, ln_sender_exited = vz_exited, ln_commands = vr_commands,
       ln_receive = follower_react fcfg, ln_receiver_exited = fo_exited, ln_packets = follower_packets,
       ln_accepts = teleop_acceptable, ln_parse = teleop_of_bytes \<rparr>"

lemma vr_channel_simps [simp]:
  "ln_send (vr_channel eg cfg a fcfg) = vr_react eg cfg a" "ln_sender_exited (vr_channel eg cfg a fcfg) = vz_exited"
  "ln_commands (vr_channel eg cfg a fcfg) = vr_commands" "ln_receive (vr_channel eg cfg a fcfg) = follower_react fcfg"
  "ln_receiver_exited (vr_channel eg cfg a fcfg) = fo_exited" "ln_packets (vr_channel eg cfg a fcfg) = follower_packets"
  "ln_accepts (vr_channel eg cfg a fcfg) = teleop_acceptable" "ln_parse (vr_channel eg cfg a fcfg) = teleop_of_bytes"
  by (simp_all add: vr_channel_def)

definition vr_sent ::
    "EigenOps \<Rightarrow> VrTeleopConfig \<Rightarrow> VrArgs \<Rightarrow> VrLeader \<Rightarrow> VrLeader \<Rightarrow> VrCycleEnv \<Rightarrow> VrLeader \<Rightarrow> ArmSide \<Rightarrow> u8 list \<Rightarrow> bool" where
  "vr_sent eg cfg a z0 z env z' side d \<longleftrightarrow> reached (vr_react eg cfg a) vz_exited z0 z \<and> \<not> vz_exited z
     \<and> (\<exists>out. vr_cycle eg cfg a env z = Inr (z', out) \<and> Vr_Command side d \<in> set out)"

lemma vr_react_sent:
  assumes "vr_react eg cfg a e z = Inr (z', out)" and "Vr_Command side d \<in> set out"
  shows "\<exists>env. vr_cycle eg cfg a env z = Inr (z', out)"
proof (cases e)
  case (Vr_Datagram now sent x)
  then have "out = snd (vr_callback eg cfg now sent x z)" using assms(1) by simp
  with assms(2) show ?thesis
    by (auto simp: vr_callback_def Let_def split_beta split: if_splits option.splits)
qed (use assms in \<open>auto split: if_splits\<close>)

lemma vr_sent_packet:
  assumes "vr_sent eg cfg a z0 z env z' side d"
  shows "teleop_acceptable d"
    and "tp_enable (teleop_of_bytes d) \<noteq> 0 \<Longrightarrow> vr_enabled cfg a side env z \<and> (\<forall>i < 7. \<not> isnan (vz_target (vr_side side z') ! i))"
proof -
  obtain out where "vr_cycle eg cfg a env z = Inr (z', out)" "Vr_Command side d \<in> set out"
    using assms by (auto simp: vr_sent_def)
  from vr_cycle_command(1) [OF this] obtain t where d: "d = teleop_bytes (teleop_encode t (teleop_bits
      (vr_command (vz_seq z) side (vr_enabled cfg a side env z) (vz_target (vr_side side z')) (vz_grip_target (vr_side side z')))))"
    by blast
  show "teleop_acceptable d" by (simp add: d vr_command_fields)
  show "tp_enable (teleop_of_bytes d) \<noteq> 0 \<Longrightarrow> vr_enabled cfg a side env z \<and> (\<forall>i < 7. \<not> isnan (vz_target (vr_side side z') ! i))"
    by (auto simp: d vr_command_fields split: if_splits)
qed

interpretation vc: command_link "vr_channel eg cfg a fcfg" "reached (vr_react eg cfg a) vz_exited z0"
    "\<lambda>side d. \<exists>z env z'. vr_sent eg cfg a z0 z env z' side d" follower_inv follower_stored for eg cfg a fcfg z0
proof unfold_locales
  show "ln_accepts (vr_channel eg cfg a fcfg) d0 \<Longrightarrow> within_burst d0 d1 \<Longrightarrow>
      ln_accepts (vr_channel eg cfg a fcfg) d1 \<Longrightarrow> d1 = d0" for d0 d1
    using teleop_acceptable_burst by auto
next
  fix z z' :: VrLeader and e out
  assume r: "\<not> ln_sender_exited (vr_channel eg cfg a fcfg) z" "ln_send (vr_channel eg cfg a fcfg) e z = Inr (z', out)"
    "reached (vr_react eg cfg a) vz_exited z0 z"
  then show "reached (vr_react eg cfg a) vz_exited z0 z'"
    using reached_step by fastforce
  fix side d
  assume "(side, d) \<in> set (ln_commands (vr_channel eg cfg a fcfg) out)"
  then have d: "Vr_Command side d \<in> set out" by (simp add: vr_commands_iff)
  then obtain env where "vr_cycle eg cfg a env z = Inr (z', out)"
    using vr_react_sent [of eg cfg a e z z' out side d] r(2) by auto
  with d r have "vr_sent eg cfg a z0 z env z' side d" by (auto simp: vr_sent_def)
  then show "ln_accepts (vr_channel eg cfg a fcfg) d \<and> (\<exists>z env z'. vr_sent eg cfg a z0 z env z' side d)"
    using vr_sent_packet(1) by auto
next
  fix r r' :: FollowerState and f frames
  assume r: "ln_receive (vr_channel eg cfg a fcfg) f r = Inr (r', frames)"
  then show "follower_inv r \<Longrightarrow> follower_inv r'" using follower_react_inv by simp
  show "follower_stored r' side p \<Longrightarrow> follower_stored r side p \<or> (side, p) \<in> set (ln_packets (vr_channel eg cfg a fcfg) f)"
    for side p using follower_react_stored r by simp
qed

section \<open>The grip\<close>

text \<open>
  C4: an arm moves only while its hand grips. Take the VR leader, from any state, and the follower,
  from its start, with any interleaving of their events, headset and telemetry datagrams of any content, and a network that
  loses, repeats, delays, reorders and damages commands within four bytes. When an iteration of the
  follower sends an arm a motion frame, no stop is latched, the stream is not reported broken, and the newest
  command of that side was sent by an iteration of the leader in which that hand's grip was past half in
  the newest headset packet, however old that was, the follower's telemetry had been heard and was not stale, no stop was asked for, the program was not
  started for a dry run and no target of the arm was NaN.
\<close>

theorem vr_motion_needs_grip:
  assumes "follower_args argv = Inr fa" and "follower_start fa env0 = Inr (cmds, Some (fcfg, r0))"
    and "link_reach (vr_channel eg cfg a fcfg) (z0, r0, []) (z, r, w)"
    and "follower_cycle fcfg env r = Inr (r', out)" and "Can side (Arm_Mit ps) \<in> set out"
  shows "\<not> sm_estop_triggered (side_safety side r)
    \<and> watchdog_check (safety_watchdog (sm_config (side_safety side r)))
        (stream_gap_ms (side_now side env) (tb_last_receive_time_ns (side_buffer side r))) \<noteq> DISABLE
    \<and> (\<exists>d z1 venv z2. (side, d) \<in> set w \<and> vr_sent eg cfg a z0 z1 venv z2 side d
        \<and> tb_get_latest (side_buffer side r) = Some (teleop_of_bytes d)
        \<and> vx_grip (vr_arm side z1) > Fin (1 / 2) \<and> vz_tel_connected z2
        \<and> \<not> telemetry_stale cfg (vv_now venv) z1 \<and> \<not> vst_estop (vz_vr z1) \<and> \<not> va_dry_run a
        \<and> (\<forall>i < 7. \<not> isnan (vz_target (vr_side side z2) ! i)))"
proof -
  have inv: "follower_inv r0"
    using follower_start_inv [OF follower_args_enable [OF assms(1)] assms(2)] .
  have new: "\<forall>side p. \<not> follower_stored r0 side p" using follower_start_fresh [OF assms(2)] by blast
  note facts = assms(3) reached_start inv new
  have "follower_inv r" using vc.reach_inv [OF facts] by blast
  then obtain p where p: "tb_get_latest (side_buffer side r) = Some p" "\<not> sm_estop_triggered (side_safety side r)"
    "tp_enable p \<noteq> 0" "watchdog_check (safety_watchdog (sm_config (side_safety side r)))
      (stream_gap_ms (side_now side env) (tb_last_receive_time_ns (side_buffer side r))) \<noteq> DISABLE"
    using follower_cycle_motion [OF _ assms(4,5)] by blast
  obtain d z1 venv z2 where d: "(side, d) \<in> set w" "p = teleop_of_bytes d" "vr_sent eg cfg a z0 z1 venv z2 side d"
    using vc.stored_promised [OF facts, of side p] p(1) by (auto simp: follower_stored_def)
  have "vr_enabled cfg a side venv z1 \<and> (\<forall>i < 7. \<not> isnan (vz_target (vr_side side z2) ! i))"
    using vr_sent_packet(2) [OF d(3)] p(3) d(2) by simp
  moreover have "vz_tel_connected z2 \<longleftrightarrow> vz_tel_connected (tel_run (vv_during venv) z1)"
    using d(3) vr_cycle_connected unfolding vr_sent_def by blast
  ultimately show ?thesis
    using p d reads_connect(2) by (auto simp: vr_enabled_def)
qed

section \<open>Example\<close>

text \<open>
  The right grip is held, the follower's telemetry arrives, the leader sends its first enabled
  command, and the follower's right arm moves.
\<close>

lemma vr_command_rest:
  "tp_estop (teleop_encode t (teleop_bits (vr_command seq side en q grip))) = 0"
  "tp_arm_dof (teleop_encode t (teleop_bits (vr_command seq side en q grip))) = 7"
  "tp_hand_dof (teleop_encode t (teleop_bits (vr_command seq side en q grip))) = 1"
  by (simp_all add: teleop_encode_def teleop_bits_def vr_command_def teleop_zero_def Let_def)

lemma example_vr_link:
  "\<exists>z d w. link_reach (vr_channel example_eigen vr_config_default vr_args_default fcfg) (example_vr_0, r0, []) (z, r0, w)
    \<and> (RIGHT, d) \<in> set w \<and> teleop_acceptable d \<and> teleop_wf (teleop_of_bytes d) \<and> tp_enable (teleop_of_bytes d) = 1
    \<and> tp_estop (teleop_of_bytes d) = 0 \<and> tp_arm_dof (teleop_of_bytes d) = 7 \<and> tp_hand_dof (teleop_of_bytes d) = 1"
proof -
  let ?K = "vr_channel example_eigen vr_config_default vr_args_default fcfg"
  obtain s3 out d where c: "vr_cycle example_eigen vr_config_default vr_args_default example_vr_env example_vr_2 = Inr (s3, out)"
      "Vr_Command RIGHT d \<in> set out" and en: "tp_enable (teleop_of_bytes d) = 1"
    using example_vr_3 by blast
  let ?cb = "vr_callback example_eigen vr_config_default 5 256 (vr_bytes example_headset) example_vr_0"
  have flags: "\<not> vz_exited example_vr_0" "vz_keep_running example_vr_0" by (simp_all add: example_vr_0_def Let_def)
  have same: "vz_keep_running (fst (vr_callback eg cfg now sent x s)) = vz_keep_running s"
    "vz_exited (fst (vr_callback eg cfg now sent x s)) = vz_exited s"
    "vz_keep_running (vr_telemetry_callback n y s) = vz_keep_running s"
    "vz_exited (vr_telemetry_callback n y s) = vz_exited s" for eg cfg now sent x n y s
    by (simp_all add: vr_callback_def vr_telemetry_callback_def Let_def split_beta)
  have later: "\<not> vz_exited example_vr_1" "\<not> vz_exited example_vr_2" "vz_keep_running example_vr_2"
    using flags by (simp_all add: example_vr_2_def example_vr_1_def same)
  have quiet: "vr_commands (snd ?cb) = []"
    by (auto simp: vr_commands_def vr_callback_def Let_def split_beta split: option.splits)
  have 1: "link_reach ?K (example_vr_0, r0, []) (example_vr_1, r0, [] @ ln_commands ?K (snd ?cb))"
    by (rule link_reach_send [OF link_start, where e = "Vr_Datagram 5 256 (vr_bytes example_headset)"])
      (use flags in \<open>simp_all add: example_vr_1_def\<close>)
  have 2: "link_reach ?K (example_vr_0, r0, []) (example_vr_2, r0, ([] @ ln_commands ?K (snd ?cb)) @ ln_commands ?K [])"
    by (rule link_reach_send [OF 1, where e = "Vr_Telemetry 10 (telemetry_bytes example_telemetry)"])
      (use later in \<open>simp_all add: example_vr_2_def\<close>)
  have empty: "([] @ ln_commands ?K (snd ?cb)) @ ln_commands ?K [] = []"
    using quiet by (simp add: vr_commands_def [of "[]"])
  have reach: "link_reach ?K (example_vr_0, r0, []) (s3, r0, [] @ ln_commands ?K out)"
    by (rule link_reach_send [OF 2 [unfolded empty], where e = "Vr_Cycle example_vr_env"]) (use c later in simp_all)
  obtain t where d: "d = teleop_bytes (teleop_encode t (teleop_bits (vr_command (vz_seq example_vr_2) RIGHT
      (vr_enabled vr_config_default vr_args_default RIGHT example_vr_env example_vr_2)
      (vz_target (vr_side RIGHT s3)) (vz_grip_target (vr_side RIGHT s3)))))"
    using vr_cycle_command(1) [OF c] by blast
  have "teleop_acceptable d \<and> teleop_wf (teleop_of_bytes d) \<and> tp_estop (teleop_of_bytes d) = 0
      \<and> tp_arm_dof (teleop_of_bytes d) = 7 \<and> tp_hand_dof (teleop_of_bytes d) = 1"
    by (simp add: d vr_command_rest)
  moreover have "(RIGHT, d) \<in> set ([] @ ln_commands ?K out)" using c(2) by (simp add: vr_commands_iff)
  ultimately show ?thesis using reach en by blast
qed

theorem vr_motion_needs_grip_witness:
  "\<exists>fcfg r0 z r w r' out arm z1. link_reach (vr_channel example_eigen vr_config_default vr_args_default fcfg)
      (example_vr_0, r0, []) (z, r, w)
    \<and> follower_cycle fcfg example_follower_cycle r = Inr (r', out) \<and> Can RIGHT (Arm_Mit arm) \<in> set out
    \<and> reached (vr_react example_eigen vr_config_default vr_args_default) vz_exited example_vr_0 z1
    \<and> vx_grip (vr_arm RIGHT z1) > Fin (1 / 2)"
proof -
  obtain cmds fcfg r0 where f: "follower_args [] = Inr follower_args_default"
      "follower_start follower_args_default example_arms_start = Inr (cmds, Some (fcfg, r0))" "example_ready r0"
      "\<not> fs_enabled (fc_feedback fcfg)" "\<not> fc_publish_telemetry fcfg" "fc_period_s fcfg = Fin (1 / 500)"
    using example_follower_started by blast
  let ?K = "vr_channel example_eigen vr_config_default vr_args_default fcfg"
  obtain z d w where l: "link_reach ?K (example_vr_0, r0, []) (z, r0, w)" "(RIGHT, d) \<in> set w" "teleop_acceptable d"
    and p: "teleop_wf (teleop_of_bytes d)" "tp_enable (teleop_of_bytes d) = 1" "tp_estop (teleop_of_bytes d) = 0"
      "tp_arm_dof (teleop_of_bytes d) = 7" "tp_hand_dof (teleop_of_bytes d) = 1"
    using example_vr_link by blast
  let ?r = "r0\<lparr>fo_buffer_r := tb_update 1000000 (teleop_of_bytes d) tb_new\<rparr>"
  have arrived: "arrives ?K w RIGHT (teleop_of_bytes d)"
    using sent_arrives [of RIGHT d w ?K] l(2,3) by simp
  have new: "\<not> fo_exited r0" "fo_buffer_r r0 = tb_new"
    using f(3) by (simp_all add: example_ready_def)
  have reach: "link_reach ?K (example_vr_0, r0, []) (z, ?r, w)"
    by (rule link_reach_receive [OF l(1), where e = "Packet RIGHT 1000000 (teleop_of_bytes d)" and out = "[]"])
      (use arrived new in simp_all)
  obtain r' out arm where c: "follower_cycle fcfg example_follower_cycle ?r = Inr (r', out)" "Can RIGHT (Arm_Mit arm) \<in> set out"
    using example_follower_moves [OF f(3-6) p(1-3)] p(4,5) by auto
  obtain d1 z1 venv z2 where "vr_sent example_eigen vr_config_default vr_args_default example_vr_0 z1 venv z2 RIGHT d1"
      "vx_grip (vr_arm RIGHT z1) > Fin (1 / 2)"
    using vr_motion_needs_grip [OF f(1,2) reach c] by blast
  with reach c show ?thesis
    by (intro exI [of _ fcfg] exI [of _ r0] exI [of _ z] exI [of _ ?r] exI [of _ w] exI [of _ r'] exI [of _ out]
        exI [of _ arm] exI [of _ z1]) (simp add: vr_sent_def)
qed

end
