(* ===== verification/Single_Leader.thy ===== *)
theory Single_Leader
  imports Leader_Side
begin

text \<open>
  The leader with one arm, \<open>src/apps/wifi_single_leader.cpp\<close>: gravity compensation on the arm,
  and one command packet per iteration. It receives nothing.
\<close>

section \<open>Command line\<close>

record SingleLeaderArgs =
  sx_follower_ip :: string
  sx_can_interface :: string
  sx_port :: u16
  sx_rate_hz :: dbl
  sx_enable :: bool
  sx_mock :: bool
  sx_urdf :: string

definition single_leader_args_default :: SingleLeaderArgs where
  "single_leader_args_default =
     \<lparr> sx_follower_ip = ''127.0.0.1'', sx_can_interface = ''can0'', sx_port = 50000,
       sx_rate_hz = Fin 500, sx_enable = False, sx_mock = False, sx_urdf = [] \<rparr>"

definition single_leader_option :: "string \<Rightarrow> string \<Rightarrow> SingleLeaderArgs \<Rightarrow> SingleLeaderArgs result option" where
  "single_leader_option x v a =
     (if x = ''--follower-ip'' then Some (Inr (a\<lparr>sx_follower_ip := v\<rparr>))
      else if x = ''--can'' then Some (Inr (a\<lparr>sx_can_interface := v\<rparr>))
      else if x = ''--port'' then arg_u16 v (\<lambda>p. a\<lparr>sx_port := p\<rparr>)
      else if x = ''--rate-hz'' then arg_double v (\<lambda>d. a\<lparr>sx_rate_hz := d\<rparr>)
      else if x = ''--urdf'' then Some (Inr (a\<lparr>sx_urdf := v\<rparr>))
      else None)"

definition single_leader_flag :: "string \<Rightarrow> SingleLeaderArgs \<Rightarrow> SingleLeaderArgs option" where
  "single_leader_flag x a =
     (if x = ''--enable'' then Some (a\<lparr>sx_enable := True\<rparr>)
      else if x = ''--mock'' then Some (a\<lparr>sx_mock := True\<rparr>)
      else None)"

definition single_leader_args :: "string list \<Rightarrow> SingleLeaderArgs result" where
  "single_leader_args argv = parse_args single_leader_option single_leader_flag argv single_leader_args_default"

section \<open>The loop\<close>

text \<open>\<open>sq_arm\<close> is \<open>None\<close> with \<open>--mock\<close>.\<close>

record SingleLeader =
  sq_exited :: bool
  sq_keep_running :: bool
  sq_arm :: "arm option"
  sq_sender :: UdpSender
  sq_seq :: u32

record SingleLeaderEnv =
  sv_readings :: Readings
  sv_system_now :: u64
  sv_send_time :: u64
  sv_sent :: int

datatype single_leader_output = Single_Can can_command | Single_Command "u8 list"

text \<open>Without hardware: seven joints and the gripper on sines.\<close>

definition mock_single :: "u64 \<Rightarrow> dbl TeleopPacket \<Rightarrow> dbl TeleopPacket" where
  "mock_single now p =
     (let t = real (unat now) / 10 ^ 9
      in p\<lparr>tp_arm_dof := 7, tp_hand_dof := 1,
           tp_arm_pos := copy_prefix (map (\<lambda>i. Fin (sin (t * 2 + real i))) [0..<7]) (tp_arm_pos p),
           tp_arm_vel := copy_prefix (map (\<lambda>i. Fin (cos (t * 2 + real i) * 2)) [0..<7]) (tp_arm_vel p),
           tp_hand_pos := copy_prefix [Fin (1 / 2 * (1 + sin t))] (tp_hand_pos p)\<rparr>)"

definition single_joints ::
    "SingleLeaderEnv \<Rightarrow> SingleLeader \<Rightarrow>
     (SingleLeader \<times> dbl TeleopPacket \<times> single_leader_output list) result" where
  "single_joints env s =
     (case sq_arm s of
        Some (ct, rs) \<Rightarrow>
          res_bind (unilateral_step (sv_readings env) ct rs) (\<lambda>(ct, rs, out).
            Inr (s\<lparr>sq_arm := Some (ct, rs)\<rparr>,
                 fill_command (rs_response (ss_arm rs)) (rs_response (ss_hand rs)) (teleop_zero (Fin 0)),
                 map Single_Can out))
      | None \<Rightarrow> Inr (s, mock_single (sv_system_now env) (teleop_zero (Fin 0)), []))"

definition single_leader_cycle ::
    "SingleLeaderArgs \<Rightarrow> SingleLeaderEnv \<Rightarrow> SingleLeader \<Rightarrow>
     (SingleLeader \<times> single_leader_output list) result" where
  "single_leader_cycle a env s =
     res_bind (single_joints env s) (\<lambda>(s, p, out).
       let p = address_command (sq_seq s) RIGHT UNILATERAL (sx_enable a) p;
           (sender, ok, d) = udp_send (sv_sent env) (teleop_encode (sv_send_time env) (teleop_bits p)) (sq_sender s)
       in res_bind (ns_of_seconds (Fin 1 div sx_rate_hz a)) (\<lambda>_.
            Inr (s\<lparr>sq_seq := sq_seq s + 1, sq_sender := sender\<rparr>,
                 out @ (case d of Some d \<Rightarrow> [Single_Command d] | None \<Rightarrow> []))))"

datatype single_leader_event = Single_Leader_Signal | Single_Leader_Cycle SingleLeaderEnv

fun single_leader_react ::
    "SingleLeaderArgs \<Rightarrow> single_leader_event \<Rightarrow> SingleLeader \<Rightarrow>
     (SingleLeader \<times> single_leader_output list) result" where
  "single_leader_react a Single_Leader_Signal s = Inr (s\<lparr>sq_keep_running := False\<rparr>, [])"
| "single_leader_react a (Single_Leader_Cycle env) s =
     (if sq_keep_running s then single_leader_cycle a env s
      else Inr (s\<lparr>sq_exited := True\<rparr>, if sq_arm s \<noteq> None then [Single_Can Disable_All] else []))"

definition single_leader_run ::
    "SingleLeaderArgs \<Rightarrow> single_leader_event list \<Rightarrow> SingleLeader \<Rightarrow>
     (SingleLeader \<times> single_leader_output list) result" where
  "single_leader_run a = app_run (single_leader_react a) sq_exited"

section \<open>Start-up\<close>

record SingleLeaderStartEnv =
  sm_yaml :: "string + YamlLoader"
  sm_arm :: ArmEnv
  sm_sender :: UdpSender

definition single_leader_arm :: "YamlLoader \<Rightarrow> ArmEnv \<Rightarrow> (arm \<times> can_command list) result" where
  "single_leader_arm cfg e =
     res_bind (six_vectors cfg ''LeaderArmParam'') (\<lambda>(kp, kd, Fc, k, Fv, Fo).
     res_bind (adjust_arm e
       (SetParameter kp kd Fc k Fv Fo (control_new (ae_dynamics e) None ROLE_LEADER ''right_arm''),
        system_state_new (length (rd_arm (ae_verify e))) (length (rd_gripper (ae_verify e))))) (\<lambda>(a, cmds).
       Inr (a, initialize_openarm DEFAULT_MOTOR_CONFIG @ cmds)))"

text \<open>\<open>None\<close>: \<open>main\<close> returned 1.\<close>

definition single_leader_start ::
    "SingleLeaderArgs \<Rightarrow> SingleLeaderStartEnv \<Rightarrow> (can_command list \<times> SingleLeader option) result" where
  "single_leader_start a env =
     (let s = (\<lambda>arm. \<lparr> sq_exited = False, sq_keep_running = True, sq_arm = arm,
                       sq_sender = sm_sender env, sq_seq = 0 \<rparr>)
      in if sx_mock a then Inr ([], Some (s None))
         else if sx_urdf a = [] then Inr ([], None)
         else
           res_bind (yaml_load ''config/leader.yaml'' (sm_yaml env)) (\<lambda>y.
           res_bind (single_leader_arm y (sm_arm env)) (\<lambda>(arm, cmds). Inr (cmds, Some (s (Some arm))))))"

section \<open>The stream it sends\<close>

definition single_commands :: "single_leader_output list \<Rightarrow> u8 list list" where
  "single_commands out = concat (map (\<lambda>x. case x of Single_Command d \<Rightarrow> [d] | Single_Can c \<Rightarrow> []) out)"

lemma single_commands_simps [simp]:
  "single_commands [] = []" "single_commands (xs @ ys) = single_commands xs @ single_commands ys"
  "single_commands (map Single_Can cs) = []"
  "single_commands (Single_Command d # xs) = d # single_commands xs"
  "single_commands (Single_Can c # xs) = single_commands xs"
  by (simp_all add: single_commands_def comp_def)

lemma mock_single_wf [simp]: "teleop_wf (mock_single now p) \<longleftrightarrow> teleop_wf p"
  by (simp add: mock_single_def teleop_wf_def Let_def)

lemma single_joints_parts:
  "single_joints env s = Inr (s', p, out) \<Longrightarrow> teleop_wf p \<and> single_commands out = []
     \<and> sq_seq s' = sq_seq s \<and> sq_sender s' = sq_sender s"
  by (auto simp: single_joints_def res_bind_eq_Inr split: option.splits)

definition sends :: "UdpSender \<Rightarrow> bool" where
  "sends x \<longleftrightarrow> us_socket_ok x \<and> us_target_ok x"

lemma udp_send_sends:
  assumes "udp_send n p x = (x', ok, d)"
  shows "d = (if sends x then Some (teleop_bytes p) else None)" and "sends x' \<longleftrightarrow> sends x"
  using assms by (auto simp: udp_send_def udp_send_raw_def sends_def split: if_splits)

lemma single_leader_cycle_parts:
  assumes "single_leader_cycle a env s = Inr (s', out)"
  shows "sq_seq s' = sq_seq s + 1 \<and> (sends (sq_sender s') \<longleftrightarrow> sends (sq_sender s))
    \<and> (\<exists>d. single_commands out = (if sends (sq_sender s) then [d] else [])
         \<and> teleop_acceptable d \<and> says (sq_seq s) RIGHT False (sx_enable a) (teleop_of_bytes d))"
proof -
  obtain s1 p o1 where j: "single_joints env s = Inr (s1, p, o1)"
    using assms by (auto simp: single_leader_cycle_def res_bind_eq_Inr)
  let ?p = "address_command (sq_seq s1) RIGHT UNILATERAL (sx_enable a) p"
  let ?e = "teleop_encode (sv_send_time env) (teleop_bits ?p)"
  obtain x ok d where u: "udp_send (sv_sent env) ?e (sq_sender s1) = (x, ok, d)" by (metis prod_cases3)
  note parts = single_joints_parts [OF j]
  have out: "sq_seq s' = sq_seq s + 1" "sq_sender s' = x"
    "out = o1 @ (case d of Some d \<Rightarrow> [Single_Command d] | None \<Rightarrow> [])"
    using assms j u parts by (auto simp: single_leader_cycle_def res_bind_eq_Inr)
  have "teleop_acceptable (teleop_bytes ?e) \<and> says (sq_seq s) RIGHT False (sx_enable a) (teleop_of_bytes (teleop_bytes ?e))"
    using address_command_says [of p UNILATERAL "sv_send_time env" "sq_seq s1" RIGHT "sx_enable a"] parts by simp
  moreover have "single_commands out = (if sends (sq_sender s) then [teleop_bytes ?e] else [])"
    using out(3) udp_send_sends(1) [OF u] parts by simp
  moreover have "sends (sq_sender s') \<longleftrightarrow> sends (sq_sender s)"
    using out(2) udp_send_sends(2) [OF u] parts by simp
  ultimately show ?thesis using out(1) by blast
qed

lemma single_leader_run_unsent:
  "single_leader_run a es s = Inr (s', out) \<Longrightarrow> \<not> sends (sq_sender s) \<Longrightarrow> single_commands out = []"
proof (induction es arbitrary: s out)
  case (Cons e es)
  show ?case
  proof (cases "sq_exited s")
    case False
    then obtain s1 o1 o2 where r: "single_leader_react a e s = Inr (s1, o1)" "single_leader_run a es s1 = Inr (s', o2)"
      and out: "out = o1 @ o2"
      using Cons.prems(1) by (auto simp: single_leader_run_def res_bind_eq_Inr)
    have "single_commands o1 = [] \<and> \<not> sends (sq_sender s1)"
      using r(1) Cons.prems(2)
      by (cases e) (auto split: if_splits dest!: single_leader_cycle_parts)
    with Cons.IH [OF r(2)] out show ?thesis by simp
  qed (use Cons.prems in \<open>simp add: single_leader_run_def\<close>)
qed (simp add: single_leader_run_def)

text \<open>
  The stream of the single leader. The datagrams of a run all pass the follower's
  validation, are addressed to the right arm in unilateral mode, carry the enable given on the
  command line, never a stop, and are numbered consecutively from the first, across the
  wrap-around of the sequence number.
\<close>

theorem single_leader_stream:
  assumes "single_leader_run a es s = Inr (s', out)" and "k < length (single_commands out)"
  shows "teleop_acceptable (single_commands out ! k)
    \<and> says (sq_seq s + word_of_nat k) RIGHT False (sx_enable a) (teleop_of_bytes (single_commands out ! k))"
  using assms
proof (induction es arbitrary: s out k)
  case (Cons e es)
  show ?case
  proof (cases "sq_exited s")
    case True
    with Cons.prems show ?thesis by (simp add: single_leader_run_def)
  next
    case False
    then obtain s1 o1 o2 where r: "single_leader_react a e s = Inr (s1, o1)" "single_leader_run a es s1 = Inr (s', o2)"
      and out: "out = o1 @ o2"
      using Cons.prems(1) by (auto simp: single_leader_run_def res_bind_eq_Inr)
    show ?thesis
    proof (cases "\<exists>env. e = Single_Leader_Cycle env \<and> sq_keep_running s")
      case True
      then obtain env where "single_leader_cycle a env s = Inr (s1, o1)" using r(1) by auto
      from single_leader_cycle_parts [OF this] obtain d where
        seq: "sq_seq s1 = sq_seq s + 1" and same: "sends (sq_sender s1) = sends (sq_sender s)"
        and d: "single_commands o1 = (if sends (sq_sender s) then [d] else [])" "teleop_acceptable d"
          "says (sq_seq s) RIGHT False (sx_enable a) (teleop_of_bytes d)" by blast
      show ?thesis
      proof (cases "sends (sq_sender s)")
        case False
        with single_leader_run_unsent [OF r(2)] same d(1) out Cons.prems(2) show ?thesis by simp
      next
        case sent: True
        show ?thesis
        proof (cases k)
          case 0
          with d sent out show ?thesis by simp
        next
          case (Suc j)
          with Cons.prems(2) d(1) sent out have "j < length (single_commands o2)" by simp
          from Cons.IH [OF r(2) this] Suc d(1) sent out seq show ?thesis by (simp add: ac_simps)
        qed
      qed
    next
      case False
      with r(1) have "single_commands o1 = [] \<and> sq_seq s1 = sq_seq s"
        by (cases e) (auto split: if_splits)
      with Cons.IH [OF r(2), of k] Cons.prems(2) out show ?thesis by simp
    qed
  qed
qed (simp add: single_leader_run_def)

definition example_single_leader :: SingleLeader where
  "example_single_leader =
     \<lparr> sq_exited = False, sq_keep_running = True, sq_arm = None,
       sq_sender = \<lparr> us_socket_ok = True, us_target_ok = True, us_sent_count = 0 \<rparr>, sq_seq = 0xFFFFFFFF \<rparr>"

theorem single_leader_stream_witness:
  "\<exists>s' out. single_leader_run (single_leader_args_default\<lparr>sx_enable := True\<rparr>)
      (replicate 2 (Single_Leader_Cycle \<lparr> sv_readings = no_motors, sv_system_now = 7, sv_send_time = 9, sv_sent = 224 \<rparr>))
      example_single_leader = Inr (s', out)
    \<and> length (single_commands out) = 2 \<and> tp_seq (teleop_of_bytes (single_commands out ! 1)) = 0
    \<and> tp_enable (teleop_of_bytes (single_commands out ! 1)) = 1"
proof -
  let ?a = "single_leader_args_default\<lparr>sx_enable := True\<rparr>"
  let ?env = "\<lparr> sv_readings = no_motors, sv_system_now = 7, sv_send_time = 9, sv_sent = 224 \<rparr>"
  have rate: "ns_of_seconds (Fin 1 div sx_rate_hz ?a) = Inr 2000000"
    by (simp add: ns_of_seconds_def single_leader_args_default_def)
  have cycle: "\<exists>s' out. single_leader_cycle ?a ?env s = Inr (s', out) \<and> sends (sq_sender s')
      \<and> length (single_commands out) = 1 \<and> sq_arm s' = None \<and> sq_keep_running s' \<and> \<not> sq_exited s'"
    if "sq_arm s = None" "sends (sq_sender s)" "sq_keep_running s" "\<not> sq_exited s" for s
    using that rate
    by (simp add: single_leader_cycle_def single_joints_def udp_send_def udp_send_raw_def sends_def Let_def split_beta)
  obtain s1 o1 where 1: "single_leader_cycle ?a ?env example_single_leader = Inr (s1, o1)" "sends (sq_sender s1)"
      "length (single_commands o1) = 1" "sq_arm s1 = None" "sq_keep_running s1" "\<not> sq_exited s1"
    using cycle [of example_single_leader] by (auto simp: example_single_leader_def sends_def)
  obtain s2 o2 where 2: "single_leader_cycle ?a ?env s1 = Inr (s2, o2)" "length (single_commands o2) = 1"
      "\<not> sq_exited s2"
    using cycle [of s1] 1 by auto
  have run: "single_leader_run ?a (replicate 2 (Single_Leader_Cycle ?env)) example_single_leader = Inr (s2, o1 @ o2)"
    using 1 2 by (simp add: single_leader_run_def numeral_2_eq_2 example_single_leader_def)
  have len: "length (single_commands (o1 @ o2)) = 2" using 1(3) 2(2) by simp
  show ?thesis
    using single_leader_stream [OF run, of 1] run len
    by (auto simp: says_def example_single_leader_def)
qed

end
