(* ===== verification/Single_Follower.thy ===== *)
theory Single_Follower
  imports Arm_Safety App_Common
begin

text \<open>
  The follower with one arm, \<open>src/apps/wifi_single_follower.cpp\<close>. It shares the safety manager,
  the limiter and the controller with the bimanual follower but computes the age of the command
  stream differently: the clock is read first, the time of the newest packet after it, and the
  difference is one of unsigned numbers.
\<close>

section \<open>Command line\<close>

record SingleFollowerArgs =
  sf_can_interface :: string
  sf_port :: u16
  sf_rate_hz :: dbl
  sf_mock :: bool
  sf_urdf :: string
  sf_safety_config :: SafetyConfig

definition single_follower_args_default :: SingleFollowerArgs where
  "single_follower_args_default =
     \<lparr> sf_can_interface = ''can2'', sf_port = 50000, sf_rate_hz = Fin 500, sf_mock = False,
       sf_urdf = [], sf_safety_config = safety_config_default \<rparr>"

definition single_follower_option ::
    "string \<Rightarrow> string \<Rightarrow> SingleFollowerArgs \<Rightarrow> SingleFollowerArgs result option" where
  "single_follower_option x v a =
     (if x = ''--can'' then Some (Inr (a\<lparr>sf_can_interface := v\<rparr>))
      else if x = ''--port'' then arg_u16 v (\<lambda>p. a\<lparr>sf_port := p\<rparr>)
      else if x = ''--control-rate-hz'' then arg_double v (\<lambda>d. a\<lparr>sf_rate_hz := d\<rparr>)
      else if x = ''--urdf'' then Some (Inr (a\<lparr>sf_urdf := v\<rparr>))
      else if x = ''--watchdog-hold-ms'' then arg_double v
        (\<lambda>d. a\<lparr>sf_safety_config := (sf_safety_config a)\<lparr>sc_watchdog_hold_ms := d\<rparr>\<rparr>)
      else if x = ''--watchdog-disable-ms'' then arg_double v
        (\<lambda>d. a\<lparr>sf_safety_config := (sf_safety_config a)\<lparr>sc_watchdog_disable_ms := d\<rparr>\<rparr>)
      else None)"

definition single_follower_flag :: "string \<Rightarrow> SingleFollowerArgs \<Rightarrow> SingleFollowerArgs option" where
  "single_follower_flag x a = (if x = ''--mock'' then Some (a\<lparr>sf_mock := True\<rparr>) else None)"

definition single_follower_args :: "string list \<Rightarrow> SingleFollowerArgs result" where
  "single_follower_args argv =
     parse_args single_follower_option single_follower_flag argv single_follower_args_default"

section \<open>State and loop\<close>

record SingleConfig =
  sk_limiter :: RateLimiter
  sk_period_s :: dbl

text \<open>\<open>sg_arm\<close> is \<open>None\<close> with \<open>--mock\<close>.\<close>

record SingleFollower =
  sg_exited :: bool
  sg_keep_running :: bool
  sg_buffer :: "u64 TeleopStateBuffer"
  sg_safety :: SafetyManager
  sg_arm :: "arm option"

text \<open>
  \<open>sy_during\<close>: the packets, with their receive times, that the receive thread stores between
  the moment the loop takes the newest packet and the moment it asks for the receive time.
\<close>

record SingleCycleEnv =
  sy_now :: u64
  sy_during :: "(u64 \<times> u64 TeleopPacket) list"
  sy_readings :: Readings

definition single_gap_ms :: "u64 \<Rightarrow> u64 \<Rightarrow> dbl" where
  "single_gap_ms now_ns last_rx = dbl_of_word (now_ns - last_rx) div Fin 1000000"

definition single_safety ::
    "SingleCycleEnv \<Rightarrow> u64 TeleopStateBuffer \<Rightarrow> SafetyManager \<Rightarrow> SafetyManager" where
  "single_safety env b m =
     (case tb_get_latest b of
        None \<Rightarrow> m
      | Some target \<Rightarrow> safety_update target
          (single_gap_ms (sy_now env) (tb_last_receive_time_ns (tb_run (sy_during env) b))) m)"

definition single_drive ::
    "RateLimiter \<Rightarrow> SafetyState \<Rightarrow> dbl TeleopPacket option \<Rightarrow> Readings \<Rightarrow> Control \<Rightarrow>
     RobotSystemState \<Rightarrow> cycle" where
  "single_drive rl st target rd ct rs =
     (if st = ACTIVE \<or> st = READY \<or> st = WARNING_TIMEOUT then
        (case target of
           Some t \<Rightarrow> res_bind (apply_target rl t rs) (\<lambda>rs. unilateral_step rd ct rs)
         | None \<Rightarrow> unilateral_step rd ct rs)
      else if st = HOLD then unilateral_step rd ct rs
      else if st = ESTOP \<or> st = FAULT \<or> st = DISABLED then Inr (ct, rs, [Disable_All])
      else Inr (ct, rs, []))"

definition single_cycle ::
    "SingleConfig \<Rightarrow> SingleCycleEnv \<Rightarrow> SingleFollower \<Rightarrow> (SingleFollower \<times> can_command list) result" where
  "single_cycle cfg env s =
     (let target = map_option teleop_doubles (tb_get_latest (sg_buffer s));
          m = single_safety env (sg_buffer s) (sg_safety s);
          s = s\<lparr>sg_buffer := tb_run (sy_during env) (sg_buffer s), sg_safety := m\<rparr>
      in res_bind (case sg_arm s of
             None \<Rightarrow> Inr (s, [])
           | Some (ct, rs) \<Rightarrow>
               res_bind (single_drive (sk_limiter cfg) (sm_state m) target (sy_readings env) ct rs)
                 (\<lambda>(ct, rs, out). Inr (s\<lparr>sg_arm := Some (ct, rs)\<rparr>, out))) (\<lambda>(s, out).
         res_bind (ns_of_seconds (sk_period_s cfg)) (\<lambda>_. Inr (s, out))))"

datatype single_event =
    Single_Packet u64 "u64 TeleopPacket"
  | Single_Signal
  | Single_Cycle SingleCycleEnv

fun single_react ::
    "SingleConfig \<Rightarrow> single_event \<Rightarrow> SingleFollower \<Rightarrow> (SingleFollower \<times> can_command list) result" where
  "single_react cfg (Single_Packet now p) s = Inr (s\<lparr>sg_buffer := tb_update now p (sg_buffer s)\<rparr>, [])"
| "single_react cfg Single_Signal s =
     Inr (s\<lparr>sg_safety := safety_trigger_estop (sg_safety s), sg_keep_running := False\<rparr>, [])"
| "single_react cfg (Single_Cycle env) s =
     (if sg_keep_running s then single_cycle cfg env s
      else Inr (s\<lparr>sg_exited := True\<rparr>, if sg_arm s \<noteq> None then [Disable_All] else []))"

definition single_run ::
    "SingleConfig \<Rightarrow> single_event list \<Rightarrow> SingleFollower \<Rightarrow> (SingleFollower \<times> can_command list) result" where
  "single_run cfg = app_run (single_react cfg) sg_exited"

section \<open>Start-up\<close>

text \<open>The receive socket, the configuration, the arm; the result of \<open>Init\<close> is not looked at.\<close>

record SingleStartEnv =
  sn_socket :: bool
  sn_yaml :: "string + YamlLoader"
  sn_arm :: ArmEnv

definition single_follower_arm ::
    "YamlLoader \<Rightarrow> ArmEnv \<Rightarrow> (arm \<times> can_command list) result" where
  "single_follower_arm cfg e =
     res_bind (six_vectors cfg ''FollowerArmParam'') (\<lambda>(kp, kd, Fc, k, Fv, Fo).
     res_bind (adjust_arm e
       (SetParameter kp kd Fc k Fv Fo (control_new None (ae_dynamics e) ROLE_FOLLOWER ''right_arm''),
        system_state_new (length (rd_arm (ae_verify e))) (length (rd_gripper (ae_verify e))))) (\<lambda>(a, cmds).
       Inr (a, initialize_openarm DEFAULT_MOTOR_CONFIG @ cmds)))"

text \<open>\<open>None\<close>: \<open>main\<close> returned 1.\<close>

definition single_follower_start ::
    "SingleFollowerArgs \<Rightarrow> SingleStartEnv \<Rightarrow>
     (can_command list \<times> (SingleConfig \<times> SingleFollower) option) result" where
  "single_follower_start a env =
     (let c = sf_safety_config a;
          cfg = \<lparr> sk_limiter = \<lparr> rl_max_delta_per_cycle = sc_max_target_delta_rad_per_cycle c,
                    rl_max_velocity_rad_s = sc_max_joint_velocity_rad_s c,
                    rl_cycle_time_s = Fin 1 div sf_rate_hz a \<rparr>,
                  sk_period_s = Fin 1 div sf_rate_hz a \<rparr>;
          s = (\<lambda>arm. \<lparr> sg_exited = False, sg_keep_running = True, sg_buffer = tb_new,
                       sg_safety = safety_new c, sg_arm = arm \<rparr>)
      in if \<not> fst (udp_start (udp_receiver_new (sn_socket env))) then Inr ([], None)
         else if sf_mock a then Inr ([], Some (cfg, s None))
         else if sf_urdf a = [] then Inr ([], None)
         else
           res_bind (yaml_load ''config/follower.yaml'' (sn_yaml env)) (\<lambda>y.
           res_bind (single_follower_arm y (sn_arm env)) (\<lambda>(arm, cmds).
             Inr (cmds, Some (cfg, s (Some arm))))))"

section \<open>An invariant of its runs\<close>

text \<open>The drive step is the bimanual one with the gravity feedforward switched off.\<close>

lemma single_drive_eq:
  assumes "\<not> ct_follower_gravity_ff ct"
  shows "single_drive rl st target rd ct rs = drive_arm \<lparr> mo_limiter = rl, mo_gravity_ff = False,
    mo_gravity_ff_scale = ct_follower_gravity_ff_scale ct \<rparr> st target rd ct rs"
  using assms
  by (cases ct) (simp add: single_drive_def drive_arm_def SetFollowerGravityFeedforward_def split: option.splits)

definition single_inv :: "SingleFollower \<Rightarrow> bool" where
  "single_inv s \<longleftrightarrow> side_inv (sg_buffer s) (sg_safety s)
     \<and> (\<forall>ct rs. sg_arm s = Some (ct, rs) \<longrightarrow> ct_role ct = ROLE_FOLLOWER \<and> \<not> ct_follower_gravity_ff ct)"

lemma side_inv_run: "side_inv b m \<Longrightarrow> side_inv (tb_run ps b) m"
proof (induction ps arbitrary: b)
  case (Cons x ps)
  then show ?case
    by (cases x) (simp add: side_inv_packet)
qed simp

lemma tb_run_latest: "tb_get_latest b \<noteq> None \<Longrightarrow> tb_get_latest (tb_run ps b) \<noteq> None"
proof (induction ps arbitrary: b)
  case (Cons x ps)
  then show ?case by (cases x) simp
qed simp

lemma single_safety_inv:
  "side_inv b m \<Longrightarrow> side_inv (tb_run (sy_during env) b) (single_safety env b m)"
  by (auto simp: single_safety_def intro!: side_inv_update side_inv_run tb_run_latest split: option.splits)

lemma single_drive_control:
  assumes "single_drive rl st target rd ct rs = Inr (ct', rs', cmds)" and "ct_role ct = ROLE_FOLLOWER"
    and "\<not> ct_follower_gravity_ff ct"
  shows "ct_role ct' = ROLE_FOLLOWER \<and> \<not> ct_follower_gravity_ff ct'"
  using assms
  by (auto simp: single_drive_def follower_role_step res_bind_eq_Inr
      split: if_splits option.splits dest!: follower_step_shape)

lemma single_cycle_parts:
  assumes "single_cycle cfg env s = Inr (s', out)"
  shows "sg_buffer s' = tb_run (sy_during env) (sg_buffer s)
    \<and> sg_safety s' = single_safety env (sg_buffer s) (sg_safety s)
    \<and> (case sg_arm s of
         None \<Rightarrow> sg_arm s' = None \<and> out = []
       | Some (ct, rs) \<Rightarrow> \<exists>ct' rs'. sg_arm s' = Some (ct', rs')
           \<and> single_drive (sk_limiter cfg) (sm_state (sg_safety s'))
               (map_option teleop_doubles (tb_get_latest (sg_buffer s))) (sy_readings env) ct rs
             = Inr (ct', rs', out))"
  using assms
  by (cases "sg_arm s") (auto simp: single_cycle_def Let_def res_bind_eq_Inr)

lemma single_cycle_inv: "single_cycle cfg env s = Inr (s', out) \<Longrightarrow> single_inv s \<Longrightarrow> single_inv s'"
  using single_cycle_parts [of cfg env s s' out] single_safety_inv [of "sg_buffer s" "sg_safety s" env]
  by (auto simp: single_inv_def split: option.splits dest: single_drive_control)

lemma single_react_inv: "single_react cfg e s = Inr (s', out) \<Longrightarrow> single_inv s \<Longrightarrow> single_inv s'"
  by (cases e) (auto simp: single_inv_def [of "_ :: SingleFollower"] intro: side_inv_packet side_inv_estop
      split: if_splits dest: single_cycle_inv [unfolded single_inv_def])

interpretation single_app: app_invariant "single_react cfg" sg_exited single_inv for cfg
  by unfold_locales (rule single_react_inv)

lemma single_args_enable: "single_follower_args argv = Inr a \<Longrightarrow> sc_require_enable (sf_safety_config a)"
  unfolding single_follower_args_def
  by (erule parse_args_inv [where P = "\<lambda>a. sc_require_enable (sf_safety_config a)"])
    (auto simp: single_follower_args_default_def safety_config_default_def single_follower_option_def
      single_follower_flag_def arg_u16_def arg_double_def res_bind_eq_Inr split: if_splits)

lemma adjust_arm_role: "adjust_arm e a = Inr (a', cmds) \<Longrightarrow> fst a' = fst a"
  by (auto simp: adjust_arm_def AdjustPosition_def MoveToPose_def res_bind_eq_Inr Let_def split: if_splits)

lemma single_start_inv:
  assumes "single_follower_start a env = Inr (cmds, Some (cfg, s))" and "sc_require_enable (sf_safety_config a)"
  shows "single_inv s"
  using assms
  by (auto simp: single_follower_start_def single_follower_arm_def Let_def res_bind_eq_Inr single_inv_def
      SetParameter_def control_new_def SetEffortLimits_def split: if_splits
      intro!: side_inv_new dest!: adjust_arm_role)

section \<open>Properties\<close>

lemma single_cycle_motion:
  assumes "single_cycle cfg env s = Inr (s', out)" and "single_inv s" and "Arm_Mit ps \<in> set out"
  shows "\<exists>p. tb_get_latest (sg_buffer s) = Some p \<and> \<not> sm_estop_triggered (sg_safety s)
    \<and> tp_estop p \<noteq> 1 \<and> tp_enable p \<noteq> 0
    \<and> watchdog_check (safety_watchdog (sm_config (sg_safety s)))
        (single_gap_ms (sy_now env) (tb_last_receive_time_ns (tb_run (sy_during env) (sg_buffer s)))) \<noteq> DISABLE"
proof -
  let ?m' = "single_safety env (sg_buffer s) (sg_safety s)"
  note parts = single_cycle_parts [OF assms(1)]
  obtain ct rs ct' rs' where arm: "sg_arm s = Some (ct, rs)"
    and d: "single_drive (sk_limiter cfg) (sm_state ?m')
        (map_option teleop_doubles (tb_get_latest (sg_buffer s))) (sy_readings env) ct rs = Inr (ct', rs', out)"
    using parts assms(3) by (cases "sg_arm s") auto
  have inv: "side_inv (sg_buffer s) (sg_safety s)" and ff: "\<not> ct_follower_gravity_ff ct"
    using assms(2) arm by (auto simp: single_inv_def)
  have "driven (sm_state ?m')"
    using drive_arm_idle_frames [OF d [unfolded single_drive_eq [OF ff]]] assms(3)
    by (cases "driven (sm_state ?m')") (auto split: if_splits)
  moreover have "side_inv (tb_run (sy_during env) (sg_buffer s)) ?m'" using inv by (rule single_safety_inv)
  ultimately have live: "live (sm_state ?m')" by (auto simp: driven_def side_inv_def)
  have old: "sm_state (sg_safety s) \<noteq> DISABLED" "sc_require_enable (sm_config (sg_safety s))"
    using inv by (auto simp: side_inv_def)
  show ?thesis
  proof (cases "tb_get_latest (sg_buffer s)")
    case None
    with live inv show ?thesis by (simp add: single_safety_def side_inv_def)
  next
    case (Some p)
    then have "live (sm_state (safety_update p (single_gap_ms (sy_now env)
        (tb_last_receive_time_ns (tb_run (sy_during env) (sg_buffer s)))) (sg_safety s)))"
      using live by (simp add: single_safety_def)
    from update_live [OF this old(1)] Some old(2) show ?thesis by simp
  qed
qed

text \<open>
  The single arm moves only when it may. From every accepted command line, a run sends a
  motion frame only in an iteration in which no software stop is latched, a command has been
  received that neither asks for a stop nor withholds the enable, and the watchdog, as the loop
  feeds it, does not report a broken stream.
\<close>

theorem single_follower_moves_only_when_allowed:
  assumes "single_follower_args argv = Inr a" and "single_follower_start a env0 = Inr (cmds, Some (cfg, s0))"
    and "single_run cfg es s0 = Inr (s', out)" and "Arm_Mit ps \<in> set out"
  shows "\<exists>as env bs s1 out1 p. es = as @ Single_Cycle env # bs \<and> single_run cfg as s0 = Inr (s1, out1)
    \<and> tb_get_latest (sg_buffer s1) = Some p \<and> \<not> sm_estop_triggered (sg_safety s1)
    \<and> tp_estop p \<noteq> 1 \<and> tp_enable p \<noteq> 0
    \<and> watchdog_check (safety_watchdog (sm_config (sg_safety s1)))
        (single_gap_ms (sy_now env) (tb_last_receive_time_ns (tb_run (sy_during env) (sg_buffer s1)))) \<noteq> DISABLE"
proof -
  have "single_inv s0" using single_start_inv [OF assms(2)] single_args_enable [OF assms(1)] by simp
  then obtain as e bs s1 s2 o1 o2 where es: "es = as @ e # bs" "single_run cfg as s0 = Inr (s1, o1)"
      and inv: "single_inv s1" and r: "single_react cfg e s1 = Inr (s2, o2)" "Arm_Mit ps \<in> set o2"
    using single_app.run_output [OF assms(3) [unfolded single_run_def] _ assms(4)] unfolding single_run_def by blast
  obtain env where e: "e = Single_Cycle env" "single_cycle cfg env s1 = Inr (s2, o2)"
    using r by (cases e) (auto split: if_splits)
  from single_cycle_motion [OF e(2) inv r(2)] es e(1) show ?thesis by blast
qed

lemma tb_run_last_time: "ps \<noteq> [] \<Longrightarrow> tb_last_receive_time_ns (tb_run ps b) = fst (last ps)"
  by (induction ps rule: rev_induct) (auto simp: tb_run_def tb_update_def Let_def)

lemma single_gap_wraps:
  assumes "now < last_rx" and "unat (last_rx - now) \<le> 2 ^ 63"
  shows "\<exists>x. single_gap_ms now last_rx = Fin x \<and> 2 ^ 63 / 1000000 \<le> x"
proof -
  have lt: "unat now < unat last_rx" using assms(1) by (simp add: word_less_nat_alt)
  have "unat (last_rx - now) = unat last_rx - unat now"
    using assms(1) by (simp add: unat_sub order_less_imp_le)
  moreover have "unat (now - last_rx) = unat now + 2 ^ 64 - unat last_rx"
    using lt by (simp add: unat_sub_if')
  ultimately have "2 ^ 63 \<le> unat (now - last_rx)" using assms(2) lt by simp
  then have "(2 ^ 63 :: real) \<le> real (unat (now - last_rx))"
    by (metis of_nat_le_iff of_nat_numeral of_nat_power)
  then show ?thesis
    by (intro exI [of _ "real (unat (now - last_rx)) / 1000000"]) (simp add: single_gap_ms_def dbl_of_word_def)
qed

text \<open>
  C25: a packet that arrives at the wrong moment switches the arm off. When the receive thread
  stores a packet after the loop has read the clock and before it asks for the receive time, the
  age of the stream wraps around to thousands of years: an enabled arm goes to FAULT and its
  motors are disabled, although the stream is as fresh as can be. The bimanual follower computes
  an age of zero in the same situation.
\<close>

theorem single_follower_late_packet_faults:
  assumes "single_inv s" and "single_cycle cfg env s = Inr (s', out)" and "sg_arm s \<noteq> None"
    and "tb_get_latest (sg_buffer s) = Some p" and "tp_enable p \<noteq> 0" and "tp_estop p \<noteq> 1"
    and "\<not> sm_estop_triggered (sg_safety s)"
    and "sc_watchdog_disable_ms (sm_config (sg_safety s)) = Fin d" and "d \<le> 10 ^ 12"
    and "sy_during env \<noteq> []" and "fst (last (sy_during env)) > sy_now env"
    and "unat (fst (last (sy_during env)) - sy_now env) \<le> 2 ^ 63"
  shows "sm_state (sg_safety s') = FAULT \<and> out = [Disable_All]
    \<and> stream_gap_ms (sy_now env) (fst (last (sy_during env))) = Fin 0"
proof -
  let ?now = "sy_now env" and ?rx = "fst (last (sy_during env))" and ?m = "sg_safety s"
  obtain x where x: "single_gap_ms ?now ?rx = Fin x" "2 ^ 63 / 1000000 \<le> x"
    using single_gap_wraps [OF assms(11,12)] by blast
  then have "watchdog_check (safety_watchdog (sm_config ?m)) (single_gap_ms ?now ?rx) = DISABLE"
    using assms(8,9) by (simp add: watchdog_check_def safety_watchdog_def)
  moreover have "sm_state ?m \<noteq> DISABLED" using assms(1) by (auto simp: single_inv_def side_inv_def)
  ultimately have m: "sm_state (single_safety env (sg_buffer s) ?m) = FAULT"
    using assms(4-7) by (simp add: single_safety_def safety_update_def tb_run_last_time [OF assms(10)])
  have "out = [Disable_All]"
    using single_cycle_parts [OF assms(2)] assms(3) m by (auto simp: single_drive_def)
  moreover have "\<not> ?rx \<le> ?now" using assms(11) by simp
  ultimately show ?thesis
    using single_cycle_parts [OF assms(2)] m by (simp add: stream_gap_ms_def)
qed

section \<open>Examples\<close>

text \<open>An arm without motors, enabled by a command received at time 1000000.\<close>

definition example_single_command :: "u64 TeleopPacket" where
  "example_single_command = (teleop_zero 0)\<lparr>tp_enable := 1\<rparr>"

definition example_single :: SingleFollower where
  "example_single =
     \<lparr> sg_exited = False, sg_keep_running = True,
       sg_buffer = tb_update 1000000 example_single_command tb_new,
       sg_safety = (safety_new safety_config_default)\<lparr>sm_state := ACTIVE\<rparr>,
       sg_arm = Some (control_new None None ROLE_FOLLOWER ''right_arm'', system_state_new 0 0) \<rparr>"

definition example_single_config :: SingleConfig where
  "example_single_config =
     \<lparr> sk_limiter = \<lparr> rl_max_delta_per_cycle = Fin (2 / 100), rl_max_velocity_rad_s = Fin 2,
         rl_cycle_time_s = Fin (1 / 500) \<rparr>, sk_period_s = Fin (1 / 500) \<rparr>"

definition example_single_env :: "(u64 \<times> u64 TeleopPacket) list \<Rightarrow> SingleCycleEnv" where
  "example_single_env ps = \<lparr> sy_now = 2000000, sy_during = ps, sy_readings = no_motors \<rparr>"

lemma example_single_inv: "single_inv example_single"
  by (simp add: single_inv_def side_inv_def example_single_def safety_new_def safety_config_default_def
      control_new_def SetEffortLimits_def)

lemma example_single_period: "ns_of_seconds (Fin (1 / 500)) = Inr 2000000"
  by (simp add: ns_of_seconds_def)

lemma example_single_fields:
  "sg_arm example_single = Some (control_new None None ROLE_FOLLOWER ''right_arm'', system_state_new 0 0)"
  "tb_get_latest (sg_buffer example_single) = Some example_single_command"
  "tp_enable example_single_command = 1" "tp_estop example_single_command = 0"
  "sc_watchdog_disable_ms (sm_config (sg_safety example_single)) = Fin 100"
  "\<not> sm_estop_triggered (sg_safety example_single)"
  by (simp_all add: example_single_def example_single_command_def teleop_zero_def safety_new_def
      safety_config_default_def)

theorem single_follower_late_packet_faults_witness:
  "\<exists>s' out. single_cycle example_single_config (example_single_env [(2000500, example_single_command)]) example_single
      = Inr (s', out) \<and> sm_state (sg_safety s') = FAULT \<and> out = [Disable_All]"
proof -
  let ?env = "example_single_env [(2000500, example_single_command)]"
  have "single_safety ?env (sg_buffer example_single) (sg_safety example_single)
      = (sg_safety example_single)\<lparr>sm_state := FAULT\<rparr>"
    by (simp add: single_safety_def example_single_fields example_single_env_def safety_update_def
        tb_run_last_time watchdog_check_def safety_watchdog_def single_gap_ms_def dbl_of_word_def)
      (simp add: example_single_def safety_new_def safety_config_default_def)
  then obtain s' out where c: "single_cycle example_single_config ?env example_single = Inr (s', out)"
    by (simp add: single_cycle_def example_single_fields single_drive_def example_single_config_def
        example_single_period)
  have "sm_state (sg_safety s') = FAULT \<and> out = [Disable_All]"
    using single_follower_late_packet_faults [OF example_single_inv c, of example_single_command 100]
    by (simp add: example_single_fields example_single_env_def)
  with c show ?thesis by blast
qed

text \<open>A command without joints leaves the references as they are.\<close>

lemma apply_target_nothing:
  assumes "tp_arm_dof t = 0" and "tp_hand_dof t = 0"
  shows "apply_target rl t rs = Inr rs"
proof -
  have "follower_target rl t rs = Inr []"
    using assms by (simp add: follower_target_def array_prefix_def rl_limit_def Let_def)
  moreover have "retarget [] off vel refs = Inr refs" for off vel refs
  proof -
    have "retarget [] off vel refs = Inr (map (\<lambda>i. refs ! i) [0..<length refs])"
      unfolding retarget_def by (rule res_map_ok) simp
    then show ?thesis by (simp add: map_nth)
  qed
  ultimately show ?thesis
    by (simp add: apply_target_def set_all_references_def)
qed

definition seven_motors :: Readings where
  "seven_motors = \<lparr> rd_arm = replicate 7 \<lparr> ms_position = Fin 0, ms_velocity = Fin 0, ms_effort = Fin 0 \<rparr>,
     rd_gripper = [] \<rparr>"

definition example_single_start :: SingleStartEnv where
  "example_single_start =
     \<lparr> sn_socket = True,
       sn_yaml = Inr (\<lambda>_. Some (\<lambda>_. Some \<lparr> yn_double = Inr (Fin 0), yn_vector = Inr (replicate 8 (Fin 1)),
         yn_string = Inr [], yn_bool = Inr True, yn_int = Inr 0 \<rparr>)),
       sn_arm = \<lparr> ae_dynamics = None, ae_verify = seven_motors, ae_start = seven_motors,
         ae_steps = (\<lambda>_. seven_motors) \<rparr> \<rparr>"

abbreviation example_single_control :: Control where
  "example_single_control \<equiv>
     (let v = replicate 8 (Fin 1) in SetParameter v v v v v v (control_new None None ROLE_FOLLOWER ''right_arm''))"

lemma example_adjust_any:
  assumes "ae_verify e = seven_motors" and "ae_start e = seven_motors" and "ae_steps e = (\<lambda>_. seven_motors)"
  shows "\<exists>rs cmds. adjust_arm e (ct, rs0) = Inr ((ct, rs), cmds) \<and> all_refs rs = replicate 7 (Fin 0)
    \<and> length (rs_reference (ss_arm rs)) = 7 \<and> rs_reference (ss_hand rs) = []"
  by (simp add: adjust_arm_def AdjustPosition_def MoveToPose_def assms seven_motors_def
      move_readings_def without_effort_def NMOTORS_def set_all_responses_def set_all_references_def
      all_refs_def sys_get_all_references_def)
    (simp add: gripper_motor_to_joint_def arm_motor_to_joint_def Let_def)

lemma example_single_started:
  "\<exists>cmds cfg s0 rs. single_follower_args [''--urdf'', ''arm.urdf''] = Inr (single_follower_args_default\<lparr>sf_urdf := ''arm.urdf''\<rparr>)
    \<and> single_follower_start (single_follower_args_default\<lparr>sf_urdf := ''arm.urdf''\<rparr>) example_single_start
        = Inr (cmds, Some (cfg, s0))
    \<and> s0 = \<lparr> sg_exited = False, sg_keep_running = True, sg_buffer = tb_new,
           sg_safety = safety_new safety_config_default, sg_arm = Some (example_single_control, rs) \<rparr>
    \<and> sk_period_s cfg = Fin (1 / 500) \<and> rl_effective (sk_limiter cfg) = Fin (3 / 1000)
    \<and> all_refs rs = replicate 7 (Fin 0)
    \<and> length (rs_reference (ss_arm rs)) = 7 \<and> rs_reference (ss_hand rs) = []"
proof -
  have args: "single_follower_args [''--urdf'', ''arm.urdf''] = Inr (single_follower_args_default\<lparr>sf_urdf := ''arm.urdf''\<rparr>)"
    by (simp add: single_follower_args_def single_follower_option_def)
  have dyn: "ae_dynamics (sn_arm example_single_start) = None"
    by (simp add: example_single_start_def)
  have steps: "ae_verify (sn_arm example_single_start) = seven_motors" "ae_start (sn_arm example_single_start) = seven_motors"
    "ae_steps (sn_arm example_single_start) = (\<lambda>_. seven_motors)"
    by (simp_all add: example_single_start_def)
  obtain rs cmds where "adjust_arm (sn_arm example_single_start) (example_single_control,
      system_state_new (length (rd_arm (ae_verify (sn_arm example_single_start))))
        (length (rd_gripper (ae_verify (sn_arm example_single_start)))))
      = Inr ((example_single_control, rs), cmds)"
    and len: "all_refs rs = replicate 7 (Fin 0)" "length (rs_reference (ss_arm rs)) = 7" "rs_reference (ss_hand rs) = []"
    using example_adjust_any [OF steps] by blast
  then have "single_follower_arm (\<lambda>_. Some (\<lambda>_. Some \<lparr> yn_double = Inr (Fin 0), yn_vector = Inr (replicate 8 (Fin 1)),
         yn_string = Inr [], yn_bool = Inr True, yn_int = Inr 0 \<rparr>)) (sn_arm example_single_start)
      = Inr ((example_single_control, rs), initialize_openarm DEFAULT_MOTOR_CONFIG @ cmds)"
    by (simp add: single_follower_arm_def six_vectors_def yaml_get_def yaml_get_node_def dyn Let_def)
  moreover have "sn_socket example_single_start" by (simp add: example_single_start_def)
  moreover have "sn_yaml example_single_start = Inr (\<lambda>_. Some (\<lambda>_. Some \<lparr> yn_double = Inr (Fin 0),
      yn_vector = Inr (replicate 8 (Fin 1)), yn_string = Inr [], yn_bool = Inr True, yn_int = Inr 0 \<rparr>))"
    by (simp add: example_single_start_def)
  ultimately show ?thesis
    using args len by (simp add: single_follower_start_def single_follower_args_default_def udp_start_def
        udp_start_internal_def udp_receiver_new_def yaml_load_def rl_effective_def safety_config_default_def)
qed

theorem single_follower_moves_only_when_allowed_witness:
  "\<exists>cmds cfg s0 s' out ps as env bs s1 out1 p. single_follower_start
      (single_follower_args_default\<lparr>sf_urdf := ''arm.urdf''\<rparr>) example_single_start = Inr (cmds, Some (cfg, s0))
    \<and> single_run cfg [Single_Packet 1000000 example_single_command,
        Single_Cycle \<lparr> sy_now = 2000000, sy_during = [], sy_readings = seven_motors \<rparr>] s0 = Inr (s', out)
    \<and> Arm_Mit ps \<in> set out \<and> single_run cfg as s0 = Inr (s1, out1)
    \<and> tb_get_latest (sg_buffer s1) = Some p \<and> tp_enable p \<noteq> 0"
proof -
  let ?env = "\<lparr> sy_now = 2000000, sy_during = [], sy_readings = seven_motors \<rparr>"
  let ?es = "[Single_Packet 1000000 example_single_command, Single_Cycle ?env]"
  obtain cmds cfg s0 rs where a: "single_follower_args [''--urdf'', ''arm.urdf'']
        = Inr (single_follower_args_default\<lparr>sf_urdf := ''arm.urdf''\<rparr>)"
    and start: "single_follower_start (single_follower_args_default\<lparr>sf_urdf := ''arm.urdf''\<rparr>) example_single_start
        = Inr (cmds, Some (cfg, s0))"
    and s0: "s0 = \<lparr> sg_exited = False, sg_keep_running = True, sg_buffer = tb_new,
        sg_safety = safety_new safety_config_default, sg_arm = Some (example_single_control, rs) \<rparr>"
    and cfg: "sk_period_s cfg = Fin (1 / 500)"
    and rs: "length (rs_reference (ss_arm rs)) = 7" "rs_reference (ss_hand rs) = []"
    using example_single_started by blast
  let ?b = "tb_update 1000000 example_single_command tb_new"
  have ct: "ct_role example_single_control = ROLE_FOLLOWER" "length (ct_Kp example_single_control) = 8"
    "length (ct_Kd example_single_control) = 8" "ct_dynamics_f example_single_control = None"
    by (simp_all add: Let_def SetParameter_def control_new_def SetEffortLimits_def)
  have "tb_last_receive_time_ns ?b = 1000000"
    by (simp add: tb_update_def Let_def)
  then have safety: "single_safety ?env ?b (safety_new safety_config_default)
      = (safety_new safety_config_default)\<lparr>sm_state := ACTIVE\<rparr>"
    by (simp add: single_safety_def single_gap_ms_def dbl_of_word_def safety_update_def example_single_fields
        safety_new_def safety_initial_state_def safety_config_default_def watchdog_check_def safety_watchdog_def)
  have dof: "tp_arm_dof (teleop_doubles example_single_command) = 0" "tp_hand_dof (teleop_doubles example_single_command) = 0"
    by (simp_all add: teleop_doubles_def example_single_command_def teleop_zero_def)
  obtain arm hand where step: "follower_step seven_motors example_single_control rs
      = Inr (example_single_control, store_responses seven_motors rs, [Arm_Mit arm, Gripper_Mit hand, Recv_All (Some 200)])"
    using follower_step_returns [of rs example_single_control seven_motors] rs ct
    by (auto simp: seven_motors_def)
  have drive: "single_drive (sk_limiter cfg) ACTIVE (Some (teleop_doubles example_single_command)) seven_motors
      example_single_control rs
    = Inr (example_single_control, store_responses seven_motors rs, [Arm_Mit arm, Gripper_Mit hand, Recv_All (Some 200)])"
    unfolding single_drive_def using step
    by (simp add: apply_target_nothing [OF dof] follower_role_step [OF ct(1)] del: Let_def)
  have "\<exists>s'. single_run cfg ?es s0 = Inr (s', [Arm_Mit arm, Gripper_Mit hand, Recv_All (Some 200)])"
    using safety drive by (simp add: single_run_def s0 single_cycle_def cfg example_single_period)
  then obtain s' where r: "single_run cfg ?es s0 = Inr (s', [Arm_Mit arm, Gripper_Mit hand, Recv_All (Some 200)])" ..
  from single_follower_moves_only_when_allowed [OF a start r, of arm] start r show ?thesis
    by fastforce
qed

end
