(* ===== verification/Teleop_Single.thy ===== *)
theory Teleop_Single
  imports Command_Tracking Single_Leader Single_Follower
begin

text \<open>
  The pair of single-arm applications as one system: \<open>src/apps/wifi_single_leader.cpp\<close> on one
  machine, \<open>src/apps/wifi_single_follower.cpp\<close> on another, the network between them. What the
  follower's motors do is traced back to what the leader's arm did.
\<close>

section \<open>The system\<close>

fun single_packets :: "single_event \<Rightarrow> (ArmSide \<times> u64 TeleopPacket) list" where
  "single_packets (Single_Packet now p) = [(RIGHT, p)]"
| "single_packets Single_Signal = []"
| "single_packets (Single_Cycle env) = map (\<lambda>x. (RIGHT, snd x)) (sy_during env)"

definition single_pair ::
    "SingleLeaderArgs \<Rightarrow> SingleConfig \<Rightarrow>
     (SingleLeader, single_leader_event, single_leader_output, SingleFollower, single_event, can_command,
      u64 TeleopPacket) Link" where
  "single_pair la cfg =
     \<lparr> ln_send = single_leader_react la, ln_sender_exited = sq_exited,
       ln_commands = (\<lambda>out. map (Pair RIGHT) (single_commands out)),
       ln_receive = single_react cfg, ln_receiver_exited = sg_exited, ln_packets = single_packets,
       ln_accepts = teleop_acceptable, ln_parse = teleop_of_bytes \<rparr>"

lemma single_pair_simps [simp]:
  "ln_send (single_pair la cfg) = single_leader_react la" "ln_sender_exited (single_pair la cfg) = sq_exited"
  "ln_commands (single_pair la cfg) out = map (Pair RIGHT) (single_commands out)"
  "ln_receive (single_pair la cfg) = single_react cfg" "ln_receiver_exited (single_pair la cfg) = sg_exited"
  "ln_packets (single_pair la cfg) = single_packets" "ln_accepts (single_pair la cfg) = teleop_acceptable"
  "ln_parse (single_pair la cfg) = teleop_of_bytes"
  by (simp_all add: single_pair_def)

text \<open>Datagrams that an iteration of the leader, reached from its start, has sent.\<close>

definition single_sent ::
    "SingleLeaderArgs \<Rightarrow> SingleLeader \<Rightarrow> SingleLeader \<Rightarrow> SingleLeaderEnv \<Rightarrow> SingleLeader \<Rightarrow> u8 list \<Rightarrow> bool" where
  "single_sent la l0 s env s' d \<longleftrightarrow> reached (single_leader_react la) sq_exited l0 s \<and> \<not> sq_exited s
     \<and> (\<exists>out. single_leader_cycle la env s = Inr (s', out) \<and> d \<in> set (single_commands out))"

definition single_stored :: "SingleFollower \<Rightarrow> ArmSide \<Rightarrow> u64 TeleopPacket \<Rightarrow> bool" where
  "single_stored r side p \<longleftrightarrow> side = RIGHT \<and> tb_get_latest (sg_buffer r) = Some p"

lemma tb_run_latest_from:
  "tb_get_latest (tb_run ps b) = Some p \<Longrightarrow> tb_get_latest b = Some p \<or> p \<in> snd ` set ps"
  by (induction ps rule: rev_induct) (auto simp: tb_run_def)

lemma single_react_stored:
  assumes "single_react cfg f r = Inr (r', frames)" and "single_stored r' side p"
  shows "single_stored r side p \<or> (side, p) \<in> set (single_packets f)"
proof (cases f)
  case (Single_Cycle env)
  have "sg_buffer r' = sg_buffer r \<or> sg_buffer r' = tb_run (sy_during env) (sg_buffer r)"
    using assms(1) Single_Cycle single_cycle_parts [of cfg env r r' frames] by (auto split: if_splits)
  with assms(2) tb_run_latest_from [of "sy_during env" "sg_buffer r" p] show ?thesis
    by (auto simp: single_stored_def Single_Cycle image_iff)
qed (use assms in \<open>auto simp: single_stored_def\<close>)

lemma single_leader_react_sent:
  assumes "single_leader_react la e s = Inr (s', out)" and "d \<in> set (single_commands out)"
  shows "\<exists>env. single_leader_cycle la env s = Inr (s', out)"
  using assms by (cases e) (auto split: if_splits)

text \<open>The pair satisfies the interface of the command channel.\<close>

interpretation sp: command_link "single_pair la cfg"
    "reached (single_leader_react la) sq_exited l0"
    "\<lambda>side d. \<exists>s env s'. single_sent la l0 s env s' d" single_inv single_stored for la cfg l0
proof unfold_locales
  show "ln_accepts (single_pair la cfg) d0 \<Longrightarrow> within_burst d0 d1 \<Longrightarrow> ln_accepts (single_pair la cfg) d1 \<Longrightarrow> d1 = d0"
    for d0 d1 using teleop_acceptable_burst by auto
next
  fix s s' :: SingleLeader and e out
  assume r: "\<not> ln_sender_exited (single_pair la cfg) s" "ln_send (single_pair la cfg) e s = Inr (s', out)"
    "reached (single_leader_react la) sq_exited l0 s"
  then show "reached (single_leader_react la) sq_exited l0 s'"
    using reached_step by fastforce
  fix side d
  assume "(side, d) \<in> set (ln_commands (single_pair la cfg) out)"
  then have d: "d \<in> set (single_commands out)" by auto
  then obtain env where c: "single_leader_cycle la env s = Inr (s', out)"
    using single_leader_react_sent [of la e s s' out d] r(2) by auto
  then have "teleop_acceptable d"
    using single_leader_cycle_parts [OF c] d by (auto split: if_splits)
  with c d r show "ln_accepts (single_pair la cfg) d \<and> (\<exists>s env s'. single_sent la l0 s env s' d)"
    by (auto simp: single_sent_def)
next
  fix r r' :: SingleFollower and f frames
  assume r: "ln_receive (single_pair la cfg) f r = Inr (r', frames)"
  then show "single_inv r \<Longrightarrow> single_inv r'" using single_react_inv by simp
  show "single_stored r' side p \<Longrightarrow> single_stored r side p \<or> (side, p) \<in> set (ln_packets (single_pair la cfg) f)"
    for side p using single_react_stored r by simp
qed

section \<open>What the datagrams of an iteration carry\<close>

lemma single_sent_says:
  "single_sent la l0 s env s' d \<Longrightarrow> says (sq_seq s) RIGHT False (sx_enable la) (teleop_of_bytes d)"
  by (auto simp: single_sent_def dest!: single_leader_cycle_parts split: if_splits)

lemma single_sent_posture:
  assumes "single_sent la l0 s env s' d" and "sq_arm s' = Some (ct, rs)"
  shows "posture (teleop_of_bytes d) = map over_wire (measured rs)"
proof -
  obtain out where c: "single_leader_cycle la env s = Inr (s', out)" and d: "d \<in> set (single_commands out)"
    using assms(1) by (auto simp: single_sent_def)
  then obtain s1 p o1 where j: "single_joints env s = Inr (s1, p, o1)"
    by (auto simp: single_leader_cycle_def res_bind_eq_Inr)
  let ?p = "address_command (sq_seq s1) RIGHT UNILATERAL (sx_enable la) p"
  let ?e = "teleop_encode (sv_send_time env) (teleop_bits ?p)"
  obtain x ok m where u: "udp_send (sv_sent env) ?e (sq_sender s1) = (x, ok, m)" by (metis prod_cases3)
  have out: "sq_arm s' = sq_arm s1" "out = o1 @ (case m of Some d \<Rightarrow> [Single_Command d] | None \<Rightarrow> [])"
    using c j u by (auto simp: single_leader_cycle_def res_bind_eq_Inr)
  have "d = teleop_bytes ?e"
    using d out(2) udp_send_sends(1) [OF u] single_joints_parts [OF j] by (auto split: if_splits)
  moreover have "p = fill_command (rs_response (ss_arm rs)) (rs_response (ss_hand rs)) (teleop_zero (Fin 0))"
    using j assms(2) out(1)
    by (auto simp: single_joints_def res_bind_eq_Inr split: option.splits)
  ultimately show ?thesis by (simp add: posture_of_command measured_def)
qed

text \<open>With hardware the leader's arm stays; only an iteration changes it.\<close>

lemma single_leader_react_arm:
  "single_leader_react la e s = Inr (s', out) \<Longrightarrow> sq_arm s' = None \<longleftrightarrow> sq_arm s = None"
  by (cases e)
    (auto simp: single_leader_cycle_def single_joints_def res_bind_eq_Inr Let_def split_beta
      split: if_splits option.splits)

lemma single_leader_start_arm:
  "single_leader_start la env = Inr (cmds, Some l0) \<Longrightarrow> \<not> sx_mock la \<Longrightarrow> sq_arm l0 \<noteq> None"
  by (auto simp: single_leader_start_def Let_def res_bind_eq_Inr split: if_splits)

lemma single_sent_arm:
  assumes "single_sent la l0 s env s' d" and "sq_arm l0 \<noteq> None"
  shows "sq_arm s' \<noteq> None"
proof -
  obtain es out where r: "app_run (single_leader_react la) sq_exited es l0 = Inr (s, out)"
    using assms(1) by (auto simp: single_sent_def reached_def)
  have "(sq_arm s = None) = (sq_arm l0 = None)"
    by (rule app_run_keeps [OF r]) (rule single_leader_react_arm)
  moreover have "sq_arm s' = None \<longleftrightarrow> sq_arm s = None"
    using assms(1)
    by (auto simp: single_sent_def single_leader_cycle_def single_joints_def res_bind_eq_Inr Let_def split_beta
        split: option.splits)
  ultimately show ?thesis using assms(2) by simp
qed

lemma single_pair_promised:
  assumes "single_follower_args argv = Inr a" and "single_follower_start a env0 = Inr (cmds, Some (cfg, r0))"
    and "link_reach (single_pair la cfg) (l0, r0, []) (l, r, w)"
  shows "single_inv r"
    and "tb_get_latest (sg_buffer r) = Some p \<Longrightarrow>
      \<exists>d s lenv s'. (RIGHT, d) \<in> set w \<and> p = teleop_of_bytes d \<and> single_sent la l0 s lenv s' d"
proof -
  have inv: "single_inv r0" using single_start_inv [OF assms(2)] single_args_enable [OF assms(1)] by simp
  have new: "\<forall>side p. \<not> single_stored r0 side p"
    using assms(2) by (auto simp: single_follower_start_def Let_def res_bind_eq_Inr single_stored_def split: if_splits)
  note facts = assms(3) reached_start inv new
  show "single_inv r" using sp.reach_inv [OF facts] by blast
  show "tb_get_latest (sg_buffer r) = Some p \<Longrightarrow>
      \<exists>d s lenv s'. (RIGHT, d) \<in> set w \<and> p = teleop_of_bytes d \<and> single_sent la l0 s lenv s' d"
    using sp.stored_promised [OF facts, of RIGHT p] by (auto simp: single_stored_def)
qed

section \<open>Properties\<close>

text \<open>
  C21: the single arm moves only on its leader's word. Take both programs from their starts, with any
  interleaving of their events and a network that loses, repeats, delays, reorders and damages
  datagrams within four bytes. When the follower sends a motion frame, the leader was started with
  the enable, no stop is latched, the stream is not reported broken, and the newest command the follower holds is,
  bit by bit, one that an iteration of the leader has sent.
\<close>

theorem single_pair_moves_on_command:
  assumes "single_follower_args argv = Inr a" and "single_follower_start a env0 = Inr (cmds, Some (cfg, r0))"
    and "link_reach (single_pair la cfg) (l0, r0, []) (l, r, w)"
    and "single_cycle cfg env r = Inr (r', out)" and "Arm_Mit ps \<in> set out"
  shows "sx_enable la \<and> \<not> sm_estop_triggered (sg_safety r)
    \<and> watchdog_check (safety_watchdog (sm_config (sg_safety r)))
        (single_gap_ms (sy_now env) (tb_last_receive_time_ns (tb_run (sy_during env) (sg_buffer r)))) \<noteq> DISABLE
    \<and> (\<exists>d s lenv s'. (RIGHT, d) \<in> set w \<and> single_sent la l0 s lenv s' d
        \<and> tb_get_latest (sg_buffer r) = Some (teleop_of_bytes d))"
proof -
  note promised = single_pair_promised [OF assms(1-3)]
  obtain p where p: "tb_get_latest (sg_buffer r) = Some p" "\<not> sm_estop_triggered (sg_safety r)" "tp_enable p \<noteq> 0"
    "watchdog_check (safety_watchdog (sm_config (sg_safety r)))
      (single_gap_ms (sy_now env) (tb_last_receive_time_ns (tb_run (sy_during env) (sg_buffer r)))) \<noteq> DISABLE"
    using single_cycle_motion [OF assms(4) promised(1) assms(5)] by blast
  obtain d s lenv s' where d: "(RIGHT, d) \<in> set w" "p = teleop_of_bytes d" "single_sent la l0 s lenv s' d"
    using promised(2) [OF p(1)] by blast
  with p single_sent_says [OF d(3)] show ?thesis by (auto simp: says_def split: if_splits)
qed

text \<open>
  C22: the follower arm tracks the leader arm. In the same system, with hardware on the leader's
  side: the positions in a motion frame are the follower's new references, and these are the old ones
  in HOLD, and otherwise the old ones moved, by the rate limiter, towards positions that the leader
  read from its own motors in an iteration it has sent.
\<close>

theorem single_pair_tracks_leader:
  assumes "single_follower_args argv = Inr a" and "single_follower_start a env0 = Inr (cmds, Some (cfg, r0))"
    and "single_leader_start la lenv0 = Inr (lcmds, Some l0)" and "\<not> sx_mock la"
    and "link_reach (single_pair la cfg) (l0, r0, []) (l, r, w)"
    and "single_cycle cfg env r = Inr (r', out)" and "Arm_Mit ps \<in> set out"
  shows "\<exists>ct rs ct' rs' d s lenv s' lct lrs. sg_arm r = Some (ct, rs) \<and> sg_arm r' = Some (ct', rs')
    \<and> (RIGHT, d) \<in> set w \<and> single_sent la l0 s lenv s' d \<and> sq_arm s' = Some (lct, lrs)
    \<and> map mp_q ps = arm_positions rs'
    \<and> all_refs rs' = (if sm_state (sg_safety r') = HOLD then all_refs rs
        else tracked (sk_limiter cfg) (map over_wire (measured lrs)) (all_refs rs))"
proof -
  note promised = single_pair_promised [OF assms(1,2,5)] and parts = single_cycle_parts [OF assms(6)]
  obtain ct rs ct' rs' where arm: "sg_arm r = Some (ct, rs)" "sg_arm r' = Some (ct', rs')"
    and d: "single_drive (sk_limiter cfg) (sm_state (sg_safety r'))
        (map_option teleop_doubles (tb_get_latest (sg_buffer r))) (sy_readings env) ct rs = Inr (ct', rs', out)"
    using parts assms(7) by (cases "sg_arm r") auto
  have ct: "ct_role ct = ROLE_FOLLOWER" "\<not> ct_follower_gravity_ff ct"
    using promised(1) arm(1) by (simp_all add: single_inv_def)
  obtain p where p: "tb_get_latest (sg_buffer r) = Some p"
    using single_cycle_motion [OF assms(6) promised(1) assms(7)] by blast
  obtain m s lenv s' where m: "(RIGHT, m) \<in> set w" "p = teleop_of_bytes m" "single_sent la l0 s lenv s' m"
    using promised(2) [OF p] by blast
  obtain lct lrs where l: "sq_arm s' = Some (lct, lrs)"
    using single_sent_arm [OF m(3) single_leader_start_arm [OF assms(3,4)]] by auto
  have "map mp_q ps = arm_positions rs'
      \<and> all_refs rs' = (if sm_state (sg_safety r') = HOLD then all_refs rs
          else tracked (sk_limiter cfg) (map over_wire (measured lrs)) (all_refs rs))"
    using drive_arm_tracks [OF d [unfolded single_drive_eq [OF ct(2)]] ct(1) assms(7) p]
      single_sent_posture [OF m(3) l] m(2) by simp
  with arm m(1,3) l show ?thesis
    by (intro exI [of _ ct] exI [of _ rs] exI [of _ ct'] exI [of _ rs'] exI [of _ m] exI [of _ s]
        exI [of _ lenv] exI [of _ s'] exI [of _ lct] exI [of _ lrs]) simp
qed

section \<open>Example\<close>

text \<open>
  Both arms start with their seven joints at zero; the leader's is then moved to one radian, one
  iteration of the leader sends that, the datagram arrives, and the follower takes its first step.
\<close>

definition one_radian :: Readings where
  "one_radian = \<lparr> rd_arm = replicate 7 \<lparr> ms_position = Fin 1, ms_velocity = Fin 0, ms_effort = Fin 0 \<rparr>, rd_gripper = [] \<rparr>"

definition example_leader_args :: SingleLeaderArgs where
  "example_leader_args = single_leader_args_default\<lparr>sx_enable := True, sx_urdf := ''arm.urdf''\<rparr>"

definition example_single_leader_start :: SingleLeaderStartEnv where
  "example_single_leader_start =
     \<lparr> sm_yaml = sn_yaml example_single_start,
       sm_arm = (sn_arm example_single_start)\<lparr>ae_dynamics := Some \<lparr> dy_joints = 7, dy_gravity = (\<lambda>q. q), dy_coriolis = (\<lambda>q dq. q) \<rparr>\<rparr>,
       sm_sender = \<lparr> us_socket_ok = True, us_target_ok = True, us_sent_count = 0 \<rparr> \<rparr>"

definition example_leader_env :: SingleLeaderEnv where
  "example_leader_env = \<lparr> sv_readings = one_radian, sv_system_now = 7, sv_send_time = 9, sv_sent = 224 \<rparr>"

lemma example_single_leader_started:
  "\<exists>cmds l0 ct rs. single_leader_start example_leader_args example_single_leader_start = Inr (cmds, Some l0)
    \<and> sq_arm l0 = Some (ct, rs) \<and> sends (sq_sender l0) \<and> \<not> sq_exited l0 \<and> sq_keep_running l0
    \<and> ct_role ct = ROLE_LEADER \<and> friction_params_ok ct 7 \<and> dynamics_ok (ct_dynamics_l ct) 7"
proof -
  let ?e = "sm_arm example_single_leader_start"
  let ?v = "replicate 8 (Fin 1)"
  let ?ct = "SetParameter ?v ?v ?v ?v ?v ?v (control_new (ae_dynamics ?e) None ROLE_LEADER ''right_arm'')"
  have "ae_verify ?e = seven_motors" "ae_start ?e = seven_motors" "ae_steps ?e = (\<lambda>_. seven_motors)"
    by (simp_all add: example_single_leader_start_def example_single_start_def)
  from example_adjust_any [OF this] obtain rs cmds where "adjust_arm ?e (?ct, system_state_new
      (length (rd_arm (ae_verify ?e))) (length (rd_gripper (ae_verify ?e)))) = Inr ((?ct, rs), cmds)"
    by blast
  moreover have "six_vectors (\<lambda>_. Some (\<lambda>_. Some \<lparr> yn_double = Inr (Fin 0), yn_vector = Inr ?v,
      yn_string = Inr [], yn_bool = Inr True, yn_int = Inr 0 \<rparr>)) ''LeaderArmParam'' = Inr (?v, ?v, ?v, ?v, ?v, ?v)"
    by (simp add: six_vectors_def yaml_get_def yaml_get_node_def)
  moreover have "ct_role ?ct = ROLE_LEADER" "friction_params_ok ?ct 7" "dynamics_ok (ct_dynamics_l ?ct) 7"
    by (simp_all add: SetParameter_def control_new_def SetEffortLimits_def friction_params_ok_def dynamics_ok_def
        example_single_leader_start_def)
  moreover have "\<not> sx_mock example_leader_args" "sx_urdf example_leader_args \<noteq> []"
    "sm_yaml example_single_leader_start = Inr (\<lambda>_. Some (\<lambda>_. Some \<lparr> yn_double = Inr (Fin 0), yn_vector = Inr ?v,
      yn_string = Inr [], yn_bool = Inr True, yn_int = Inr 0 \<rparr>))"
    "sends (sm_sender example_single_leader_start)"
    by (simp_all add: example_leader_args_def single_leader_args_default_def example_single_leader_start_def
        example_single_start_def sends_def)
  ultimately show ?thesis
    by (simp add: single_leader_start_def single_leader_arm_def yaml_load_def)
qed

lemma one_radian_posture: "map over_wire (measured (store_responses one_radian rs)) = replicate 7 (Fin 1)"
  by (simp add: measured_def sent_positions_def store_responses_def set_all_responses_def one_radian_def
      arm_motor_to_joint_def gripper_motor_to_joint_def over_wire_one)

text \<open>One iteration of the leader: what it sends, and what is in it.\<close>

lemma example_single_sent:
  "\<exists>cmds l0 l1 out d. single_leader_start example_leader_args example_single_leader_start = Inr (cmds, Some l0)
    \<and> single_leader_react example_leader_args (Single_Leader_Cycle example_leader_env) l0 = Inr (l1, out)
    \<and> \<not> sq_exited l0 \<and> single_commands out = [d] \<and> teleop_acceptable d
    \<and> teleop_wf (teleop_of_bytes d) \<and> tp_enable (teleop_of_bytes d) = 1 \<and> tp_estop (teleop_of_bytes d) = 0
    \<and> tp_arm_dof (teleop_of_bytes d) = 7 \<and> tp_hand_dof (teleop_of_bytes d) = 0
    \<and> posture (teleop_of_bytes d) = replicate 7 (Fin 1)"
proof -
  obtain cmds l0 ct rs where start: "single_leader_start example_leader_args example_single_leader_start
        = Inr (cmds, Some l0)"
      and l0: "sq_arm l0 = Some (ct, rs)" "sends (sq_sender l0)" "\<not> sq_exited l0" "sq_keep_running l0"
      and ct: "ct_role ct = ROLE_LEADER" "friction_params_ok ct 7" "dynamics_ok (ct_dynamics_l ct) 7"
    using example_single_leader_started by blast
  have rd: "length (rd_arm one_radian) = 7" "rd_gripper one_radian = []" "sv_readings example_leader_env = one_radian"
    by (simp_all add: one_radian_def example_leader_env_def)
  obtain ct' arm hand where step: "unilateral_step one_radian ct rs
      = Inr (ct', store_responses one_radian rs, [Arm_Mit arm, Gripper_Mit hand, Recv_All (Some 200)])"
    using leader_step_returns [of ct one_radian None rs] ct rd by (auto simp: unilateral_step_def)
  let ?rs = "store_responses one_radian rs"
  let ?p = "fill_command (rs_response (ss_arm ?rs)) (rs_response (ss_hand ?rs)) (teleop_zero (Fin 0))"
  let ?e = "teleop_encode 9 (teleop_bits (address_command (sq_seq l0) RIGHT UNILATERAL True ?p))"
  let ?d = "teleop_bytes ?e"
  obtain x ok m where u: "udp_send 224 ?e (sq_sender l0) = (x, ok, m)" by (metis prod_cases3)
  have "m = Some ?d" using udp_send_sends(1) [OF u] l0(2) by simp
  moreover have "ns_of_seconds (Fin 1 div sx_rate_hz example_leader_args) = Inr 2000000" "sx_enable example_leader_args"
    "sv_send_time example_leader_env = 9" "sv_sent example_leader_env = 224"
    by (simp_all add: ns_of_seconds_def example_leader_args_def single_leader_args_default_def example_leader_env_def)
  ultimately obtain l1 out where cycle: "single_leader_cycle example_leader_args example_leader_env l0 = Inr (l1, out)"
      "single_commands out = [?d]"
    using u step rd l0(1) by (simp add: single_leader_cycle_def single_joints_def Let_def)
  have "length (rs_response (ss_arm ?rs)) = 7" "length (rs_response (ss_hand ?rs)) = 0"
    using rd by (simp_all add: store_responses_def set_all_responses_def)
  then have "tp_arm_dof ?e = 7" "tp_hand_dof ?e = 0" by (simp_all only: command_counts) simp_all
  moreover have "posture ?e = replicate 7 (Fin 1)"
    using one_radian_posture [of rs] unfolding posture_of_command measured_def by simp
  moreover have "teleop_acceptable ?d \<and> says (sq_seq l0) RIGHT False True (teleop_of_bytes ?d)"
    using address_command_says [of ?p UNILATERAL 9 "sq_seq l0" RIGHT True] by simp
  ultimately show ?thesis
    using start cycle l0(3,4)
    by (intro exI [of _ cmds] exI [of _ l0] exI [of _ l1] exI [of _ out] exI [of _ ?d])
      (simp add: says_def del: posture_of_command)
qed

abbreviation example_single_args :: SingleFollowerArgs where
  "example_single_args \<equiv> single_follower_args_default\<lparr>sf_urdf := ''arm.urdf''\<rparr>"

definition example_step_env :: SingleCycleEnv where
  "example_step_env = \<lparr> sy_now = 2000000, sy_during = [], sy_readings = seven_motors \<rparr>"

lemma example_single_step:
  assumes "r = \<lparr> sg_exited = False, sg_keep_running = True, sg_buffer = tb_update 1000000 p tb_new,
      sg_safety = safety_new safety_config_default, sg_arm = Some (example_single_control, rs) \<rparr>"
    and "sk_period_s cfg = Fin (1 / 500)"
    and "length (rs_reference (ss_arm rs)) = 7" and "rs_reference (ss_hand rs) = []"
    and "teleop_wf p" and "tp_enable p = 1" and "tp_estop p = 0" and "tp_arm_dof p = 7" and "tp_hand_dof p = 0"
  shows "\<exists>r' arm hand. single_cycle cfg example_step_env r = Inr (r', [Arm_Mit arm, Gripper_Mit hand, Recv_All (Some 200)])
    \<and> sm_state (sg_safety r') = ACTIVE"
proof -
  let ?b = "tb_update 1000000 p tb_new"
  have ct: "ct_role example_single_control = ROLE_FOLLOWER" "length (ct_Kp example_single_control) = 8"
    "length (ct_Kd example_single_control) = 8" "ct_dynamics_f example_single_control = None"
    "\<not> ct_follower_gravity_ff example_single_control"
    by (simp_all add: Let_def SetParameter_def control_new_def SetEffortLimits_def)
  have "tb_last_receive_time_ns ?b = 1000000"
    by (simp add: tb_update_def Let_def)
  then have safety: "single_safety example_step_env ?b (safety_new safety_config_default)
      = (safety_new safety_config_default)\<lparr>sm_state := ACTIVE\<rparr>"
    using assms(6,7)
    by (simp add: single_safety_def single_gap_ms_def dbl_of_word_def safety_update_def example_step_env_def
        safety_new_def safety_initial_state_def safety_config_default_def watchdog_check_def safety_watchdog_def)
  have t: "teleop_wf (teleop_doubles p)" "tp_arm_dof (teleop_doubles p) = 7" "tp_hand_dof (teleop_doubles p) = 0"
    using assms(5,8,9) by (simp_all add: teleop_doubles_def teleop_wf_def)
  let ?mo = "\<lparr> mo_limiter = sk_limiter cfg, mo_gravity_ff = False,
      mo_gravity_ff_scale = ct_follower_gravity_ff_scale example_single_control \<rparr>"
  obtain ct' rs' arm hand where "drive_arm ?mo ACTIVE (Some (teleop_doubles p)) seven_motors example_single_control rs
      = Inr (ct', rs', [Arm_Mit arm, Gripper_Mit hand, Recv_All (Some 200)])"
    using drive_arm_returns [where st = ACTIVE and ct = example_single_control and t = "teleop_doubles p" and rs = rs
        and rd = seven_motors and mo = ?mo] ct t assms(3,4)
    by (auto simp: driven_def live_def seven_motors_def)
  then have "single_drive (sk_limiter cfg) ACTIVE (Some (teleop_doubles p)) seven_motors example_single_control rs
      = Inr (ct', rs', [Arm_Mit arm, Gripper_Mit hand, Recv_All (Some 200)])"
    by (simp only: single_drive_eq [OF ct(5)])
  then show ?thesis
    using safety assms(1,2)
    by (simp add: single_cycle_def example_single_period example_step_env_def [THEN arg_cong [of _ _ sy_during]]
        example_step_env_def [THEN arg_cong [of _ _ sy_readings]])
qed

lemma example_single_pair:
  "\<exists>cmds cfg r0 lcmds l0 l r d ct rs r' arm hand.
     single_follower_args [''--urdf'', ''arm.urdf''] = Inr example_single_args
   \<and> single_follower_start example_single_args example_single_start = Inr (cmds, Some (cfg, r0))
   \<and> single_leader_start example_leader_args example_single_leader_start = Inr (lcmds, Some l0)
   \<and> link_reach (single_pair example_leader_args cfg) (l0, r0, []) (l, r, [(RIGHT, d)])
   \<and> posture (teleop_of_bytes d) = replicate 7 (Fin 1) \<and> rl_effective (sk_limiter cfg) = Fin (3 / 1000)
   \<and> sg_arm r = Some (ct, rs) \<and> all_refs rs = replicate 7 (Fin 0)
   \<and> single_cycle cfg example_step_env r = Inr (r', [Arm_Mit arm, Gripper_Mit hand, Recv_All (Some 200)])
   \<and> sm_state (sg_safety r') = ACTIVE"
proof -
  obtain cmds cfg r0 rs where f: "single_follower_args [''--urdf'', ''arm.urdf''] = Inr example_single_args"
      "single_follower_start example_single_args example_single_start = Inr (cmds, Some (cfg, r0))"
    and r0: "r0 = \<lparr> sg_exited = False, sg_keep_running = True, sg_buffer = tb_new,
        sg_safety = safety_new safety_config_default, sg_arm = Some (example_single_control, rs) \<rparr>"
    and cfg: "sk_period_s cfg = Fin (1 / 500)" "rl_effective (sk_limiter cfg) = Fin (3 / 1000)"
    and rs: "all_refs rs = replicate 7 (Fin 0)" "length (rs_reference (ss_arm rs)) = 7" "rs_reference (ss_hand rs) = []"
    using example_single_started by blast
  obtain lcmds l0 l out d where l: "single_leader_start example_leader_args example_single_leader_start = Inr (lcmds, Some l0)"
      "single_leader_react example_leader_args (Single_Leader_Cycle example_leader_env) l0 = Inr (l, out)"
      "\<not> sq_exited l0" "single_commands out = [d]" "teleop_acceptable d"
    and p: "teleop_wf (teleop_of_bytes d)" "tp_enable (teleop_of_bytes d) = 1" "tp_estop (teleop_of_bytes d) = 0"
      "tp_arm_dof (teleop_of_bytes d) = 7" "tp_hand_dof (teleop_of_bytes d) = 0"
      "posture (teleop_of_bytes d) = replicate 7 (Fin 1)"
    using example_single_sent by blast
  let ?K = "single_pair example_leader_args cfg"
  let ?r = "r0\<lparr>sg_buffer := tb_update 1000000 (teleop_of_bytes d) tb_new\<rparr>"
  have "link_reach ?K (l0, r0, []) (l, r0, [(RIGHT, d)])"
    using link_reach_send [OF link_start, of ?K l0 "Single_Leader_Cycle example_leader_env" l out r0 "[]"] l by simp
  moreover have "arrives ?K [(RIGHT, d)] RIGHT (teleop_of_bytes d)"
    using sent_arrives [of RIGHT d "[(RIGHT, d)]" ?K] l(5) by simp
  ultimately have reach: "link_reach ?K (l0, r0, []) (l, ?r, [(RIGHT, d)])"
    using link_reach_receive [of ?K "(l0, r0, [])" l r0 "[(RIGHT, d)]"
      "Single_Packet 1000000 (teleop_of_bytes d)" ?r "[]"] r0 by simp
  obtain r' arm hand where "single_cycle cfg example_step_env ?r
      = Inr (r', [Arm_Mit arm, Gripper_Mit hand, Recv_All (Some 200)])" "sm_state (sg_safety r') = ACTIVE"
    using example_single_step [of ?r "teleop_of_bytes d" rs cfg] r0 cfg rs p by auto
  moreover have "sg_arm ?r = Some (example_single_control, rs)" using r0 by simp
  ultimately show ?thesis using f l(1) reach p(6) cfg(2) rs(1) by blast
qed

theorem single_pair_moves_on_command_witness:
  "\<exists>cfg l0 r0 l r d r' out arm. link_reach (single_pair example_leader_args cfg) (l0, r0, []) (l, r, [(RIGHT, d)])
    \<and> single_cycle cfg example_step_env r = Inr (r', out) \<and> Arm_Mit arm \<in> set out
    \<and> tb_get_latest (sg_buffer r) = Some (teleop_of_bytes d)"
proof -
  obtain cmds cfg r0 l0 l r d r' arm hand where
    s: "single_follower_args [''--urdf'', ''arm.urdf''] = Inr example_single_args"
      "single_follower_start example_single_args example_single_start = Inr (cmds, Some (cfg, r0))"
      "link_reach (single_pair example_leader_args cfg) (l0, r0, []) (l, r, [(RIGHT, d)])"
      "single_cycle cfg example_step_env r = Inr (r', [Arm_Mit arm, Gripper_Mit hand, Recv_All (Some 200)])"
    using example_single_pair by blast
  with single_pair_moves_on_command [OF s, of arm] show ?thesis by fastforce
qed

text \<open>With the leader at one radian, the follower's joints leave zero by three milliradians.\<close>

theorem single_pair_tracks_leader_witness:
  "\<exists>cfg l0 r0 l r d r' out arm. link_reach (single_pair example_leader_args cfg) (l0, r0, []) (l, r, [(RIGHT, d)])
    \<and> single_cycle cfg example_step_env r = Inr (r', out) \<and> Arm_Mit arm \<in> set out
    \<and> (\<exists>ct rs. sg_arm r' = Some (ct, rs) \<and> all_refs rs = replicate 7 (Fin (3 / 1000)))"
proof -
  obtain cmds cfg r0 lcmds l0 l r d ct rs r' arm hand where
    f: "single_follower_args [''--urdf'', ''arm.urdf''] = Inr example_single_args"
      "single_follower_start example_single_args example_single_start = Inr (cmds, Some (cfg, r0))"
    and lead: "single_leader_start example_leader_args example_single_leader_start = Inr (lcmds, Some l0)"
    and reach: "link_reach (single_pair example_leader_args cfg) (l0, r0, []) (l, r, [(RIGHT, d)])"
    and c: "single_cycle cfg example_step_env r = Inr (r', [Arm_Mit arm, Gripper_Mit hand, Recv_All (Some 200)])"
    and facts: "posture (teleop_of_bytes d) = replicate 7 (Fin 1)" "rl_effective (sk_limiter cfg) = Fin (3 / 1000)"
      "sg_arm r = Some (ct, rs)" "all_refs rs = replicate 7 (Fin 0)" "sm_state (sg_safety r') = ACTIVE"
    using example_single_pair by blast
  have hw: "\<not> sx_mock example_leader_args"
    by (simp add: example_leader_args_def single_leader_args_default_def)
  obtain ct' rs' d' s lenv s' lct lrs where new: "sg_arm r' = Some (ct', rs')" "d' = d"
      "single_sent example_leader_args l0 s lenv s' d'" "sq_arm s' = Some (lct, lrs)"
      "all_refs rs' = tracked (sk_limiter cfg) (map over_wire (measured lrs)) (replicate 7 (Fin 0))"
    using single_pair_tracks_leader [OF f lead hw reach c, of arm] facts(3-5) by fastforce
  have "map over_wire (measured lrs) = replicate 7 (Fin 1)"
    using single_sent_posture [OF new(3,4)] facts(1) new(2) by simp
  then have "all_refs rs' = replicate 7 (Fin (3 / 1000))"
    using new(5) facts(2) by (simp add: tracked_limit rl_limit_def rl_limit1_Fin zip_replicate)
  with reach c new(1) show ?thesis by fastforce
qed

end
