(* ===== verification/Follower_Approach.thy ===== *)
theory Follower_Approach
  imports Link_Examples
begin

text \<open>
  Whole runs of the bimanual follower, seen from one arm: its references are an abstract tracker
  that takes one limited step towards a posture for each motion frame sent outside HOLD. With a
  posture that stays, the arm gets there in the number of iterations the limiter's bound allows.
\<close>

section \<open>The tracker\<close>

definition commanded :: "ArmSide \<Rightarrow> FollowerState \<Rightarrow> dbl list" where
  "commanded side s = (case tb_get_latest (side_buffer side s) of Some p \<Rightarrow> posture p | None \<Rightarrow> [])"

definition moves_arm :: "ArmSide \<Rightarrow> FollowerState \<Rightarrow> follower_output list \<Rightarrow> bool" where
  "moves_arm side s' out \<longleftrightarrow>
     list_ex (\<lambda>x. case x of Can sd (Arm_Mit ps) \<Rightarrow> sd = side | _ \<Rightarrow> False) out
     \<and> sm_state (side_safety side s') \<noteq> HOLD"

text \<open>The postures a run drives an arm towards, one for each such iteration.\<close>

fun driven_to :: "FollowerConfig \<Rightarrow> ArmSide \<Rightarrow> follower_event list \<Rightarrow> FollowerState \<Rightarrow> dbl list list" where
  "driven_to cfg side [] s = []"
| "driven_to cfg side (e # es) s =
     (if fo_exited s then []
      else case follower_react cfg e s of
          Inl err \<Rightarrow> []
        | Inr (s', out) \<Rightarrow> (if moves_arm side s' out then [commanded side s] else []) @ driven_to cfg side es s')"

fun detached :: "follower_event \<Rightarrow> bool" where
  "detached (Thread_Done b env) = True"
| "detached _ = False"

lemma moves_arm_iff:
  "moves_arm side s' out \<longleftrightarrow> (\<exists>ps. Can side (Arm_Mit ps) \<in> set out) \<and> sm_state (side_safety side s') \<noteq> HOLD"
  by (auto simp: moves_arm_def list_ex_iff split: follower_output.splits can_command.splits) 
    (metis (no_types, lifting) can_command.exhaust follower_output.exhaust)

section \<open>One event\<close>

text \<open>An iteration without a motion frame leaves the references alone.\<close>

lemma follower_cycle_idle_refs:
  assumes "follower_inv s" and "follower_cycle cfg env s = Inr (s', out)"
    and "\<nexists>ps. Can side (Arm_Mit ps) \<in> set out" and "follower_arm side s = Some (ct, rs)"
  shows "\<exists>ct'. follower_arm side s' = Some (ct', rs)"
proof -
  let ?s = "cycle_safety env (after_requests s)"
  obtain s1 s2 out1 out2 out3 where
    d: "cycle_drive cfg env ?s = Inr (s1, out1)"
    and f: "cycle_feedback cfg env s1 = Inr (s2, out2)" and t: "cycle_telemetry cfg env s2 = Inr (s', out3)"
    and out: "out = snd (recover_request s) @ out1 @ out2 @ out3"
    by (rule follower_cycle_parts [OF assms(2)]) (rule that)
  have old: "follower_arm side ?s = Some (ct, rs)" using assms(4) by (simp add: after_requests_side)
  have "follower_arm side s' = follower_arm side s1"
    using cycle_feedback_buffers [OF f, of side] cycle_telemetry_buffers [OF t, of side]
    by (simp add: follower_arm_def)
  moreover have "\<exists>ct'. follower_arm side s1 = Some (ct', rs)"
  proof (cases "busy ?s")
    case True
    then show ?thesis using d old by (simp add: cycle_drive_busy)
  next
    case False
    obtain rd ct1 rs1 ct' rs' cmds where arm: "follower_arm side ?s = Some (ct1, rs1)" "follower_arm side s1 = Some (ct', rs')"
      and dr: "drive_arm (fc_motion cfg) (sm_state (side_safety side ?s)) (latest_target (side_buffer side ?s)) rd ct1 rs1
          = Inr (ct', rs', cmds)" "can_frames side out1 = set cmds"
      using cycle_drive_arm [OF d False, of side] by blast
    have "\<nexists>ps. Arm_Mit ps \<in> set cmds"
      using assms(3) dr(2) by (auto simp: out can_frames_def)
    then have "\<not> driven (sm_state (side_safety side ?s))"
      using drive_arm_driven [OF dr(1) _ follower_arm_role [OF assms(1)]] old arm(1) assms(4) by fastforce
    then have "rs' = rs1" using dr(1) by (simp add: drive_arm_idle)
    then show ?thesis using arm old by simp
  qed
  ultimately show ?thesis by simp
qed

lemma follower_react_refs:
  assumes "follower_inv s" and "follower_react cfg e s = Inr (s', out)" and "\<not> detached e"
    and "follower_arm side s = Some (ct, rs)"
  shows "\<exists>ct' rs'. follower_arm side s' = Some (ct', rs')
    \<and> all_refs rs' = (if moves_arm side s' out then tracked (mo_limiter (fc_motion cfg)) (commanded side s) (all_refs rs)
        else all_refs rs)"
proof (cases "\<exists>env. e = Cycle env \<and> fo_keep_running s")
  case True
  then obtain env where c: "follower_cycle cfg env s = Inr (s', out)" using assms(2) by auto
  show ?thesis
  proof (cases "\<exists>ps. Can side (Arm_Mit ps) \<in> set out")
    case True
    then obtain ps where ps: "Can side (Arm_Mit ps) \<in> set out" ..
    obtain p where p: "tb_get_latest (side_buffer side s) = Some p"
      using follower_cycle_motion [OF assms(1) c ps] by blast
    from follower_cycle_tracks [OF assms(1) c ps p] assms(4) ps p show ?thesis
      by (auto simp: moves_arm_iff commanded_def)
  next
    case False
    with follower_cycle_idle_refs [OF assms(1) c False assms(4)] show ?thesis
      by (auto simp: moves_arm_iff)
  qed
next
  case False
  have "fo_arms s' = fo_arms s \<and> \<not> moves_arm side s' out"
  proof (cases e)
    case (Packet sd now p)
    with assms(2) show ?thesis by (cases sd) (auto simp: moves_arm_iff)
  next
    case (Line received)
    with assms(2) follower_line_buffers [of side cfg received s] show ?thesis
      by (auto simp: split_beta moves_arm_iff)
  next
    case (Cycle env)
    with assms(2) False show ?thesis by (auto simp: moves_arm_iff follower_shutdown_def)
  qed (use assms in \<open>auto simp: moves_arm_iff estop_both_def\<close>)
  then show ?thesis using assms(4) by (auto simp: follower_arm_def)
qed

section \<open>Runs\<close>

text \<open>The follower refines the tracker.\<close>

lemma follower_run_tracks:
  assumes "follower_inv s" and "follower_run cfg es s = Inr (s', out)" and "\<forall>e \<in> set es. \<not> detached e"
    and "follower_arm side s = Some (ct, rs)"
  shows "\<exists>ct' rs'. follower_arm side s' = Some (ct', rs')
    \<and> all_refs rs' = fold (tracked (mo_limiter (fc_motion cfg))) (driven_to cfg side es s) (all_refs rs)"
  using assms
proof (induction es arbitrary: s out ct rs)
  case (Cons e es)
  show ?case
  proof (cases "fo_exited s")
    case False
    with Cons.prems(2) obtain s1 o1 o2 where r: "follower_react cfg e s = Inr (s1, o1)"
      and rest: "follower_run cfg es s1 = Inr (s', o2)"
      by (auto simp: follower_run_def res_bind_eq_Inr)
    obtain ct1 rs1 where one: "follower_arm side s1 = Some (ct1, rs1)"
      "all_refs rs1 = (if moves_arm side s1 o1 then tracked (mo_limiter (fc_motion cfg)) (commanded side s) (all_refs rs)
        else all_refs rs)"
      using follower_react_refs [OF Cons.prems(1) r _ Cons.prems(4)] Cons.prems(3) by auto
    have "\<exists>ct' rs'. follower_arm side s' = Some (ct', rs')
        \<and> all_refs rs' = fold (tracked (mo_limiter (fc_motion cfg))) (driven_to cfg side es s1) (all_refs rs1)"
      by (rule Cons.IH [OF follower_react_inv [OF r Cons.prems(1)] rest _ one(1)]) (use Cons.prems(3) in simp)
    with one(2) r False show ?thesis by (cases "moves_arm side s1 o1") simp_all
  qed (use Cons.prems in \<open>simp add: follower_run_def\<close>)
qed (simp add: follower_run_def)

lemma tracked_iterate:
  "length refs = length P \<Longrightarrow> fold (tracked rl) (replicate n P) refs = rl_iterate rl P n refs"
  by (induction n arbitrary: refs) (simp_all add: tracked_limit)

text \<open>
  C14: the follower is a posture tracker. In every run from every accepted command line, between
  two completions of operator motions, the references of an arm are those at the beginning, moved by
  one limited step for each iteration that sent a motion frame outside HOLD, towards the posture
  of the newest command at that iteration; packets, operator commands, signals and all other
  iterations do not move them.
\<close>

theorem follower_refines_tracker:
  assumes "follower_args argv = Inr a" and "follower_start a env0 = Inr (cmds, Some (cfg, s0))"
    and "follower_run cfg es0 s0 = Inr (s, out0)"
    and "follower_run cfg es s = Inr (s', out)" and "\<forall>e \<in> set es. \<not> detached e"
    and "follower_arm side s = Some (ct, rs)"
  shows "\<exists>ct' rs'. follower_arm side s' = Some (ct', rs')
    \<and> all_refs rs' = fold (tracked (mo_limiter (fc_motion cfg))) (driven_to cfg side es s) (all_refs rs)"
  by (rule follower_run_tracks [OF follower_reach_inv [OF assms(1-3)] assms(4-6)])

text \<open>
  C13: a driven arm arrives. Take a stretch of a run, after any beginning, in which no operator
  motion (init, goto or recover) completes: such a completion puts the references elsewhere and is
  excluded. Let \<open>n\<close> iterations of it move the arm, that is, send a motion frame outside HOLD, and
  let the newest command be one and the same posture \<open>P\<close> at each of them, with as many joints as
  the arm. If the limiter's bound is finite and positive and every joint starts at most \<open>n\<close> times
  this bound away from \<open>P\<close>, the references at the end are exactly \<open>P\<close>. Packets, operator commands,
  signals and iterations that do not move the arm may occur in between, in any number and order.
\<close>

theorem follower_reaches_posture:
  assumes "follower_args argv = Inr a" and "follower_start a env0 = Inr (cmds, Some (cfg, s0))"
    and "follower_run cfg es0 s0 = Inr (s, out0)"
    and "follower_run cfg es s = Inr (s', out)" and "\<forall>e \<in> set es. \<not> detached e"
    and "follower_arm side s = Some (ct, rs)"
    and "driven_to cfg side es s = replicate n P"
    and "rl_effective (mo_limiter (fc_motion cfg)) = Fin b" and "0 < b" and "length (all_refs rs) = length P"
    and "\<forall>i < length P. all_refs rs ! i = Fin (p i) \<and> P ! i = Fin (q i) \<and> \<bar>q i - p i\<bar> \<le> real n * b"
  shows "\<exists>ct' rs'. follower_arm side s' = Some (ct', rs') \<and> all_refs rs' = P"
proof -
  obtain ct' rs' where r: "follower_arm side s' = Some (ct', rs')"
    "all_refs rs' = fold (tracked (mo_limiter (fc_motion cfg))) (driven_to cfg side es s) (all_refs rs)"
    using follower_run_tracks [OF follower_reach_inv [OF assms(1-3)] assms(4-6)] by blast
  have "rl_iterate (mo_limiter (fc_motion cfg)) P n (all_refs rs) = P"
    by (rule rl_iterate_reaches [OF assms(8,9,10), of p q]) (use assms(11) in auto)
  then have "fold (tracked (mo_limiter (fc_motion cfg))) (replicate n P) (all_refs rs) = P"
    using tracked_iterate [OF assms(10)] by simp
  with r assms(7) show ?thesis by (simp only:) blast
qed

section \<open>An arm that arrives\<close>

text \<open>A command a little off the example's references, and what it says.\<close>

definition example_near :: "u64 TeleopPacket" where
  "example_near = (teleop_zero 0)\<lparr>tp_enable := 1, tp_arm_dof := 7, tp_hand_dof := 1,
     tp_arm_pos := replicate 8 0x3FF0080000000000, tp_hand_pos := [0xBFA5800000000000, 0, 0, 0]\<rparr>"

definition example_near_posture :: "dbl list" where
  "example_near_posture = replicate 7 (Fin (513 / 512)) @ [Fin (- (43 / 1024))]"

lemma example_near_posture: "posture example_near = example_near_posture"
proof -
  have "dbl_of_bits 0x3FF0080000000000 = Fin (513 / 512)" "dbl_of_bits 0xBFA5800000000000 = Fin (- (43 / 1024))"
    by (simp_all add: dbl_of_bits_def ieee_decode_def ieee_bias_def Let_def)
  then show ?thesis
    by (simp add: posture_def example_near_def example_near_posture_def)
qed

lemma example_approach:
  "\<exists>cmds cfg r0 r out ct rs. follower_args [] = Inr follower_args_default
    \<and> follower_start follower_args_default example_arms_start = Inr (cmds, Some (cfg, r0))
    \<and> follower_run cfg [Packet RIGHT 1000000 example_near, Cycle example_follower_cycle] r0 = Inr (r, out)
    \<and> follower_arm RIGHT r0 = Some (ct, rs) \<and> all_refs rs = example_refs
    \<and> driven_to cfg RIGHT [Packet RIGHT 1000000 example_near, Cycle example_follower_cycle] r0
        = replicate 1 example_near_posture
    \<and> rl_effective (mo_limiter (fc_motion cfg)) = Fin (3 / 1000)"
proof -
  obtain cmds cfg r0 where start: "follower_args [] = Inr follower_args_default"
      "follower_start follower_args_default example_arms_start = Inr (cmds, Some (cfg, r0))"
    and ready: "example_ready r0" and cfg: "\<not> fs_enabled (fc_feedback cfg)" "\<not> fc_publish_telemetry cfg"
      "fc_period_s cfg = Fin (1 / 500)" "rl_effective (mo_limiter (fc_motion cfg)) = Fin (3 / 1000)"
    using example_follower_started by blast
  let ?r = "r0\<lparr>fo_buffer_r := tb_update 1000000 example_near tb_new\<rparr>"
  have p: "teleop_wf example_near" "tp_enable example_near = 1" "tp_estop example_near = 0"
    "unat (tp_arm_dof example_near) \<le> 8" "unat (tp_hand_dof example_near) \<le> 4"
    by (simp_all add: example_near_def teleop_zero_def teleop_wf_def)
  obtain r out arm where c: "follower_cycle cfg example_follower_cycle ?r = Inr (r, out)"
      "Can RIGHT (Arm_Mit arm) \<in> set out" "sm_state (side_safety RIGHT r) = ACTIVE"
    using example_follower_moves [OF ready cfg(1-3) p] by blast
  have r0: "fo_buffer_r r0 = tb_new" "\<not> fo_exited r0" "fo_keep_running r0"
    using ready by (simp_all add: example_ready_def)
  have "moves_arm RIGHT r out" using c(2,3) by (auto simp: moves_arm_iff)
  moreover have "commanded RIGHT ?r = example_near_posture"
    by (simp add: commanded_def side_buffer_def example_near_posture)
  ultimately have "driven_to cfg RIGHT [Packet RIGHT 1000000 example_near, Cycle example_follower_cycle] r0
      = replicate 1 example_near_posture"
    using r0 c(1) by (simp add: moves_arm_def [of _ _ "[]"])
  moreover have "follower_run cfg [Packet RIGHT 1000000 example_near, Cycle example_follower_cycle] r0 = Inr (r, out)"
    using r0 c(1) by (simp add: follower_run_def)
  ultimately show ?thesis
    using start ready cfg(4) by (auto simp: example_ready_def follower_arm_def)
qed

theorem follower_reaches_posture_witness:
  "\<exists>cfg r0 r out ct rs. follower_run cfg [Packet RIGHT 1000000 example_near, Cycle example_follower_cycle] r0 = Inr (r, out)
    \<and> follower_arm RIGHT r = Some (ct, rs) \<and> all_refs rs = replicate 7 (Fin (513 / 512)) @ [Fin (- (43 / 1024))]"
proof -
  obtain cmds cfg r0 r out ct rs where
    e: "follower_args [] = Inr follower_args_default"
      "follower_start follower_args_default example_arms_start = Inr (cmds, Some (cfg, r0))"
      "follower_run cfg [Packet RIGHT 1000000 example_near, Cycle example_follower_cycle] r0 = Inr (r, out)"
      "follower_arm RIGHT r0 = Some (ct, rs)" "all_refs rs = example_refs"
      "driven_to cfg RIGHT [Packet RIGHT 1000000 example_near, Cycle example_follower_cycle] r0
        = replicate 1 example_near_posture"
      "rl_effective (mo_limiter (fc_motion cfg)) = Fin (3 / 1000)"
    using example_approach by blast
  let ?p = "\<lambda>i. if i < 7 then 1 else - (55 / 1309)" and ?q = "\<lambda>i. if i < 7 then 513 / 512 else - (43 / 1024)"
  have near: "\<forall>i < length example_near_posture. all_refs rs ! i = Fin (?p i) \<and> example_near_posture ! i = Fin (?q i)
      \<and> \<bar>?q i - ?p i\<bar> \<le> real 1 * (3 / 1000)"
    by (auto simp: e(5) example_near_posture_def example_refs_def nth_append less_Suc_eq)
  have run: "follower_run cfg [] r0 = Inr (r0, [])" by (simp add: follower_run_def)
  have "\<exists>ct' rs'. follower_arm RIGHT r = Some (ct', rs') \<and> all_refs rs' = example_near_posture"
    by (rule follower_reaches_posture [OF e(1,2) run e(3) _ e(4,6,7) _ _ near])
      (simp_all add: e(5) example_near_posture_def example_refs_def)
  then obtain ct' rs' where "follower_arm RIGHT r = Some (ct', rs')" "all_refs rs' = example_near_posture" by blast
  with e(3) show ?thesis unfolding example_near_posture_def by (intro exI conjI)
qed

theorem follower_refines_tracker_witness:
  "\<exists>cfg r0 r out ct rs. follower_run cfg [Packet RIGHT 1000000 example_near, Cycle example_follower_cycle] r0 = Inr (r, out)
    \<and> follower_arm RIGHT r = Some (ct, rs)
    \<and> all_refs rs = tracked (mo_limiter (fc_motion cfg)) (posture example_near) example_refs"
proof -
  obtain cmds cfg r0 r out ct rs where
    e: "follower_args [] = Inr follower_args_default"
      "follower_start follower_args_default example_arms_start = Inr (cmds, Some (cfg, r0))"
      "follower_run cfg [Packet RIGHT 1000000 example_near, Cycle example_follower_cycle] r0 = Inr (r, out)"
      "follower_arm RIGHT r0 = Some (ct, rs)" "all_refs rs = example_refs"
      "driven_to cfg RIGHT [Packet RIGHT 1000000 example_near, Cycle example_follower_cycle] r0
        = replicate 1 example_near_posture"
    using example_approach by blast
  have run: "follower_run cfg [] r0 = Inr (r0, [])" by (simp add: follower_run_def)
  have "\<exists>ct' rs'. follower_arm RIGHT r = Some (ct', rs') \<and> all_refs rs' = fold (tracked (mo_limiter (fc_motion cfg)))
      (driven_to cfg RIGHT [Packet RIGHT 1000000 example_near, Cycle example_follower_cycle] r0) (all_refs rs)"
    by (rule follower_refines_tracker [OF e(1,2) run e(3) _ e(4)]) simp
  then obtain ct' rs' where "follower_arm RIGHT r = Some (ct', rs')"
      "all_refs rs' = tracked (mo_limiter (fc_motion cfg)) (posture example_near) example_refs"
    unfolding e(6) e(5) by (auto simp: example_near_posture)
  with e(3) show ?thesis by (intro exI conjI)
qed

end
