(* ===== verification/Follower_Stop.thy ===== *)
theory Follower_Stop
  imports Link_Examples
begin

text \<open>
  The emergency stop of the bimanual follower over whole runs: once the signal or the operator's
  command has latched it, the control loop of \<open>src/apps/wifi_bimanual_follower.cpp\<close> moves no arm
  until something resets the safety managers.
\<close>

section \<open>The events that stop and the events that reset\<close>

text \<open>The command word of what a client sent.\<close>

definition line_command :: "string option \<Rightarrow> string" where
  "line_command received =
     (case received of
        Some bytes \<Rightarrow> fst (split_command (takeWhile (\<lambda>c. c \<noteq> CHR 0x00) (take 1023 bytes)))
      | None \<Rightarrow> [])"

fun stops :: "follower_event \<Rightarrow> bool" where
  "stops Signal = True"
| "stops (Line received) = (line_command received = ''estop'')"
| "stops _ = False"

text \<open>Both managers are reset on the operator's command and at the end of an operator motion.\<close>

fun resets :: "follower_event \<Rightarrow> bool" where
  "resets (Line received) = (line_command received = ''reset_safety'')"
| "resets (Thread_Done b env) = True"
| "resets _ = False"

definition stop_latched :: "FollowerState \<Rightarrow> bool" where
  "stop_latched s \<longleftrightarrow> fo_arms s = None \<or> sm_estop_triggered (fo_safety_r s) \<and> sm_estop_triggered (fo_safety_l s)"

lemma line_effect:
  "fst (serve_client (rc_handlers (follower_server cfg)) received s) = s
   \<or> (\<exists>h args. rc_handlers (follower_server cfg) (line_command received) = Some h
        \<and> fst (serve_client (rc_handlers (follower_server cfg)) received s) = fst (h args s))"
  by (auto simp: serve_client_def handle_command_def line_command_def split_beta Let_def split: option.splits)

lemma handlers_stop:
  assumes "rc_handlers (follower_server cfg) c = Some h"
  shows "c \<noteq> ''reset_safety'' \<Longrightarrow> stop_latched s \<Longrightarrow> stop_latched (fst (h args s))"
    and "c = ''estop'' \<Longrightarrow> stop_latched (fst (h args s))"
  using assms
  by (auto simp: stop_latched_def follower_server_def register_handler_def rc_new_def handle_goto_pose_def Let_def
      estop_both_def safety_trigger_estop_def split: if_splits prod.splits)

lemma line_keeps_stop:
  assumes "stop_latched s" and "line_command received \<noteq> ''reset_safety''"
  shows "stop_latched (fst (serve_client (rc_handlers (follower_server cfg)) received s))"
  using line_effect [of cfg received s]
proof
  assume "\<exists>h args. rc_handlers (follower_server cfg) (line_command received) = Some h
      \<and> fst (serve_client (rc_handlers (follower_server cfg)) received s) = fst (h args s)"
  then obtain h args where h: "rc_handlers (follower_server cfg) (line_command received) = Some h"
    and eq: "fst (serve_client (rc_handlers (follower_server cfg)) received s) = fst (h args s)" by blast
  show ?thesis unfolding eq by (rule handlers_stop(1) [OF h assms(2,1)])
qed (use assms(1) in \<open>simp only:\<close>)

lemma line_stops:
  assumes "line_command received = ''estop''"
  shows "stop_latched (fst (serve_client (rc_handlers (follower_server cfg)) received s))"
proof -
  obtain bytes where b: "received = Some bytes" using assms by (cases received) (auto simp: line_command_def)
  then have "bytes \<noteq> []" using assms by (auto simp: line_command_def split_command_def trim_def Let_def)
  moreover obtain h where h: "rc_handlers (follower_server cfg) ''estop'' = Some h"
    by (simp add: follower_server_def register_handler_def rc_new_def Let_def)
  ultimately show ?thesis
    using assms b handlers_stop(2) [OF h]
    by (simp add: serve_client_def handle_command_def line_command_def split_beta Let_def)
qed

section \<open>The control loop under a stop\<close>

lemma follower_safety_latch:
  "sm_estop_triggered (follower_safety now b m) = sm_estop_triggered m"
  by (auto simp: follower_safety_def safety_update_def Let_def split: option.splits)

lemma follower_cycle_latch:
  assumes "follower_cycle cfg env s = Inr (s', out)" and "stop_latched s"
  shows "stop_latched s'"
proof (cases "fo_arms s")
  case None
  then show ?thesis using follower_cycle_buffers [OF assms(1)] by (simp add: stop_latched_def)
next
  case (Some arms)
  then have "sm_estop_triggered (side_safety side s')" for side
    using follower_cycle_side(2) [OF assms(1), of side] assms(2)
    by (cases side) (auto simp: side_after_update_def side_safety_def stop_latched_def follower_safety_latch)
  from this [of RIGHT] this [of LEFT] show ?thesis by (simp add: stop_latched_def side_safety_def)
qed

lemma stopped_state:
  assumes "follower_inv s" and "stop_latched s" and "fo_arms s \<noteq> None"
  shows "sm_state (side_after_update side env s) = ESTOP"
proof -
  have m: "sm_estop_triggered (side_safety side s)"
    using assms(2,3) by (cases side) (auto simp: stop_latched_def side_safety_def)
  then have "sm_state (side_safety side s) = ESTOP"
    using side_inv_side [OF assms(1), of side] by (simp add: side_inv_def)
  with m show ?thesis
    by (simp add: side_after_update_def follower_safety_def safety_update_def Let_def split: option.split)
qed

definition motion :: "can_command \<Rightarrow> bool" where
  "motion c \<longleftrightarrow> (case c of Arm_Mit ps \<Rightarrow> True | Gripper_Mit ps \<Rightarrow> True | _ \<Rightarrow> False)"

text \<open>An iteration of a stopped follower sends no motion, and switches off the arms it has to itself.\<close>

lemma stopped_cycle:
  assumes "follower_inv s" and "stop_latched s" and "follower_cycle cfg env s = Inr (s', out)"
  shows "Can side c \<in> set out \<Longrightarrow> \<not> motion c"
    and "\<not> busy (after_requests s) \<Longrightarrow> Can side Disable_All \<in> set out"
proof -
  have "(\<forall>c \<in> can_frames side out. \<not> motion c) \<and> (\<not> busy (after_requests s) \<longrightarrow> Disable_All \<in> can_frames side out)"
  proof (cases "fo_arms s = None")
    case True
    then have "fo_arms (after_requests s) = None" by simp
    then show ?thesis using follower_cycle_unarmed [OF assms(3) True, of side] by (simp add: busy_def)
  next
    case False
    show ?thesis
      using follower_cycle_side(1) [OF assms(3) False, of side]
    proof (elim disjE conjE exE)
      fix t rd ct rs ct' rs' cmds
      assume d: "drive_arm (fc_motion cfg) (sm_state (side_after_update side env s)) t rd ct rs = Inr (ct', rs', cmds)"
        and f: "set cmds \<subseteq> can_frames side out" "can_frames side out \<subseteq> set cmds \<union> {Enable_All}"
      have "cmds = [Disable_All]"
        using d stopped_state [OF assms(1,2) False] by (simp add: drive_arm_def)
      with f show ?thesis by (auto simp: motion_def)
    qed (auto simp: motion_def)
  qed
  then show "Can side c \<in> set out \<Longrightarrow> \<not> motion c"
    and "\<not> busy (after_requests s) \<Longrightarrow> Can side Disable_All \<in> set out"
    by (auto simp: can_frames_def)
qed

lemma stopped_react:
  assumes "follower_inv s" and "stop_latched s" and "\<not> resets e" and "follower_react cfg e s = Inr (s', out)"
  shows "stop_latched s' \<and> (\<forall>side c. Can side c \<in> set out \<longrightarrow> \<not> motion c)"
proof (cases e)
  case (Packet sd now p)
  with assms(2,4) show ?thesis by (cases sd) (auto simp: stop_latched_def)
next
  case Signal
  with assms(4) show ?thesis by (auto simp: stop_latched_def estop_both_def safety_trigger_estop_def)
next
  case (Line received)
  with assms(3,4) line_keeps_stop [OF assms(2), of received cfg] show ?thesis by (auto simp: split_beta)
next
  case (Cycle env)
  show ?thesis
  proof (cases "fo_keep_running s")
    case True
    then have c: "follower_cycle cfg env s = Inr (s', out)" using assms(4) Cycle by simp
    then show ?thesis using follower_cycle_latch [OF c assms(2)] stopped_cycle(1) [OF assms(1,2) c] by blast
  next
    case False
    with assms(2,4) Cycle show ?thesis by (auto simp: stop_latched_def follower_shutdown_def motion_def)
  qed
qed (use assms(3) in simp)

lemma stop_event:
  assumes "stops e" and "follower_react cfg e s = Inr (s', out)"
  shows "stop_latched s'"
proof (cases e)
  case (Line received)
  with assms line_stops [of received cfg s] show ?thesis by (auto simp: split_beta)
qed (use assms in \<open>auto simp: stop_latched_def estop_both_def safety_trigger_estop_def\<close>)

lemma stopped_run:
  assumes "follower_run cfg es s = Inr (s', out)" and "follower_inv s" and "stop_latched s"
    and "\<forall>e \<in> set es. \<not> resets e"
  shows "follower_inv s' \<and> stop_latched s' \<and> (\<forall>side c. Can side c \<in> set out \<longrightarrow> \<not> motion c)"
  using assms
proof (induction es arbitrary: s out)
  case (Cons e es)
  show ?case
  proof (cases "fo_exited s")
    case False
    with Cons.prems(1) obtain s1 o1 o2 where r: "follower_react cfg e s = Inr (s1, o1)"
      and rest: "follower_run cfg es s1 = Inr (s', o2)" and out: "out = o1 @ o2"
      by (auto simp: follower_run_def res_bind_eq_Inr)
    have one: "stop_latched s1 \<and> (\<forall>side c. Can side c \<in> set o1 \<longrightarrow> \<not> motion c)"
      by (rule stopped_react [OF Cons.prems(2,3) _ r]) (use Cons.prems(4) in simp)
    then have "follower_inv s' \<and> stop_latched s' \<and> (\<forall>side c. Can side c \<in> set o2 \<longrightarrow> \<not> motion c)"
      by (intro Cons.IH [OF rest follower_react_inv [OF r Cons.prems(2)]]) (use Cons.prems(4) in simp_all)
    with one out show ?thesis by auto
  qed (use Cons.prems in \<open>simp add: follower_run_def\<close>)
qed (simp add: follower_run_def)

section \<open>The stop holds\<close>

text \<open>
  C5: an emergency stop holds. From every accepted command line, whatever happened before: after the
  signal or the operator's \<open>estop\<close>, and as long as neither \<open>reset_safety\<close> is given nor an
  operator motion completes, the control loop sends no motion frame to either side, however many
  enabled commands, recovery requests and iterations follow; and every iteration that is not held
  back by an operator motion switches both arms off.
\<close>

theorem follower_stop_holds:
  assumes "follower_args argv = Inr a" and "follower_start a env0 = Inr (cmds, Some (cfg, s0))"
    and "follower_run cfg es0 s0 = Inr (s, out0)"
    and "stops e" and "follower_react cfg e s = Inr (s1, out1)"
    and "follower_run cfg es s1 = Inr (s', out)" and "\<forall>e \<in> set es. \<not> resets e"
  shows "(\<forall>side c. Can side c \<in> set out \<longrightarrow> \<not> motion c)
    \<and> (\<forall>env s'' out'. follower_cycle cfg env s' = Inr (s'', out') \<longrightarrow> \<not> busy (after_requests s')
         \<longrightarrow> (\<forall>side. Can side Disable_All \<in> set out'))"
proof -
  have "follower_inv s1" using follower_react_inv [OF assms(5) follower_reach_inv [OF assms(1-3)]] .
  from stopped_run [OF assms(6) this stop_event [OF assms(4,5)] assms(7)] stopped_cycle(2)
  show ?thesis by blast
qed

text \<open>A command that enables the arm has come, the operator stops, and an iteration follows.\<close>

lemma example_stopped_cycle:
  assumes "example_ready r0" and "\<not> fs_enabled (fc_feedback cfg)" and "\<not> fc_publish_telemetry cfg"
    and "fc_period_s cfg = Fin (1 / 500)"
  shows "\<exists>r'. follower_cycle cfg env (estop_both r0) = Inr (r', [Can RIGHT Disable_All, Can LEFT Disable_All])
    \<and> r' = estop_both r0"
proof -
  let ?r = "estop_both r0"
  obtain ar al where arms: "fo_arms ?r = Some (ar, al)"
    using assms(1) by (auto simp: example_ready_def estop_both_def)
  have idle: "recover_request ?r = (?r, [])" "init_request ?r = ?r" "goto_request ?r = ?r"
    "\<not> fo_init_in_progress ?r" "\<not> fo_recover_in_progress ?r"
    using assms(1) by (simp_all add: example_ready_def estop_both_def recover_request_def init_request_def goto_request_def)
  have "cycle_safety env ?r = ?r"
    using assms(1) by (simp add: cycle_safety_def estop_both_def example_ready_def follower_safety_def)
  moreover have "sm_state (fo_safety_r ?r) = ESTOP" "sm_state (fo_safety_l ?r) = ESTOP"
    by (simp_all add: estop_both_def safety_trigger_estop_def)
  then have "cycle_drive cfg env ?r = Inr (?r, [Can RIGHT Disable_All, Can LEFT Disable_All])"
    using arms idle by (cases ar; cases al) (simp add: cycle_drive_def drive_arm_def)
  ultimately show ?thesis
    using idle assms(2-4)
    by (simp add: follower_cycle_def cycle_feedback_def cycle_telemetry_def ns_of_seconds_def Let_def)
qed

theorem follower_stop_holds_witness:
  "\<exists>cfg r0 r' out. follower_run cfg [Line (Some ''estop''), Cycle example_follower_cycle] r0 = Inr (r', out)
    \<and> Can RIGHT Disable_All \<in> set out \<and> (\<forall>side c. Can side c \<in> set out \<longrightarrow> \<not> motion c)"
proof -
  obtain cmds cfg r0 where start: "follower_args [] = Inr follower_args_default"
      "follower_start follower_args_default example_arms_start = Inr (cmds, Some (cfg, r0))"
    and ready: "example_ready r0" and cfg: "\<not> fs_enabled (fc_feedback cfg)" "\<not> fc_publish_telemetry cfg"
      "fc_period_s cfg = Fin (1 / 500)"
    using example_follower_started by blast
  have none: "follower_run cfg [] r0 = Inr (r0, [])" by (simp add: follower_run_def)
  have stop: "stops (Line (Some ''estop''))"
    by (simp add: line_command_def split_command_def trim_def trim_char_def is_blank_def)
  obtain resp where line: "follower_react cfg (Line (Some ''estop'')) r0 = Inr (estop_both r0, [Response resp])"
    by (auto simp: serve_client_def handle_command_def follower_server_def register_handler_def rc_new_def Let_def
        split_command_def trim_def trim_char_def is_blank_def)
  have up: "\<not> fo_exited r0" "\<not> fo_exited (estop_both r0)" "fo_keep_running (estop_both r0)"
    using ready by (simp_all add: example_ready_def estop_both_def)
  have cycle: "follower_run cfg [Cycle example_follower_cycle] (estop_both r0)
      = Inr (estop_both r0, [Can RIGHT Disable_All, Can LEFT Disable_All])"
    using example_stopped_cycle [OF ready cfg, of example_follower_cycle] up by (simp add: follower_run_def)
  have "\<forall>side c. Can side c \<in> set [Can RIGHT Disable_All, Can LEFT Disable_All] \<longrightarrow> \<not> motion c"
    by (rule follower_stop_holds [OF start none stop line cycle, THEN conjunct1]) simp
  moreover have "follower_run cfg [Line (Some ''estop''), Cycle example_follower_cycle] r0
      = Inr (estop_both r0, [Response resp, Can RIGHT Disable_All, Can LEFT Disable_All])"
    using line cycle up(1) by (simp add: follower_run_def)
  ultimately show ?thesis
    by (intro exI [of _ cfg] exI [of _ r0] exI [of _ "estop_both r0"]
        exI [of _ "[Response resp, Can RIGHT Disable_All, Can LEFT Disable_All]"]) simp
qed

end
