(* ===== verification/Vr_Log.thy ===== *)
theory Vr_Log
  imports Vr_Leader
begin

text \<open>
  The log of the inverse kinematics in \<open>src/apps/wifi_vr_bimanual_leader.cpp\<close>: when a line is due, and
  the row of the CSV file. The values it shows are those the control step computes, which
  \<open>hand_solution\<close> makes explicit.
\<close>

section \<open>The values of a control step\<close>

text \<open>The side with its anchor and estimator, the pose asked for, the swivel, the solver's answer.\<close>

definition hand_solution ::
    "EigenOps \<Rightarrow> VrTeleopConfig \<Rightarrow> dbl \<Rightarrow> ArmSide \<Rightarrow> VrArm \<Rightarrow> bool \<Rightarrow> VrSide \<Rightarrow>
     VrSide \<times> (dbl list \<times> dbl list) \<times> dbl \<times> bool \<times> dbl list" where
  "hand_solution eg cfg rate_hz side arm recenter sd =
    (let sd = (if \<not> an_active (vz_anchor sd) \<or> recenter then take_anchor sd else sd);
         pose = desired_pose eg (vc_mapping cfg) arm (vz_anchor sd);
         (est, swivel) = swivel_step cfg rate_hz side pose (vz_swivel sd);
         sd = sd\<lparr>vz_swivel := est\<rparr>;
         anchor = an_q (vz_anchor sd);
         anchor = (if vhm_enabled (vc_human cfg) \<and> vs_enabled (vc_swivel cfg)
                     \<and> vs_apply_to_ik (vc_swivel cfg) \<and> \<not> vs_log_only (vc_swivel cfg)
                   then anchor[2 := anchor ! 2 + swivel] else anchor);
         (solved, q) = (if vi_mode (vc_ik cfg) = ''pose''
           then solve_pose (vz_ik sd) (fst pose) (snd pose) (vz_feedback sd) (Some anchor)
           else solve (vz_ik sd) (fst pose) (vz_feedback sd) (Some anchor))
     in (sd, pose, swivel, solved, q))"

lemma follow_hand_solution:
  "follow_hand eg cfg rate_hz side arm recenter sd =
     (let (sd, pose, swivel, solved, q) = hand_solution eg cfg rate_hz side arm recenter sd
      in if solved then (sd\<lparr>vz_target := limited_target cfg side (vz_target sd) q\<rparr>, True) else (sd, False))"
  by (simp add: follow_hand_def hand_solution_def Let_def split_beta)

section \<open>When a line is due\<close>

text \<open>One for each arm: the time of the last line, in nanoseconds, and the rest of the burst.\<close>

record IkLog =
  il_last :: int
  il_burst :: dbl

definition log_interval :: "VrDebugConfig \<Rightarrow> dbl \<Rightarrow> dbl" where
  "log_interval d burst = (if burst > Fin 0 then Fin (1 / 20) else Fin 1 div vd_ik_debug_rate_hz d)"

definition seconds_between :: "int \<Rightarrow> int \<Rightarrow> dbl" where
  "seconds_between a b = Fin (of_int (b - a) / 1000000000)"

text \<open>A new anchor starts a burst, which the steps of the loop use up while the log is on.\<close>

definition ik_log_step :: "VrDebugConfig \<Rightarrow> dbl \<Rightarrow> bool \<Rightarrow> int \<Rightarrow> IkLog \<Rightarrow> IkLog \<times> bool" where
  "ik_log_step d rate_hz anchored now l =
     (let l = (if anchored then l\<lparr>il_burst := vd_ik_debug_burst_sec d\<rparr> else l)
      in if \<not> vd_ik_debug d then (l, False)
         else
           let should_log = seconds_between (il_last l) now > log_interval d (il_burst l);
               l = (if should_log then l\<lparr>il_last := now\<rparr> else l);
               l = (if il_burst l > Fin 0 then l\<lparr>il_burst := il_burst l - Fin 1 div rate_hz\<rparr> else l)
           in (l, should_log))"

fun ik_log_run :: "VrDebugConfig \<Rightarrow> dbl \<Rightarrow> (bool \<times> int) list \<Rightarrow> IkLog \<Rightarrow> int list" where
  "ik_log_run d rate_hz [] l = []"
| "ik_log_run d rate_hz ((anchored, now) # steps) l =
     (let (l', due) = ik_log_step d rate_hz anchored now l
      in (if due then [now] else []) @ ik_log_run d rate_hz steps l')"

text \<open>
  The log is throttled: whatever the loop does, consecutive lines of an arm are further apart than the
  shorter of the two intervals.
\<close>

lemma ik_log_step_due:
  assumes "ik_log_step d rate_hz anchored now l = (l', due)"
  shows "due \<Longrightarrow> il_last l' = now \<and> (seconds_between (il_last l) now > Fin (1 / 20)
      \<or> seconds_between (il_last l) now > Fin 1 div vd_ik_debug_rate_hz d)"
    and "\<not> due \<Longrightarrow> il_last l' = il_last l"
  using assms by (auto simp: ik_log_step_def log_interval_def Let_def split: if_splits)

lemma ik_log_throttled:
  "successively (\<lambda>a b. seconds_between a b > Fin (1 / 20) \<or> seconds_between a b > Fin 1 div vd_ik_debug_rate_hz d)
     (il_last l # ik_log_run d rate_hz steps l)"
proof (induction steps arbitrary: l)
  case (Cons x steps)
  obtain anchored now where x: "x = (anchored, now)" by (cases x)
  obtain l' due where s: "ik_log_step d rate_hz anchored now l = (l', due)" by (cases "ik_log_step d rate_hz anchored now l")
  show ?case
    using Cons.IH [of l'] ik_log_step_due [OF s] by (cases due) (simp_all add: x s)
qed simp

section \<open>The CSV file\<close>

definition csv_header :: "string list" where
  "csv_header =
    [''timestamp_sec'', ''side'', ''packet_version'', ''grip'', ''trigger'', ''telemetry_age_ms'',
     ''delta_pos_hmd_x'', ''delta_pos_hmd_y'', ''delta_pos_hmd_z'', ''delta_pos_robot_x'',
     ''delta_pos_robot_y'', ''delta_pos_robot_z'', ''delta_rot_hmd_axis_x'',
     ''delta_rot_hmd_axis_y'', ''delta_rot_hmd_axis_z'', ''delta_rot_hmd_angle'',
     ''delta_rot_robot_axis_x'', ''delta_rot_robot_axis_y'', ''delta_rot_robot_axis_z'',
     ''delta_rot_robot_angle'', ''target_pos_x'', ''target_pos_y'', ''target_pos_z'',
     ''current_pos_x'', ''current_pos_y'', ''current_pos_z'', ''target_quat_x'',
     ''target_quat_y'', ''target_quat_z'', ''target_quat_w'', ''current_quat_x'',
     ''current_quat_y'', ''current_quat_z'', ''current_quat_w'', ''position_error_norm'',
     ''orientation_error_norm'', ''q_feedback_1'', ''q_feedback_2'', ''q_feedback_3'',
     ''q_feedback_4'', ''q_feedback_5'', ''q_feedback_6'', ''q_feedback_7'',
     ''q_feedback_gripper'', ''q_ik_1'', ''q_ik_2'', ''q_ik_3'', ''q_ik_4'', ''q_ik_5'',
     ''q_ik_6'', ''q_ik_7'', ''q_ik_gripper'', ''q_cmd_1'', ''q_cmd_2'', ''q_cmd_3'', ''q_cmd_4'',
     ''q_cmd_5'', ''q_cmd_6'', ''q_cmd_7'', ''q_cmd_gripper'', ''ik_success'', ''ik_iterations'',
     ''dq_norm'', ''rate_limited'', ''joint_limit_clamped'', ''nan_rejected'',
     ''telemetry_stale'', ''human_model_enabled'', ''swivel_prior_enabled'', ''swivel_right'',
     ''swivel_left'', ''swivel_applied'', ''orientation_weight'', ''position_weight'',
     ''damping'', ''rotation_compose_order'']"

datatype csv_value = Csv_Double dbl | Csv_Text string | Csv_Int int

definition csv_vec :: "nat \<Rightarrow> dbl list \<Rightarrow> csv_value list" where
  "csv_vec n v = map (\<lambda>i. Csv_Double (v ! i)) [0..<n]"

definition csv_bool :: "bool \<Rightarrow> csv_value" where
  "csv_bool b = Csv_Int (if b then 1 else 0)"

text \<open>The displacement that the target pose uses.\<close>

definition clamped_delta :: "VrMapping \<Rightarrow> VrArm \<Rightarrow> dbl list" where
  "clamped_delta m arm =
     (let delta = vx_delta_pos_robot arm; n = vnorm delta
      in if n > vm_max_delta_m m then vscale (vm_max_delta_m m div n) delta else delta)"

lemma desired_pose_delta:
  "fst (desired_pose eg m arm anchor) = map2 (+) (an_ee_pos anchor) (clamped_delta m arm)"
  by (simp add: desired_pose_def clamped_delta_def Let_def)

definition rate_limited :: "VrTeleopConfig \<Rightarrow> ArmSide \<Rightarrow> dbl list \<Rightarrow> dbl list \<Rightarrow> bool" where
  "rate_limited cfg side target q \<longleftrightarrow> vl_enabled (vc_rate_limit cfg)
     \<and> (\<exists>i < 7. fabs (q ! i - target ! i) > max_steps cfg side ! i)"

definition joint_distance :: "dbl list \<Rightarrow> dbl list \<Rightarrow> dbl" where
  "joint_distance q feedback = d_sqrt (foldl (\<lambda>a i. let d = q ! i - feedback ! i in a + d * d) (Fin 0) [0..<7])"

definition nan_rejected :: "dbl list \<Rightarrow> dbl list \<Rightarrow> bool" where
  "nan_rejected target q \<longleftrightarrow> (\<exists>i < 7. \<not> isfinite (target ! i) \<or> \<not> isfinite (q ! i))"

text \<open>
  A row: \<open>sd\<close> is the side before the step, \<open>sd'\<close> after it, \<open>pose\<close> to \<open>q\<close> the values of
  \<open>hand_solution\<close>; \<open>aa\<close> is Eigen's conversion of a quaternion to axis and angle.
\<close>

definition ik_csv_row ::
    "EigenOps \<Rightarrow> (dbl list \<Rightarrow> dbl list \<times> dbl) \<Rightarrow> VrTeleopConfig \<Rightarrow> ArmSide \<Rightarrow> VrState \<Rightarrow> u64 \<Rightarrow> dbl \<Rightarrow> bool \<Rightarrow>
     VrSide \<Rightarrow> VrSide \<Rightarrow> dbl list \<times> dbl list \<Rightarrow> dbl \<Rightarrow> bool \<Rightarrow> dbl list \<Rightarrow> csv_value list" where
  "ik_csv_row eg aa cfg side vr now_ns telemetry_age_ms stale sd sd' pose swivel solved q =
    (let arm = (case side of RIGHT \<Rightarrow> vst_right vr | LEFT \<Rightarrow> vst_left vr);
         axis_angle = (\<lambda>r. csv_vec 3 (fst (aa r)) @ [Csv_Double (snd (aa r))]);
         actual = compute_fk_pose (vz_ik sd') q;
         residual_pos = d_sqrt (vdot (map2 (-) (fst actual) (fst pose)) (map2 (-) (fst actual) (fst pose)));
         residual_ori = snd (aa (eg_quat_mul eg (eg_quat_conj eg (snd actual)) (snd pose)));
         grip = Csv_Double (vz_grip_target sd')
     in [Csv_Double (dbl_of_word now_ns * Fin (1 / 10 ^ 9)),
         Csv_Text (case side of RIGHT \<Rightarrow> ''right'' | LEFT \<Rightarrow> ''left''), Csv_Int (vst_version vr),
         Csv_Double (vx_grip arm), Csv_Double (vx_trigger arm), Csv_Double telemetry_age_ms]
        @ csv_vec 3 (vx_delta_pos_hmd arm) @ csv_vec 3 (clamped_delta (vc_mapping cfg) arm)
        @ axis_angle (vx_delta_rot_hmd arm) @ axis_angle (vx_delta_rot_robot arm)
        @ csv_vec 3 (fst pose) @ csv_vec 3 (fst actual) @ csv_vec 4 (snd pose) @ csv_vec 4 (snd actual)
        @ [Csv_Double residual_pos, Csv_Double residual_ori]
        @ csv_vec 7 (vz_feedback sd) @ [grip] @ csv_vec 7 q @ [grip] @ csv_vec 7 (vz_target sd') @ [grip]
        @ [csv_bool solved, Csv_Int (vi_max_iterations (vc_ik cfg)),
           Csv_Double (joint_distance q (vz_feedback sd)),
           csv_bool (solved \<and> rate_limited cfg side (vz_target sd) q), Csv_Int 0,
           csv_bool (nan_rejected (vz_target sd') q), csv_bool stale,
           csv_bool (vhm_enabled (vc_human cfg)), csv_bool (vs_enabled (vc_swivel cfg)),
           Csv_Double (if side = RIGHT then swivel else Fin 0), Csv_Double (if side = LEFT then swivel else Fin 0),
           csv_bool (vhm_enabled (vc_human cfg) \<and> vs_enabled (vc_swivel cfg)
             \<and> vs_apply_to_ik (vc_swivel cfg) \<and> \<not> vs_log_only (vc_swivel cfg)),
           Csv_Double (vi_orientation_weight (vc_ik cfg)), Csv_Double (vi_position_weight (vc_ik cfg)),
           Csv_Double (vi_damping (vc_ik cfg)), Csv_Text (vm_rotation_compose_order (vc_mapping cfg))])"

text \<open>
  Every row fits the header; and three columns do not hold what their names say: the gripper columns of
  the feedback and of the solution show the target, the iterations are the configured maximum,
  and no row reports a clamp.
\<close>

lemma ik_csv_row_columns:
  fixes eg aa cfg side vr now_ns age stale sd sd' pose swivel solved q
  defines "row \<equiv> ik_csv_row eg aa cfg side vr now_ns age stale sd sd' pose swivel solved q"
  shows "length row = length csv_header"
    and "csv_header ! 43 = ''q_feedback_gripper'' \<and> row ! 43 = Csv_Double (vz_grip_target sd')"
    and "csv_header ! 61 = ''ik_iterations'' \<and> row ! 61 = Csv_Int (vi_max_iterations (vc_ik cfg))"
    and "csv_header ! 64 = ''joint_limit_clamped'' \<and> row ! 64 = Csv_Int 0"
  by (simp_all add: row_def ik_csv_row_def csv_header_def csv_vec_def Let_def upt_rec)

end
