(* ===== verification/Crc32_Spec.thy ===== *)
theory Crc32_Spec
  imports Crc32
begin

text \<open>
  What the checksum is supposed to be, independently of the shift register: the remainder of the
  division of the message, as a polynomial over two elements, by the generator of CRC-32. Both
  routines of the code compute it.
\<close>

section \<open>Division of polynomials over two elements\<close>

text \<open>A polynomial is the list of its coefficients, the highest power first.\<close>

fun xor_into :: "bool list \<Rightarrow> bool list \<Rightarrow> bool list" where
  "xor_into (x # xs) (y # ys) = (x \<noteq> y) # xor_into xs ys"
| "xor_into xs [] = xs"
| "xor_into [] ys = []"

lemma length_xor_into [simp]: "length (xor_into xs ys) = length xs"
  by (induction xs ys rule: xor_into.induct) simp_all

text \<open>Long division by the polynomial with leading coefficient 1 and the further coefficients \<open>g\<close>.\<close>

function gf2_rem :: "bool list \<Rightarrow> bool list \<Rightarrow> bool list" where
  "gf2_rem g [] = []"
| "gf2_rem g (x # xs) =
     (if length xs < length g then x # xs else gf2_rem g (if x then xor_into xs g else xs))"
  by pat_completeness auto
termination by (relation "measure (\<lambda>(g, xs). length xs)") auto

text \<open>\<open>x^32 + x^26 + x^23 + x^22 + x^16 + x^12 + x^11 + x^10 + x^8 + x^7 + x^5 + x^4 + x^2 + x + 1\<close>\<close>

definition crc_generator :: "bool list" where
  "crc_generator = map (\<lambda>k. 31 - k \<in> {26, 23, 22, 16, 12, 11, 10, 8, 7, 5, 4, 2, 1, 0}) [0..<32]"

text \<open>
  The message is the bits of its bytes, the lowest bit of each byte first, with 32 zeros at the
  end; its first 32 bits are complemented, and so is the remainder, whose highest coefficient is
  the lowest bit of the checksum.
\<close>

definition message_bits :: "u8 list \<Rightarrow> bool list" where
  "message_bits data = concat (map (\<lambda>b. map (bit b) [0..<8]) data) @ replicate 32 False"

definition crc32_spec :: "u8 list \<Rightarrow> u32" where
  "crc32_spec data = horner_sum of_bool 2
     (map Not (gf2_rem crc_generator (xor_into (message_bits data) (replicate 32 True))))"

section \<open>The register holds the remainder\<close>

definition bits32 :: "u32 \<Rightarrow> bool list" where
  "bits32 w = map (bit w) [0..<32]"

lemma length_bits32 [simp]: "length (bits32 w) = 32"
  by (simp add: bits32_def)

lemma bits32_crc_poly: "bits32 crc_poly = crc_generator"
  by (simp add: bits32_def crc_poly_def crc_generator_def upt_rec)

lemma bits32_ones: "bits32 0xFFFFFFFF = replicate 32 True"
proof -
  have "(0xFFFFFFFF :: u32) = - 1" by simp
  then show ?thesis
    by (simp only: bits32_def) (auto intro!: nth_equalityI)
qed

lemma bits32_xor: "bits32 (a XOR b) = map2 (\<noteq>) (bits32 a) (bits32 b)"
  by (auto simp: bits32_def bit_xor_iff intro!: nth_equalityI)

lemma bits32_shift: "bits32 w = odd w # map (bit (drop_bit 1 w)) [0..<31]"
  "bits32 (drop_bit 1 w) = map (bit (drop_bit 1 w)) [0..<31] @ [False]"
proof -
  show "bits32 w = odd w # map (bit (drop_bit 1 w)) [0..<31]"
    by (rule nth_equalityI) (auto simp: bits32_def nth_Cons bit_0 bit_simps split: nat.split)
  have "\<not> bit (drop_bit 1 w) 31" using bit_imp_le_length [of w 32] by (auto simp: bit_simps)
  moreover have "[0..<32] = [0..<31] @ [31]" by (simp add: upt_rec)
  ultimately show "bits32 (drop_bit 1 w) = map (bit (drop_bit 1 w)) [0..<31] @ [False]"
    by (simp add: bits32_def)
qed

lemma xor_into_False [simp]: "xor_into xs (ys @ [False]) = xor_into xs ys"
proof (induction xs ys rule: xor_into.induct)
  case (2 xs)
  then show ?case by (cases xs) simp_all
qed simp_all

lemma xor_into_twice:
  "length ys = length zs \<Longrightarrow> xor_into (xor_into xs ys) zs = xor_into xs (map2 (\<noteq>) ys zs)"
proof (induction xs ys arbitrary: zs rule: xor_into.induct)
  case (1 x xs y ys)
  then show ?case by (cases zs) auto
next
  case (3 y ys)
  then show ?case by (cases zs) auto
qed auto

lemma xor_into_zeros: "xor_into (replicate (length ys) False) ys = ys"
  by (induction ys) simp_all

definition feed_bit :: "bool \<Rightarrow> u32 \<Rightarrow> u32" where
  "feed_bit x c = crc_bit (c XOR of_bool x)"

lemma feed_bit_division:
  assumes "32 \<le> length xs"
  shows "gf2_rem crc_generator (xor_into (x # xs) (bits32 c))
    = gf2_rem crc_generator (xor_into xs (bits32 (feed_bit x c)))"
proof -
  let ?d = "drop_bit 1 c"
  have "drop_bit 1 (c XOR of_bool x) = ?d"
    by (cases x) (simp_all add: drop_bit_xor)
  moreover have "odd (c XOR of_bool x) \<longleftrightarrow> x \<noteq> odd c"
    by (cases x) (simp_all add: even_xor_iff)
  ultimately have feed: "feed_bit x c = (if x \<noteq> odd c then ?d XOR crc_poly else ?d)"
    by (simp add: feed_bit_def crc_bit_branch)
  have "xor_into (x # xs) (bits32 c) = (x \<noteq> odd c) # xor_into xs (bits32 ?d)"
    unfolding bits32_shift(1) [of c] bits32_shift(2) by simp
  moreover have "\<not> length xs < length crc_generator"
    using assms by (simp add: crc_generator_def)
  ultimately show ?thesis
    using xor_into_twice [of "bits32 ?d" "bits32 crc_poly" xs] feed
    by (simp add: bits32_xor flip: bits32_crc_poly)
qed

lemma feed_bits_division:
  assumes "32 \<le> length zs"
  shows "gf2_rem crc_generator (xor_into (ms @ zs) (bits32 c))
    = gf2_rem crc_generator (xor_into zs (bits32 (fold feed_bit ms c)))"
proof (induction ms arbitrary: c)
  case (Cons m ms)
  have "32 \<le> length (ms @ zs)" using assms by simp
  from feed_bit_division [OF this, of m c] Cons show ?case by simp
qed simp

lemma take_bit_step:
  "take_bit (Suc n) w = take_bit n w XOR push_bit n (of_bool (bit w n))" for w :: u32
  by (rule bit_word_eqI) (auto simp: bit_simps less_Suc_eq)

lemma feed_word:
  "n \<le> 32 \<Longrightarrow> fold feed_bit (map (bit w) [0..<n]) c = (crc_bit ^^ n) (c XOR take_bit n w)"
proof (induction n)
  case (Suc n)
  let ?b = "of_bool (bit w n) :: u32"
  have "drop_bit n (push_bit n ?b) = ?b"
    using Suc.prems by (intro bit_word_eqI) (auto simp: bit_simps)
  then have "(crc_bit ^^ n) (c XOR take_bit n w XOR push_bit n ?b)
      = (crc_bit ^^ n) (c XOR take_bit n w) XOR ?b"
    by (simp only: crc_bits_xor crc_bits_push xor.assoc)
  then have "crc_bit ((crc_bit ^^ n) (c XOR take_bit n w) XOR ?b)
      = (crc_bit ^^ Suc n) (c XOR take_bit (Suc n) w)"
    by (simp add: take_bit_step xor.assoc)
  with Suc show ?case by (simp add: feed_bit_def)
qed simp

lemma feed_byte: "fold feed_bit (map (bit b) [0..<8]) c = crc_byte b c" for b :: u8
proof -
  let ?w = "ucast b :: u32"
  have "map (bit b) [0..<8] = map (bit ?w) [0..<8]"
    by (auto simp: bit_simps)
  moreover have "take_bit 8 ?w = ?w"
    by (rule bit_word_eqI) (auto simp: bit_simps dest: bit_imp_le_length)
  ultimately show ?thesis
    using feed_word [of 8 ?w c] by (simp only: crc_byte_def)
qed

lemma feed_message: "fold feed_bit (concat (map (\<lambda>b. map (bit b) [0..<8]) data)) c = crc_run data c"
  for data :: "u8 list"
  by (induction data arbitrary: c) (simp_all only: list.map concat.simps fold_append comp_apply feed_byte
      crc_run_Cons crc_run_Nil fold_simps(1))

lemma gf2_rem_short: "length xs \<le> length g \<Longrightarrow> gf2_rem g xs = xs"
  by (cases xs) auto

lemma horner_bits32: "horner_sum of_bool 2 (map Not (bits32 c)) = NOT c"
proof -
  have "map Not (bits32 c) = map (bit (NOT c)) [0..<32]"
    by (simp add: bits32_def bit_not_iff)
  moreover have "take_bit 32 (NOT c) = NOT c"
    by (rule bit_word_eqI) (auto simp: bit_simps)
  ultimately show ?thesis
    by (simp only: horner_sum_bit_eq_take_bit)
qed

lemma crc_register_spec: "crc32_spec data = NOT (crc_run data 0xFFFFFFFF)"
proof -
  let ?z = "replicate 32 False"
  let ?c = "crc_run data 0xFFFFFFFF"
  have "gf2_rem crc_generator (xor_into (message_bits data) (replicate 32 True))
      = gf2_rem crc_generator (xor_into ?z (bits32 ?c))"
    unfolding message_bits_def bits32_ones [symmetric]
    by (subst feed_bits_division) (simp_all only: feed_message length_replicate order_refl)
  also have "\<dots> = bits32 ?c"
    using xor_into_zeros [of "bits32 ?c"]
    by (simp only: length_bits32) (rule gf2_rem_short, simp add: crc_generator_def)
  finally show ?thesis by (simp only: crc32_spec_def horner_bits32)
qed

text \<open>
  C24: the checksum is the one of the standard. The bit-by-bit routine of the codec and the second
  one of the telemetry publisher both compute, for every message and every length, the
  complemented remainder of the message polynomial divided by the generator of CRC-32.
\<close>

theorem crc_is_polynomial_remainder:
  "calculate_crc32 data len = crc32_spec (take len data)
   \<and> tele_calculate_crc32 data len = crc32_spec (take len data)"
  by (simp add: calculate_crc32_def crc_register_spec tele_crc_eq)

end
