(* ===== verification/Periodic_Timer.thy ===== *)
theory Periodic_Timer
  imports Cpp_Double
begin

text \<open>
  \<open>src/periodic_timer_thread.hpp\<close>: the thread that calls \<open>on_timer\<close> at a fixed rate. Deadlines
  are absolute times \<open>(tv_sec, tv_nsec)\<close>; what \<open>on_timer\<close> does is up to the derived class, an
  exception it throws is caught and logged. The period stays as it is while the thread runs: no
  program of the repository calls \<open>set_period\<close>.
\<close>

section \<open>The thread object\<close>

record PeriodicTimerThread =
  pt_thread :: bool
  pt_is_running :: bool
  pt_period_us :: int
  pt_last_elapsed_us :: int
  pt_next_time :: "int \<times> int"

text \<open>\<open>static_cast<int>\<close> of a double: truncation, undefined for NaN and out of range.\<close>

definition cast_int :: "dbl \<Rightarrow> int result" where
  "cast_int d =
     (case d of
        Fin x \<Rightarrow> (let i = (if x < 0 then \<lceil>x\<rceil> else \<lfloor>x\<rfloor>)
                  in if - (2 ^ 31) \<le> i \<and> i < 2 ^ 31 then Inr i else Inl Undefined_Behaviour)
      | _ \<Rightarrow> Inl Undefined_Behaviour)"

definition period_of_hz :: "dbl \<Rightarrow> int result" where
  "period_of_hz hz = cast_int (Fin 1000000 div hz)"

definition timer_new :: "dbl \<Rightarrow> PeriodicTimerThread result" where
  "timer_new hz =
     (if hz \<le> Fin 0 then Inl (Invalid_Argument ''Hz must be positive'')
      else res_bind (period_of_hz hz) (\<lambda>us.
        Inr \<lparr> pt_thread = False, pt_is_running = False, pt_period_us = us,
              pt_last_elapsed_us = 0, pt_next_time = (0, 0) \<rparr>))"

definition set_period :: "dbl \<Rightarrow> PeriodicTimerThread \<Rightarrow> PeriodicTimerThread result" where
  "set_period hz t =
     (if hz > Fin 0 then res_bind (period_of_hz hz) (\<lambda>us. Inr (t\<lparr>pt_period_us := us\<rparr>)) else Inr t)"

text \<open>\<open>now\<close>: the monotonic clock when the new thread reads it.\<close>

definition start_thread_base :: "int \<times> int \<Rightarrow> PeriodicTimerThread \<Rightarrow> PeriodicTimerThread" where
  "start_thread_base now t = t\<lparr>pt_is_running := True, pt_thread := True, pt_next_time := now\<rparr>"

definition stop_thread_base :: "PeriodicTimerThread \<Rightarrow> PeriodicTimerThread" where
  "stop_thread_base t = t\<lparr>pt_is_running := False, pt_thread := False\<rparr>"

section \<open>The loop\<close>

function carry_seconds :: "int \<times> int \<Rightarrow> int \<times> int" where
  "carry_seconds (sec, nsec) =
     (if nsec \<ge> 1000000000 then carry_seconds (sec + 1, nsec - 1000000000) else (sec, nsec))"
  by pat_completeness auto
termination by (relation "measure (\<lambda>(sec, nsec). nat nsec)") auto

declare carry_seconds.simps [simp del]

text \<open>\<open>next_time.tv_nsec += period_us * 1000\<close>, a product of two \<open>int\<close>s, and the carry.\<close>

definition advance_deadline :: "int \<Rightarrow> int \<times> int \<Rightarrow> (int \<times> int) result" where
  "advance_deadline period_us t =
     (let step = period_us * 1000
      in if - (2 ^ 31) \<le> step \<and> step < 2 ^ 31 then Inr (carry_seconds (fst t, snd t + step))
         else Inl Undefined_Behaviour)"

text \<open>What a call of \<open>on_timer\<close> does to the loop: the time it took, and whether it threw.\<close>

datatype on_timer = On_Timer_Returned int | On_Timer_Threw int

definition on_timer_us :: "on_timer \<Rightarrow> int" where
  "on_timer_us r = (case r of On_Timer_Returned us \<Rightarrow> us | On_Timer_Threw us \<Rightarrow> us)"

text \<open>One iteration: the thread, and the deadline it sleeps to.\<close>

definition timer_iteration ::
    "on_timer \<Rightarrow> PeriodicTimerThread \<Rightarrow> (PeriodicTimerThread \<times> int \<times> int) result" where
  "timer_iteration r t =
     res_bind (advance_deadline (pt_period_us t) (pt_next_time t)) (\<lambda>next.
       Inr (t\<lparr>pt_last_elapsed_us := on_timer_us r, pt_next_time := next\<rparr>, next))"

fun timer_thread ::
    "on_timer list \<Rightarrow> PeriodicTimerThread \<Rightarrow> (PeriodicTimerThread \<times> (int \<times> int) list) result" where
  "timer_thread [] t = Inr (t, [])"
| "timer_thread (r # rs) t =
     (if \<not> pt_is_running t then Inr (t, [])
      else res_bind (timer_iteration r t) (\<lambda>(t, d).
           res_bind (timer_thread rs t) (\<lambda>(t, ds). Inr (t, d # ds))))"

text \<open>
  What a call of \<open>on_timer\<close> leaves behind as seen from outside the thread: an exception is
  caught, with the state it left, \<open>thrown\<close>; undefined behaviour stays undefined.
\<close>

definition guard_on_timer :: "'s \<Rightarrow> ('s \<times> 'o list) result \<Rightarrow> ('s \<times> 'o list) result" where
  "guard_on_timer thrown r =
     (case r of
        Inl e \<Rightarrow> (if e = Undefined_Behaviour then Inl e else Inr (thrown, []))
      | Inr x \<Rightarrow> Inr x)"

section \<open>The schedule\<close>

definition time_ns :: "int \<times> int \<Rightarrow> int" where
  "time_ns t = fst t * 1000000000 + snd t"

lemma carry_seconds_time: "time_ns (carry_seconds t) = time_ns t"
proof (induction t rule: carry_seconds.induct)
  case (1 sec nsec)
  then show ?case
    by (subst carry_seconds.simps) (simp add: time_ns_def algebra_simps)
qed

lemma carry_seconds_range:
  "0 \<le> snd t \<Longrightarrow> 0 \<le> snd (carry_seconds t) \<and> snd (carry_seconds t) < 1000000000"
proof (induction t rule: carry_seconds.induct)
  case (1 sec nsec)
  then show ?case by (subst (1 2) carry_seconds.simps) simp
qed

lemma advance_deadline_ok:
  assumes "0 \<le> us" and "us \<le> 2147483" and "0 \<le> snd t"
  shows "\<exists>d. advance_deadline us t = Inr d \<and> time_ns d = time_ns t + us * 1000
    \<and> 0 \<le> snd d \<and> snd d < 1000000000"
  using assms carry_seconds_time [of "(fst t, snd t + us * 1000)"]
    carry_seconds_range [of "(fst t, snd t + us * 1000)"]
  by (simp add: advance_deadline_def Let_def time_ns_def)

lemma advance_deadline_overflow: "2147483 < us \<Longrightarrow> advance_deadline us t = Inl Undefined_Behaviour"
  by (simp add: advance_deadline_def Let_def)

text \<open>
  C40: the thread keeps its schedule. With a period of at most 2147483 microseconds every
  iteration sleeps to a well-formed time, the start time plus a whole number of periods, however
  long the calls take and whether or not they throw; with a longer period (a rate below about
  0.47 Hz, which the constructor accepts) the first iteration overflows.
\<close>

theorem timer_keeps_schedule:
  assumes "pt_is_running t" and "0 \<le> pt_period_us t" and "0 \<le> snd (pt_next_time t)"
  shows "if pt_period_us t \<le> 2147483 then
      \<exists>t' ds. timer_thread rs t = Inr (t', ds) \<and> length ds = length rs
        \<and> (\<forall>k < length ds. time_ns (ds ! k) = time_ns (pt_next_time t) + (int k + 1) * (pt_period_us t * 1000)
             \<and> 0 \<le> snd (ds ! k) \<and> snd (ds ! k) < 1000000000)
    else rs \<noteq> [] \<longrightarrow> timer_thread rs t = Inl Undefined_Behaviour"
proof (cases "pt_period_us t \<le> 2147483")
  case True
  have "\<exists>t' ds. timer_thread rs t = Inr (t', ds) \<and> length ds = length rs
        \<and> (\<forall>k < length ds. time_ns (ds ! k) = time_ns (pt_next_time t) + (int k + 1) * (pt_period_us t * 1000)
             \<and> 0 \<le> snd (ds ! k) \<and> snd (ds ! k) < 1000000000)"
    using assms True
  proof (induction rs arbitrary: t)
    case (Cons r rs)
    obtain d where d: "advance_deadline (pt_period_us t) (pt_next_time t) = Inr d"
      "time_ns d = time_ns (pt_next_time t) + pt_period_us t * 1000" "0 \<le> snd d" "snd d < 1000000000"
      using advance_deadline_ok [of "pt_period_us t" "pt_next_time t"] Cons.prems by blast
    let ?t = "t\<lparr>pt_last_elapsed_us := on_timer_us r, pt_next_time := d\<rparr>"
    obtain t' ds where r: "timer_thread rs ?t = Inr (t', ds)" "length ds = length rs"
      and ds: "\<forall>k < length ds. time_ns (ds ! k) = time_ns d + (int k + 1) * (pt_period_us t * 1000)
         \<and> 0 \<le> snd (ds ! k) \<and> snd (ds ! k) < 1000000000"
      using Cons.IH [of ?t] Cons.prems d(3) by auto
    have "timer_thread (r # rs) t = Inr (t', d # ds)"
      using r(1) d(1) Cons.prems(1) by (simp add: timer_iteration_def)
    moreover have "time_ns ((d # ds) ! k) = time_ns (pt_next_time t) + (int k + 1) * (pt_period_us t * 1000)
         \<and> 0 \<le> snd ((d # ds) ! k) \<and> snd ((d # ds) ! k) < 1000000000" if "k < length (d # ds)" for k
      using that ds d by (cases k) (auto simp: algebra_simps)
    ultimately show ?case using r(2) by (metis length_Cons)
  qed simp
  with True show ?thesis by simp
next
  case False
  then show ?thesis
    using assms(1) by (cases rs) (simp_all add: timer_iteration_def advance_deadline_overflow)
qed

definition example_timer :: PeriodicTimerThread where
  "example_timer = start_thread_base (5, 999500000)
     \<lparr> pt_thread = False, pt_is_running = False, pt_period_us = 1000, pt_last_elapsed_us = 0,
       pt_next_time = (0, 0) \<rparr>"

theorem timer_keeps_schedule_witness:
  "\<exists>t' d1 d2. timer_thread [On_Timer_Returned 200, On_Timer_Threw 5000] example_timer = Inr (t', [d1, d2])
    \<and> time_ns d2 = 6001500000 \<and> snd d2 < 1000000000"
proof -
  have t: "pt_is_running example_timer" "pt_period_us example_timer = 1000"
    "pt_next_time example_timer = (5, 999500000)"
    by (simp_all add: example_timer_def start_thread_base_def)
  then obtain t' ds where r: "timer_thread [On_Timer_Returned 200, On_Timer_Threw 5000] example_timer = Inr (t', ds)"
    "length ds = 2" and "\<forall>k < 2. time_ns (ds ! k) = time_ns (5, 999500000) + (int k + 1) * (1000 * 1000)
      \<and> snd (ds ! k) < 1000000000"
    using timer_keeps_schedule [of example_timer "[On_Timer_Returned 200, On_Timer_Threw 5000]"] by auto
  moreover obtain d1 d2 where "ds = [d1, d2]"
    using r(2) by (auto simp: length_Suc_conv numeral_2_eq_2)
  ultimately show ?thesis
    by (auto simp: time_ns_def dest: spec [of _ 1])
qed

end
