(* ===== verification/Wired_Control.thy ===== *)
theory Wired_Control
  imports Follower_Config Leader_Config Periodic_Timer Controller_Props
begin

text \<open>
  The two programs for a leader and a follower arm on one computer,
  \<open>control/openarm_bilateral_control.cpp\<close> and \<open>control/openarm_unilateral_control.cpp\<close>. They
  differ in the cycle the arm threads run. Three periodic threads share two joint states: the
  arm threads measure and command, the admin thread makes the responses of either arm the
  references of the other. A call of \<open>on_timer\<close> is one event.
\<close>

section \<open>The threads\<close>

datatype wired_mode = Wired_Bilateral | Wired_Unilateral

definition wired_step :: "wired_mode \<Rightarrow> Readings \<Rightarrow> Control \<Rightarrow> RobotSystemState \<Rightarrow> cycle" where
  "wired_step mode = (case mode of Wired_Bilateral \<Rightarrow> bilateral_step | Wired_Unilateral \<Rightarrow> unilateral_step)"

record Wired =
  wi_exited :: bool
  wi_keep_running :: bool
  wi_leader :: arm
  wi_follower :: arm

datatype wired_event =
    Leader_Tick Readings
  | Follower_Tick Readings
  | Admin_Tick
  | Sigint
  | Main_Wakes

datatype wired_output = Leader_Can can_command | Follower_Can can_command

text \<open>A cycle that throws has stored the measurements before.\<close>

definition arm_tick ::
    "wired_mode \<Rightarrow> Readings \<Rightarrow> arm \<Rightarrow> (arm \<times> can_command list) result" where
  "arm_tick mode rd a =
     guard_on_timer (fst a, store_responses rd (snd a))
       (res_bind (wired_step mode rd (fst a) (snd a)) (\<lambda>(ct, rs, out). Inr ((ct, rs), out)))"

definition follow_state :: "RobotSystemState \<Rightarrow> RobotSystemState \<Rightarrow> RobotSystemState" where
  "follow_state source rs =
     rs\<lparr>ss_arm := set_all_references (rs_response (ss_arm source)) (ss_arm rs),
        ss_hand := set_all_references (rs_response (ss_hand source)) (ss_hand rs)\<rparr>"

definition admin_tick :: "arm \<Rightarrow> arm \<Rightarrow> arm \<times> arm" where
  "admin_tick leader follower =
     ((fst leader, follow_state (snd follower) (snd leader)),
      (fst follower, follow_state (snd leader) (snd follower)))"

fun wired_react ::
    "wired_mode \<Rightarrow> wired_event \<Rightarrow> Wired \<Rightarrow> (Wired \<times> wired_output list) result" where
  "wired_react mode (Leader_Tick rd) s =
     res_bind (arm_tick mode rd (wi_leader s)) (\<lambda>(a, out). Inr (s\<lparr>wi_leader := a\<rparr>, map Leader_Can out))"
| "wired_react mode (Follower_Tick rd) s =
     res_bind (arm_tick mode rd (wi_follower s)) (\<lambda>(a, out). Inr (s\<lparr>wi_follower := a\<rparr>, map Follower_Can out))"
| "wired_react mode Admin_Tick s =
     (let (l, f) = admin_tick (wi_leader s) (wi_follower s) in Inr (s\<lparr>wi_leader := l, wi_follower := f\<rparr>, []))"
| "wired_react mode Sigint s = Inr (s\<lparr>wi_keep_running := False\<rparr>, [])"
| "wired_react mode Main_Wakes s =
     (if wi_keep_running s then Inr (s, [])
      else Inr (s\<lparr>wi_exited := True\<rparr>, [Leader_Can Disable_All, Follower_Can Disable_All]))"

definition wired_run ::
    "wired_mode \<Rightarrow> wired_event list \<Rightarrow> Wired \<Rightarrow> (Wired \<times> wired_output list) result" where
  "wired_run mode = app_run (wired_react mode) wi_exited"

section \<open>Start-up\<close>

record WiredArgs =
  wa_leader_urdf :: string
  wa_follower_urdf :: string
  wa_arm_side :: string
  wa_leader_can :: string
  wa_follower_can :: string

text \<open>The arguments after the program's name; \<open>None\<close>: usage or an invalid side, \<open>main\<close> returns 1.\<close>

definition wired_args :: "string list \<Rightarrow> WiredArgs option" where
  "wired_args argv =
     (if length argv < 2 then None
      else if length argv \<ge> 3 \<and> argv ! 2 \<noteq> ''left_arm'' \<and> argv ! 2 \<noteq> ''right_arm'' then None
      else Some \<lparr> wa_leader_urdf = argv ! 0, wa_follower_urdf = argv ! 1,
             wa_arm_side = (if length argv \<ge> 3 then argv ! 2 else ''right_arm''),
             wa_leader_can = (if length argv \<ge> 5 then argv ! 3 else ''can0''),
             wa_follower_can = (if length argv \<ge> 5 then argv ! 4 else ''can2'') \<rparr>)"

text \<open>
  What start-up meets: the files (\<open>None\<close>: \<open>std::filesystem::exists\<close> throws), the buses (\<open>False\<close>: opening the bus throws), the arms. An arm
  whose model does not load has \<open>ae_dynamics = None\<close>; \<open>main\<close> does not look at the result of
  \<open>Init\<close>.
\<close>

record WiredStartEnv =
  ws_file_exists :: "string \<Rightarrow> bool option"
  ws_leader_yaml :: "string + YamlLoader"
  ws_follower_yaml :: "string + YamlLoader"
  ws_can_ok :: "string \<Rightarrow> bool"
  ws_leader :: ArmEnv
  ws_follower :: ArmEnv

definition wired_parameters ::
    "WiredStartEnv \<Rightarrow> ((Control \<Rightarrow> Control) \<times> (Control \<Rightarrow> Control)) result" where
  "wired_parameters env =
     res_bind (yaml_load ''config/leader.yaml'' (ws_leader_yaml env)) (\<lambda>lcfg.
     res_bind (yaml_load ''config/follower.yaml'' (ws_follower_yaml env)) (\<lambda>fcfg.
     res_bind (six_vectors lcfg ''LeaderArmParam'') (\<lambda>(kp, kd, Fc, k, Fv, Fo).
     res_bind (six_vectors fcfg ''FollowerArmParam'') (\<lambda>(kp', kd', Fc', k', Fv', Fo').
       Inr (SetParameter kp kd Fc k Fv Fo, SetParameter kp' kd' Fc' k' Fv' Fo')))))"

text \<open>Whether both model files are there; the second is looked for only if the first is.\<close>

definition wired_files :: "WiredStartEnv \<Rightarrow> WiredArgs \<Rightarrow> bool option" where
  "wired_files env a =
     (case ws_file_exists env (wa_leader_urdf a) of
        Some True \<Rightarrow> ws_file_exists env (wa_follower_urdf a)
      | r \<Rightarrow> r)"

text \<open>An arm as \<open>main\<close> builds it on an initialised bus.\<close>

definition wired_arm ::
    "WiredStartEnv \<Rightarrow> nat \<Rightarrow> string \<Rightarrow> (Control \<Rightarrow> Control) \<Rightarrow> ArmEnv \<Rightarrow> arm" where
  "wired_arm env role arm_side set_parameter e =
     (set_parameter (control_new (ae_dynamics (ws_leader env)) (ae_dynamics (ws_follower env)) role arm_side),
      system_state_new (length (rd_arm (ae_verify e))) (length (rd_gripper (ae_verify e))))"

text \<open>
  The commands on the two buses, and either the exit status of \<open>main\<close> or the running program.
  An exception ends \<open>main\<close> with status 0.
\<close>

definition wired_start ::
    "string list \<Rightarrow> WiredStartEnv \<Rightarrow> ((can_command list \<times> can_command list) \<times> (int + Wired)) result" where
  "wired_start argv env =
    (case wired_args argv of
       None \<Rightarrow> Inr (([], []), Inl 1)
     | Some a \<Rightarrow>
        (if wired_files env a = None then Inr (([], []), Inl 0)
         else if wired_files env a = Some False then Inr (([], []), Inl 1)
         else case wired_parameters env of
             Inl e \<Rightarrow> (if e = Undefined_Behaviour then Inl e else Inr (([], []), Inl 0))
           | Inr (set_l, set_f) \<Rightarrow>
              (let init = initialize_openarm DEFAULT_MOTOR_CONFIG
               in if \<not> ws_can_ok env (wa_leader_can a) then Inr (([], []), Inl 0)
                  else if \<not> ws_can_ok env (wa_follower_can a) then Inr ((init, []), Inl 0)
                  else
                    res_bind (adjust_arm (ws_leader env)
                        (wired_arm env ROLE_LEADER (wa_arm_side a) set_l (ws_leader env))) (\<lambda>(l, cl).
                    res_bind (adjust_arm (ws_follower env)
                        (wired_arm env ROLE_FOLLOWER (wa_arm_side a) set_f (ws_follower env))) (\<lambda>(f, cf).
                      Inr ((init @ cl, init @ cf),
                        Inr \<lparr> wi_exited = False, wi_keep_running = True, wi_leader = l,
                              wi_follower = f \<rparr>))))))"

section \<open>The programs\<close>

fun leader_can :: "wired_output \<Rightarrow> can_command list" where
  "leader_can (Leader_Can c) = [c]"
| "leader_can (Follower_Can c) = []"

fun follower_can :: "wired_output \<Rightarrow> can_command list" where
  "follower_can (Leader_Can c) = []"
| "follower_can (Follower_Can c) = [c]"

text \<open>
  A whole execution: the commands on the bus of the leader and of the follower, and the exit
  status once \<open>main\<close> has returned.
\<close>

definition wired_main ::
    "wired_mode \<Rightarrow> string list \<Rightarrow> WiredStartEnv \<Rightarrow> wired_event list
      \<Rightarrow> ((can_command list \<times> can_command list) \<times> int option) result" where
  "wired_main mode argv env events =
     res_bind (wired_start argv env) (\<lambda>((cl, cf), r).
       case r of
         Inl status \<Rightarrow> Inr ((cl, cf), Some status)
       | Inr s \<Rightarrow>
           res_bind (wired_run mode events s) (\<lambda>(s, out).
             Inr ((cl @ concat (map leader_can out), cf @ concat (map follower_can out)),
               if wi_exited s then Some 0 else None)))"

definition bilateral_control_main where
  "bilateral_control_main = wired_main Wired_Bilateral"

definition unilateral_control_main where
  "unilateral_control_main = wired_main Wired_Unilateral"

section \<open>The joint states of the two arms\<close>

lemma wired_step_state:
  "wired_step mode rd ct rs = Inr (ct', rs', out) \<Longrightarrow> rs' = store_responses rd rs"
  by (auto simp: wired_step_def bilateral_step_def unilateral_step_def leader_step_def follower_step_def
      res_bind_eq_Inr Let_def split: wired_mode.splits if_splits)

lemma arm_tick_state: "arm_tick mode rd a = Inr (a', out) \<Longrightarrow> snd a' = store_responses rd (snd a)"
  by (auto simp: arm_tick_def guard_on_timer_def res_bind_def dest: wired_step_state
      split: sum.splits if_splits)

text \<open>The references of the follower, and what is measured on the leader.\<close>

definition follower_refs :: "Wired \<Rightarrow> JointState list \<times> JointState list" where
  "follower_refs s = (rs_reference (ss_arm (snd (wi_follower s))), rs_reference (ss_hand (snd (wi_follower s))))"

definition leader_measured :: "Wired \<Rightarrow> JointState list \<times> JointState list" where
  "leader_measured s = (rs_response (ss_arm (snd (wi_leader s))), rs_response (ss_hand (snd (wi_leader s))))"

definition leader_ticks :: "wired_event \<Rightarrow> bool" where
  "leader_ticks e = (case e of Leader_Tick _ \<Rightarrow> True | _ \<Rightarrow> False)"

lemma wired_react_measured:
  assumes "wired_react mode e s = Inr (s', out)"
  shows "leader_measured s' = (case e of
      Leader_Tick rd \<Rightarrow> (arm_motor_to_joint (rd_arm rd), gripper_motor_to_joint (rd_gripper rd))
    | _ \<Rightarrow> leader_measured s)"
  using assms
  by (cases e) (auto simp: leader_measured_def admin_tick_def follow_state_def set_all_references_def
      store_responses_def set_all_responses_def res_bind_eq_Inr dest!: arm_tick_state split: if_splits)

lemma wired_react_refs:
  assumes "wired_react mode e s = Inr (s', out)"
  shows "follower_refs s' = (if e = Admin_Tick then leader_measured s else follower_refs s)"
  using assms
  by (cases e) (auto simp: leader_measured_def follower_refs_def admin_tick_def follow_state_def
      set_all_references_def res_bind_eq_Inr dest!: arm_tick_state split: if_splits)

lemma wired_react_exit: "wired_react mode e s = Inr (s', out) \<Longrightarrow> wi_exited s \<Longrightarrow> wi_exited s'"
  by (cases e) (auto simp: res_bind_eq_Inr admin_tick_def Let_def split: if_splits)

lemma wired_run_split:
  assumes "wired_run mode (as @ e # bs) s = Inr (s', out)" and "\<not> wi_exited s'"
  shows "\<exists>s1 s2 o1 o2 o3. wired_run mode as s = Inr (s1, o1) \<and> wired_react mode e s1 = Inr (s2, o2)
    \<and> wired_run mode bs s2 = Inr (s', o3)"
  using assms
  by (auto simp: wired_run_def app_run_append res_bind_eq_Inr split: if_splits)

lemma follower_tick_frames:
  assumes "wired_react Wired_Unilateral (Follower_Tick rd) s = Inr (s', out)" and "out \<noteq> []"
    and "ct_role (fst (wi_follower s)) = ROLE_FOLLOWER"
  shows "\<exists>arm hand. out = [Follower_Can (Arm_Mit arm), Follower_Can (Gripper_Mit hand), Follower_Can (Recv_All (Some 200))]
    \<and> map mp_q arm = map js_position (fst (follower_refs s))
    \<and> map mp_dq arm = map js_velocity (fst (follower_refs s))
    \<and> map mp_q hand = map ms_position (gripper_joint_to_motor (snd (follower_refs s)))"
proof -
  obtain ct' rs' cmds where "follower_step rd (fst (wi_follower s)) (snd (wi_follower s)) = Inr (ct', rs', cmds)"
    and out: "out = map Follower_Can cmds"
    using assms
    by (auto simp: arm_tick_def guard_on_timer_def wired_step_def follower_role_step res_bind_def
        split: sum.splits if_splits)
  then show ?thesis
    by (auto simp: follower_step_def Let_def res_bind_eq_Inr follower_refs_def arm_joint_to_motor_def
        comp_def dest!: track_commands_pos_vel)
qed

text \<open>
  C23: the wired follower copies the leader. Whatever else happens between them, once a cycle of
  the leader has measured the arm and the admin thread has run after it, the follower's
  references are that measurement, until the admin thread runs again; and a frame the follower
  then sends in unilateral operation commands exactly the positions and velocities of the
  leader's arm motors and the position of its gripper motor.
\<close>

theorem wired_follower_copies_leader:
  assumes "wired_run mode (as @ Leader_Tick rd # bs @ Admin_Tick # cs) s = Inr (s', out)"
    and "\<not> wi_exited s'" and "\<forall>e \<in> set bs. \<not> leader_ticks e" and "Admin_Tick \<notin> set cs"
  shows "follower_refs s' = (arm_motor_to_joint (rd_arm rd), gripper_motor_to_joint (rd_gripper rd))
    \<and> (\<forall>rd' s'' frames. wired_react Wired_Unilateral (Follower_Tick rd') s' = Inr (s'', frames)
         \<longrightarrow> frames \<noteq> [] \<longrightarrow> ct_role (fst (wi_follower s')) = ROLE_FOLLOWER
         \<longrightarrow> (\<exists>arm hand. frames = [Follower_Can (Arm_Mit arm), Follower_Can (Gripper_Mit hand),
                              Follower_Can (Recv_All (Some 200))]
              \<and> map mp_q arm = map ms_position (rd_arm rd) \<and> map mp_dq arm = map ms_velocity (rd_arm rd)
              \<and> map mp_q hand = map ms_position (rd_gripper rd)))"
proof -
  obtain s1 s2 o1 o2 o3 where l: "wired_react mode (Leader_Tick rd) s1 = Inr (s2, o1)"
    and r: "wired_run mode (bs @ Admin_Tick # cs) s2 = Inr (s', o2)"
    using wired_run_split [OF assms(1,2)] by blast
  obtain s3 s4 o4 o5 o6 where b: "wired_run mode bs s2 = Inr (s3, o4)"
    and a: "wired_react mode Admin_Tick s3 = Inr (s4, o5)" and c: "wired_run mode cs s4 = Inr (s', o6)"
    using wired_run_split [OF r assms(2)] by blast
  have "leader_measured s3 = leader_measured s2"
    using b unfolding wired_run_def
  proof (rule app_run_keeps)
    fix e s s' out
    assume "e \<in> set bs" "wired_react mode e s = Inr (s', out)"
    with assms(3) show "leader_measured s' = leader_measured s"
      by (auto simp: leader_ticks_def split: wired_event.splits dest!: wired_react_measured)
  qed
  moreover have "follower_refs s' = follower_refs s4"
    using c unfolding wired_run_def
  proof (rule app_run_keeps)
    fix e s s' out
    assume "e \<in> set cs" "wired_react mode e s = Inr (s', out)"
    with assms(4) show "follower_refs s' = follower_refs s" by (auto dest!: wired_react_refs)
  qed
  ultimately have refs: "follower_refs s' = (arm_motor_to_joint (rd_arm rd), gripper_motor_to_joint (rd_gripper rd))"
    using wired_react_measured [OF l] wired_react_refs [OF a] by simp
  have "map js_position (arm_motor_to_joint ms) = map ms_position ms"
    "map js_velocity (arm_motor_to_joint ms) = map ms_velocity ms" for ms
    by (simp_all add: arm_motor_to_joint_def)
  with refs show ?thesis
    using follower_tick_frames [of _ s'] by (metis fst_conv gripper_conv.motor_joint snd_conv)
qed

definition example_wired :: Wired where
  "example_wired =
     \<lparr> wi_exited = False, wi_keep_running = True,
       wi_leader = (example_leader, system_state_new 1 1),
       wi_follower = (SetParameter [Fin 1, Fin 1] [Fin 1, Fin 1] [] [] [] []
         (control_new None None ROLE_FOLLOWER ''right_arm''), system_state_new 1 1) \<rparr>"

lemma example_wired_run:
  "\<exists>s' out. wired_run Wired_Unilateral [Leader_Tick example_readings, Admin_Tick] example_wired = Inr (s', out)
    \<and> \<not> wi_exited s' \<and> fst (wi_follower s') = fst (wi_follower example_wired)"
proof -
  have role: "ct_role example_leader = ROLE_LEADER"
    by (simp add: example_leader_def SetParameter_def control_new_def SetEffortLimits_def)
  obtain a g where l: "leader_step None example_readings example_leader (system_state_new 1 1) =
      Inr (example_leader\<lparr>ct_leader_first_cycle_logged := True\<rparr>,
        store_responses example_readings (system_state_new 1 1), [Arm_Mit a, Gripper_Mit g, Recv_All (Some 200)])"
    using leader_step_returns [OF example_leader_ok(2,3)] by blast
  then have "arm_tick Wired_Unilateral example_readings (wi_leader example_wired) =
      Inr ((example_leader\<lparr>ct_leader_first_cycle_logged := True\<rparr>,
        store_responses example_readings (system_state_new 1 1)), [Arm_Mit a, Gripper_Mit g, Recv_All (Some 200)])"
    by (simp add: arm_tick_def guard_on_timer_def wired_step_def unilateral_step_def role example_wired_def)
  then show ?thesis
    by (simp add: wired_run_def admin_tick_def example_wired_def)
qed

theorem wired_follower_copies_leader_witness:
  "\<exists>s' out s'' arm hand. wired_run Wired_Unilateral [Leader_Tick example_readings, Admin_Tick] example_wired = Inr (s', out)
    \<and> wired_react Wired_Unilateral (Follower_Tick example_readings) s' =
        Inr (s'', [Follower_Can (Arm_Mit arm), Follower_Can (Gripper_Mit hand), Follower_Can (Recv_All (Some 200))])
    \<and> map mp_q arm = [Fin 1] \<and> map mp_q hand = [Fin 0]"
proof -
  obtain s' out where r: "wired_run Wired_Unilateral [Leader_Tick example_readings, Admin_Tick] example_wired = Inr (s', out)"
      "\<not> wi_exited s'" and f: "fst (wi_follower s') = fst (wi_follower example_wired)"
    using example_wired_run by blast
  note copy = wired_follower_copies_leader [of Wired_Unilateral "[]" example_readings "[]" "[]", simplified, OF r]
  then have refs: "length (rs_reference (ss_arm (snd (wi_follower s')))) = 1"
      "length (rs_reference (ss_hand (snd (wi_follower s')))) = 1"
    by (simp_all add: follower_refs_def example_readings_def arm_motor_to_joint_def gripper_motor_to_joint_def)
  have c: "ct_role (fst (wi_follower s')) = ROLE_FOLLOWER" "length (ct_Kp (fst (wi_follower s'))) = 2"
      "length (ct_Kd (fst (wi_follower s'))) = 2" "ct_dynamics_f (fst (wi_follower s')) = None"
    by (simp_all add: f example_wired_def SetParameter_def control_new_def SetEffortLimits_def)
  obtain rs' arm hand where "follower_step example_readings (fst (wi_follower s')) (snd (wi_follower s'))
      = Inr (fst (wi_follower s'), rs', [Arm_Mit arm, Gripper_Mit hand, Recv_All (Some 200)])"
    using follower_step_returns [of "snd (wi_follower s')" "fst (wi_follower s')" example_readings] refs c
    by (auto simp: example_readings_def)
  then have tick: "wired_react Wired_Unilateral (Follower_Tick example_readings) s' =
      Inr (s'\<lparr>wi_follower := (fst (wi_follower s'), rs')\<rparr>, [Follower_Can (Arm_Mit arm),
        Follower_Can (Gripper_Mit hand), Follower_Can (Recv_All (Some 200))])"
    by (simp add: arm_tick_def guard_on_timer_def wired_step_def follower_role_step c(1))
  with copy c(1) have "map mp_q arm = [Fin 1]" "map mp_q hand = [Fin 0]"
    by (fastforce simp: example_readings_def)+
  with r(1) tick show ?thesis by (intro exI conjI)
qed

section \<open>Exits\<close>

text \<open>What a failed start leaves behind: nothing has moved and the follower is off.\<close>

lemma wired_failed_start:
  assumes "wired_start argv env = Inr ((cl, cf), Inl status)"
  shows "(\<forall>c \<in> set (cl @ cf). \<forall>ps. c \<noteq> Arm_Mit ps \<and> c \<noteq> Gripper_Mit ps) \<and> \<not> motors_on cf
    \<and> (case wired_args argv of
         None \<Rightarrow> status = 1 \<and> \<not> motors_on cl
       | Some a \<Rightarrow>
           if wired_files env a = Some False
           then status = 1 \<and> \<not> motors_on cl
           else status = 0 \<and> (motors_on cl \<longleftrightarrow> wired_files env a = Some True \<and> res_is_ok (wired_parameters env)
                  \<and> ws_can_ok env (wa_leader_can a) \<and> \<not> ws_can_ok env (wa_follower_can a)))"
  using assms
  by (auto simp: wired_start_def res_bind_eq_Inr motors_on_def initialize_openarm_def res_is_ok_def Let_def
      split: option.splits sum.splits if_splits)

lemma wired_started:
  assumes "wired_start argv env = Inr (cmds, Inr s)"
  obtains a where "wired_args argv = Some a" "wired_files env a = Some True" "ws_can_ok env (wa_follower_can a)" "\<not> wi_exited s"
  using assms
  by (auto simp: wired_start_def res_bind_eq_Inr Let_def split: option.splits sum.splits if_splits)

lemma wired_run_exit:
  assumes "wired_run mode es s = Inr (s', out)" and "\<not> wi_exited s" and "wi_exited s'"
  shows "\<exists>out'. out = out' @ [Leader_Can Disable_All, Follower_Can Disable_All]"
  using assms
proof (induction es arbitrary: s out)
  case (Cons e es)
  then obtain s1 o1 o2 where e: "wired_react mode e s = Inr (s1, o1)"
    and r: "wired_run mode es s1 = Inr (s', o2)" and out: "out = o1 @ o2"
    by (auto simp: wired_run_def res_bind_eq_Inr)
  show ?case
  proof (cases "wi_exited s1")
    case True
    then have "o2 = []" using r by (simp add: wired_run_def)
    moreover have "o1 = [Leader_Can Disable_All, Follower_Can Disable_All]"
      using e True Cons.prems(2) by (cases e) (auto simp: res_bind_eq_Inr admin_tick_def split: if_splits)
    ultimately show ?thesis using out by simp
  next
    case False
    then show ?thesis using Cons.IH [OF r] Cons.prems(3) out by auto
  qed
qed (simp add: wired_run_def)

text \<open>
  C34: how a wired program can end, in either operation, from every command line and whatever
  happens while it runs. The follower's motors are off. The leader's are off as well, with one
  exception: when the follower's bus cannot be opened the leader, switched on before, stays on.
  Status 1 means wrong arguments or a missing model file; every other end gives status 0, also
  that of a program whose configuration or bus could not be opened, or whose look at the files threw.
\<close>

theorem wired_exit:
  assumes "wired_main mode argv env events = Inr ((cl, cf), Some status)"
  shows "\<not> motors_on cf
    \<and> (case wired_args argv of
         None \<Rightarrow> status = 1 \<and> \<not> motors_on cl
       | Some a \<Rightarrow>
           if wired_files env a = Some False
           then status = 1 \<and> \<not> motors_on cl
           else status = 0 \<and> (motors_on cl \<longleftrightarrow> wired_files env a = Some True \<and> res_is_ok (wired_parameters env)
                  \<and> ws_can_ok env (wa_leader_can a) \<and> \<not> ws_can_ok env (wa_follower_can a)))"
proof -
  obtain bl bf r where start: "wired_start argv env = Inr ((bl, bf), r)"
    using assms by (auto simp: wired_main_def res_bind_eq_Inr)
  show ?thesis
  proof (cases r)
    case (Inl st)
    with assms start have "cl = bl" "cf = bf" "status = st" by (simp_all add: wired_main_def)
    with wired_failed_start start Inl show ?thesis by simp
  next
    case (Inr s)
    from wired_started [OF start [unfolded this]] obtain a where
      a: "wired_args argv = Some a" "wired_files env a = Some True" "ws_can_ok env (wa_follower_can a)" "\<not> wi_exited s" .
    obtain s' out where run: "wired_run mode events s = Inr (s', out)" "wi_exited s'" and
      cl: "cl = bl @ concat (map leader_can out)" and cf: "cf = bf @ concat (map follower_can out)" and
      st: "status = 0"
      using assms start Inr by (auto simp: wired_main_def res_bind_eq_Inr split: if_splits)
    obtain out' where "out = out' @ [Leader_Can Disable_All, Follower_Can Disable_All]"
      using wired_run_exit [OF run(1) a(4) run(2)] ..
    with cl cf have "\<not> motors_on cl" "\<not> motors_on cf" by (simp_all flip: append_assoc)
    with st a show ?thesis by simp
  qed
qed

definition example_wired_env :: WiredStartEnv where
  "example_wired_env =
     \<lparr> ws_file_exists = (\<lambda>_. Some True),
       ws_leader_yaml = Inr (\<lambda>_. Some (\<lambda>_. Some \<lparr> yn_double = Inr (Fin 0), yn_vector = Inr [],
         yn_string = Inr [], yn_bool = Inr True, yn_int = Inr 0 \<rparr>)),
       ws_follower_yaml = Inr (\<lambda>_. Some (\<lambda>_. Some \<lparr> yn_double = Inr (Fin 0), yn_vector = Inr [],
         yn_string = Inr [], yn_bool = Inr True, yn_int = Inr 0 \<rparr>)),
       ws_can_ok = (\<lambda>can. can = ''can0''),
       ws_leader = \<lparr> ae_dynamics = None, ae_verify = example_readings, ae_start = example_readings,
         ae_steps = (\<lambda>_. example_readings) \<rparr>,
       ws_follower = \<lparr> ae_dynamics = None, ae_verify = example_readings, ae_start = example_readings,
         ae_steps = (\<lambda>_. example_readings) \<rparr> \<rparr>"

theorem wired_exit_witness:
  "\<exists>cl cf. wired_main Wired_Unilateral [''l.urdf'', ''f.urdf''] example_wired_env [] = Inr ((cl, cf), Some 0)
    \<and> motors_on cl"
proof -
  have a: "wired_args [''l.urdf'', ''f.urdf''] = Some \<lparr> wa_leader_urdf = ''l.urdf'',
      wa_follower_urdf = ''f.urdf'', wa_arm_side = ''right_arm'', wa_leader_can = ''can0'',
      wa_follower_can = ''can2'' \<rparr>"
    by (simp add: wired_args_def)
  have p: "wired_parameters example_wired_env
      = Inr (SetParameter [] [] [] [] [] [], SetParameter [] [] [] [] [] [])"
    by (simp add: wired_parameters_def example_wired_env_def yaml_load_def six_vectors_def yaml_get_def
        yaml_get_node_def)
  have env: "wired_files example_wired_env f = Some True" "ws_can_ok example_wired_env can \<longleftrightarrow> can = ''can0''" for f can
    by (simp_all add: example_wired_env_def wired_files_def)
  have s: "wired_main Wired_Unilateral [''l.urdf'', ''f.urdf''] example_wired_env []
      = Inr ((initialize_openarm DEFAULT_MOTOR_CONFIG, []), Some 0)"
    by (simp add: wired_main_def wired_start_def a p env)
  from wired_exit [OF s] s show ?thesis
    by (simp add: a p env res_is_ok_def)
qed

end
