(* ===== verification/Datagram_Tools.thy ===== *)
theory Datagram_Tools
  imports Telemetry_Publisher Udp_Channel App_Common
begin

text \<open>
  The command-line tools around the datagram streams: \<open>tools/udp_fanout.cpp\<close> and
  \<open>tools/telemetry_fanout.cpp\<close>, which copy every datagram to a list of targets and differ only
  in their defaults, \<open>tools/telemetry_receiver_sample.cpp\<close> and
  \<open>tools/telemetry_mock_publisher.cpp\<close>.
\<close>

section \<open>Endpoints\<close>

text \<open>\<open>IP:PORT\<close>, split at the last colon; the number may be followed by anything.\<close>

definition parse_endpoint :: "string \<Rightarrow> (string \<times> u16) option" where
  "parse_endpoint s =
     (let after = rev (takeWhile (\<lambda>c. c \<noteq> CHR '':'') (rev s));
          rest = dropWhile (\<lambda>c. c \<noteq> CHR '':'') (rev s);
          ip = rev (tl rest)
      in if rest = [] \<or> ip = [] \<or> after = [] then None
         else case stoi after of
             Inl e \<Rightarrow> None
           | Inr p \<Rightarrow> (if p \<le> 0 \<or> p > 65535 then None else Some (ip, word_of_int p)))"

text \<open>\<open>inet\<close>: the addresses \<open>inet_pton\<close> accepts.\<close>

definition make_addr :: "(string \<Rightarrow> bool) \<Rightarrow> string \<Rightarrow> u16 \<Rightarrow> (string \<times> u16) option" where
  "make_addr inet ip port = (if inet ip then Some (ip, port) else None)"

section \<open>The fan-out\<close>

record FanoutArgs =
  fn_bind_ip :: string
  fn_listen_port :: u16
  fn_targets :: "(string \<times> u16) list"

definition udp_fanout_default :: FanoutArgs where
  "udp_fanout_default = \<lparr> fn_bind_ip = ''0.0.0.0'', fn_listen_port = 54002, fn_targets = [] \<rparr>"

definition telemetry_fanout_default :: FanoutArgs where
  "telemetry_fanout_default = \<lparr> fn_bind_ip = ''127.0.0.1'', fn_listen_port = 51001, fn_targets = [] \<rparr>"

text \<open>\<open>Inl\<close> in the result: the exit status of \<open>main\<close>.\<close>

fun fanout_args ::
    "(string \<Rightarrow> bool) \<Rightarrow> string list \<Rightarrow> FanoutArgs \<Rightarrow> (int + FanoutArgs) result" where
  "fanout_args inet [] a = Inr (Inr a)"
| "fanout_args inet [x] a = Inr (Inl (if x = ''--help'' \<or> x = ''-h'' then 0 else 1))"
| "fanout_args inet (x # v # xs) a =
     (if x = ''--bind-ip'' then fanout_args inet xs (a\<lparr>fn_bind_ip := v\<rparr>)
      else if x = ''--listen-port'' \<or> x = ''--port'' then
        res_bind (stoi v) (\<lambda>p.
          if p \<le> 0 \<or> p > 65535 then Inr (Inl 1)
          else fanout_args inet xs (a\<lparr>fn_listen_port := word_of_int p\<rparr>))
      else if x = ''--target'' then
        (case parse_endpoint v of
           None \<Rightarrow> Inr (Inl 1)
         | Some (ip, port) \<Rightarrow>
             (case make_addr inet ip port of
                None \<Rightarrow> Inr (Inl 1)
              | Some addr \<Rightarrow> fanout_args inet xs (a\<lparr>fn_targets := fn_targets a @ [addr]\<rparr>)))
      else Inr (Inl (if x = ''--help'' \<or> x = ''-h'' then 0 else 1)))"

text \<open>What the socket calls answer at the start.\<close>

record FanoutEnv =
  fe_inet :: "string \<Rightarrow> bool"
  fe_socket :: bool
  fe_bind :: "string \<times> u16 \<Rightarrow> bool"

definition fanout_start :: "FanoutArgs \<Rightarrow> FanoutEnv \<Rightarrow> string list \<Rightarrow> (int + (string \<times> u16) list) result" where
  "fanout_start defaults env argv =
     res_bind (fanout_args (fe_inet env) argv defaults) (\<lambda>r. Inr (case r of
         Inl status \<Rightarrow> Inl status
       | Inr a \<Rightarrow>
           (if fn_targets a = [] then Inl 1
            else if \<not> fe_socket env then Inl 1
            else case make_addr (fe_inet env) (fn_bind_ip a) (fn_listen_port a) of
                None \<Rightarrow> Inl 1
              | Some addr \<Rightarrow> (if fe_bind env addr then Inr (fn_targets a) else Inl 1))))"

text \<open>
  The loop: \<open>Fan_Signal\<close> clears \<open>keep_running\<close>, which is tested before each \<open>recv\<close>; a failed
  \<open>recv\<close> other than an interrupted one ends the program. The result lists the calls of
  \<open>sendto\<close>, whose answers are ignored.
\<close>

datatype fan_step = Fan_Recv recv_result | Fan_Signal

fun fanout_loop :: "'t list \<Rightarrow> fan_step list \<Rightarrow> ('t \<times> u8 list) list" where
  "fanout_loop targets [] = []"
| "fanout_loop targets (Fan_Signal # steps) = []"
| "fanout_loop targets (Fan_Recv (Recv_Failed e) # steps) =
     (if e = EINTR then fanout_loop targets steps else [])"
| "fanout_loop targets (Fan_Recv (Recv_Datagram d) # steps) =
     map (\<lambda>t. (t, take 4096 d)) targets @ fanout_loop targets steps"

text \<open>
  The two programs: the datagrams sent and the exit status, for the steps up to the end. A port
  that is no number throws, and nothing catches it.
\<close>

definition fanout_main ::
    "FanoutArgs \<Rightarrow> FanoutEnv \<Rightarrow> fan_step list \<Rightarrow> string list
      \<Rightarrow> (((string \<times> u16) \<times> u8 list) list \<times> int) result" where
  "fanout_main defaults env steps argv =
     res_bind (fanout_start defaults env argv) (\<lambda>r.
       Inr (case r of Inl status \<Rightarrow> ([], status) | Inr targets \<Rightarrow> (fanout_loop targets steps, 0)))"

definition udp_fanout_main where
  "udp_fanout_main = fanout_main udp_fanout_default"

definition telemetry_fanout_main where
  "telemetry_fanout_main = fanout_main telemetry_fanout_default"

text \<open>The datagrams that arrive before the program ends.\<close>

fun fan_received :: "fan_step list \<Rightarrow> u8 list list" where
  "fan_received [] = []"
| "fan_received (Fan_Signal # steps) = []"
| "fan_received (Fan_Recv (Recv_Failed e) # steps) = (if e = EINTR then fan_received steps else [])"
| "fan_received (Fan_Recv (Recv_Datagram d) # steps) = d # fan_received steps"

definition sent_to :: "'t \<Rightarrow> ('t \<times> u8 list) list \<Rightarrow> u8 list list" where
  "sent_to t sends = map snd (filter (\<lambda>s. fst s = t) sends)"

lemma sent_to_simps [simp]:
  "sent_to t [] = []" "sent_to t (xs @ ys) = sent_to t xs @ sent_to t ys"
  by (simp_all add: sent_to_def)

lemma sent_to_copies: "sent_to t (map (\<lambda>t. (t, d)) ts) = replicate (count_list ts t) d"
  by (induction ts) (auto simp: sent_to_def)

lemma fanout_loop_copies:
  "sent_to t (fanout_loop ts steps)
     = concat (map (\<lambda>d. replicate (count_list ts t) (take 4096 d)) (fan_received steps))"
  by (induction ts steps rule: fanout_loop.induct) (simp_all add: sent_to_copies)

lemma fanout_start_targets:
  assumes "fanout_start defaults env argv = Inr (Inr ts)"
  shows "ts \<noteq> []"
proof -
  obtain r where "fanout_args (fe_inet env) argv defaults = Inr r"
    using assms by (auto simp: fanout_start_def res_bind_eq_Inr)
  with assms show ?thesis
    by (cases r) (auto simp: fanout_start_def split: if_splits option.splits)
qed

text \<open>
  The fan-out is transparent. A started fan-out has a target; as long as the datagrams fit
  its buffer of 4096 bytes, each target that was given once gets exactly the datagrams that
  arrived before the program ended, unchanged and in order, and nobody else gets anything.
\<close>

theorem fanout_transparent:
  assumes "fanout_start defaults env argv = Inr (Inr ts)"
    and "\<forall>d \<in> set (fan_received steps). length d \<le> 4096"
  shows "ts \<noteq> []
    \<and> (\<forall>t. count_list ts t = 1 \<longrightarrow> sent_to t (fanout_loop ts steps) = fan_received steps)
    \<and> (\<forall>t. t \<notin> set ts \<longrightarrow> sent_to t (fanout_loop ts steps) = [])"
proof -
  have one: "concat (map (\<lambda>d. [take 4096 d]) ds) = ds" if "\<forall>d \<in> set ds. length d \<le> 4096" for ds :: "u8 list list"
    using that by (induction ds) simp_all
  show ?thesis
    using fanout_start_targets [OF assms(1)] one [OF assms(2)]
    by (auto simp: fanout_loop_copies count_list_0_iff)
qed

theorem fanout_transparent_witness:
  "\<exists>ts. fanout_start udp_fanout_default \<lparr> fe_inet = (\<lambda>_. True), fe_socket = True, fe_bind = (\<lambda>_. True) \<rparr>
      [''--target'', ''127.0.0.1:54012'', ''--target'', ''127.0.0.1:54022''] = Inr (Inr ts)
    \<and> sent_to (''127.0.0.1'', 54022) (fanout_loop ts [Fan_Recv (Recv_Datagram [1, 2]),
        Fan_Recv (Recv_Failed EINTR), Fan_Recv (Recv_Datagram [3]), Fan_Signal]) = [[1, 2], [3]]"
proof -
  let ?env = "\<lparr> fe_inet = (\<lambda>_. True), fe_socket = True, fe_bind = (\<lambda>_. True) \<rparr>"
  let ?argv = "[''--target'', ''127.0.0.1:54012'', ''--target'', ''127.0.0.1:54022'']"
  let ?ts = "[(''127.0.0.1'', 54012), (''127.0.0.1'', 54022)] :: (string \<times> u16) list"
  let ?steps = "[Fan_Recv (Recv_Datagram [1, 2]), Fan_Recv (Recv_Failed EINTR), Fan_Recv (Recv_Datagram [3]), Fan_Signal]"
  have "parse_endpoint ''127.0.0.1:54012'' = Some (''127.0.0.1'', 54012)"
    "parse_endpoint ''127.0.0.1:54022'' = Some (''127.0.0.1'', 54022)"
    by (simp_all add: parse_endpoint_def stoi_def sto_integer_def digits_value_def digit_value_def is_digit_def
        is_space_def)
  then have s: "fanout_start udp_fanout_default ?env ?argv = Inr (Inr ?ts)"
    by (simp add: fanout_start_def udp_fanout_default_def make_addr_def)
  have "count_list ?ts (''127.0.0.1'', 54022) = 1" by simp
  with fanout_transparent [OF s, of ?steps]
  have "sent_to (''127.0.0.1'', 54022) (fanout_loop ?ts ?steps) = fan_received ?steps"
    by (simp del: fanout_loop.simps sent_to_simps)
  with s show ?thesis by (intro exI [of _ ?ts] conjI) (simp_all only: fan_received.simps if_True simp_thms)
qed

section \<open>The sample receiver\<close>

record SampleArgs =
  sp_bind_ip :: string
  sp_port :: u16

definition sample_args :: "string list \<Rightarrow> SampleArgs result" where
  "sample_args argv = parse_args (\<lambda>x v a.
       if x = ''--bind-ip'' then Some (Inr (a\<lparr>sp_bind_ip := v\<rparr>))
       else if x = ''--port'' then arg_u16 v (\<lambda>p. a\<lparr>sp_port := p\<rparr>)
       else None) (\<lambda>x a. None) argv \<lparr> sp_bind_ip = ''0.0.0.0'', sp_port = 51000 \<rparr>"

datatype sample_line = Received u32 u8 u32 | Invalid_Magic

text \<open>\<open>recv\<close> into a packet cuts a longer datagram off; neither version nor checksum is looked at.\<close>

definition sample_receive :: "u8 list \<Rightarrow> sample_line option" where
  "sample_receive d =
     (let d = take telemetry_size d; p = telemetry_of_bytes d
      in if length d \<noteq> telemetry_size then None
         else if te_magic p = TELEMETRY_MAGIC
           then Some (Received (te_seq p) (te_state_dim p) (te_observation_state p ! 0))
         else Some Invalid_Magic)"

section \<open>The mock publisher\<close>

record MockArgs =
  mk_ip :: string
  mk_port :: u16
  mk_rate_hz :: dbl

definition mock_args :: "string list \<Rightarrow> MockArgs result" where
  "mock_args argv = parse_args (\<lambda>x v a.
       if x = ''--telemetry-ip'' then Some (Inr (a\<lparr>mk_ip := v\<rparr>))
       else if x = ''--telemetry-port'' then arg_u16 v (\<lambda>p. a\<lparr>mk_port := p\<rparr>)
       else if x = ''--rate-hz'' then arg_double v (\<lambda>d. a\<lparr>mk_rate_hz := d\<rparr>)
       else None) (\<lambda>x a. None) argv \<lparr> mk_ip = ''127.0.0.1'', mk_port = 51000, mk_rate_hz = Fin 100 \<rparr>"

definition d_wave :: "(real \<Rightarrow> real) \<Rightarrow> dbl \<Rightarrow> u32" where
  "d_wave f x = bits32_of_dbl (case x of Fin t \<Rightarrow> Fin (f t) | _ \<Rightarrow> NaN)"

definition mock_telemetry :: "u64 \<Rightarrow> dbl \<Rightarrow> u32 TelemetryPacket" where
  "mock_telemetry now t =
     (let at_joint = (\<lambda>i. t + Fin (real i / 10))
      in (telemetry_zero 0)\<lparr>te_monotonic_time_ns := now, te_robot_type := 1, te_control_mode := 1,
           te_enabled := 1, te_estop := 0, te_state_dim := 16, te_action_dim := 16,
           te_velocity_dim := 16, te_watchdog_state := 3, te_safety_state := 3,
           te_observation_state := map (\<lambda>i. d_wave sin (at_joint i)) [0..<16],
           te_observation_velocity := map (\<lambda>i. d_wave cos (at_joint i)) [0..<16],
           te_action := map (\<lambda>i. d_wave sin (at_joint i + Fin (5 / 100))) [0..<16]\<rparr>)"

text \<open>The iterations until \<open>keep_running\<close> is cleared, one clock reading each.\<close>

fun mock_loop ::
    "dbl \<Rightarrow> u64 list \<Rightarrow> dbl \<times> TelemetryPublisher \<Rightarrow> ((dbl \<times> TelemetryPublisher) \<times> u8 list list) result" where
  "mock_loop rate_hz [] s = Inr (s, [])"
| "mock_loop rate_hz (now # nows) (t, pub) =
     (let (pub, d) = publish (mock_telemetry now t) pub
      in res_bind (ns_of_seconds (Fin 1 div rate_hz)) (\<lambda>_.
         res_bind (mock_loop rate_hz nows (t + Fin 1 div rate_hz, pub)) (\<lambda>(s, ds).
           Inr (s, (case d of Some d \<Rightarrow> [d] | None \<Rightarrow> []) @ ds))))"

text \<open>What the mock publisher sends is a well-formed packet that the sample receiver reports.\<close>

lemma mock_telemetry_wf: "telemetry_wf (mock_telemetry now t)"
  by (simp add: mock_telemetry_def telemetry_wf_def Let_def telemetry_zero_def)

lemma sample_receives_mock:
  assumes "publish (mock_telemetry now t) pub = (pub', Some d)"
  shows "\<exists>x. sample_receive d = Some (Received (pu_seq pub) 16 x)"
proof -
  have d: "d = telemetry_bytes (telemetry_frame (pu_seq pub) (mock_telemetry now t))"
    using assms by (auto simp: publish_def split: if_splits)
  moreover have "telemetry_wf (telemetry_frame (pu_seq pub) (mock_telemetry now t))"
    using mock_telemetry_wf [of now t] by (simp add: telemetry_frame_def telemetry_wf_def Let_def)
  ultimately show ?thesis
    by (simp add: sample_receive_def telemetry_frame_def mock_telemetry_def Let_def)
qed

end
