(* ===== verification/Hardware_Tools.thy ===== *)
theory Hardware_Tools
  imports Hardware_Setup Controller_Props
begin

text \<open>
  The two small programs that drive one bus: gravity compensation,
  \<open>control/gravity_compasation.cpp\<close>, and the communication test,
  \<open>control/openarm_communication_test.cpp\<close>.
\<close>

section \<open>Gravity compensation\<close>

record GravityArgs =
  ga_arm_side :: string
  ga_can_interface :: string
  ga_urdf_path :: string

text \<open>The arguments after the program's name; \<open>None\<close>: \<open>main\<close> returns 1.\<close>

definition gravity_args :: "(string \<Rightarrow> bool) \<Rightarrow> string list \<Rightarrow> GravityArgs option" where
  "gravity_args exists argv =
     (if length argv < 3 then None
      else if argv ! 0 \<noteq> ''left_arm'' \<and> argv ! 0 \<noteq> ''right_arm'' then None
      else if \<not> exists (argv ! 2) then None
      else Some \<lparr> ga_arm_side = argv ! 0, ga_can_interface = argv ! 1, ga_urdf_path = argv ! 2 \<rparr>)"

text \<open>The torques are kept from one iteration to the next.\<close>

definition gravity_step ::
    "Dynamics option \<Rightarrow> Readings \<Rightarrow> dbl list \<Rightarrow> (dbl list \<times> can_command list) result" where
  "gravity_step dyn rd grav =
     res_bind (get_gravity dyn (map ms_position (rd_arm rd)) grav) (\<lambda>grav.
       Inr (grav, [Arm_Mit (map torque_only grav), Recv_All None]))"

fun gravity_loop ::
    "Dynamics option \<Rightarrow> Readings list \<Rightarrow> dbl list \<Rightarrow> (dbl list \<times> can_command list) result" where
  "gravity_loop dyn [] grav = Inr (grav, [])"
| "gravity_loop dyn (rd # rds) grav =
     res_bind (gravity_step dyn rd grav) (\<lambda>(grav, out).
     res_bind (gravity_loop dyn rds grav) (\<lambda>(grav, out'). Inr (grav, out @ out')))"

text \<open>
  The whole program: \<open>can_ok\<close>, whether the bus opens; the readings of the iterations until the
  signal. The result: the exit status and the commands.
\<close>

definition gravity_main ::
    "(string \<Rightarrow> bool) \<Rightarrow> bool \<Rightarrow> Dynamics option \<Rightarrow> nat \<Rightarrow> Readings list \<Rightarrow> string list \<Rightarrow>
     (int \<times> can_command list) result" where
  "gravity_main exists can_ok dyn arm_motors rds argv =
     (case gravity_args exists argv of
        None \<Rightarrow> Inr (1, [])
      | Some a \<Rightarrow>
          (if \<not> can_ok then Inr (- 1, [])
           else
             res_bind (gravity_loop dyn rds (replicate arm_motors (Fin 0))) (\<lambda>(grav, out).
               Inr (0, initialize_openarm DEFAULT_MOTOR_CONFIG @ [Sleep_Us 100000] @ out
                 @ [Sleep_Us 100000, Disable_All, Recv_All None]))))"

lemma gravity_step_ok:
  assumes "dynamics_ok dyn n" and "length (rd_arm rd) = n" and "length grav = n"
  shows "\<exists>g. gravity_step dyn rd grav = Inr (g, [Arm_Mit (map torque_only g), Recv_All None]) \<and> length g = n"
  using get_gravity_ok [OF assms(1), of "map ms_position (rd_arm rd)" grav] assms(2,3)
  by (auto simp: gravity_step_def)

lemma gravity_loop_ok:
  assumes "dynamics_ok dyn n" and "\<forall>rd \<in> set rds. length (rd_arm rd) = n" and "length grav = n"
  shows "\<exists>g out. gravity_loop dyn rds grav = Inr (g, out)
    \<and> (\<forall>c \<in> set out. c = Recv_All None \<or> (\<exists>ts. c = Arm_Mit (map torque_only ts) \<and> length ts = n))"
  using assms(2,3)
proof (induction rds arbitrary: grav)
  case (Cons rd rds)
  obtain g where g: "gravity_step dyn rd grav = Inr (g, [Arm_Mit (map torque_only g), Recv_All None])" "length g = n"
    using gravity_step_ok [OF assms(1), of rd grav] Cons.prems by auto
  moreover obtain g' out where "gravity_loop dyn rds g = Inr (g', out)"
      "\<forall>c \<in> set out. c = Recv_All None \<or> (\<exists>ts. c = Arm_Mit (map torque_only ts) \<and> length ts = n)"
    using Cons.IH [of g] Cons.prems g(2) by auto
  ultimately show ?case by auto
qed simp

text \<open>With a model that fits the arm the program ends with status 0 and the motors off.\<close>

lemma gravity_main_ends_off:
  assumes "gravity_args exists argv = Some a" and "dynamics_ok dyn n"
    and "\<forall>rd \<in> set rds. length (rd_arm rd) = n"
  shows "\<exists>cmds. gravity_main exists True dyn n rds argv = Inr (0, cmds) \<and> \<not> motors_on cmds"
proof -
  obtain g out where "gravity_loop dyn rds (replicate n (Fin 0)) = Inr (g, out)"
    using gravity_loop_ok [OF assms(2,3), of "replicate n (Fin 0)"] by auto
  then have "gravity_main exists True dyn n rds argv = Inr (0, (initialize_openarm DEFAULT_MOTOR_CONFIG
      @ [Sleep_Us 100000] @ out @ [Sleep_Us 100000]) @ [Disable_All] @ [Recv_All None])"
    by (simp add: gravity_main_def assms(1))
  moreover have "\<not> motors_on ((cs @ [Disable_All]) @ [Recv_All None])" for cs
    by (subst motors_on_neutral) simp_all
  ultimately show ?thesis by (metis append.assoc)
qed

section \<open>The communication test\<close>

text \<open>The calls on the library in order; \<open>Call\<close> are those the other programs make as well.\<close>

datatype test_call =
    Call can_command
  | Callback_Ignore
  | Callback_Param
  | Refresh_All
  | Query_Param_All

definition communication_test :: "test_call list" where
  "communication_test =
     [Call (Init_Arm_Motors [DM8009, DM8009, DM4340, DM4340, DM4310, DM4310, DM4310]
        [0x01, 0x02, 0x03, 0x04, 0x05, 0x06, 0x07] [0x11, 0x12, 0x13, 0x14, 0x15, 0x16, 0x17]),
      Call (Init_Gripper_Motor DM4310 0x08 0x18),
      Callback_Ignore, Refresh_All, Call (Recv_All None),
      Call Enable_All, Call (Sleep_Us 100000), Call (Recv_All None), Call (Sleep_Us 100000),
      Callback_Param, Query_Param_All, Call (Sleep_Us 100000), Call (Recv_All None), Call (Sleep_Us 100000),
      Call Set_Callback_Mode_State,
      Call (Arm_Mit (replicate 7 (torque_only (Fin 0)))), Call (Gripper_Mit [torque_only (Fin 0)]),
      Call (Recv_All None), Call (Sleep_Us 100000)]
     @ concat (replicate 100 [Refresh_All, Call (Recv_All None), Call (Sleep_Us 10000)])
     @ [Call (Sleep_Us 500000), Call Disable_All, Call (Recv_All None)]"

definition test_calls :: "test_call list \<Rightarrow> can_command list" where
  "test_calls cs = concat (map (\<lambda>c. case c of Call x \<Rightarrow> [x] | _ \<Rightarrow> []) cs)"

text \<open>It sets the motors up like the other programs, commands no torque and leaves them off.\<close>

lemma communication_test_harmless:
  "hd communication_test = Call (hd (initialize_openarm DEFAULT_MOTOR_CONFIG))
   \<and> (\<forall>ps p. Arm_Mit ps \<in> set (test_calls communication_test) \<longrightarrow> p \<in> set ps \<longrightarrow> p = torque_only (Fin 0))
   \<and> \<not> motors_on (test_calls communication_test)"
proof -
  have rep: "set (concat (replicate n xs)) = (if n = 0 then {} else set xs)" for n and xs :: "test_call list"
    by (induction n) auto
  have app: "test_calls (xs @ ys) = test_calls xs @ test_calls ys" for xs ys
    by (simp add: test_calls_def)
  have "\<not> motors_on (cs @ [Disable_All, Recv_All None])" for cs
    using motors_on_neutral [of "[Recv_All None]" "cs @ [Disable_All]"] by simp
  moreover have "test_calls [Call (Sleep_Us 500000), Call Disable_All, Call (Recv_All None)]
      = [Sleep_Us 500000] @ [Disable_All, Recv_All None]"
    by (simp add: test_calls_def)
  ultimately have "\<not> motors_on (test_calls communication_test)"
    unfolding communication_test_def app by (metis append.assoc)
  moreover have "Arm_Mit ps \<in> set (test_calls communication_test) \<longleftrightarrow> Call (Arm_Mit ps) \<in> set communication_test" for ps
    by (auto simp: test_calls_def split: test_call.splits)
  ultimately show ?thesis
    by (auto simp: communication_test_def rep initialize_openarm_def DEFAULT_MOTOR_CONFIG_def)
qed

end
