(* ===== verification/Logging.thy ===== *)
theory Logging
  imports Cpp_Text
begin

text \<open>
  \<open>src/utils/logging.cpp\<close>: the level below which messages are dropped, and the line that is
  written. The programs' decisions do not depend on it.
\<close>

datatype LogLevel = DEBUG | INFO | WARN | ERROR | FATAL

definition level_code :: "LogLevel \<Rightarrow> nat" where
  "level_code l = (case l of DEBUG \<Rightarrow> 0 | INFO \<Rightarrow> 1 | WARN \<Rightarrow> 2 | ERROR \<Rightarrow> 3 | FATAL \<Rightarrow> 4)"

instantiation LogLevel :: linorder
begin

definition less_eq_LogLevel :: "LogLevel \<Rightarrow> LogLevel \<Rightarrow> bool" where
  "less_eq_LogLevel a b \<longleftrightarrow> level_code a \<le> level_code b"

definition less_LogLevel :: "LogLevel \<Rightarrow> LogLevel \<Rightarrow> bool" where
  "less_LogLevel a b \<longleftrightarrow> level_code a < level_code b"

instance
  by standard (auto simp: less_eq_LogLevel_def less_LogLevel_def level_code_def split: LogLevel.splits)

end

definition to_upper :: "char \<Rightarrow> char" where
  "to_upper c =
     (if 97 \<le> (of_char c :: nat) \<and> (of_char c :: nat) \<le> 122 then char_of ((of_char c :: nat) - 32) else c)"

text \<open>\<open>None\<close>: the variable \<open>OPENARM_LOG_LEVEL\<close> is not set.\<close>

definition parse_log_level :: "string option \<Rightarrow> LogLevel" where
  "parse_log_level s =
     (let v = map to_upper (case s of Some s \<Rightarrow> s | None \<Rightarrow> [])
      in if v = ''DEBUG'' then DEBUG
         else if v = ''WARN'' \<or> v = ''WARNING'' then WARN
         else if v = ''ERROR'' then ERROR
         else if v = ''FATAL'' then FATAL
         else INFO)"

definition level_str :: "LogLevel \<Rightarrow> string" where
  "level_str l =
     (case l of DEBUG \<Rightarrow> ''DEBUG'' | INFO \<Rightarrow> ''INFO '' | WARN \<Rightarrow> ''WARN '' | ERROR \<Rightarrow> ''ERROR''
      | FATAL \<Rightarrow> ''FATAL'')"

datatype log_stream = Cerr string | Cout string

definition log_message :: "string option \<Rightarrow> int \<Rightarrow> LogLevel \<Rightarrow> string \<Rightarrow> log_stream option" where
  "log_message env now_ms level msg =
     (if level < parse_log_level env then None
      else
        let line = ''['' @ show_int now_ms @ ''] ['' @ level_str level @ ''] '' @ msg
        in Some (if level = ERROR \<or> level = FATAL then Cerr line else Cout line))"

text \<open>Errors are never dropped unless the level is FATAL; an unknown level counts as INFO.\<close>

lemma errors_are_written:
  "log_message env now_ms ERROR msg = None \<longleftrightarrow> parse_log_level env = FATAL"
  by (cases "parse_log_level env") (simp_all add: log_message_def less_LogLevel_def level_code_def Let_def)

lemma level_names: "parse_log_level (Some ''warning'') = WARN" "parse_log_level (Some ''verbose'') = INFO"
  "parse_log_level None = INFO"
  by code_simp+

end
