(* ===== verification/Rigid_Dynamics.thy ===== *)
theory Rigid_Dynamics
  imports Pinocchio_IK Controller_Props
begin

text \<open>
  \<open>src/controller/dynamics.cpp\<close>: the class \<open>Dynamics\<close> around the kinematics library (KDL) and the
  URDF parser. The libraries are parameters: what the parser makes of a file, the chain taken from
  the tree, and the solvers of a chain. The class's own part is the order of \<open>Init\<close> with its four
  error returns, the copies between raw arrays and the library's vectors, and the null space
  projection. \<open>controller_view\<close> is what \<open>Controller\<close> sees of an object.
\<close>

section \<open>The libraries\<close>

text \<open>\<open>kc_fk n q\<close>: rotation and position after the first \<open>n\<close> segments, all for \<open>- 1\<close>.\<close>

record Chain =
  kc_joints :: nat
  kc_segments :: nat
  kc_gravity :: "dbl list \<Rightarrow> dbl list"
  kc_coriolis :: "dbl list \<Rightarrow> dbl list \<Rightarrow> dbl list"
  kc_mass :: "dbl list \<Rightarrow> dbl list list"
  kc_jacobian :: "dbl list \<Rightarrow> dbl list list"
  kc_fk :: "int \<Rightarrow> dbl list \<Rightarrow> (dbl list list \<times> dbl list) option"

record ('u, 't) UrdfLibrary =
  ul_file :: "string \<Rightarrow> string option"
  ul_parse :: "string \<Rightarrow> 'u option"
  ul_tree :: "'u \<Rightarrow> 't option"
  ul_chain :: "'t \<Rightarrow> string \<Rightarrow> string \<Rightarrow> Chain option"

section \<open>The class\<close>

text \<open>\<open>dn_solver\<close>: whether the pointer to the dynamics solver is set.\<close>

record DynamicsObject =
  dn_urdf_path :: string
  dn_start_link :: string
  dn_end_link :: string
  dn_chain :: Chain
  dn_solver :: bool

text \<open>\<open>chain0\<close>: the chain of the library's default constructor.\<close>

definition dynamics_new :: "Chain \<Rightarrow> string \<Rightarrow> string \<Rightarrow> string \<Rightarrow> DynamicsObject" where
  "dynamics_new chain0 urdf_path start_link end_link =
     \<lparr> dn_urdf_path = urdf_path, dn_start_link = start_link, dn_end_link = end_link,
       dn_chain = chain0, dn_solver = False \<rparr>"

datatype init_error = No_File | No_Urdf | No_Tree | No_Chain

text \<open>The message of each error return names the file, the last one does not.\<close>

definition dynamics_init ::
    "('u, 't) UrdfLibrary \<Rightarrow> DynamicsObject \<Rightarrow> init_error + DynamicsObject" where
  "dynamics_init lib d =
     (case ul_file lib (dn_urdf_path d) of
        None \<Rightarrow> Inl No_File
      | Some text \<Rightarrow>
          (case ul_parse lib text of
             None \<Rightarrow> Inl No_Urdf
           | Some model \<Rightarrow>
               (case ul_tree lib model of
                  None \<Rightarrow> Inl No_Tree
                | Some tree \<Rightarrow>
                    (case ul_chain lib tree (dn_start_link d) (dn_end_link d) of
                       None \<Rightarrow> Inl No_Chain
                     | Some chain \<Rightarrow> Inr (d\<lparr>dn_chain := chain, dn_solver := True\<rparr>)))))"

text \<open>The first \<open>n\<close> entries of a raw array; reading past its end is undefined.\<close>

definition joint_array :: "nat \<Rightarrow> dbl list \<Rightarrow> dbl list result" where
  "joint_array n q = (if length q < n then Inl Undefined_Behaviour else Inr (take n q))"

definition write_array :: "nat \<Rightarrow> (nat \<Rightarrow> dbl) \<Rightarrow> dbl list \<Rightarrow> dbl list result" where
  "write_array n f out =
     (if length out < n then Inl Undefined_Behaviour else Inr (map f [0..<n] @ drop n out))"

definition need_solver :: "DynamicsObject \<Rightarrow> unit result" where
  "need_solver d = (if dn_solver d then Inr () else Inl Undefined_Behaviour)"

definition dn_get_gravity :: "DynamicsObject \<Rightarrow> dbl list \<Rightarrow> dbl list \<Rightarrow> dbl list result" where
  "dn_get_gravity d q out =
    (let n = kc_joints (dn_chain d)
     in res_bind (joint_array n q) (\<lambda>q.
        res_bind (need_solver d) (\<lambda>_.
        write_array n (\<lambda>i. kc_gravity (dn_chain d) q ! i) out)))"

definition dn_get_coriolis ::
    "DynamicsObject \<Rightarrow> dbl list \<Rightarrow> dbl list \<Rightarrow> dbl list \<Rightarrow> dbl list result" where
  "dn_get_coriolis d q dq out =
    (let n = kc_joints (dn_chain d)
     in res_bind (joint_array n q) (\<lambda>q.
        res_bind (joint_array n dq) (\<lambda>dq.
        res_bind (need_solver d) (\<lambda>_.
        write_array n (\<lambda>i. kc_coriolis (dn_chain d) q dq ! i) out))))"

definition get_mass_matrix_diagonal :: "DynamicsObject \<Rightarrow> dbl list \<Rightarrow> dbl list \<Rightarrow> dbl list result" where
  "get_mass_matrix_diagonal d q out =
    (let n = kc_joints (dn_chain d)
     in res_bind (joint_array n q) (\<lambda>q.
        res_bind (need_solver d) (\<lambda>_.
        write_array n (\<lambda>i. kc_mass (dn_chain d) q ! i ! i) out)))"

definition get_jacobian :: "DynamicsObject \<Rightarrow> dbl list \<Rightarrow> dbl list list result" where
  "get_jacobian d q =
    (let n = kc_joints (dn_chain d)
     in res_bind (joint_array n q) (\<lambda>q.
        Inr (map (\<lambda>i. map (\<lambda>j. kc_jacobian (dn_chain d) q ! i ! j) [0..<n]) [0..<6])))"

text \<open>
  \<open>use_stable_svd\<close> is the constant false in the code, so the pseudo-inverse is always the second
  formula; \<open>inverse_of\<close> is the matrix inverse of the linear algebra library.
\<close>

definition right_pseudo_inverse ::
    "(dbl list list \<Rightarrow> dbl list list) \<Rightarrow> dbl list list \<Rightarrow> dbl list list" where
  "right_pseudo_inverse inverse_of J = mat_mul (transpose J) (inverse_of (mat_mul J (transpose J)))"

definition get_null_space ::
    "(dbl list list \<Rightarrow> dbl list list) \<Rightarrow> DynamicsObject \<Rightarrow> dbl list \<Rightarrow> dbl list list result" where
  "get_null_space inverse_of d q =
     res_bind (get_jacobian d q) (\<lambda>J.
       Inr (identity_minus (kc_joints (dn_chain d)) (mat_mul (right_pseudo_inverse inverse_of J) J)))"

definition get_null_space_tau_space ::
    "(dbl list list \<Rightarrow> dbl list list) \<Rightarrow> DynamicsObject \<Rightarrow> dbl list \<Rightarrow> dbl list list result" where
  "get_null_space_tau_space inverse_of d q =
     res_bind (get_jacobian d q) (\<lambda>J.
       Inr (transpose
         (identity_minus (kc_joints (dn_chain d)) (mat_mul (right_pseudo_inverse inverse_of J) J))))"

text \<open>The caller's \<open>R\<close> and \<open>p\<close> are left as they are when the library reports an error.\<close>

definition get_ee_cordinate ::
    "DynamicsObject \<Rightarrow> dbl list \<Rightarrow> dbl list list \<times> dbl list \<Rightarrow> (dbl list list \<times> dbl list) result" where
  "get_ee_cordinate d q Rp =
     res_bind (joint_array (kc_joints (dn_chain d)) q) (\<lambda>q.
       Inr (case kc_fk (dn_chain d) (- 1) q of None \<Rightarrow> Rp | Some frame \<Rightarrow> frame))"

text \<open>The unsigned number of segments minus one, passed as an \<open>int\<close>.\<close>

definition get_pre_ee_cordinate ::
    "DynamicsObject \<Rightarrow> dbl list \<Rightarrow> dbl list list \<times> dbl list \<Rightarrow> (dbl list list \<times> dbl list) result" where
  "get_pre_ee_cordinate d q Rp =
     res_bind (joint_array (kc_joints (dn_chain d)) q) (\<lambda>q.
       let seg = sint (word_of_nat (kc_segments (dn_chain d)) - 1 :: 32 word)
       in Inr (case kc_fk (dn_chain d) seg q of None \<Rightarrow> Rp | Some frame \<Rightarrow> frame))"

section \<open>What the controller sees\<close>

text \<open>An object without a solver behaves, at every call of the controller, like a null pointer.\<close>

definition controller_view :: "DynamicsObject \<Rightarrow> Dynamics option" where
  "controller_view d =
     (if dn_solver d
      then Some \<lparr> dy_joints = kc_joints (dn_chain d), dy_gravity = kc_gravity (dn_chain d),
                  dy_coriolis = kc_coriolis (dn_chain d) \<rparr>
      else None)"

lemma get_gravity_view: "dn_get_gravity d q out = get_gravity (controller_view d) q out"
  by (simp add: dn_get_gravity_def get_gravity_def controller_view_def joint_array_def
      write_array_def need_solver_def Let_def)

lemma get_coriolis_view: "dn_get_coriolis d q dq out = get_coriolis (controller_view d) q dq out"
  by (simp add: dn_get_coriolis_def get_coriolis_def controller_view_def joint_array_def
      write_array_def need_solver_def Let_def)

text \<open>A successful \<open>Init\<close> gives the controller a model that fits an arm with the chain's joints.\<close>

lemma dynamics_init_ok:
  assumes "dynamics_init lib d = Inr d'"
  shows "dynamics_ok (controller_view d') (kc_joints (dn_chain d'))"
  using assms by (auto simp: dynamics_init_def dynamics_ok_def controller_view_def split: option.splits)

text \<open>An object whose \<open>Init\<close> failed, or was not called, has no torques to give.\<close>

lemma dynamics_uninitialised:
  "dn_get_gravity (dynamics_new chain0 urdf a b) q out = Inl Undefined_Behaviour"
  "dn_get_coriolis (dynamics_new chain0 urdf a b) q dq out = Inl Undefined_Behaviour"
  by (simp_all add: dn_get_gravity_def dn_get_coriolis_def dynamics_new_def need_solver_def
      joint_array_def Let_def)

lemma null_space_square:
  assumes "get_null_space inverse_of d q = Inr N"
  shows "length N = kc_joints (dn_chain d)" and "\<forall>row \<in> set N. length row = kc_joints (dn_chain d)"
  using assms by (auto simp: get_null_space_def res_bind_def identity_minus_def split: sum.splits)

lemma null_space_transposed:
  "get_null_space_tau_space inverse_of d q = res_bind (get_null_space inverse_of d q) (\<lambda>N. Inr (transpose N))"
  by (simp add: get_null_space_def get_null_space_tau_space_def res_bind_def split: sum.split)

text \<open>With no segment the end effector and the link before it coincide.\<close>

lemma pre_ee_without_segments:
  "kc_segments (dn_chain d) = 0 \<Longrightarrow> get_pre_ee_cordinate d q Rp = get_ee_cordinate d q Rp"
  by (simp add: get_pre_ee_cordinate_def get_ee_cordinate_def)

end
