(* ===== verification/Repository_Tests.thy ===== *)
theory Repository_Tests
  imports Packet_Codec Safety Rate_Limiter Bilateral_Gate Bilateral_Engager Controller
    Teleop_State_Buffer
begin

text \<open>
  The unit tests under \<open>src/tests/\<close>, replayed on the model: what each test expects of the code
  is proved of the definitions that model it, so that the model is checked against the
  expectations the programs are built with. Where a test uses an object it does not fill in (a
  packet, a time), the lemma holds for every value. Doubles are exact here; the tests compare
  them with a tolerance.

  One expectation is refuted: \<open>test_seq_loss_detection.cpp\<close> expects an out-of-order packet to
  be rejected, and the buffer stores it.
\<close>

section \<open>\<open>test_watchdog.cpp\<close>\<close>

lemma test_watchdog_check_transitions:
  defines "wd \<equiv> \<lparr> wd_warning_ms = Fin 20, wd_hold_ms = Fin 50, wd_disable_ms = Fin 100 \<rparr>"
  shows "map (watchdog_check wd) [Fin 10, Fin 25, Fin 60, Fin 120]
    = [OK, WARNING, HOLD_STATUS, DISABLE]"
  by (simp add: wd_def watchdog_check_def)

section \<open>\<open>test_rate_limiter.cpp\<close>\<close>

lemma test_rate_limiter_limits_velocity:
  defines "rl \<equiv> \<lparr> rl_max_delta_per_cycle = Fin (2 / 100), rl_max_velocity_rad_s = Fin (15 / 10),
                  rl_cycle_time_s = Fin (1 / 500) \<rparr>"
  shows "rl_limit rl [Fin 0] [Fin (1 / 10)] = [Fin (3 / 1000)]"
    and "rl_limit rl [Fin 0] [Fin (- (1 / 10))] = [Fin (- (3 / 1000))]"
  by (simp_all add: rl_def rl_limit_def rl_limit1_def rl_effective_def Let_def)

section \<open>\<open>test_state_buffer.cpp\<close> and \<open>test_seq_loss_detection.cpp\<close>\<close>

lemmas buffer_test_simps = tb_update_def tb_new_def tb_get_latest_def Let_def

lemma test_state_buffer_get_latest:
  "tb_get_latest (tb_update t (p\<lparr>tp_seq := 42\<rparr>) tb_new) = Some (p\<lparr>tp_seq := 42\<rparr>)"
  by (simp add: buffer_test_simps)

lemma test_seq_loss_in_order:
  "tb_lost_packet_count (tb_update t' (q\<lparr>tp_seq := 2\<rparr>) (tb_update t (p\<lparr>tp_seq := 1\<rparr>) tb_new)) = 0"
  by (simp add: buffer_test_simps)

lemma test_seq_loss_detect_loss:
  "tb_lost_packet_count (tb_update t' (q\<lparr>tp_seq := 5\<rparr>) (tb_update t (p\<lparr>tp_seq := 1\<rparr>) tb_new)) = 3"
  by (simp add: buffer_test_simps)

text \<open>\<open>OutOfOrderRejected\<close> expects 5: the test fails on this code.\<close>

lemma test_seq_loss_out_of_order_is_not_rejected:
  "map_option tp_seq (tb_get_latest
     (tb_update t' (q\<lparr>tp_seq := 2\<rparr>) (tb_update t (p\<lparr>tp_seq := 5\<rparr>) tb_new))) = Some 2"
  by (simp add: buffer_test_simps)

section \<open>\<open>test_packet_codec.cpp\<close> and \<open>test_feedback_codec.cpp\<close>\<close>

lemma test_packet_codec_encode_decode:
  "teleop_wf p \<Longrightarrow> fst (teleop_decode_and_validate (teleop_encode now p))"
  by (rule teleop_encode_accepted)

lemma test_packet_codec_invalid_magic:
  "\<not> fst (teleop_decode_and_validate ((teleop_encode now p)\<lparr>tp_magic := 0\<rparr>))"
  by (simp add: teleop_decode_and_validate_def TELEOP_MAGIC_def)

lemma xor_ff_differs: "c \<noteq> c XOR (0xFF :: u32)"
proof
  assume "c = c XOR 0xFF"
  then have "c XOR c = c XOR (c XOR 0xFF)" by simp
  then show False by (simp flip: xor.assoc)
qed

lemma test_packet_codec_invalid_crc:
  "\<not> fst (teleop_decode_and_validate
    ((teleop_encode now p)\<lparr>tp_crc32 := tp_crc32 (teleop_encode now p) XOR 0xFF\<rparr>))"
  by (simp add: teleop_decode_and_validate_def teleop_encode_def Let_def xor_ff_differs)

lemma test_feedback_codec_encode_decode:
  assumes "feedback_wf p" and q: "q = feedback_encode now p"
  shows "fp_magic q = FEEDBACK_MAGIC" and "fp_packet_size q = word_of_nat feedback_size"
    and "fst (feedback_decode_and_validate q)"
    and "fp_arm_tau (snd (feedback_decode_and_validate q)) = fp_arm_tau p"
    and "fp_echo_cmd_send_time_ns (snd (feedback_decode_and_validate q))
           = fp_echo_cmd_send_time_ns p"
  using feedback_encode_accepted [OF assms(1)]
  by (simp_all add: q) (simp_all add: feedback_encode_def Let_def)

text \<open>A command copied over a feedback packet is recognised by its first field.\<close>

lemma test_teleop_packet_is_not_feedback:
  assumes "take 4 bs = take 4 (teleop_bytes (teleop_encode now t))"
  shows "\<not> fst (feedback_decode_and_validate (feedback_of_bytes bs))"
proof -
  have "fp_magic (feedback_of_bytes bs) = le_word (take 4 bs)"
    by (simp add: feedback_of_bytes_def feedback_layout_def Let_def)
  also have "take 4 bs = le_bytes 4 TELEOP_MAGIC"
    using assms by (simp add: teleop_bytes_def teleop_fields_def teleop_encode_def Let_def)
  finally have "fp_magic (feedback_of_bytes bs) = TELEOP_MAGIC"
    by (simp add: le_word_le_bytes)
  then show ?thesis
    by (simp add: feedback_decode_and_validate_def TELEOP_MAGIC_def FEEDBACK_MAGIC_def)
qed

text \<open>The two headers share their layout: magic, version, size, sequence number, send time.\<close>

lemma test_header_shares_teleop_layout: "take 5 feedback_layout = take 5 teleop_layout"
  by (simp add: feedback_layout_def teleop_layout_def)

section \<open>\<open>test_bilateral_gate.cpp\<close>\<close>

definition wired_link :: LinkInfo where
  "wired_link =
     link_info_new\<lparr>li_resolved := True, li_ifname := ''eth0'', li_local_ip := ''192.168.2.102'',
       li_has_device := True, li_carrier := True, li_speed_mbps := 1000\<rparr>"

definition loopback_link :: LinkInfo where
  "loopback_link =
     link_info_new\<lparr>li_resolved := True, li_ifname := ''lo'', li_is_loopback := True,
       li_carrier := True\<rparr>"

definition good_stats :: Stats where
  "good_stats =
     stats_new\<lparr>st_has_data := True, st_age_ms := Fin 2, st_rate_hz := Fin 498,
       st_loss_percent := Fin 0, st_rtt_p50_ms := Fin 3, st_rtt_p95_ms := Fin (45 / 10),
       st_rtt_max_ms := Fin 6\<rparr>"

definition good_packet :: "u64 FeedbackPacket" where
  "good_packet = (feedback_zero 0)\<lparr>fp_link_ok := 1, fp_enabled := 1\<rparr>"

lemmas gate_test_simps =
  check_link_ok_iff check_feedback_ok_iff wired_link_def loopback_link_def link_info_new_def
  gate_config_default_def good_stats_def stats_new_def good_packet_def feedback_zero_def

lemma test_gate_links:
  "br_ok (check_link gate_config_default wired_link)"
  "\<not> br_ok (check_link gate_config_default
      (wired_link\<lparr>li_ifname := ''wlan0'', li_is_wireless := True, li_speed_mbps := - 1\<rparr>))"
  "\<not> br_ok (check_link gate_config_default (wired_link\<lparr>li_speed_mbps := 10\<rparr>))"
  "\<not> br_ok (check_link gate_config_default loopback_link)"
  "br_ok (check_link (gate_config_default\<lparr>bg_allow_loopback := True\<rparr>) loopback_link)"
  "\<not> br_ok (check_link gate_config_default (link_info_new\<lparr>li_error := ''no route''\<rparr>))"
  by (simp_all add: gate_test_simps)

text \<open>The messages the tests search for a word.\<close>

lemma test_gate_wireless_reason:
  "''interface wlan0 is wireless'' \<in> set (br_reasons (check_link gate_config_default
      (wired_link\<lparr>li_ifname := ''wlan0'', li_is_wireless := True, li_speed_mbps := - 1\<rparr>)))"
  by (simp add: check_link_def gate_result_def gate_test_simps)

lemma test_gate_feedback:
  defines "check \<equiv> \<lambda>s p. br_ok (check_feedback gate_config_default ''right'' s p)"
  shows "check good_stats (Some good_packet)"
    and "\<not> check stats_new None"
    and "\<not> check (good_stats\<lparr>st_rtt_p95_ms := Fin 12\<rparr>) (Some good_packet)"
    and "\<not> check (good_stats\<lparr>st_rate_hz := Fin 100\<rparr>) (Some good_packet)"
    and "\<not> check (good_stats\<lparr>st_loss_percent := Fin 5\<rparr>) (Some good_packet)"
    and "\<not> check good_stats (Some (good_packet\<lparr>fp_link_ok := 0\<rparr>))"
    and "\<not> check (good_stats\<lparr>st_rtt_p95_ms := Fin (- 1)\<rparr>) (Some good_packet)"
  by (simp_all add: check_def gate_test_simps)

lemma test_gate_high_rtt_reason:
  "\<exists>before after. br_reasons (check_feedback gate_config_default ''right''
      (good_stats\<lparr>st_rtt_p95_ms := Fin 12\<rparr>) (Some good_packet))
    = [''right: rtt p95 '' @ before @ '' ms > '' @ after]"
  by (auto simp: check_feedback_def gate_result_def gate_test_simps)

section \<open>\<open>test_bilateral_engager.cpp\<close>\<close>

definition engager_make :: BilateralEngager where
  "engager_make = engager_new \<lparr> ec_ramp_up_s = Fin (1 / 2), ec_ramp_down_s = Fin (1 / 10) \<rparr>"

text \<open>One cycle of the tests, and n cycles with the same inputs.\<close>

abbreviation test_cycle :: "bool \<Rightarrow> bool \<Rightarrow> BilateralEngager \<Rightarrow> BilateralEngager" where
  "test_cycle want aligned \<equiv> engager_update want aligned (Fin (1 / 500))"

abbreviation engager_at :: "EngageState \<Rightarrow> real \<Rightarrow> BilateralEngager" where
  "engager_at s x \<equiv> engager_make\<lparr>be_state := s, be_scale := Fin x\<rparr>"

lemmas engager_test_simps =
  engager_make_def engager_new_def engager_update_def engager_active_def engager_engaged_def
  engager_reset_def Let_def

lemma engager_make_at: "engager_make = engager_at ENG_OFF 0"
  by (simp add: engager_test_simps)

lemma engager_waits:
  "(test_cycle True False ^^ n) (engager_at WAIT_ALIGN 0) = engager_at WAIT_ALIGN 0"
  by (induction n) (simp_all add: engager_test_simps)

lemma engager_ramps_up:
  "n < 250 \<Longrightarrow> (test_cycle True aligned ^^ n) (engager_at RAMP_UP 0) = engager_at RAMP_UP (real n / 250)"
  by (induction n) (simp_all add: engager_test_simps min_def field_simps)

lemma engager_stays_engaged:
  "(test_cycle True aligned ^^ n) (engager_at ENGAGED 1) = engager_at ENGAGED 1"
  by (induction n) (simp_all add: engager_test_simps)

lemma engager_ramps_down:
  "n < 50 \<Longrightarrow> (test_cycle want aligned ^^ n) (engager_at RAMP_DOWN 1) = engager_at RAMP_DOWN (1 - real n / 50)"
  by (induction n) (simp_all add: engager_test_simps max_def field_simps)

lemma engager_ramp_done:
  "(test_cycle True aligned ^^ (250 + n)) (engager_at RAMP_UP 0) = engager_at ENGAGED 1"
proof -
  have "(test_cycle True aligned ^^ 250) (engager_at RAMP_UP 0)
      = test_cycle True aligned ((test_cycle True aligned ^^ 249) (engager_at RAMP_UP 0))"
    by (simp flip: funpow.simps(2) [THEN fun_cong, unfolded comp_apply])
  also have "\<dots> = engager_at ENGAGED 1"
    using engager_ramps_up [of 249 aligned] by (simp add: engager_test_simps)
  finally show ?thesis
    using engager_stays_engaged [of n aligned] by (simp add: add.commute [of 250] funpow_add)
qed

lemma test_engager_waits_then_ramps:
  defines "w \<equiv> test_cycle True False engager_make"
  defines "r \<equiv> test_cycle True True ((test_cycle True False ^^ 100) w)"
  shows "be_state w = WAIT_ALIGN" and "\<not> engager_active w"
    and "be_state ((test_cycle True False ^^ 100) w) = WAIT_ALIGN"
    and "be_state r = RAMP_UP"
    and "(test_cycle True False ^^ 260) r = engager_at ENGAGED 1"
proof -
  have w: "w = engager_at WAIT_ALIGN 0"
    by (simp add: w_def engager_test_simps)
  have r: "r = engager_at RAMP_UP 0"
    by (simp add: r_def w engager_waits) (simp add: engager_test_simps)
  show "be_state w = WAIT_ALIGN" and "\<not> engager_active w"
    and "be_state ((test_cycle True False ^^ 100) w) = WAIT_ALIGN" and "be_state r = RAMP_UP"
    by (simp_all add: w engager_waits r) (simp add: engager_active_def)
  show "(test_cycle True False ^^ 260) r = engager_at ENGAGED 1"
    using engager_ramp_done [of 10 False] by (simp add: r)
qed

text \<open>Release: the gain never steps, and is gone after 50 cycles, a tenth of a second.\<close>

lemma test_engager_release:
  defines "d \<equiv> test_cycle False True (engager_at ENGAGED 1)"
  shows "d = engager_at RAMP_DOWN 1"
    and "n < 50 \<Longrightarrow> engager_active ((test_cycle False True ^^ n) d)"
    and "(test_cycle False True ^^ 50) d = engager_at ENG_OFF 0"
proof -
  show d: "d = engager_at RAMP_DOWN 1"
    by (simp add: d_def engager_test_simps)
  show "engager_active ((test_cycle False True ^^ n) d)" if "n < 50" for n
    using engager_ramps_down [OF that, of False True] that by (simp add: d engager_active_def)
  have "(test_cycle False True ^^ 50) d = test_cycle False True ((test_cycle False True ^^ 49) d)"
    by (simp flip: funpow.simps(2) [THEN fun_cong, unfolded comp_apply])
  also have "\<dots> = engager_at ENG_OFF 0"
    using engager_ramps_down [of 49 False True] by (simp add: d engager_test_simps)
  finally show "(test_cycle False True ^^ 50) d = engager_at ENG_OFF 0" .
qed

text \<open>A request during the release first finishes the release, then waits for alignment.\<close>

lemma test_engager_request_during_release:
  "be_state ((test_cycle True True ^^ 10) (engager_at RAMP_DOWN 1)) = RAMP_DOWN"
  "test_cycle True True ((test_cycle True True ^^ 49) (engager_at RAMP_DOWN 1))
     = engager_at WAIT_ALIGN 0"
  using engager_ramps_down [of 10 True True] engager_ramps_down [of 49 True True]
  by (simp, simp add: engager_test_simps)

lemma test_engager_reset_is_immediate:
  defines "e \<equiv> engager_update True True (Fin (1 / 10)) (test_cycle True True (test_cycle True True engager_make))"
  shows "engager_active e" and "be_state (engager_reset e) = ENG_OFF"
    and "be_scale (engager_reset e) = Fin 0"
  by (simp_all add: e_def engager_test_simps)

section \<open>\<open>test_control_friction.cpp\<close>\<close>

definition make_leader :: Control where
  "make_leader = control_new None None ROLE_LEADER ''right_arm''"

lemmas control_test_simps =
  make_leader_def control_new_def SetEffortLimits_def effort_limits_from_def effort_limit_L_def
  NMOTORS_def ClampLeaderEffort_def Let_def nth_list_update nth_append

lemma test_friction_of_the_gripper:
  defines "c \<equiv> SetParameter (replicate 8 (Fin 0)) (replicate 8 (Fin 0)) (replicate 8 (Fin 0))
      (replicate 8 (Fin 1)) (replicate 7 (Fin 0) @ [Fin 2]) (replicate 8 (Fin 0)) make_leader"
  shows "ComputeAllFriction c (replicate 7 (Fin 100)) [Fin (1 / 2)]
    = Inr (replicate 7 (Fin 0) @ [Fin 1])"
  by (simp add: c_def ComputeAllFriction_def ComputeFriction_def SetParameter_def Let_def
      upt_rec vec_at_def vec_idx_def numeral_eq_Suc)

lemma test_effort_clamp_defaults:
  "ClampLeaderEffort make_leader 0 (Fin 35) = Fin 20"
  "ClampLeaderEffort make_leader 0 (Fin (- 35)) = Fin (- 20)"
  "ClampLeaderEffort make_leader 7 (Fin (10 ^ 170)) = Fin 2"
  "ClampLeaderEffort make_leader 7 (Fin (1 / 10)) = Fin (1 / 10)"
  "ClampLeaderEffort make_leader 7 NaN = Fin 0"
  "ClampLeaderEffort make_leader 7 PInf = Fin 0"
  by (simp_all add: control_test_simps)

lemma test_effort_clamp_from_config:
  defines "c \<equiv> SetEffortLimits (replicate 7 (Fin 5) @ [Fin (1 / 2)]) make_leader"
  shows "ClampLeaderEffort c 3 (Fin 9) = Fin 5"
    and "ClampLeaderEffort c 7 (Fin (- 3)) = Fin (- (1 / 2))"
    and "ClampLeaderEffort (SetEffortLimits [] c) 7 (Fin (- 3)) = Fin (- 2)"
  by (simp_all add: c_def control_test_simps)

end
