(* ===== verification/Spec2Isabelle.thy ===== *)
theory Spec2Isabelle
  imports Teleop_Bimanual Teleop_Vr Teleop_Single Follower_Approach Follower_Stop Vr_Log Crc32_Spec
    Wired_Control Datagram_Tools Hardware_Tools Logging Rigid_Dynamics
    Repository_Tests
begin

text \<open>
  This development models the C++ programs of \<open>openarm_teleop\<close>: a leader, which a person moves,
  sends joint targets over UDP to a follower, which moves its arms after them. It verifies the
  control code: the packets, the safety state machine, the limits, the gates in front of force
  feedback, and whole runs of the applications.

  \<^bold>\<open>How the program works.\<close> A leader program measures its arms (or takes the pose of a VR
  controller and solves for joint angles), fills in a command packet per arm, checksums it and
  sends it. The follower's receive threads validate what arrives and store the newest command per
  arm. Its control loop asks for the age of that command, updates the arm's safety manager with
  both, limits the target, and, if the state allows it, lets the controller command the motors;
  otherwise it disables them. The bimanual programs also send feedback and telemetry, take
  operator commands over TCP, and render the follower's forces on the leader while a gate (link
  check and stream statistics) and an engager (which fades the force in and out) agree.

  \<^bold>\<open>Conventions.\<close> Source paths below are relative to the repository. A machine integer is a
  \<open>word\<close> of its width (\<open>u8\<close> to \<open>u64\<close>) or an \<open>int\<close> with its range checked; a \<open>double\<close> is the
  type \<open>dbl\<close> of \<open>Cpp_Double\<close>, a real, an infinity or NaN, with the comparisons of IEEE 754 and exact
  arithmetic on finite values; a packet holds the bit patterns. Exceptions and undefined behaviour are
  values of the error type of \<open>result\<close>. What comes from outside (socket answers, clocks, motor
  readings, files) is an argument. An operation that holds a mutex is one atomic step. An
  application is a reaction to one event and runs are lists of events (\<open>Event_App\<close>).

  \<^bold>\<open>Foundations.\<close>
  \<^item> \<open>Teleop_Prelude\<close>: integer types, errors, byte images, field splitting.
  \<^item> \<open>Cpp_Double\<close>, \<open>Cpp_Bits\<close>, \<open>Cpp_Text\<close>: doubles, their memory image, conversions to and from
    text.
  \<^item> \<open>Event_App\<close>: runs; the interface \<open>app_invariant\<close> with the induction over runs, done once.

  \<^bold>\<open>Wire.\<close>
  \<^item> \<open>Crc32\<close> and \<open>Crc32_Spec\<close> (\<open>src/net/packet_codec.cpp\<close>,
    \<open>src/telemetry/openarm_telemetry_publisher.cpp\<close>): both checksum routines, the detection of damage
    within four bytes, and the equivalence with polynomial division.
  \<^item> \<open>Packets\<close>, \<open>Vr_Protocol\<close> (\<open>include/openarm_wifi_teleop/net\<close> and \<open>telemetry\<close>): the
    packed structs with their byte images, both directions proved inverse.
  \<^item> \<open>Packet_Codec\<close>: encode and validate; the interface \<open>framed_packet\<close>, interpreted for commands,
    feedback and telemetry, gives the error detection of each.
  \<^item> \<open>Udp_Channel\<close> (\<open>src/net/udp_receiver.cpp\<close>, \<open>udp_sender.cpp\<close>): the receive loop and what the
    channel between the two ends delivers. \<open>Telemetry_Publisher\<close>: the publisher.
    \<open>Datagram_Tools\<close> (\<open>tools/\<close>): fan-outs, sample receiver, mock publisher.

  \<^bold>\<open>Decisions.\<close>
  \<^item> \<open>Teleop_State_Buffer\<close>, \<open>Feedback_State_Buffer\<close> (\<open>src/core\<close>): the newest packet and the stream
    statistics; the interface \<open>latest_register\<close>; the sliding window refines a history.
  \<^item> \<open>Safety\<close> (\<open>src/safety/watchdog.cpp\<close>, \<open>safety_manager.cpp\<close>): the state machine, and its policy as
    the inductive relation \<open>safety_step\<close>; over every sequence of calls the code is proved to show
    the states the policy allows, and no others.
  \<^item> \<open>Rate_Limiter\<close>, \<open>Bilateral_Gate\<close>, \<open>Link_Check\<close>, \<open>Bilateral_Engager\<close> (\<open>src/safety\<close>, \<open>src/utils\<close>,
    \<open>include/openarm_wifi_teleop/control\<close>): limits, gates, fading and the elbow estimate.
  \<^item> \<open>Runtime_Control\<close> (\<open>src/control/runtime_control_server.cpp\<close>): the operator's TCP server.

  \<^bold>\<open>Arms.\<close>
  \<^item> \<open>Robot_State\<close>, \<open>Controller\<close>, \<open>Controller_Props\<close> (\<open>src/robot_state.hpp\<close>,
    \<open>src/openarm_port/joint_mapper.cpp\<close>, \<open>src/controller/control.cpp\<close>): joint states, the control cycles,
    torque and tracking guarantees. \<open>Rigid_Dynamics\<close> (\<open>src/controller/dynamics.cpp\<close>).
  \<^item> \<open>Hardware_Setup\<close> (\<open>src/openarm_port/openarm_init.cpp\<close>): bring-up; \<open>motors_on\<close> says what a list of
    CAN commands leaves behind.
  \<^item> \<open>Pinocchio_IK\<close> (\<open>src/ik/openarm_pinocchio_ik.cpp\<close>): the solver's iteration.
  \<^item> \<open>Periodic_Timer\<close>, \<open>Logging\<close> (\<open>src/periodic_timer_thread.hpp\<close>, \<open>src/utils/logging.cpp\<close>).

  \<^bold>\<open>Applications\<close> (\<open>src/apps\<close>, \<open>control/\<close>).
  \<^item> \<open>App_Common\<close>: the YAML getters of \<open>src/yamlloader.hpp\<close> and command lines.
  \<^item> \<open>Follower_Config\<close>, \<open>Follower_Arm\<close>, \<open>Follower_App\<close> (\<open>wifi_bimanual_follower.cpp\<close>); \<open>Arm_Safety\<close>,
    \<open>Follower_Props\<close> and \<open>Follower_Runs\<close>: motion only with a fresh, enabled, unstopped command.
  \<^item> \<open>Follower_Approach\<close>: between completions of operator motions the references of an arm are an
    abstract tracker that takes one limited step per motion frame, and so reach a posture that stays; \<open>Follower_Stop\<close>: after an
    emergency stop the loop moves nothing until something resets it.
  \<^item> \<open>Leader_Config\<close>, \<open>Leader_Side\<close>, \<open>Leader_App\<close> (\<open>wifi_bimanual_leader.cpp\<close>); \<open>Leader_Runs\<close>:
    force only when requested, gated and aligned; what the packets say; failed starts.
  \<^item> \<open>Vr_Config\<close>, \<open>Vr_Leader\<close> (\<open>wifi_vr_bimanual_leader.cpp\<close>); \<open>Vr_Props\<close>: when a command
    enables an arm, and how far it is from the one before; \<open>Vr_Runs\<close>: the first enabled
    command, and telemetry that arrives between two reads of \<open>tel_connected\<close>;
    \<open>Vr_Log\<close>: the throttled log of the inverse kinematics and its CSV file.
  \<^item> \<open>Single_Follower\<close>, \<open>Single_Leader\<close> (\<open>wifi_single_follower.cpp\<close>, \<open>wifi_single_leader.cpp\<close>).
  \<^item> \<open>Wired_Control\<close> (\<open>openarm_bilateral_control.cpp\<close>, \<open>openarm_unilateral_control.cpp\<close>) and
    \<open>Hardware_Tools\<close> (\<open>gravity_compasation.cpp\<close>, \<open>openarm_communication_test.cpp\<close>).

  \<^bold>\<open>Leader and follower together.\<close>
  \<^item> \<open>Network_Link\<close>: two programs that run independently, joined by a wire that may lose, repeat, delay
    and reorder datagrams and damage each within four bytes; the inductive relations
    \<open>link_reach\<close> (one direction) and \<open>duplex_reach\<close> (both), and the interface \<open>command_link\<close>: whatever the
    receiver has stored, the sender has sent, and all it sent is as it promised.
  \<^item> \<open>Command_Tracking\<close>: the posture in a packet, how a leader's measurements get into it and what a
    follower arm does with it. \<open>Follower_Link\<close>, \<open>Leader_Link\<close>: the two applications as ends of the
    link; \<open>Link_Examples\<close>: both brought up, for the examples.
  \<^item> \<open>Teleop_Bimanual\<close>, \<open>Teleop_Vr\<close>, \<open>Teleop_Single\<close>: the interface on the three pairs. An arm moves only on a
    command that the leader sent with the operator's enable (VR: with the grip closed), its references
    go towards the posture the leader measured, and force is rendered only where a live
    follower arm has met the leader's.

  \<^bold>\<open>Tests.\<close> \<open>Repository_Tests\<close> proves of the definitions what the unit tests in \<open>src/tests\<close>
  expect of the code, and refutes the one expectation the code does not meet.

  \<^bold>\<open>Loops and bounds.\<close> A server or control loop is a recursion over the events or answers it meets,
  so no fuel is needed: every prefix of an execution is a run. Loops with a bound of their own
  keep it (220 steps to a pose, \<open>max_iterations\<close> of the inverse kinematics). The carry loop of the timer
  and the polynomial division terminate by a measure.

  \<^bold>\<open>Not modelled.\<close>
  \<^item> The libraries: CAN and motor firmware, KDL, Pinocchio, Eigen's factorisations and quaternions, the
    YAML and URDF parsers, the operating system's sockets and clocks. They are arguments of the
    definitions.
  \<^item> Rounding and overflow of arithmetic on finite doubles; only conversions to and from bytes round.
  \<^item> Interleavings inside one event: a control cycle, a packet callback and an operator command are
    atomic, except where a reading between two mutex sections matters
    (\<open>Follower_Arm\<close>, \<open>Single_Follower\<close>, \<open>Vr_Leader\<close>).
  \<^item> Status lines and debug output of the applications, the mapping test output of the VR leader,
    real-time priorities, and sleeping, none of which feeds back into a decision.
  \<^item> Constants and overloads nothing uses, and the unreachable singular value branch in
    \<open>dynamics.cpp\<close>.
\<close>

end
